(* ===== verification/Prelude.thy ===== *)
theory Prelude
  imports Main "HOL-Library.List_Lexorder" "HOL-Library.Char_ord"
begin

text \<open>
  What the components share: collections of rewrite rules, and lemmas on the two shapes
  of loop the Go code uses, the early-return scan (\<open>first_hit\<close>) and the accumulating
  loop that may fail (\<open>sum\<close> values, \<open>Inl\<close> for the error).
\<close>

named_theorems component_defs \<open>the constructors of the components, unfolded where they are wired\<close>
named_theorems frame_simps \<open>which counters an operation leaves alone\<close>

section \<open>Early-return scans\<close>

text \<open>
  \<open>for _, x := range xs { if y, ok := f(x); ok { return y, true } }; return _, false\<close>
\<close>

fun first_hit :: "('a \<Rightarrow> 'b option) \<Rightarrow> 'a list \<Rightarrow> 'b option" where
  "first_hit f [] = None"
| "first_hit f (x # xs) = (case f x of Some y \<Rightarrow> Some y | None \<Rightarrow> first_hit f xs)"

lemma first_hit_single: "first_hit f [x] = f x"
  by (simp split: option.split)

lemma first_hit_two:
  "first_hit f (x # y # ys) = (case f x of None \<Rightarrow> first_hit f (y # ys) | Some r \<Rightarrow> Some r)"
  by (simp split: option.split)

lemma first_hit_None_iff: "first_hit f xs = None \<longleftrightarrow> (\<forall>x \<in> set xs. f x = None)"
  by (induction xs) (auto split: option.splits)

lemma first_hit_SomeD: "first_hit f xs = Some y \<Longrightarrow> \<exists>x \<in> set xs. f x = Some y"
  by (induction xs) (auto split: option.splits)

lemma first_hit_skip:
  "(\<And>u. u \<in> set us \<Longrightarrow> f u = None) \<Longrightarrow> first_hit f (us @ xs) = first_hit f xs"
  by (induction us) auto

lemma first_hit_Some_split:
  "first_hit f xs = Some y \<longleftrightarrow>
     (\<exists>us x vs. xs = us @ x # vs \<and> (\<forall>u \<in> set us. f u = None) \<and> f x = Some y)" (is "?l = ?r")
proof
  assume ?l
  then show ?r
  proof (induction xs)
    case (Cons a xs)
    show ?case
    proof (cases "f a")
      case None
      with Cons obtain us x vs where
        "xs = us @ x # vs" "\<forall>u \<in> set us. f u = None" "f x = Some y" by auto
      with None have "a # xs = (a # us) @ x # vs \<and> (\<forall>u \<in> set (a # us). f u = None) \<and> f x = Some y"
        by simp
      then show ?thesis by blast
    next
      case (Some b)
      with Cons.prems have "a # xs = [] @ a # xs \<and> (\<forall>u \<in> set []. f u = None) \<and> f a = Some y"
        by simp
      then show ?thesis by blast
    qed
  qed simp
next
  assume ?r
  then show ?l by (auto simp: first_hit_skip)
qed

lemma first_hit_append:
  "first_hit f (xs @ ys) = (case first_hit f xs of Some y \<Rightarrow> Some y | None \<Rightarrow> first_hit f ys)"
  by (induction xs) (auto split: option.split)

text \<open>\<open>for _, x := range xs { if p(x) { return x, true } }\<close> is the library's \<open>find\<close>.\<close>

lemma find_split:
  "find p xs = Some y \<longleftrightarrow>
     (\<exists>us vs. xs = us @ y # vs \<and> (\<forall>u \<in> set us. \<not> p u) \<and> p y)"
proof -
  have eq: "find p xs = first_hit (\<lambda>x. if p x then Some x else None) xs"
    by (induction xs) auto
  show ?thesis
    unfolding eq first_hit_Some_split by (auto split: if_splits)
qed

lemma find_filter_imp: "(\<And>x. p x \<Longrightarrow> q x) \<Longrightarrow> find p (filter q xs) = find p xs"
  by (induction xs) auto

lemma or_else_None_iff:
  "(case x of None \<Rightarrow> y | Some r \<Rightarrow> Some r) = None \<longleftrightarrow> x = None \<and> y = None"
  by (cases x) auto

lemma or_else_Some_iff:
  "(case x of None \<Rightarrow> y | Some r \<Rightarrow> Some r) = Some z \<longleftrightarrow> x = Some z \<or> x = None \<and> y = Some z"
  by (cases x) auto

lemma set_map_filter: "set (List.map_filter f xs) = {y. \<exists>x \<in> set xs. f x = Some y}"
  by (force simp: List.map_filter_def)

lemma map_filter_Nil_iff: "List.map_filter f xs = [] \<longleftrightarrow> (\<forall>x \<in> set xs. f x = None)"
  by (auto simp: List.map_filter_def filter_empty_conv)

section \<open>Results\<close>

lemma case_Inl_Some_iff [simp]:
  "(case x of Inl e \<Rightarrow> Some (f e) | Inr v \<Rightarrow> None) = Some y \<longleftrightarrow> (\<exists>e. x = Inl e \<and> y = f e)"
  by (cases x) auto

lemma map_sum_eq_Inr [simp]: "map_sum id g x = Inr y \<longleftrightarrow> (\<exists>v. x = Inr v \<and> y = g v)"
  by (cases x) auto

lemma map_sum_eq_Inl [simp]: "map_sum id g x = Inl e \<longleftrightarrow> x = Inl e"
  by (cases x) auto

abbreviation ok :: "('e + 'a) \<Rightarrow> bool" where
  "ok r \<equiv> \<not> isl r"

lemma not_ok_iff: "\<not> ok r \<longleftrightarrow> (\<exists>e. r = Inl e)"
  by (cases r) auto

lemma ok_iff: "ok r \<longleftrightarrow> (\<exists>v. r = Inr v)"
  by (cases r) auto

end
