(* ===== verification/GoHeap.thy ===== *)
theory GoHeap
  imports Prelude "HOL-Library.Monad_Syntax" "HOL-Library.Sublist" "HOL-Library.AList"
begin

text \<open>
  The store of Go values that are reached through pointers, slices and maps, and what a deep
  copy has to do with it. A store is the list of its cells, an address an index into it, and
  \<open>new\<close> and \<open>make\<close> append a cell, so a new address differs from all older ones and an old
  cell is untouched by allocation. The cells are a parameter: a struct type is put into a cell
  by a constructor and read back by a partial projection. An operation that meets a dangling
  or ill-typed address has no result, as in Go it could not be reached.
\<close>

section \<open>Cells\<close>

type_synonym addr = nat

definition read_cell :: "addr \<Rightarrow> 'c list \<Rightarrow> 'c option" where
  "read_cell a s = (if a < length s then Some (s ! a) else None)"

definition write_cell :: "addr \<Rightarrow> 'c \<Rightarrow> 'c list \<Rightarrow> 'c list option" where
  "write_cell a c s = (if a < length s then Some (s[a := c]) else None)"

definition new_cell :: "'c \<Rightarrow> 'c list \<Rightarrow> addr \<times> 'c list" where
  "new_cell c s = (length s, s @ [c])"

definition read_as :: "('c \<Rightarrow> 'v option) \<Rightarrow> addr \<Rightarrow> 'c list \<Rightarrow> 'v option" where
  "read_as proj a s = Option.bind (read_cell a s) proj"

lemma read_cell_less: "read_cell a s = Some c \<Longrightarrow> a < length s"
  by (simp add: read_cell_def split: if_splits)

lemma read_as_less: "read_as proj a s = Some v \<Longrightarrow> a < length s"
  by (cases "read_cell a s") (simp_all add: read_as_def read_cell_less)

lemma read_cell_prefix: "prefix s s' \<Longrightarrow> a < length s \<Longrightarrow> read_cell a s' = read_cell a s"
  by (auto simp: read_cell_def prefix_def nth_append)

lemma read_cell_update: "read_cell a (s[b := c]) = (if a = b \<and> b < length s then Some c else read_cell a s)"
  by (simp add: read_cell_def)

lemma read_as_cong: "read_cell a s' = read_cell a s \<Longrightarrow> read_as proj a s' = read_as proj a s"
  by (simp add: read_as_def)

lemma prefix_update: "prefix s s' \<Longrightarrow> length s \<le> b \<Longrightarrow> prefix s (s'[b := c])"
  by (auto simp: prefix_def list_update_append)

section \<open>Copying through pointers, slices and maps\<close>

text \<open>A pointer is an address or nil; a slice is nil or a window on a backing array.\<close>

record slice =
  sl_array :: addr
  sl_off :: nat
  sl_len :: nat

definition read_slice :: "('c \<Rightarrow> 'v list option) \<Rightarrow> slice \<Rightarrow> 'c list \<Rightarrow> 'v list option" where
  "read_slice proj sl s = do {
     xs \<leftarrow> read_as proj (sl_array sl) s;
     if sl_off sl + sl_len sl \<le> length xs then Some (take (sl_len sl) (drop (sl_off sl) xs)) else None }"

text \<open>A plain assignment copies a value with the addresses it holds.\<close>

definition keep :: "'v \<Rightarrow> 'c list \<Rightarrow> ('v \<times> 'c list) option" where
  "keep v s = Some (v, s)"

text \<open>
  \<open>if in != nil { *out = new(T); (*in).DeepCopyInto(*out) }\<close>, with \<open>f\<close> the copy of a \<open>T\<close>
  and \<open>keep\<close> for \<open>**out = **in\<close>.
\<close>

definition copy_ptr ::
    "('c \<Rightarrow> 'v option) \<Rightarrow> ('v \<Rightarrow> 'c) \<Rightarrow> 'v \<Rightarrow> ('v \<Rightarrow> 'c list \<Rightarrow> ('v \<times> 'c list) option) \<Rightarrow>
     addr option \<Rightarrow> 'c list \<Rightarrow> (addr option \<times> 'c list) option" where
  "copy_ptr proj wrap zero f p s =
     (case p of
        None \<Rightarrow> Some (None, s)
      | Some a \<Rightarrow> do {
          let (b, s) = new_cell (wrap zero) s;
          v \<leftarrow> read_as proj a s;
          (v', s) \<leftarrow> f v s;
          s \<leftarrow> write_cell b (wrap v') s;
          Some (Some b, s) })"

text \<open>
  \<open>if in != nil { *out = make([]T, len(*in)); for i := range *in { (*in)[i].DeepCopyInto(&(*out)[i]) } }\<close>.
  The elements are written to the new array, which nothing else refers to yet, at the end.
\<close>

fun copy_elems :: "('v \<Rightarrow> 'c list \<Rightarrow> ('v \<times> 'c list) option) \<Rightarrow> 'v list \<Rightarrow> 'c list \<Rightarrow> ('v list \<times> 'c list) option" where
  "copy_elems f [] s = Some ([], s)"
| "copy_elems f (x # xs) s = do {
     (y, s) \<leftarrow> f x s;
     (ys, s) \<leftarrow> copy_elems f xs s;
     Some (y # ys, s) }"

definition copy_slice ::
    "('c \<Rightarrow> 'v list option) \<Rightarrow> ('v list \<Rightarrow> 'c) \<Rightarrow> 'v \<Rightarrow> ('v \<Rightarrow> 'c list \<Rightarrow> ('v \<times> 'c list) option) \<Rightarrow>
     slice option \<Rightarrow> 'c list \<Rightarrow> (slice option \<times> 'c list) option" where
  "copy_slice proj wrap zero f p s =
     (case p of
        None \<Rightarrow> Some (None, s)
      | Some sl \<Rightarrow> do {
          let (b, s) = new_cell (wrap (replicate (sl_len sl) zero)) s;
          xs \<leftarrow> read_slice proj sl s;
          (ys, s) \<leftarrow> copy_elems f xs s;
          s \<leftarrow> write_cell b (wrap ys) s;
          Some (Some \<lparr>sl_array = b, sl_off = 0, sl_len = sl_len sl\<rparr>, s) })"

text \<open>The builtin \<open>copy(dst, src)\<close> overwrites the common length.\<close>

definition go_copy :: "'v list \<Rightarrow> 'v list \<Rightarrow> 'v list" where
  "go_copy dst src = take (length dst) src @ drop (length src) dst"

definition copy_plain_slice ::
    "('c \<Rightarrow> 'v list option) \<Rightarrow> ('v list \<Rightarrow> 'c) \<Rightarrow> 'v \<Rightarrow> slice option \<Rightarrow> 'c list \<Rightarrow>
     (slice option \<times> 'c list) option" where
  "copy_plain_slice proj wrap zero p s =
     (case p of
        None \<Rightarrow> Some (None, s)
      | Some sl \<Rightarrow> do {
          let (b, s) = new_cell (wrap (replicate (sl_len sl) zero)) s;
          xs \<leftarrow> read_slice proj sl s;
          s \<leftarrow> write_cell b (wrap (go_copy (replicate (sl_len sl) zero) xs)) s;
          Some (Some \<lparr>sl_array = b, sl_off = 0, sl_len = sl_len sl\<rparr>, s) })"

text \<open>
  \<open>*out = make(map[K]V, len(*in)); for key, val := range *in { (*out)[key] = val }\<close>. A map cell
  is the list of its entries in the order in which the loop visits them.
\<close>

definition copy_map ::
    "('c \<Rightarrow> ('k \<times> 'v) list option) \<Rightarrow> (('k \<times> 'v) list \<Rightarrow> 'c) \<Rightarrow> addr option \<Rightarrow> 'c list \<Rightarrow>
     (addr option \<times> 'c list) option" where
  "copy_map proj wrap p s =
     (case p of
        None \<Rightarrow> Some (None, s)
      | Some a \<Rightarrow> do {
          let (b, s) = new_cell (wrap []) s;
          kvs \<leftarrow> read_as proj a s;
          s \<leftarrow> write_cell b (wrap (fold (\<lambda>(k, v). AList.update k v) kvs [])) s;
          Some (Some b, s) })"

section \<open>What a deep copy promises\<close>

text \<open>
  A copier comes with the value a Go value stands for in a store (no value if an address in it
  dangles), the cells reached from it, and the cells it lets the copy share with the original.
  The value and the cells depend on no other cell than those reached; the copy exists, leaves
  every old cell alone, stands for the same value, and reaches new cells or shared ones only.
\<close>

locale deep_copier =
  fixes copy :: "'v \<Rightarrow> 'c list \<Rightarrow> ('v \<times> 'c list) option"
    and view :: "'c list \<Rightarrow> 'v \<Rightarrow> 'w option"
    and reach :: "'c list \<Rightarrow> 'v \<Rightarrow> addr set"
    and shared :: "'c list \<Rightarrow> 'v \<Rightarrow> addr set"
  assumes frame: "view s v = Some w \<Longrightarrow> (\<And>a. a \<in> reach s v \<Longrightarrow> read_cell a s' = read_cell a s) \<Longrightarrow>
      view s' v = Some w \<and> reach s' v = reach s v \<and> shared s' v = shared s v"
    and allocated: "view s v = Some w \<Longrightarrow> reach s v \<subseteq> {..<length s}"
    and shared_reach: "view s v = Some w \<Longrightarrow> shared s v \<subseteq> reach s v"
    and copies: "view s v = Some w \<Longrightarrow>
      \<exists>v' s'. copy v s = Some (v', s') \<and> prefix s s' \<and> view s' v' = Some w \<and>
        reach s' v' \<subseteq> {length s..} \<union> shared s v"
begin

lemma frame_prefix:
  assumes "view s v = Some w" "prefix s s'"
  shows "view s' v = Some w" "reach s' v = reach s v" "shared s' v = shared s v"
  using frame [OF assms(1), of s'] read_cell_prefix [OF assms(2)] allocated [OF assms(1)] by blast+

lemma copy_result:
  assumes "view s v = Some w" "copy v s = Some (v', s')"
  shows "prefix s s'" "view s' v' = Some w" "reach s' v' \<subseteq> {length s..} \<union> shared s v"
  using copies [OF assms(1)] assms(2) by auto

text \<open>A write to any cell of the copy that is not shared leaves the original as it was.\<close>

lemma original_isolated:
  assumes "view s v = Some w" "copy v s = Some (v', s')" "a \<in> reach s' v'" "a \<notin> shared s v"
  shows "view (s'[a := c]) v = Some w"
proof -
  note r = copy_result [OF assms(1,2)]
  have "length s \<le> a" using r(3) assms(3,4) by auto
  then have "prefix s (s'[a := c])" using r(1) by (rule prefix_update [rotated])
  then show ?thesis by (rule frame_prefix(1) [OF assms(1)])
qed

text \<open>And a write to any old cell that is not shared leaves the copy as it was.\<close>

lemma copy_isolated:
  assumes "view s v = Some w" "copy v s = Some (v', s')" "a < length s" "a \<notin> shared s v"
  shows "view (s'[a := c]) v' = Some w"
proof -
  note r = copy_result [OF assms(1,2)]
  have "a \<notin> reach s' v'" using r(3) assms(3,4) by auto
  then have "\<And>b. b \<in> reach s' v' \<Longrightarrow> read_cell b (s'[a := c]) = read_cell b s'"
    by (auto simp: read_cell_update)
  then show ?thesis using frame [OF r(2)] by blast
qed

end

section \<open>Copiers from copiers\<close>

context deep_copier
begin

text \<open>Reserving a cell before the copy and filling it afterwards disturbs nothing.\<close>

lemma copies_reserved:
  assumes "view s v = Some w"
  obtains v' s' where "copy v (s @ [z]) = Some (v', s')" "length s < length s'"
    "\<And>c. prefix s (s'[length s := c])" "\<And>c. view (s'[length s := c]) v' = Some w"
    "\<And>c. reach (s'[length s := c]) v' \<subseteq> {length s..} \<union> shared s v"
proof -
  have pre: "prefix s (s @ [z])" by simp
  note in_z = frame_prefix [OF assms pre]
  obtain v' s' where c: "copy v (s @ [z]) = Some (v', s')" "prefix (s @ [z]) s'" "view s' v' = Some w"
      "reach s' v' \<subseteq> {Suc (length s)..} \<union> shared s v"
    using copies [OF in_z(1)] in_z(3) by auto
  have len: "length s < length s'" using prefix_length_le [OF c(2)] by simp
  have "length s \<notin> reach s' v'"
  proof -
    have "length s \<notin> {Suc (length s)..}" "length s \<notin> {..<length s}" by simp_all
    then show ?thesis using c(4) shared_reach [OF assms] allocated [OF assms] by blast
  qed
  then have same: "\<And>a x. a \<in> reach s' v' \<Longrightarrow> read_cell a (s'[length s := x]) = read_cell a s'"
    by (auto simp: read_cell_update)
  have "\<And>x. view (s'[length s := x]) v' = Some w" "\<And>x. reach (s'[length s := x]) v' = reach s' v'"
    using frame [OF c(3) same] by blast+
  moreover have "\<And>x. prefix s (s'[length s := x])"
    using prefix_order.trans [OF pre c(2)] by (rule prefix_update) simp
  ultimately show thesis using that [OF c(1) len] c(4) by fastforce
qed

end

lemma keep_deep_copier: "deep_copier keep (\<lambda>_. Some) (\<lambda>_ _. {}) (\<lambda>_ _. {})"
  by unfold_locales (simp_all add: keep_def)

interpretation keep: deep_copier keep "\<lambda>_. Some" "\<lambda>_ _. {}" "\<lambda>_ _. {}"
  by (rule keep_deep_copier)

text \<open>A plain assignment of a value with addresses shares everything it reaches.\<close>

lemma shallow_copier:
  assumes "deep_copier copy view reach shared"
  shows "deep_copier keep view reach reach"
proof
  fix s s' :: "'b list" and v w
  assume v: "view s v = Some w"
  show "view s' v = Some w \<and> reach s' v = reach s v \<and> reach s' v = reach s v"
    if "\<And>a. a \<in> reach s v \<Longrightarrow> read_cell a s' = read_cell a s"
    using deep_copier.frame [OF assms v that] by blast
  show "reach s v \<subseteq> {..<length s}" by (rule deep_copier.allocated [OF assms v])
  show "\<exists>v' s'. keep v s = Some (v', s') \<and> prefix s s' \<and> view s' v' = Some w \<and>
      reach s' v' \<subseteq> {length s..} \<union> reach s v"
    using v by (simp add: keep_def)
qed simp

subsection \<open>Pointers\<close>

definition view_ptr :: "('c \<Rightarrow> 'v option) \<Rightarrow> ('c list \<Rightarrow> 'v \<Rightarrow> 'w option) \<Rightarrow> 'c list \<Rightarrow> addr option \<Rightarrow> 'w option option" where
  "view_ptr proj view s p =
     (case p of None \<Rightarrow> Some None
      | Some a \<Rightarrow> do { v \<leftarrow> read_as proj a s; w \<leftarrow> view s v; Some (Some w) })"

definition through :: "('c \<Rightarrow> 'v option) \<Rightarrow> ('c list \<Rightarrow> 'v \<Rightarrow> addr set) \<Rightarrow> 'c list \<Rightarrow> addr option \<Rightarrow> addr set" where
  "through proj g s p = (case Option.bind p (\<lambda>a. read_as proj a s) of None \<Rightarrow> {} | Some v \<Rightarrow> g s v)"

definition reach_ptr :: "('c \<Rightarrow> 'v option) \<Rightarrow> ('c list \<Rightarrow> 'v \<Rightarrow> addr set) \<Rightarrow> 'c list \<Rightarrow> addr option \<Rightarrow> addr set" where
  "reach_ptr proj reach s p = set_option p \<union> through proj reach s p"

lemma copy_ptr_deep_copier:
  assumes d: "deep_copier f view reach shared" and proj: "\<And>v. proj (wrap v) = Some v"
  shows "deep_copier (copy_ptr proj wrap zero f) (view_ptr proj view) (reach_ptr proj reach) (through proj shared)"
proof
  fix s s' :: "'b list" and p w
  assume v: "view_ptr proj view s p = Some w"
  { assume same: "\<And>a. a \<in> reach_ptr proj reach s p \<Longrightarrow> read_cell a s' = read_cell a s"
    show "view_ptr proj view s' p = Some w \<and> reach_ptr proj reach s' p = reach_ptr proj reach s p \<and>
        through proj shared s' p = through proj shared s p"
    proof (cases p)
      case None
      with v show ?thesis by (simp add: view_ptr_def reach_ptr_def through_def)
    next
      case (Some a)
      with v obtain x y where x: "read_as proj a s = Some x" "view s x = Some y" "w = Some y"
        by (auto simp: view_ptr_def bind_eq_Some_conv)
      have "read_as proj a s' = Some x" using read_as_cong [OF same [of a], of proj] x(1) Some
        by (simp add: reach_ptr_def)
      moreover have "\<And>b. b \<in> reach s x \<Longrightarrow> read_cell b s' = read_cell b s"
        using same Some x(1) by (simp add: reach_ptr_def through_def)
      note deep_copier.frame [OF d x(2) this]
      ultimately show ?thesis using Some x by (simp add: view_ptr_def reach_ptr_def through_def)
    qed }
  show "reach_ptr proj reach s p \<subseteq> {..<length s}"
    using v by (auto simp: view_ptr_def reach_ptr_def through_def bind_eq_Some_conv read_as_less
        dest: subsetD [OF deep_copier.allocated [OF d]] split: option.splits)
  show "through proj shared s p \<subseteq> reach_ptr proj reach s p"
    using v by (auto simp: view_ptr_def reach_ptr_def through_def bind_eq_Some_conv
        dest: subsetD [OF deep_copier.shared_reach [OF d]] split: option.splits)
  show "\<exists>p' s'. copy_ptr proj wrap zero f p s = Some (p', s') \<and> prefix s s' \<and>
      view_ptr proj view s' p' = Some w \<and> reach_ptr proj reach s' p' \<subseteq> {length s..} \<union> through proj shared s p"
  proof (cases p)
    case None
    with v show ?thesis by (simp add: copy_ptr_def view_ptr_def reach_ptr_def through_def)
  next
    case (Some a)
    with v obtain x y where x: "read_as proj a s = Some x" "view s x = Some y" "w = Some y"
      by (auto simp: view_ptr_def bind_eq_Some_conv)
    have "read_as proj a (s @ [wrap zero]) = Some x"
      using x(1) read_as_less [OF x(1)] by (simp add: read_as_def read_cell_def nth_append)
    moreover obtain x' t where t: "f x (s @ [wrap zero]) = Some (x', t)" "length s < length t"
        "\<And>c. prefix s (t[length s := c])" "\<And>c. view (t[length s := c]) x' = Some y"
        "\<And>c. reach (t[length s := c]) x' \<subseteq> {length s..} \<union> shared s x"
      using deep_copier.copies_reserved [OF d x(2)] by blast
    ultimately have "copy_ptr proj wrap zero f p s = Some (Some (length s), t[length s := wrap x'])"
      using Some by (simp add: copy_ptr_def new_cell_def write_cell_def)
    moreover have "read_as proj (length s) (t[length s := wrap x']) = Some x'"
      using t(2) proj by (simp add: read_as_def read_cell_def)
    ultimately show ?thesis using t(3-5) Some x by (auto simp: view_ptr_def reach_ptr_def through_def)
  qed
qed

subsection \<open>Slices\<close>

fun view_elems :: "('c list \<Rightarrow> 'v \<Rightarrow> 'w option) \<Rightarrow> 'c list \<Rightarrow> 'v list \<Rightarrow> 'w list option" where
  "view_elems view s [] = Some []"
| "view_elems view s (x # xs) = do { y \<leftarrow> view s x; ys \<leftarrow> view_elems view s xs; Some (y # ys) }"

definition over :: "('c list \<Rightarrow> 'v \<Rightarrow> addr set) \<Rightarrow> 'c list \<Rightarrow> 'v list \<Rightarrow> addr set" where
  "over g s xs = (\<Union>x \<in> set xs. g s x)"

lemma over_simps [simp]: "over g s [] = {}" "over g s (x # xs) = g s x \<union> over g s xs"
  by (simp_all add: over_def)

context deep_copier
begin

lemma elems_frame:
  assumes "view_elems view s xs = Some ws"
    and "\<And>a. a \<in> over reach s xs \<Longrightarrow> read_cell a s' = read_cell a s"
  shows "view_elems view s' xs = Some ws \<and> over reach s' xs = over reach s xs \<and>
    over shared s' xs = over shared s xs"
  using assms
proof (induction xs arbitrary: ws)
  case (Cons x xs)
  then obtain w us where w: "view s x = Some w" "view_elems view s xs = Some us" "ws = w # us"
    by (auto simp: bind_eq_Some_conv)
  have "view s' x = Some w \<and> reach s' x = reach s x \<and> shared s' x = shared s x"
    by (rule frame [OF w(1)]) (simp add: Cons.prems)
  moreover have "view_elems view s' xs = Some us \<and> over reach s' xs = over reach s xs \<and>
      over shared s' xs = over shared s xs"
    by (rule Cons.IH [OF w(2)]) (simp add: Cons.prems)
  ultimately show ?case using w(3) by simp
qed simp

lemma elems_allocated: "view_elems view s xs = Some ws \<Longrightarrow> over reach s xs \<subseteq> {..<length s}"
  by (induction xs arbitrary: ws) (auto simp: bind_eq_Some_conv dest: subsetD [OF allocated])

lemma elems_shared_reach: "view_elems view s xs = Some ws \<Longrightarrow> over shared s xs \<subseteq> over reach s xs"
  by (induction xs arbitrary: ws) (auto simp: bind_eq_Some_conv dest: subsetD [OF shared_reach])

lemma elems_copies:
  "view_elems view s xs = Some ws \<Longrightarrow>
    \<exists>ys s'. copy_elems copy xs s = Some (ys, s') \<and> prefix s s' \<and> view_elems view s' ys = Some ws \<and>
      over reach s' ys \<subseteq> {length s..} \<union> over shared s xs"
proof (induction xs arbitrary: s ws)
  case (Cons x xs)
  then obtain w us where w: "view s x = Some w" "view_elems view s xs = Some us" "ws = w # us"
    by (auto simp: bind_eq_Some_conv)
  obtain y s1 where 1: "copy x s = Some (y, s1)" "prefix s s1" "view s1 y = Some w"
      "reach s1 y \<subseteq> {length s..} \<union> shared s x"
    using copies [OF w(1)] by blast
  have "\<And>a. a \<in> over reach s xs \<Longrightarrow> read_cell a s1 = read_cell a s"
    using elems_allocated [OF w(2)] by (auto intro: read_cell_prefix [OF 1(2)])
  note xs1 = elems_frame [OF w(2) this]
  obtain ys s2 where 2: "copy_elems copy xs s1 = Some (ys, s2)" "prefix s1 s2"
      "view_elems view s2 ys = Some us" "over reach s2 ys \<subseteq> {length s1..} \<union> over shared s1 xs"
    using Cons.IH [of s1 us] xs1 by blast
  note y2 = frame_prefix [OF 1(3) 2(2)]
  have "over reach s2 ys \<subseteq> {length s..} \<union> over shared s xs"
    using 2(4) xs1 prefix_length_le [OF 1(2)] by auto
  then show ?case
    using 1(1,4) 2(1,3) y2 w(3) prefix_order.trans [OF 1(2) 2(2)] by auto
qed simp

lemma copy_elems_deep_copier:
  "deep_copier (copy_elems copy) (view_elems view) (over reach) (over shared)"
proof
  fix s s' :: "'c list" and xs ws
  assume v: "view_elems view s xs = Some ws"
  show "view_elems view s' xs = Some ws \<and> over reach s' xs = over reach s xs \<and> over shared s' xs = over shared s xs"
    if "\<And>a. a \<in> over reach s xs \<Longrightarrow> read_cell a s' = read_cell a s"
    by (rule elems_frame [OF v that])
  show "over reach s xs \<subseteq> {..<length s}" by (rule elems_allocated [OF v])
  show "over shared s xs \<subseteq> over reach s xs" by (rule elems_shared_reach [OF v])
  show "\<exists>ys s'. copy_elems copy xs s = Some (ys, s') \<and> prefix s s' \<and> view_elems view s' ys = Some ws \<and>
      over reach s' ys \<subseteq> {length s..} \<union> over shared s xs"
    by (rule elems_copies [OF v])
qed

end

definition view_slice :: "('c \<Rightarrow> 'v list option) \<Rightarrow> ('c list \<Rightarrow> 'v \<Rightarrow> 'w option) \<Rightarrow> 'c list \<Rightarrow> slice option \<Rightarrow> 'w list option" where
  "view_slice proj view s p =
     (case p of None \<Rightarrow> Some []
      | Some sl \<Rightarrow> do { xs \<leftarrow> read_slice proj sl s; view_elems view s xs })"

definition through_slice :: "('c \<Rightarrow> 'v list option) \<Rightarrow> ('c list \<Rightarrow> 'v \<Rightarrow> addr set) \<Rightarrow> 'c list \<Rightarrow> slice option \<Rightarrow> addr set" where
  "through_slice proj g s p = (case Option.bind p (\<lambda>sl. read_slice proj sl s) of None \<Rightarrow> {} | Some xs \<Rightarrow> over g s xs)"

definition reach_slice :: "('c \<Rightarrow> 'v list option) \<Rightarrow> ('c list \<Rightarrow> 'v \<Rightarrow> addr set) \<Rightarrow> 'c list \<Rightarrow> slice option \<Rightarrow> addr set" where
  "reach_slice proj reach s p = sl_array ` set_option p \<union> through_slice proj reach s p"

lemma read_slice_cong:
  "read_cell (sl_array sl) s' = read_cell (sl_array sl) s \<Longrightarrow> read_slice proj sl s' = read_slice proj sl s"
  by (simp add: read_slice_def read_as_def)

lemma read_slice_Some:
  assumes "read_slice proj sl s = Some xs"
  shows "sl_array sl < length s" "length xs = sl_len sl"
  using assms by (auto simp: read_slice_def bind_eq_Some_conv read_as_less split: if_splits)

lemma copy_elems_length: "copy_elems f xs s = Some (ys, s') \<Longrightarrow> length ys = length xs"
  by (induction xs arbitrary: s ys s') (auto simp: bind_eq_Some_conv)

lemma copy_slice_deep_copier:
  assumes d: "deep_copier f view reach shared" and proj: "\<And>vs. proj (wrap vs) = Some vs"
  shows "deep_copier (copy_slice proj wrap zero f) (view_slice proj view) (reach_slice proj reach) (through_slice proj shared)"
proof
  note dl = deep_copier.copy_elems_deep_copier [OF d]
  fix s s' :: "'b list" and p w
  assume v: "view_slice proj view s p = Some w"
  { assume same: "\<And>a. a \<in> reach_slice proj reach s p \<Longrightarrow> read_cell a s' = read_cell a s"
    show "view_slice proj view s' p = Some w \<and> reach_slice proj reach s' p = reach_slice proj reach s p \<and>
        through_slice proj shared s' p = through_slice proj shared s p"
    proof (cases p)
      case None
      with v show ?thesis by (simp add: view_slice_def reach_slice_def through_slice_def)
    next
      case (Some sl)
      with v obtain xs where x: "read_slice proj sl s = Some xs" "view_elems view s xs = Some w"
        by (auto simp: view_slice_def bind_eq_Some_conv)
      have "read_slice proj sl s' = Some xs"
        using read_slice_cong [OF same [of "sl_array sl"], of proj] x(1) Some by (simp add: reach_slice_def)
      moreover have "\<And>b. b \<in> over reach s xs \<Longrightarrow> read_cell b s' = read_cell b s"
        using same Some x(1) by (simp add: reach_slice_def through_slice_def)
      note deep_copier.frame [OF dl x(2) this]
      ultimately show ?thesis using Some x by (simp add: view_slice_def reach_slice_def through_slice_def)
    qed }
  show "reach_slice proj reach s p \<subseteq> {..<length s}"
    using v by (auto simp: view_slice_def reach_slice_def through_slice_def bind_eq_Some_conv read_slice_Some(1)
        dest: subsetD [OF deep_copier.allocated [OF dl]] split: option.splits)
  show "through_slice proj shared s p \<subseteq> reach_slice proj reach s p"
    using v by (auto simp: view_slice_def reach_slice_def through_slice_def bind_eq_Some_conv
        dest: subsetD [OF deep_copier.shared_reach [OF dl]] split: option.splits)
  show "\<exists>p' s'. copy_slice proj wrap zero f p s = Some (p', s') \<and> prefix s s' \<and>
      view_slice proj view s' p' = Some w \<and> reach_slice proj reach s' p' \<subseteq> {length s..} \<union> through_slice proj shared s p"
  proof (cases p)
    case None
    with v show ?thesis by (simp add: copy_slice_def view_slice_def reach_slice_def through_slice_def)
  next
    case (Some sl)
    with v obtain xs where x: "read_slice proj sl s = Some xs" "view_elems view s xs = Some w"
      by (auto simp: view_slice_def bind_eq_Some_conv)
    let ?z = "wrap (replicate (sl_len sl) zero)"
    have "read_cell (sl_array sl) (s @ [?z]) = read_cell (sl_array sl) s"
      using read_slice_Some(1) [OF x(1)] by (simp add: read_cell_def nth_append)
    then have "read_slice proj sl (s @ [?z]) = Some xs" using read_slice_cong x(1) by metis
    moreover obtain ys t where t: "copy_elems f xs (s @ [?z]) = Some (ys, t)" "length s < length t"
        "\<And>c. prefix s (t[length s := c])" "\<And>c. view_elems view (t[length s := c]) ys = Some w"
        "\<And>c. over reach (t[length s := c]) ys \<subseteq> {length s..} \<union> over shared s xs"
      using deep_copier.copies_reserved [OF dl x(2)] by blast
    ultimately have "copy_slice proj wrap zero f p s =
        Some (Some \<lparr>sl_array = length s, sl_off = 0, sl_len = sl_len sl\<rparr>, t[length s := wrap ys])"
      using Some by (simp add: copy_slice_def new_cell_def write_cell_def)
    moreover have "read_slice proj \<lparr>sl_array = length s, sl_off = 0, sl_len = sl_len sl\<rparr> (t[length s := wrap ys]) = Some ys"
      using t(2) proj copy_elems_length [OF t(1)] read_slice_Some(2) [OF x(1)]
      by (simp add: read_slice_def read_as_def read_cell_def)
    ultimately show ?thesis using t(3-5) Some x by (auto simp: view_slice_def reach_slice_def through_slice_def)
  qed
qed

lemma copy_elems_keep: "copy_elems keep xs s = Some (xs, s)"
  by (induction xs arbitrary: s) (simp_all add: keep_def)

lemma copy_plain_slice_eq: "copy_plain_slice proj wrap zero = copy_slice proj wrap zero keep"
proof (intro ext)
  fix p :: "slice option" and s :: "'a list"
  have "\<And>s' sl xs. read_slice proj sl s' = Some xs \<Longrightarrow> go_copy (replicate (sl_len sl) zero) xs = xs"
    using read_slice_Some(2) by (metis append_Nil2 drop_all go_copy_def length_replicate order_refl take_all)
  then show "copy_plain_slice proj wrap zero p s = copy_slice proj wrap zero keep p s"
    by (auto simp: copy_plain_slice_def copy_slice_def copy_elems_keep new_cell_def
        split: option.split intro!: Option.bind_cong)
qed

lemma view_elems_id [simp]: "view_elems (\<lambda>_. Some) s xs = Some xs"
  by (induction xs) auto

subsection \<open>Structs\<close>

text \<open>
  A struct is copied field after field: two fields, and a struct that corresponds to the tuple
  of its fields.
\<close>

definition copy_pair ::
    "('v \<Rightarrow> 'c list \<Rightarrow> ('v \<times> 'c list) option) \<Rightarrow> ('x \<Rightarrow> 'c list \<Rightarrow> ('x \<times> 'c list) option) \<Rightarrow>
     'v \<times> 'x \<Rightarrow> 'c list \<Rightarrow> (('v \<times> 'x) \<times> 'c list) option" where
  "copy_pair f g p s = do {
     (x, s) \<leftarrow> f (fst p) s;
     (y, s) \<leftarrow> g (snd p) s;
     Some ((x, y), s) }"

definition view_pair :: "('c list \<Rightarrow> 'v \<Rightarrow> 'w option) \<Rightarrow> ('c list \<Rightarrow> 'x \<Rightarrow> 'u option) \<Rightarrow> 'c list \<Rightarrow> 'v \<times> 'x \<Rightarrow> ('w \<times> 'u) option" where
  "view_pair view view' s p = do { w \<leftarrow> view s (fst p); u \<leftarrow> view' s (snd p); Some (w, u) }"

definition pair_cells :: "('c list \<Rightarrow> 'v \<Rightarrow> addr set) \<Rightarrow> ('c list \<Rightarrow> 'x \<Rightarrow> addr set) \<Rightarrow> 'c list \<Rightarrow> 'v \<times> 'x \<Rightarrow> addr set" where
  "pair_cells g h s p = g s (fst p) \<union> h s (snd p)"

text \<open>Two copies one after the other.\<close>

lemma copy_both:
  assumes f: "deep_copier f view reach shared" and g: "deep_copier g view' reach' shared'"
    and x: "view s x = Some w" and y: "view' s y = Some u"
  obtains x' s1 y' s2 where "f x s = Some (x', s1)" "g y s1 = Some (y', s2)" "prefix s s2"
    "view s2 x' = Some w" "view' s2 y' = Some u"
    "reach s2 x' \<subseteq> {length s..} \<union> shared s x" "reach' s2 y' \<subseteq> {length s..} \<union> shared' s y"
proof -
  obtain x' s1 where 1: "f x s = Some (x', s1)" "prefix s s1" "view s1 x' = Some w"
      "reach s1 x' \<subseteq> {length s..} \<union> shared s x"
    using deep_copier.copies [OF f x] by blast
  note y1 = deep_copier.frame_prefix [OF g y 1(2)]
  obtain y' s2 where 2: "g y s1 = Some (y', s2)" "prefix s1 s2" "view' s2 y' = Some u"
      "reach' s2 y' \<subseteq> {length s1..} \<union> shared' s1 y"
    using deep_copier.copies [OF g y1(1)] by blast
  note x2 = deep_copier.frame_prefix [OF f 1(3) 2(2)]
  have "reach' s2 y' \<subseteq> {length s..} \<union> shared' s y"
    using 2(4) y1(3) prefix_length_le [OF 1(2)] by auto
  then show thesis
    using that [OF 1(1) 2(1) prefix_order.trans [OF 1(2) 2(2)] x2(1) 2(3)] x2(2) 1(4) by simp
qed

lemma copy_pair_deep_copier:
  assumes f: "deep_copier f view reach shared" and g: "deep_copier g view' reach' shared'"
  shows "deep_copier (copy_pair f g) (view_pair view view') (pair_cells reach reach') (pair_cells shared shared')"
proof
  fix s s' :: "'b list" and p w
  assume "view_pair view view' s p = Some w"
  then obtain x y u t where p: "p = (x, y)" and v: "view s x = Some u" "view' s y = Some t" "w = (u, t)"
    by (cases p) (auto simp: view_pair_def bind_eq_Some_conv)
  { assume same: "\<And>a. a \<in> pair_cells reach reach' s p \<Longrightarrow> read_cell a s' = read_cell a s"
    have "view s' x = Some u \<and> reach s' x = reach s x \<and> shared s' x = shared s x"
      by (rule deep_copier.frame [OF f v(1)]) (simp add: same p pair_cells_def)
    moreover have "view' s' y = Some t \<and> reach' s' y = reach' s y \<and> shared' s' y = shared' s y"
      by (rule deep_copier.frame [OF g v(2)]) (simp add: same p pair_cells_def)
    ultimately show "view_pair view view' s' p = Some w \<and>
        pair_cells reach reach' s' p = pair_cells reach reach' s p \<and>
        pair_cells shared shared' s' p = pair_cells shared shared' s p"
      by (simp add: p v(3) view_pair_def pair_cells_def) }
  show "pair_cells reach reach' s p \<subseteq> {..<length s}"
    using deep_copier.allocated [OF f v(1)] deep_copier.allocated [OF g v(2)] by (simp add: p pair_cells_def)
  show "pair_cells shared shared' s p \<subseteq> pair_cells reach reach' s p"
    using deep_copier.shared_reach [OF f v(1)] deep_copier.shared_reach [OF g v(2)]
    by (auto simp: p pair_cells_def)
  show "\<exists>p' s'. copy_pair f g p s = Some (p', s') \<and> prefix s s' \<and> view_pair view view' s' p' = Some w \<and>
      pair_cells reach reach' s' p' \<subseteq> {length s..} \<union> pair_cells shared shared' s p"
    by (rule copy_both [OF f g v(1,2)])
       (fastforce simp: p v(3) copy_pair_def view_pair_def pair_cells_def)
qed

lemma deep_copier_struct:
  fixes copy :: "'v \<Rightarrow> 'c list \<Rightarrow> ('v \<times> 'c list) option" and mk :: "'t \<Rightarrow> 'v" and tup :: "'v \<Rightarrow> 't"
    and view' :: "'c list \<Rightarrow> 'v \<Rightarrow> 'w option" and reach' shared' :: "'c list \<Rightarrow> 'v \<Rightarrow> addr set"
  assumes d: "deep_copier c view reach shared" and tuple: "\<And>t. tup (mk t) = t"
    and "\<And>v s. copy v s = map_option (\<lambda>(t, s). (mk t, s)) (c (tup v) s)"
    and "\<And>s v. view' s v = map_option g (view s (tup v))"
    and "\<And>s v. reach' s v = reach s (tup v)" and "\<And>s v. shared' s v = shared s (tup v)"
  shows "deep_copier copy view' reach' shared'"
proof
  fix s s' v w
  assume "view' s v = Some w"
  then obtain u where u: "view s (tup v) = Some u" "w = g u" by (auto simp: assms(4))
  show "view' s' v = Some w \<and> reach' s' v = reach' s v \<and> shared' s' v = shared' s v"
    if "\<And>a. a \<in> reach' s v \<Longrightarrow> read_cell a s' = read_cell a s"
    using deep_copier.frame [OF d u(1), of s'] that u(2) by (simp add: assms(4-6))
  show "reach' s v \<subseteq> {..<length s}" "shared' s v \<subseteq> reach' s v"
    using deep_copier.allocated [OF d u(1)] deep_copier.shared_reach [OF d u(1)] by (simp_all add: assms(5,6))
  show "\<exists>v' s'. copy v s = Some (v', s') \<and> prefix s s' \<and> view' s' v' = Some w \<and>
      reach' s' v' \<subseteq> {length s..} \<union> shared' s v"
    using deep_copier.copies [OF d u(1)] u(2) by (auto simp: assms(3-6) tuple)
qed

subsection \<open>Maps\<close>

lemma insert_entries:
  "distinct (map fst (done @ kvs)) \<Longrightarrow> fold (\<lambda>(k, v). AList.update k v) kvs done = done @ kvs"
proof (induction kvs arbitrary: "done")
  case (Cons e kvs)
  obtain k v where e: "e = (k, v)" by force
  have "AList.update k v done = done @ [(k, v)]"
    using Cons.prems by (induction "done") (auto simp: e)
  then show ?case using Cons.IH [of "done @ [(k, v)]"] Cons.prems by (simp add: e)
qed simp

definition view_map :: "('c \<Rightarrow> ('k \<times> 'v) list option) \<Rightarrow> 'c list \<Rightarrow> addr option \<Rightarrow> ('k \<times> 'v) list option" where
  "view_map proj s p =
     (case p of None \<Rightarrow> Some []
      | Some a \<Rightarrow> do { kvs \<leftarrow> read_as proj a s; if distinct (map fst kvs) then Some kvs else None })"

lemma copy_map_deep_copier:
  assumes "\<And>kvs. proj (wrap kvs) = Some kvs"
  shows "deep_copier (copy_map proj wrap) (view_map proj) (\<lambda>_ p. set_option p) (\<lambda>_ _. {})"
proof (rule deep_copier_struct [where tup = id and mk = id])
  have "deep_copier (\<lambda>kvs s. Some (fold (\<lambda>(k, v). AList.update k v) kvs [], s))
      (\<lambda>_ kvs. if distinct (map fst kvs) then Some kvs else None) (\<lambda>_ _. {}) (\<lambda>_ _. {})"
    by unfold_locales (simp_all add: insert_entries split: if_splits)
  then show "deep_copier (copy_ptr proj wrap [] (\<lambda>kvs s. Some (fold (\<lambda>(k, v). AList.update k v) kvs [], s)))
      (view_ptr proj (\<lambda>_ kvs. if distinct (map fst kvs) then Some kvs else None))
      (reach_ptr proj (\<lambda>_ _. {})) (through proj (\<lambda>_ _. {}))"
    by (rule copy_ptr_deep_copier) (rule assms)
  show "view_map proj s p = map_option (case_option [] (\<lambda>kvs. kvs))
      (view_ptr proj (\<lambda>_ kvs. if distinct (map fst kvs) then Some kvs else None) s (id p))" for s p
    by (auto simp: view_map_def view_ptr_def split: option.split Option.bind_split)
qed (auto simp: copy_map_def copy_ptr_def reach_ptr_def through_def option.map_comp comp_def case_prod_unfold
       option.map_ident split: option.splits)

end
