(* ===== verification/GoFmt.thy ===== *)
theory GoFmt
  imports Prelude "HOL-Library.Log_Nat" Complex_Main
begin

text \<open>
  The part of Go's \<open>fmt\<close>, \<open>strconv\<close> and \<open>strings\<close> packages that the program's messages
  use. A Go string is a sequence of bytes, here a \<open>string\<close> (each \<open>char\<close> is one byte).
  \<open>%q\<close> is exact on ASCII; a byte of a multi-byte UTF-8 sequence is passed through, which
  is what Go does for printable code points. IEEE doubles are the rational they denote,
  the signed zero, the infinities or NaN; comparisons and \<open>%.2f\<close> follow IEEE 754 and Go.
\<close>

section \<open>Digits and decimal numerals\<close>

definition is_digit :: "char \<Rightarrow> bool" where
  "is_digit c \<longleftrightarrow> 48 \<le> (of_char c :: nat) \<and> (of_char c :: nat) \<le> 57"

definition digit_val :: "char \<Rightarrow> nat" where
  "digit_val c = of_char c - 48"

definition digit_char :: "nat \<Rightarrow> char" where
  "digit_char d = ''0123456789'' ! d"

lemma less_10_cases:
  "d < (10::nat) \<Longrightarrow> d = 0 \<or> d = 1 \<or> d = 2 \<or> d = 3 \<or> d = 4 \<or> d = 5 \<or> d = 6 \<or> d = 7 \<or> d = 8 \<or> d = 9"
  by arith

lemma digit_char_is_digit [simp]: "d < 10 \<Longrightarrow> is_digit (digit_char d)"
  by (drule less_10_cases) (auto simp: digit_char_def is_digit_def)

lemma digit_val_digit_char [simp]: "d < 10 \<Longrightarrow> digit_val (digit_char d) = d"
  by (drule less_10_cases) (auto simp: digit_char_def digit_val_def)

text \<open>The numeral of a non-negative integer, then of any integer (\<open>%d\<close>).\<close>

function uint_dec :: "int \<Rightarrow> string" where
  "uint_dec n =
     (if n < 10 then [digit_char (nat n)] else uint_dec (n div 10) @ [digit_char (nat (n mod 10))])"
  by pat_completeness auto
termination
  by (relation "measure nat") auto

declare uint_dec.simps [simp del]

definition int_dec :: "int \<Rightarrow> string" where
  "int_dec i = (if i < 0 then ''-'' @ uint_dec (- i) else uint_dec i)"

lemma uint_dec_not_Nil [simp]: "uint_dec n \<noteq> []"
  by (subst uint_dec.simps) simp

lemma uint_dec_digits: "0 \<le> n \<Longrightarrow> c \<in> set (uint_dec n) \<Longrightarrow> is_digit c"
proof (induction n rule: uint_dec.induct)
  case (1 n)
  show ?case
  proof (cases "n < 10")
    case True
    with "1.prems" show ?thesis by (simp add: uint_dec.simps [of n] nat_less_iff)
  next
    case False
    with 1 show ?thesis by (auto simp: uint_dec.simps [of n] nat_less_iff)
  qed
qed

text \<open>Reading a numeral back.\<close>

fun dec_val :: "int \<Rightarrow> string \<Rightarrow> int" where
  "dec_val acc [] = acc"
| "dec_val acc (c # s) = dec_val (acc * 10 + int (digit_val c)) s"

lemma dec_val_append: "dec_val acc (s @ t) = dec_val (dec_val acc s) t"
  by (induction s arbitrary: acc) auto

lemma dec_val_ge: "0 \<le> acc \<Longrightarrow> acc \<le> dec_val acc s"
proof (induction s arbitrary: acc)
  case (Cons c s)
  then have "acc \<le> acc * 10 + int (digit_val c)" by simp
  also have "\<dots> \<le> dec_val (acc * 10 + int (digit_val c)) s"
    using Cons by simp
  finally show ?case by simp
qed simp

lemma dec_val_uint_dec [simp]: "0 \<le> n \<Longrightarrow> dec_val 0 (uint_dec n) = n"
proof (induction n rule: uint_dec.induct)
  case (1 n)
  show ?case
  proof (cases "n < 10")
    case True
    with "1.prems" show ?thesis by (simp add: uint_dec.simps [of n] nat_less_iff)
  next
    case False
    with 1 show ?thesis by (simp add: uint_dec.simps [of n] dec_val_append nat_less_iff)
  qed
qed

section \<open>Strings\<close>

fun join :: "string \<Rightarrow> string list \<Rightarrow> string" where
  "join sep [] = []"
| "join sep [x] = x"
| "join sep (x # y # xs) = x @ sep @ join sep (y # xs)"

definition fmt_v_strings :: "string list \<Rightarrow> string" where
  "fmt_v_strings xs = ''['' @ join '' '' xs @ '']''"

text \<open>\<open>%v\<close> of a map prints its entries sorted by key; the map is its list of entries.\<close>

definition fmt_v_map :: "(string \<times> string) list \<Rightarrow> string" where
  "fmt_v_map m = ''map['' @ join '' '' (map (\<lambda>(k, v). k @ '':'' @ v) (sort_key fst m)) @ '']''"

definition hex_digit :: "nat \<Rightarrow> char" where
  "hex_digit d = ''0123456789abcdef'' ! d"

definition quote_char :: "char \<Rightarrow> string" where
  "quote_char c =
     (let n = of_char c :: nat; bs = CHR 0x5C in
      if n = 0x22 then [bs, CHR 0x22]
      else if n = 0x5C then [bs, bs]
      else if 32 \<le> n \<and> n \<noteq> 0x7F then [c]
      else if n = 7 then bs # ''a''
      else if n = 8 then bs # ''b''
      else if n = 12 then bs # ''f''
      else if n = 10 then bs # ''n''
      else if n = 13 then bs # ''r''
      else if n = 9 then bs # ''t''
      else if n = 11 then bs # ''v''
      else bs # CHR ''x'' # [hex_digit (n div 16), hex_digit (n mod 16)])"

definition go_quote :: "string \<Rightarrow> string" where
  "go_quote s = CHR 0x22 # concat (map quote_char s) @ [CHR 0x22]"

text \<open>U+2014 (em dash) in UTF-8, which several of the program's messages contain.\<close>

definition em_dash :: string where
  "em_dash = [CHR 0xE2, CHR 0x80, CHR 0x94]"

section \<open>Doubles\<close>

datatype float64 = F64 rat | F64_NegZero | F64_PInf | F64_NInf | F64_NaN

fun f64_num :: "float64 \<Rightarrow> rat" where
  "f64_num (F64 q) = q"
| "f64_num _ = 0"

definition f64_le :: "float64 \<Rightarrow> float64 \<Rightarrow> bool" where
  "f64_le x y \<longleftrightarrow> x \<noteq> F64_NaN \<and> y \<noteq> F64_NaN \<and>
     (x = F64_NInf \<or> y = F64_PInf \<or>
      (x \<noteq> F64_PInf \<and> y \<noteq> F64_NInf \<and> f64_num x \<le> f64_num y))"

definition f64_lt :: "float64 \<Rightarrow> float64 \<Rightarrow> bool" where
  "f64_lt x y \<longleftrightarrow> x \<noteq> F64_NaN \<and> y \<noteq> F64_NaN \<and> \<not> f64_le y x"

text \<open>The doubles nearest to the decimal constants of the source.\<close>

definition f64_0 :: float64 where "f64_0 = F64 0"
definition f64_0_3 :: float64 where "f64_0_3 = F64 (5404319552844595 / 18014398509481984)"
definition f64_0_6 :: float64 where "f64_0_6 = F64 (5404319552844595 / 9007199254740992)"
definition f64_0_7 :: float64 where "f64_0_7 = F64 (3152519739159347 / 4503599627370496)"
definition f64_0_9 :: float64 where "f64_0_9 = F64 (8106479329266893 / 9007199254740992)"
definition f64_1 :: float64 where "f64_1 = F64 1"

lemmas f64_consts = f64_0_def f64_0_3_def f64_0_6_def f64_0_7_def f64_0_9_def f64_1_def

lemma f64_le_finite [simp]: "f64_le (F64 a) (F64 b) \<longleftrightarrow> a \<le> b"
  by (simp add: f64_le_def)

lemma f64_lt_finite [simp]: "f64_lt (F64 a) (F64 b) \<longleftrightarrow> a < b"
  by (auto simp: f64_lt_def)

lemma f64_le_NaN [simp]: "\<not> f64_le F64_NaN y" "\<not> f64_le x F64_NaN"
  by (simp_all add: f64_le_def)

lemma f64_le_trans: "f64_le x y \<Longrightarrow> f64_le y z \<Longrightarrow> f64_le x z"
  by (auto simp: f64_le_def)

definition round_half_even :: "rat \<Rightarrow> int" where
  "round_half_even x =
     (let f = \<lfloor>x\<rfloor>; d = x - of_int f in
      if d < 1/2 then f else if 1/2 < d then f + 1 else if even f then f else f + 1)"

definition fmt_2f_finite :: "bool \<Rightarrow> rat \<Rightarrow> string" where
  "fmt_2f_finite neg q =
     (let h = round_half_even (\<bar>q\<bar> * 100) in
      (if neg then ''-'' else []) @ uint_dec (h div 100) @ ''.'' @
      [digit_char (nat (h mod 100 div 10)), digit_char (nat (h mod 10))])"

fun fmt_2f :: "float64 \<Rightarrow> string" where
  "fmt_2f (F64 q) = fmt_2f_finite (q < 0) q"
| "fmt_2f F64_NegZero = fmt_2f_finite True 0"
| "fmt_2f F64_PInf = ''+Inf''"
| "fmt_2f F64_NInf = ''-Inf''"
| "fmt_2f F64_NaN = ''NaN''"

end
