(* ===== verification/GoTime.thy ===== *)
theory GoTime
  imports GoFmt "HOL-Library.Word"
begin

text \<open>
  The part of Go's \<open>time\<close> package the program uses. A \<open>time.Duration\<close> is an int64 count of
  nanoseconds, here its 64-bit word (\<open>sint\<close> reads it), so that differences wrap where Go's
  wrap. A \<open>time.Time\<close> is its instant in nanoseconds since the Unix epoch and the offset of
  the location it is printed in; \<open>Time.Sub\<close> saturates as documented. \<open>ParseDuration\<close>,
  \<open>Duration.String\<close>, \<open>Duration.Round\<close>, and parsing and printing in RFC 3339 follow the
  package's algorithms.
\<close>

section \<open>Durations\<close>

type_synonym duration = "64 word"

definition Second :: duration where "Second = 1000000000"
definition Minute :: duration where "Minute = 60000000000"
definition Hour :: duration where "Hour = 3600000000000"

lemmas duration_consts = Second_def Minute_def Hour_def

definition minDuration :: duration where "minDuration = word_of_int (- (2 ^ 63))"
definition maxDuration :: duration where "maxDuration = word_of_int (2 ^ 63 - 1)"

definition saturate :: "int \<Rightarrow> duration" where
  "saturate i = (if 2 ^ 63 - 1 < i then maxDuration
                 else if i < - (2 ^ 63) then minDuration else word_of_int i)"

lemma sint_word_of_int_64:
  "- (2 ^ 63) \<le> i \<Longrightarrow> i < 2 ^ 63 \<Longrightarrow> sint (word_of_int i :: 64 word) = i"
  by (simp add: sint_word_ariths signed_take_bit_int_eq_self signed_of_int)

lemma sint_saturate: "sint (saturate i) = max (- (2 ^ 63)) (min (2 ^ 63 - 1) i)"
  by (auto simp: saturate_def maxDuration_def minDuration_def sint_word_of_int_64)

lemma sint_range_64: "- (2 ^ 63) \<le> sint (d :: 64 word)" "sint (d :: 64 word) < 2 ^ 63"
  using sint_ge [of d] sint_lt [of d] by simp_all

lemma sint_diff_64:
  fixes a b :: duration
  assumes "- (2 ^ 63) \<le> sint a - sint b" "sint a - sint b < 2 ^ 63"
  shows "sint (a - b) = sint a - sint b"
proof -
  have "a - b = word_of_int (sint a - sint b)" by simp
  then show ?thesis using assms by (simp only: sint_word_of_int_64)
qed

text \<open>\<open>lessThanHalf\<close> is on uint64; \<open>%\<close> truncates towards zero.\<close>

definition lessThanHalf :: "duration \<Rightarrow> duration \<Rightarrow> bool" where
  "lessThanHalf x y \<longleftrightarrow> x + x < y"

definition dur_rem :: "duration \<Rightarrow> duration \<Rightarrow> duration" where
  "dur_rem d m = word_of_int (sgn (sint d) * (\<bar>sint d\<bar> mod \<bar>sint m\<bar>))"

definition Duration_Round :: "duration \<Rightarrow> duration \<Rightarrow> duration" where
  "Duration_Round d m =
     (if sint m \<le> 0 then d
      else if sint d < 0 then
        (let r = - dur_rem d m in
         if lessThanHalf r m then d + r
         else let d1 = d - m + r in if sint d1 < sint d then d1 else minDuration)
      else
        (let r = dur_rem d m in
         if lessThanHalf r m then d - r
         else let d1 = d + m - r in if sint d < sint d1 then d1 else maxDuration))"

text \<open>
  \<open>fmtFrac\<close> prints the last \<open>prec\<close> decimal digits of \<open>v\<close> as a fraction without trailing
  zeros, in front of what is already in the buffer, and returns the rest of \<open>v\<close>.
\<close>

fun fmtFrac :: "nat \<Rightarrow> int \<Rightarrow> bool \<Rightarrow> string \<Rightarrow> string \<times> int" where
  "fmtFrac 0 v print buf = ((if print then ''.'' @ buf else buf), v)"
| "fmtFrac (Suc i) v print buf =
     (let digit = v mod 10; print' = (print \<or> digit \<noteq> 0) in
      fmtFrac i (v div 10) print' (if print' then digit_char (nat digit) # buf else buf))"

definition micro_sign :: string where
  "micro_sign = [CHR 0xC2, CHR 0xB5]"

definition fmt_with_unit :: "nat \<Rightarrow> int \<Rightarrow> string \<Rightarrow> string" where
  "fmt_with_unit prec u suffix = (case fmtFrac prec u False suffix of (buf, v) \<Rightarrow> uint_dec v @ buf)"

definition Duration_String_abs :: "int \<Rightarrow> string" where
  "Duration_String_abs u =
     (if u = 0 then ''0s''
      else if u < 1000 then fmt_with_unit 0 u ''ns''
      else if u < 1000000 then fmt_with_unit 3 u (micro_sign @ ''s'')
      else if u < 1000000000 then fmt_with_unit 6 u ''ms''
      else case fmtFrac 9 u False ''s'' of (buf, s) \<Rightarrow>
        let secs = uint_dec (s mod 60) @ buf; mins = s div 60 in
        if mins = 0 then secs
        else let with_m = uint_dec (mins mod 60) @ ''m'' @ secs; hours = mins div 60 in
          if hours = 0 then with_m else uint_dec hours @ ''h'' @ with_m)"

definition Duration_String :: "duration \<Rightarrow> string" where
  "Duration_String d =
     (if sint d < 0 then ''-'' @ Duration_String_abs (uint (- d)) else Duration_String_abs (uint d))"

section \<open>ParseDuration\<close>

datatype duration_error =
    InvalidDuration string
  | MissingUnit string
  | UnknownUnit string string

text \<open>\<open>leadingInt\<close> works on uint64 and stops at a value above \<open>1<<63\<close>.\<close>

fun leadingInt :: "string \<Rightarrow> 64 word \<Rightarrow> (64 word \<times> string) option" where
  "leadingInt [] x = Some (x, [])"
| "leadingInt (c # s) x =
     (if \<not> is_digit c then Some (x, c # s)
      else if 922337203685477580 < x then None
      else let x' = x * 10 + of_nat (digit_val c) in
        if 2 ^ 63 < x' then None else leadingInt s x')"

text \<open>
  Rounding to 53 significant bits, ties to even. The fraction of a duration is scaled in
  doubles; no exponent bound is needed, since a scale that large leaves less than one
  nanosecond, which the conversion to uint64 drops.
\<close>

definition pow2_rat :: "int \<Rightarrow> rat" where
  "pow2_rat k = (if 0 \<le> k then 2 ^ nat k else 1 / 2 ^ nat (- k))"

definition f64_round :: "rat \<Rightarrow> rat" where
  "f64_round q =
     (if q \<le> 0 then 0
      else let (a, b) = quotient_of q; k = bitlen a - bitlen b - 53;
               k' = (if q / pow2_rat k < 2 ^ 53 then k else k + 1) in
        of_int (round_half_even (q / pow2_rat k')) * pow2_rat k')"

fun leadingFraction :: "string \<Rightarrow> 64 word \<Rightarrow> rat \<Rightarrow> bool \<Rightarrow> 64 word \<times> rat \<times> string" where
  "leadingFraction [] x scale overflow = (x, scale, [])"
| "leadingFraction (c # s) x scale overflow =
     (if \<not> is_digit c then (x, scale, c # s)
      else if overflow then leadingFraction s x scale overflow
      else if 922337203685477580 < x then leadingFraction s x scale True
      else let y = x * 10 + of_nat (digit_val c) in
        if 2 ^ 63 < y then leadingFraction s x scale True
        else leadingFraction s y (f64_round (scale * 10)) overflow)"

definition unitMap :: "string \<Rightarrow> 64 word option" where
  "unitMap u =
     (if u = ''ns'' then Some 1
      else if u = ''us'' \<or> u = [CHR 0xC2, CHR 0xB5, CHR ''s''] \<or> u = [CHR 0xCE, CHR 0xBC, CHR ''s'']
        then Some 1000
      else if u = ''ms'' then Some 1000000
      else if u = ''s'' then Some Second
      else if u = ''m'' then Some Minute
      else if u = ''h'' then Some Hour
      else None)"

definition is_unit_char :: "char \<Rightarrow> bool" where
  "is_unit_char c \<longleftrightarrow> c \<noteq> CHR ''.'' \<and> \<not> is_digit c"

definition scaleFraction :: "64 word \<Rightarrow> 64 word \<Rightarrow> rat \<Rightarrow> 64 word" where
  "scaleFraction f unit scale =
     word_of_int \<lfloor>f64_round (f64_round (of_int (uint f)) * f64_round (of_int (uint unit) / scale))\<rfloor>"

text \<open>
  One round of the loop: a number, its optional fraction (\<open>optFraction\<close>: value, scale, rest
  of the input, whether it has digits) and its unit (\<open>applyUnit\<close>).
\<close>

definition optFraction :: "string \<Rightarrow> 64 word \<times> rat \<times> string \<times> bool" where
  "optFraction s =
     (case s of
        [] \<Rightarrow> (0, 1, s, False)
      | c # t \<Rightarrow>
        if c = CHR ''.'' then
          (case leadingFraction t 0 1 False of
             (f, scale, t') \<Rightarrow> (f, scale, t', length t' \<noteq> length t))
        else (0, 1, s, False))"

definition applyUnit ::
    "string \<Rightarrow> 64 word \<Rightarrow> 64 word \<Rightarrow> rat \<Rightarrow> string \<Rightarrow> duration_error + (64 word \<times> string)" where
  "applyUnit orig v f scale s =
     (let u = takeWhile is_unit_char s; rest = dropWhile is_unit_char s in
      if u = [] then Inl (MissingUnit orig)
      else case unitMap u of
        None \<Rightarrow> Inl (UnknownUnit u orig)
      | Some unit \<Rightarrow>
        if 2 ^ 63 div unit < v then Inl (InvalidDuration orig)
        else let v1 = v * unit in
          if 0 < f then
            (let v2 = v1 + scaleFraction f unit scale in
             if 2 ^ 63 < v2 then Inl (InvalidDuration orig) else Inr (v2, rest))
          else Inr (v1, rest))"

definition parseElement :: "string \<Rightarrow> string \<Rightarrow> duration_error + (64 word \<times> string)" where
  "parseElement orig s =
     (if s = [] \<or> \<not> (hd s = CHR ''.'' \<or> is_digit (hd s)) then Inl (InvalidDuration orig)
      else case leadingInt s 0 of
        None \<Rightarrow> Inl (InvalidDuration orig)
      | Some (v, s1) \<Rightarrow>
        (case optFraction s1 of (f, scale, s2, post) \<Rightarrow>
          if length s1 = length s \<and> \<not> post then Inl (InvalidDuration orig)
          else applyUnit orig v f scale s2))"

lemma leadingInt_length: "leadingInt s x = Some (y, t) \<Longrightarrow> length t \<le> length s"
  by (induction s x arbitrary: y t rule: leadingInt.induct)
     (auto simp: Let_def split: if_splits intro: le_SucI)

lemma leadingFraction_length: "leadingFraction s x sc ov = (y, sc', t) \<Longrightarrow> length t \<le> length s"
  by (induction s x sc ov arbitrary: y sc' t rule: leadingFraction.induct)
     (auto simp: Let_def split: if_splits intro: le_SucI)

lemma optFraction_length: "optFraction s = (f, scale, t, post) \<Longrightarrow> length t \<le> length s"
  by (auto simp: optFraction_def dest: leadingFraction_length
           split: list.splits if_splits prod.splits intro: le_SucI)

lemma dropWhile_shorter: "takeWhile p s \<noteq> [] \<Longrightarrow> length (dropWhile p s) < length s"
  by (cases s) (auto simp: le_imp_less_Suc length_dropWhile_le split: if_splits)

lemma applyUnit_length: "applyUnit orig v f scale s = Inr (w, t) \<Longrightarrow> length t < length s"
  by (auto simp: applyUnit_def Let_def dropWhile_shorter split: if_splits option.splits)

lemma parseElement_length: "parseElement orig s = Inr (v, t) \<Longrightarrow> length t < length s"
  by (auto simp: parseElement_def split: if_splits option.splits prod.splits
           dest!: leadingInt_length optFraction_length applyUnit_length)

function parseElements :: "string \<Rightarrow> string \<Rightarrow> 64 word \<Rightarrow> duration_error + 64 word" where
  "parseElements orig s d =
     (if s = [] then Inr d
      else case parseElement orig s of
        Inl e \<Rightarrow> Inl e
      | Inr (v, s') \<Rightarrow>
        let d' = d + v in
        if 2 ^ 63 < d' then Inl (InvalidDuration orig) else parseElements orig s' d')"
  by pat_completeness auto
termination
  by (relation "measure (\<lambda>(orig, s, d). length s)") (auto dest: parseElement_length)

declare parseElements.simps [simp del]

definition ParseDuration :: "string \<Rightarrow> duration_error + duration" where
  "ParseDuration s =
     (let neg = (case s of c # _ \<Rightarrow> c = CHR ''-'' | [] \<Rightarrow> False);
          s' = (case s of c # t \<Rightarrow> if c = CHR ''-'' \<or> c = CHR ''+'' then t else s | [] \<Rightarrow> s) in
      if s' = ''0'' then Inr 0
      else if s' = [] then Inl (InvalidDuration s)
      else case parseElements s s' 0 of
        Inl e \<Rightarrow> Inl e
      | Inr d \<Rightarrow> if neg then Inr (- d)
                 else if 2 ^ 63 - 1 < d then Inl (InvalidDuration s) else Inr d)"

section \<open>Parsing a numeral\<close>

lemma digit_val_le: "is_digit c \<Longrightarrow> digit_val c \<le> 9"
  by (auto simp: is_digit_def digit_val_def)

lemma uint_word_of_int_64: "0 \<le> i \<Longrightarrow> i < 2 ^ 64 \<Longrightarrow> uint (word_of_int i :: 64 word) = i"
  by (simp add: uint_word_of_int)

lemma word_of_int_less_64:
  "0 \<le> i \<Longrightarrow> i < 2 ^ 64 \<Longrightarrow> (w :: 64 word) < word_of_int i \<longleftrightarrow> uint w < i"
  by (simp only: word_less_def uint_word_of_int_64)

lemma leadingInt_step:
  assumes "is_digit c" "0 \<le> acc" "acc \<le> 2 ^ 63"
  shows "leadingInt (c # s) (word_of_int acc) =
     (if 2 ^ 63 < acc * 10 + int (digit_val c) then None
      else leadingInt s (word_of_int (acc * 10 + int (digit_val c))))"
proof -
  let ?d = "int (digit_val c)"
  have d: "?d \<le> 9" using digit_val_le [OF assms(1)] by simp
  have acc: "922337203685477580 < (word_of_int acc :: 64 word) \<longleftrightarrow> 922337203685477580 < acc"
    using assms(2,3) by (simp add: word_of_int_less_64)
  show ?thesis
  proof (cases "922337203685477580 < acc")
    case True
    then show ?thesis using assms d by (simp add: acc)
  next
    case False
    have step: "(word_of_int acc :: 64 word) * 10 + of_nat (digit_val c) = word_of_int (acc * 10 + ?d)"
      by simp
    have "2 ^ 63 < (word_of_int (acc * 10 + ?d) :: 64 word) \<longleftrightarrow> 2 ^ 63 < acc * 10 + ?d"
      using False assms(2) d by (simp add: word_of_int_less_64 del: of_int_add of_int_mult)
    then show ?thesis using False assms(1) unfolding leadingInt.simps Let_def acc step by simp
  qed
qed

lemma leadingInt_numeral:
  assumes "list_all is_digit ds" "\<not> is_digit (hd t)" "0 \<le> acc" "acc \<le> 2 ^ 63"
  shows "leadingInt (ds @ t) (word_of_int acc) =
     (if dec_val acc ds \<le> 2 ^ 63 then Some (word_of_int (dec_val acc ds), t) else None)"
  using assms
proof (induction ds arbitrary: acc)
  case Nil
  then show ?case by (cases t) auto
next
  case (Cons c ds)
  let ?acc = "acc * 10 + int (digit_val c)"
  have ge: "?acc \<le> dec_val ?acc ds" using Cons.prems(3) by (intro dec_val_ge) simp
  have c: "is_digit c" and ds: "list_all is_digit ds" using Cons.prems(1) by simp_all
  note step = leadingInt_step [OF c Cons.prems(3,4), of "ds @ t"]
  show ?case
  proof (cases "2 ^ 63 < ?acc")
    case True
    with ge show ?thesis unfolding append_Cons step dec_val.simps by simp
  next
    case False
    with Cons.IH [OF ds Cons.prems(2), of ?acc] Cons.prems(3) show ?thesis
      unfolding append_Cons step dec_val.simps by (simp only: if_False)
  qed
qed

text \<open>A whole number of hours is read exactly, up to the largest that an int64 of nanoseconds holds.\<close>

lemma ParseDuration_hours:
  assumes "0 \<le> n"
  shows "ParseDuration (uint_dec n @ ''h'') =
     (if n \<le> 2562047 then Inr (word_of_int (n * 3600000000000))
      else Inl (InvalidDuration (uint_dec n @ ''h'')))"
proof -
  let ?s = "uint_dec n @ ''h''"
  obtain c cs where s: "uint_dec n = c # cs" by (cases "uint_dec n") simp_all
  have digits: "list_all is_digit (uint_dec n)"
    using uint_dec_digits [OF assms] by (auto simp: list_all_iff)
  then have c: "is_digit c" by (simp add: s)
  then have sign: "c \<noteq> CHR ''-''" "c \<noteq> CHR ''+''" by (auto simp: is_digit_def)
  have hd: "hd (uint_dec n) = c" by (simp add: s)
  have lead: "leadingInt ?s 0 = (if n \<le> 2 ^ 63 then Some (word_of_int n, ''h'') else None)"
    using leadingInt_numeral [OF digits, of "''h''" 0] assms by (simp add: is_digit_def)
  have frac: "optFraction ''h'' = (0, 1, ''h'', False)"
    by (simp add: optFraction_def)
  have "applyUnit ?s (word_of_int n) 0 1 ''h'' =
      (if n \<le> 2562047 then Inr (word_of_int (n * 3600000000000), '''') else Inl (InvalidDuration ?s))"
    if "n \<le> 2 ^ 63"
  proof -
    have "2562047 < (word_of_int n :: 64 word) \<longleftrightarrow> 2562047 < n"
      using assms that by (simp add: word_of_int_less_64)
    then show ?thesis
      by (auto simp: applyUnit_def unitMap_def Hour_def is_unit_char_def is_digit_def)
  qed
  then have "parseElement ?s ?s = (if n \<le> 2562047 then Inr (word_of_int (n * 3600000000000), '''')
      else Inl (InvalidDuration ?s))"
    using c hd by (auto simp: parseElement_def lead frac)
  moreover have "uint (word_of_int (n * 3600000000000) :: 64 word) = n * 3600000000000" if "n \<le> 2562047"
    using that assms by (intro uint_word_of_int_64) auto
  ultimately show ?thesis
    using sign
    by (auto simp: ParseDuration_def s parseElements.simps [of _ "_ # _"] parseElements.simps [of _ "[]"]
        word_less_def Let_def)
qed

end
