(* ===== verification/GoCalendar.thy ===== *)
theory GoCalendar
  imports GoTime
begin

text \<open>
  Instants: Go's \<open>time.Time\<close> as the program uses it, with the proleptic Gregorian calendar
  and RFC 3339 (\<open>time.Parse(time.RFC3339, s)\<close>, \<open>t.Format(time.RFC3339)\<close>). The parser
  follows the general layout parser of the package on the layout
  \<open>2006-01-02T15:04:05Z07:00\<close>, including what it tolerates: a one-digit hour, a fraction
  of a second after a dot or a comma, offsets up to 24 hours and 60 minutes.
\<close>

section \<open>Instants\<close>

record gotime =
  unix_ns :: int
  zone_off :: int

definition UTC :: "gotime \<Rightarrow> gotime" where
  "UTC t = t\<lparr>zone_off := 0\<rparr>"

definition Time_Before :: "gotime \<Rightarrow> gotime \<Rightarrow> bool" where
  "Time_Before t u \<longleftrightarrow> unix_ns t < unix_ns u"

definition Time_Sub :: "gotime \<Rightarrow> gotime \<Rightarrow> duration" where
  "Time_Sub t u = saturate (unix_ns t - unix_ns u)"

lemma UTC_simps [simp]: "unix_ns (UTC t) = unix_ns t" "zone_off (UTC t) = 0"
  by (simp_all add: UTC_def)

lemma sint_Time_Sub:
  "sint (Time_Sub t u) = max (- (2 ^ 63)) (min (2 ^ 63 - 1) (unix_ns t - unix_ns u))"
  by (simp add: Time_Sub_def sint_saturate)

section \<open>The calendar\<close>

definition is_leap :: "int \<Rightarrow> bool" where
  "is_leap y \<longleftrightarrow> y mod 4 = 0 \<and> (y mod 100 \<noteq> 0 \<or> y mod 400 = 0)"

definition days_in :: "nat \<Rightarrow> int \<Rightarrow> int" where
  "days_in m y = (if m = 2 then (if is_leap y then 29 else 28)
                  else if m \<in> {4, 6, 9, 11} then 30 else 31)"

text \<open>Days from 1 January of the year 0 to the start of a year, and of a month in its year.\<close>

definition days_before_year :: "int \<Rightarrow> int" where
  "days_before_year y = 365 * y + (y + 3) div 4 - (y + 99) div 100 + (y + 399) div 400"

fun days_before_month :: "nat \<Rightarrow> int \<Rightarrow> int" where
  "days_before_month 0 y = 0"
| "days_before_month (Suc m) y = (if m = 0 then 0 else days_before_month m y + days_in m y)"

definition day_number :: "int \<Rightarrow> nat \<Rightarrow> int \<Rightarrow> int" where
  "day_number y m d = days_before_year y + days_before_month m y + (d - 1)"

definition year_of_day :: "int \<Rightarrow> int" where
  "year_of_day z =
     (let y = (400 * z) div 146097 in
      if z < days_before_year y then y - 1
      else if days_before_year (y + 1) \<le> z then y + 1 else y)"

fun month_of_day :: "nat \<Rightarrow> int \<Rightarrow> int \<Rightarrow> nat" where
  "month_of_day 0 y r = 1"
| "month_of_day (Suc m) y r = (if days_before_month (Suc m) y \<le> r then Suc m else month_of_day m y r)"

definition civil_of_day :: "int \<Rightarrow> int \<times> nat \<times> int" where
  "civil_of_day z =
     (let y = year_of_day z; r = z - days_before_year y; m = month_of_day 12 y r in
      (y, m, r - days_before_month m y + 1))"

definition epoch_day :: int where
  "epoch_day = 719528"

section \<open>Parsing RFC 3339\<close>

definition expect :: "char \<Rightarrow> string \<Rightarrow> string option" where
  "expect c s = (case s of x # t \<Rightarrow> if x = c then Some t else None | [] \<Rightarrow> None)"

definition getnum :: "bool \<Rightarrow> string \<Rightarrow> (int \<times> string) option" where
  "getnum fixed s =
     (case s of
        [] \<Rightarrow> None
      | a # t \<Rightarrow>
        if \<not> is_digit a then None
        else (case t of
            b # t' \<Rightarrow> if is_digit b then Some (dec_val 0 [a, b], t')
                      else if fixed then None else Some (int (digit_val a), t)
          | [] \<Rightarrow> if fixed then None else Some (int (digit_val a), t)))"

definition getnum_in :: "bool \<Rightarrow> int \<Rightarrow> int \<Rightarrow> string \<Rightarrow> (int \<times> string) option" where
  "getnum_in fixed lo hi s =
     (case getnum fixed s of
        None \<Rightarrow> None
      | Some (n, t) \<Rightarrow> if lo \<le> n \<and> n \<le> hi then Some (n, t) else None)"

definition parse_year :: "string \<Rightarrow> (int \<times> string) option" where
  "parse_year s = (if 4 \<le> length s \<and> list_all is_digit (take 4 s)
                   then Some (dec_val 0 (take 4 s), drop 4 s) else None)"

definition parse_fraction :: "string \<Rightarrow> int \<times> string" where
  "parse_fraction s =
     (if 2 \<le> length s \<and> (hd s = CHR ''.'' \<or> hd s = CHR '','') \<and> is_digit (s ! 1) then
        (let ds = takeWhile is_digit (tl s); used = take 9 ds in
         (dec_val 0 used * 10 ^ (9 - length used), drop (length ds) (tl s)))
      else (0, s))"

definition parse_zone :: "string \<Rightarrow> (int \<times> string) option" where
  "parse_zone s =
     (case s of
        [] \<Rightarrow> None
      | c # t \<Rightarrow>
        if c = CHR ''Z'' then Some (0, t)
        else if length s < 6 \<or> s ! 3 \<noteq> CHR '':'' \<or> (c \<noteq> CHR ''+'' \<and> c \<noteq> CHR ''-'') then None
        else (case getnum_in True 0 24 (take 2 t) of
            None \<Rightarrow> None
          | Some (h, _) \<Rightarrow>
            (case getnum_in True 0 60 (take 2 (drop 3 t)) of
               None \<Rightarrow> None
             | Some (m, _) \<Rightarrow>
               let off = (h * 60 + m) * 60 in
               Some (if c = CHR ''-'' then - off else off, drop 6 s))))"

definition bind2 :: "(int \<times> string) option \<Rightarrow> (int \<Rightarrow> string \<Rightarrow> 'a option) \<Rightarrow> 'a option" where
  "bind2 r f = (case r of None \<Rightarrow> None | Some (n, s) \<Rightarrow> f n s)"

definition ParseRFC3339 :: "string \<Rightarrow> gotime option" where
  "ParseRFC3339 s =
     bind2 (parse_year s) (\<lambda>y s.
     Option.bind (expect (CHR ''-'') s) (\<lambda>s.
     bind2 (getnum_in True 1 12 s) (\<lambda>mo s.
     Option.bind (expect (CHR ''-'') s) (\<lambda>s.
     bind2 (getnum True s) (\<lambda>d s.
     Option.bind (expect (CHR ''T'') s) (\<lambda>s.
     bind2 (getnum_in False 0 23 s) (\<lambda>hh s.
     Option.bind (expect (CHR '':'') s) (\<lambda>s.
     bind2 (getnum_in True 0 59 s) (\<lambda>mm s.
     Option.bind (expect (CHR '':'') s) (\<lambda>s.
     bind2 (getnum_in True 0 59 s) (\<lambda>ss s.
     case parse_fraction s of (ns, s) \<Rightarrow>
     bind2 (parse_zone s) (\<lambda>off s.
       if s \<noteq> [] \<or> d < 1 \<or> days_in (nat mo) y < d then None
       else Some \<lparr>unix_ns =
              (((day_number y (nat mo) d - epoch_day) * 86400 + hh * 3600 + mm * 60 + ss - off)
               * 1000000000 + ns),
            zone_off = off\<rparr>))))))))))))"

section \<open>Printing RFC 3339\<close>

definition pad_dec :: "nat \<Rightarrow> int \<Rightarrow> string" where
  "pad_dec w i = (let ds = uint_dec \<bar>i\<bar> in
     (if i < 0 then ''-'' else []) @ replicate (w - length ds) (CHR ''0'') @ ds)"

definition format_zone :: "int \<Rightarrow> string" where
  "format_zone off =
     (if off = 0 then ''Z''
      else let zone = sgn off * (\<bar>off\<bar> div 60) in
        (if zone < 0 then ''-'' else ''+'') @ pad_dec 2 (\<bar>zone\<bar> div 60) @ '':'' @ pad_dec 2 (\<bar>zone\<bar> mod 60))"

definition FormatRFC3339 :: "gotime \<Rightarrow> string" where
  "FormatRFC3339 t =
     (let secs = unix_ns t div 1000000000 + zone_off t; r = secs mod 86400 in
      case civil_of_day (secs div 86400 + epoch_day) of (y, m, d) \<Rightarrow>
        pad_dec 4 y @ ''-'' @ pad_dec 2 (int m) @ ''-'' @ pad_dec 2 d @ ''T'' @
        pad_dec 2 (r div 3600) @ '':'' @ pad_dec 2 (r mod 3600 div 60) @ '':'' @ pad_dec 2 (r mod 60) @
        format_zone (zone_off t))"

section \<open>The calendar is exact\<close>

lemma ceil_div:
  fixes y n :: int
  assumes "0 < n"
  shows "(y + (n - 1)) div n = y div n + (if y mod n = 0 then 0 else 1)"
proof -
  have "y + (n - 1) = (y mod n + (n - 1)) + n * (y div n)" by simp
  then have eq: "(y + (n - 1)) div n = y div n + (y mod n + (n - 1)) div n"
    using assms by (metis div_mult_self2 add.commute less_irrefl)
  have mod: "0 \<le> y mod n" "y mod n < n" using assms by simp_all
  show ?thesis
  proof (cases "y mod n = 0")
    case True
    with eq assms show ?thesis by simp
  next
    case False
    have "y mod n + (n - 1) = (y mod n - 1) + n * 1" by simp
    then have "(y mod n + (n - 1)) div n = 1 + (y mod n - 1) div n"
      using assms by (metis div_mult_self2 less_irrefl)
    also have "(y mod n - 1) div n = 0" using mod False by (intro div_pos_pos_trivial) auto
    finally show ?thesis using eq False by simp
  qed
qed

lemma days_before_year_eq:
  "days_before_year y = 365 * y + (y div 4 + (if y mod 4 = 0 then 0 else 1))
     - (y div 100 + (if y mod 100 = 0 then 0 else 1)) + (y div 400 + (if y mod 400 = 0 then 0 else 1))"
proof -
  have "(y + 3) div 4 = y div 4 + (if y mod 4 = 0 then 0 else 1)" using ceil_div [of 4 y] by simp
  moreover have "(y + 99) div 100 = y div 100 + (if y mod 100 = 0 then 0 else 1)"
    using ceil_div [of 100 y] by simp
  moreover have "(y + 399) div 400 = y div 400 + (if y mod 400 = 0 then 0 else 1)"
    using ceil_div [of 400 y] by simp
  ultimately show ?thesis unfolding days_before_year_def by presburger
qed

lemma days_after_year_eq:
  "days_before_year (y + 1) = 365 * (y + 1) + (y div 4 + 1) - (y div 100 + 1) + (y div 400 + 1)"
  by (simp add: days_before_year_def)

lemma year_length:
  "days_before_year (y + 1) = days_before_year y + (if is_leap y then 366 else 365)"
proof -
  have step: "365 * (y + 1) + (a + 1) - (b + 1) + (c + 1) =
      365 * y + (a + (if p then 0 else 1)) - (b + (if q then 0 else 1)) + (c + (if r then 0 else 1))
      + (if p \<and> (\<not> q \<or> r) then 366 else 365)"
    if "q \<longrightarrow> p" "r \<longrightarrow> q" for a b c :: int and p q r
    using that by (cases p; cases q; cases r) simp_all
  have "y mod 100 = 0 \<longrightarrow> y mod 4 = 0" "y mod 400 = 0 \<longrightarrow> y mod 100 = 0" by presburger+
  then show ?thesis
    unfolding days_after_year_eq days_before_year_eq [of y] is_leap_def by (rule step)
qed

lemma ceil_div_bounds:
  fixes y n :: int
  assumes "0 < n"
  shows "y \<le> n * ((y + (n - 1)) div n)" "n * ((y + (n - 1)) div n) \<le> y + (n - 1)"
  using assms pos_mod_bound [of n "y + (n - 1)"] pos_mod_sign [of n "y + (n - 1)"]
    mult_div_mod_eq [of n "y + (n - 1)"] by linarith+

lemma days_before_year_bounds:
  "146097 * y - 396 \<le> 400 * days_before_year y" "400 * days_before_year y \<le> 146097 * y + 699"
proof -
  have b: "y \<le> 4 * ((y + 3) div 4)" "4 * ((y + 3) div 4) \<le> y + 3"
    "y \<le> 100 * ((y + 99) div 100)" "100 * ((y + 99) div 100) \<le> y + 99"
    "y \<le> 400 * ((y + 399) div 400)" "400 * ((y + 399) div 400) \<le> y + 399"
    using ceil_div_bounds [of 4 y] ceil_div_bounds [of 100 y] ceil_div_bounds [of 400 y] by simp_all
  show "146097 * y - 396 \<le> 400 * days_before_year y" "400 * days_before_year y \<le> 146097 * y + 699"
    unfolding days_before_year_def using b by (simp_all add: algebra_simps)
qed

lemma year_of_day:
  "days_before_year (year_of_day z) \<le> z" "z < days_before_year (year_of_day z + 1)"
proof -
  define k where "k = (400 * z) div 146097"
  have eq: "400 * z = 146097 * k + (400 * z) mod 146097"
    unfolding k_def by (rule mult_div_mod_eq [symmetric])
  have y: "146097 * k \<le> 400 * z" "400 * z < 146097 * k + 146097"
    using pos_mod_bound [of 146097 "400 * z"] pos_mod_sign [of 146097 "400 * z"] eq by linarith+
  have low: "days_before_year (k - 1) \<le> z" using days_before_year_bounds(2) [of "k - 1"] y by (simp add: algebra_simps)
  have high: "z < days_before_year (k + 1 + 1)"
    using days_before_year_bounds(1) [of "k + 1 + 1"] y by (simp add: algebra_simps)
  have def: "year_of_day z = (if z < days_before_year k then k - 1
      else if days_before_year (k + 1) \<le> z then k + 1 else k)"
    unfolding year_of_day_def k_def by (simp only: Let_def)
  show "days_before_year (year_of_day z) \<le> z" using low unfolding def by simp
  show "z < days_before_year (year_of_day z + 1)" using high unfolding def by simp
qed

lemma month_of_day_bounds:
  assumes "0 \<le> r"
  shows "1 \<le> month_of_day n y r" "month_of_day n y r \<le> max 1 n"
    "days_before_month (month_of_day n y r) y \<le> r"
    "month_of_day n y r < n \<Longrightarrow> r < days_before_month (Suc (month_of_day n y r)) y"
proof (induction n)
  case 0
  { case 1 then show ?case by simp next case 2 then show ?case by simp
    next case 3 with assms show ?case by simp next case 4 then show ?case by simp }
next
  case (Suc n)
  { case 1 then show ?case using Suc by simp next case 2 then show ?case using Suc by auto
    next case 3 then show ?case using Suc by simp
    next case 4
      show ?case
      proof (cases "days_before_month (Suc n) y \<le> r")
        case True
        with 4 show ?thesis by simp
      next
        case False
        then have eq: "month_of_day (Suc n) y r = month_of_day n y r" by simp
        show ?thesis
        proof (cases "month_of_day n y r < n")
          case True
          with Suc eq show ?thesis by simp
        next
          case notless: False
          with Suc have "month_of_day n y r = n \<or> n = 0" by auto
          then show ?thesis using False eq assms Suc(1) by auto
        qed
      qed }
qed

lemma year_months: "days_before_month 13 y = (if is_leap y then 366 else 365)"
  by (simp add: eval_nat_numeral days_in_def)

lemma civil_of_day_correct:
  assumes "civil_of_day z = (y, m, d)"
  shows "day_number y m d = z" "1 \<le> m" "m \<le> 12" "1 \<le> d" "d \<le> days_in m y" "y = year_of_day z"
proof -
  let ?y = "year_of_day z"
  let ?r = "z - days_before_year ?y"
  let ?m = "month_of_day 12 ?y ?r"
  have r: "0 \<le> ?r" "?r < days_before_month 13 ?y"
    using year_of_day [of z] year_length [of ?y] by (simp_all add: year_months split: if_splits)
  have eqs: "y = ?y" "m = ?m" "d = ?r - days_before_month ?m ?y + 1"
    using assms by (auto simp: civil_of_day_def Let_def)
  note m = month_of_day_bounds [OF r(1), of 12 ?y]
  have "?m \<le> 12" using m(2) by simp
  then have "?r < days_before_month (Suc ?m) ?y"
    using m(4) r(2) by (cases "?m = 12") (auto simp: eval_nat_numeral)
  also have "\<dots> = days_before_month ?m ?y + days_in ?m ?y" using m(1) by (simp del: month_of_day.simps)
  finally have "d \<le> days_in m y" by (simp add: eqs)
  with m(1,3) \<open>?m \<le> 12\<close> show "day_number y m d = z" "1 \<le> m" "m \<le> 12" "1 \<le> d" "d \<le> days_in m y" "y = ?y"
    by (simp_all add: eqs day_number_def)
qed

section \<open>What is printed is read back\<close>

lemma uint_dec_length: "0 \<le> n \<Longrightarrow> n < 10 ^ w \<Longrightarrow> 0 < w \<Longrightarrow> length (uint_dec n) \<le> w"
proof (induction n arbitrary: w rule: uint_dec.induct)
  case (1 n)
  show ?case
  proof (cases "n < 10")
    case True
    with "1.prems" show ?thesis by (simp add: uint_dec.simps [of n])
  next
    case False
    then obtain v where w: "w = Suc v" "0 < v" using "1.prems" by (cases w; cases "w - 1") auto
    have "n < 10 * 10 ^ v" using "1.prems" w by simp
    then have "n div 10 < 10 ^ v" by linarith
    then have "length (uint_dec (n div 10)) \<le> v" using False "1.prems" w by (intro "1.IH") auto
    then show ?thesis using False w by (simp add: uint_dec.simps [of n])
  qed
qed

lemma dec_val_zeros [simp]: "dec_val 0 (replicate k (CHR ''0'') @ s) = dec_val 0 s"
  by (induction k) (simp_all add: digit_val_def)

lemma pad_dec_reads_back:
  assumes "0 \<le> i" "i < 10 ^ w" "0 < w"
  shows "length (pad_dec w i) = w" "list_all is_digit (pad_dec w i)" "dec_val 0 (pad_dec w i) = i"
  using assms uint_dec_length [OF assms] uint_dec_digits [of i]
  by (auto simp: pad_dec_def Let_def list_all_iff is_digit_def)

lemma bind2_Some [simp]: "bind2 (Some (n, s)) f = f n s"
  by (simp add: bind2_def)

lemma expect_Cons [simp]: "expect c (c # s) = Some s"
  by (simp add: expect_def)

lemma parse_year_pad_dec [simp]:
  assumes "0 \<le> y" "y < 10000"
  shows "parse_year (pad_dec 4 y @ s) = Some (y, s)"
  using pad_dec_reads_back [of y 4] assms by (simp add: parse_year_def)

lemma getnum_pad_dec [simp]:
  assumes "0 \<le> i" "i < 100"
  shows "getnum fixed (pad_dec 2 i @ s) = Some (i, s)"
proof -
  note two = pad_dec_reads_back [of i 2]
  obtain a b where "pad_dec 2 i = [a, b]"
    using two(1) assms by (auto simp: numeral_2_eq_2 length_Suc_conv)
  then show ?thesis using two(2,3) assms by (simp add: getnum_def)
qed

lemma getnum_in_pad_dec [simp]:
  assumes "0 \<le> i" "i < 100" "lo \<le> i" "i \<le> hi"
  shows "getnum_in fixed lo hi (pad_dec 2 i @ s) = Some (i, s)"
  using assms by (simp add: getnum_in_def)

lemma parse_zone_Z [simp]: "parse_fraction ''Z'' = (0, ''Z'')" "parse_zone ''Z'' = Some (0, [])"
  by (simp_all add: parse_fraction_def parse_zone_def)

lemma days_in_le: "days_in m y \<le> 31"
  by (simp add: days_in_def)

lemma ParseRFC3339_fields:
  assumes "0 \<le> y" "y < 10000" "1 \<le> m" "m \<le> 12" "1 \<le> d" "d \<le> days_in m y"
    "0 \<le> hh" "hh \<le> 23" "0 \<le> mm" "mm \<le> 59" "0 \<le> ss" "ss \<le> 59"
  shows "ParseRFC3339 (pad_dec 4 y @ ''-'' @ pad_dec 2 (int m) @ ''-'' @ pad_dec 2 d @ ''T'' @
      pad_dec 2 hh @ '':'' @ pad_dec 2 mm @ '':'' @ pad_dec 2 ss @ ''Z'') =
    Some \<lparr>unix_ns = ((day_number y m d - epoch_day) * 86400 + hh * 3600 + mm * 60 + ss) * 1000000000,
      zone_off = 0\<rparr>"
  using assms days_in_le [of m y] by (simp add: ParseRFC3339_def)

text \<open>The year of an instant in UTC.\<close>

definition utc_year :: "gotime \<Rightarrow> int" where
  "utc_year t = year_of_day (unix_ns t div 1000000000 div 86400 + epoch_day)"

lemma ParseRFC3339_Format:
  assumes "zone_off t = 0" "0 \<le> utc_year t" "utc_year t \<le> 9999"
  shows "ParseRFC3339 (FormatRFC3339 t) =
    Some \<lparr>unix_ns = unix_ns t div 1000000000 * 1000000000, zone_off = 0\<rparr>"
proof -
  define secs where "secs = unix_ns t div 1000000000"
  define r where "r = secs mod 86400"
  obtain y m d where ymd: "civil_of_day (secs div 86400 + epoch_day) = (y, m, d)" by (metis prod_cases3)
  note c = civil_of_day_correct [OF ymd]
  have y: "0 \<le> y" "y < 10000" using assms(2,3) c(6) by (simp_all add: utc_year_def secs_def)
  have r: "0 \<le> r" "r < 86400" by (simp_all add: r_def)
  have h: "0 \<le> r div 3600" "r div 3600 \<le> 23" using r by linarith+
  have "0 \<le> r mod 3600" "r mod 3600 < 3600" by simp_all
  then have mi: "0 \<le> r mod 3600 div 60" "r mod 3600 div 60 \<le> 59" by linarith+
  have "0 \<le> r mod 60" "r mod 60 < 60" by simp_all
  then have s: "0 \<le> r mod 60" "r mod 60 \<le> 59" by linarith+
  have "r mod 3600 mod 60 = r mod 60" by (rule mod_mod_cancel) simp
  then have "r mod 3600 div 60 * 60 + r mod 60 = r mod 3600" by (metis div_mult_mod_eq)
  then have clock: "r div 3600 * 3600 + r mod 3600 div 60 * 60 + r mod 60 = r"
    by (metis add.assoc div_mult_mod_eq)
  have "FormatRFC3339 t = pad_dec 4 y @ ''-'' @ pad_dec 2 (int m) @ ''-'' @ pad_dec 2 d @ ''T'' @
      pad_dec 2 (r div 3600) @ '':'' @ pad_dec 2 (r mod 3600 div 60) @ '':'' @ pad_dec 2 (r mod 60) @ ''Z''"
    using assms(1) ymd by (simp add: FormatRFC3339_def Let_def secs_def r_def format_zone_def)
  then have "ParseRFC3339 (FormatRFC3339 t) =
      Some \<lparr>unix_ns = ((day_number y m d - epoch_day) * 86400 + r div 3600 * 3600
        + r mod 3600 div 60 * 60 + r mod 60) * 1000000000, zone_off = 0\<rparr>"
    by (simp only:) (rule ParseRFC3339_fields [OF y c(2-5) h(1,2) mi(1,2) s(1,2)])
  also have "(day_number y m d - epoch_day) * 86400 + r div 3600 * 3600 + r mod 3600 div 60 * 60 + r mod 60 = secs"
  proof -
    have "day_number y m d - epoch_day = secs div 86400" using c(1) by simp
    moreover have "secs div 86400 * 86400 + r = secs" unfolding r_def by (rule div_mult_mod_eq)
    ultimately show ?thesis using clock by (metis add.assoc)
  qed
  finally show ?thesis by (simp add: secs_def)
qed

end
