(* ===== verification/Domain.thy ===== *)
theory Domain
  imports GoCalendar
begin

text \<open>
  \<open>internal/domain/types.go\<close>: references, classes, confidences, evidence, findings, actions
  and decisions; and the errors the program builds, one constructor for each
  \<open>fmt.Errorf\<close>. Go's open string types become datatypes whose last constructor holds
  any string that is not one of the declared constants (the zero value included).
\<close>

section \<open>References to objects\<close>

record object_ref =
  ref_group :: string
  ref_version :: string
  ref_kind :: string
  ref_namespace :: string
  ref_name :: string
  ref_uid :: string

definition ObjectRef_String :: "object_ref \<Rightarrow> string" where
  "ObjectRef_String r =
     (if ref_namespace r \<noteq> '''' then ref_kind r @ ''/'' @ ref_namespace r @ ''/'' @ ref_name r
      else ref_kind r @ ''/'' @ ref_name r)"

section \<open>Classes and confidence\<close>

datatype resource_class =
    ClassActive | ClassEphemeral | ClassExpired | ClassOrphaned | ClassAbandoned
  | ClassProtected | ClassBlocked | ClassUnknown | ClassOther string

fun class_string :: "resource_class \<Rightarrow> string" where
  "class_string ClassActive = ''active''"
| "class_string ClassEphemeral = ''ephemeral''"
| "class_string ClassExpired = ''expired''"
| "class_string ClassOrphaned = ''orphaned''"
| "class_string ClassAbandoned = ''abandoned''"
| "class_string ClassProtected = ''protected''"
| "class_string ClassBlocked = ''blocked''"
| "class_string ClassUnknown = ''unknown''"
| "class_string (ClassOther s) = s"

type_synonym confidence = float64

definition ConfidenceLow :: confidence where "ConfidenceLow = f64_0_3"
definition ConfidenceMedium :: confidence where "ConfidenceMedium = f64_0_6"
definition ConfidenceHigh :: confidence where "ConfidenceHigh = f64_0_9"

lemmas confidence_defs = ConfidenceLow_def ConfidenceMedium_def ConfidenceHigh_def f64_consts

section \<open>Evidence, reasons, findings\<close>

datatype evidence_type =
    EvidenceOwnerRef | EvidenceLabelSelector | EvidenceAnnotation | EvidenceTTL
  | EvidenceExpiresAt | EvidenceVolumeMount | EvidenceEndpoint | EvidenceAge
  | EvidenceFinalizer | EvidencePRState

record evidence =
  ev_type :: evidence_type
  ev_source :: string
  ev_details :: string

record reason =
  re_code :: string
  re_message :: string
  re_evidence :: "evidence list"

record finding =
  f_ref :: object_ref
  f_class :: resource_class
  f_confidence :: confidence
  f_reasons :: "reason list"
  f_classified_at :: gotime
  f_reconcile_id :: string

section \<open>Actions and decisions\<close>

datatype action = ActionNone | ActionReport | ActionDelete | ActionOther string

fun action_string :: "action \<Rightarrow> string" where
  "action_string ActionNone = ''none''"
| "action_string ActionReport = ''report''"
| "action_string ActionDelete = ''delete''"
| "action_string (ActionOther s) = s"

text \<open>Actions are ordered by severity: doing nothing, reporting, deleting, anything else.\<close>

fun action_rank :: "action \<Rightarrow> nat \<times> string" where
  "action_rank ActionNone = (0, [])"
| "action_rank ActionReport = (1, [])"
| "action_rank ActionDelete = (2, [])"
| "action_rank (ActionOther s) = (3, s)"

lemma action_rank_inj: "action_rank a = action_rank b \<Longrightarrow> a = b"
  by (cases a; cases b) auto

instantiation action :: linorder
begin

definition less_eq_action :: "action \<Rightarrow> action \<Rightarrow> bool" where
  "less_eq_action a b \<longleftrightarrow> fst (action_rank a) < fst (action_rank b) \<or>
     (fst (action_rank a) = fst (action_rank b) \<and> snd (action_rank a) \<le> snd (action_rank b))"

definition less_action :: "action \<Rightarrow> action \<Rightarrow> bool" where
  "less_action a b \<longleftrightarrow> a \<le> b \<and> \<not> b \<le> a"

instance
  by intro_classes
     (auto simp: less_eq_action_def less_action_def prod_eq_iff intro!: action_rank_inj)

end

lemma action_le_report [simp]: "a \<le> ActionReport \<longleftrightarrow> a = ActionNone \<or> a = ActionReport"
  by (cases a) (auto simp: less_eq_action_def)

lemma action_le_delete [simp]:
  "a \<le> ActionDelete \<longleftrightarrow> a = ActionNone \<or> a = ActionReport \<or> a = ActionDelete"
  by (cases a) (auto simp: less_eq_action_def)

lemma delete_le_iff: "ActionDelete \<le> a \<longleftrightarrow> a \<noteq> ActionNone \<and> a \<noteq> ActionReport"
  by (cases a) (auto simp: less_eq_action_def)

record action_decision =
  d_action :: action
  d_dry_run :: bool
  d_reason :: string
  d_policy_ref :: string
  d_decided_at :: gotime
  d_reconcile_id :: string

section \<open>The reference graph\<close>

datatype reference_type =
    RefTypeOwnerRef | RefTypeLabelSelector | RefTypeVolumeMount | RefTypeEnvFrom
  | RefTypeServiceAccount | RefTypeImagePullSecret | RefTypeEndpoint

record reference =
  r_from :: object_ref
  r_to :: object_ref
  r_type :: reference_type
  r_evidence :: evidence

section \<open>Errors\<close>

text \<open>
  An error of the API client is split by what \<open>errors.IsNotFound\<close> answers on it.
  \<open>Wrapped p e\<close> is \<open>fmt.Errorf(p + ": %w", e)\<close>, through which \<open>IsNotFound\<close> looks.
\<close>

datatype api_error = ApiNotFound string | ApiFailure string

datatype error =
    ApiErr api_error
  | Wrapped string error
  | BadDuration string string duration_error
  | BadTimestamp string string
  | ResolverErrors "error list"
  | UnknownAction action
  | SafetyProtectedNamespace object_ref
  | SafetyProtectedName string
  | SafetyUIDMismatch object_ref string
  | SafetyFinalizer object_ref string
  | SafetyOwnerReferences object_ref
  | ScanIntervalTooShort duration
  | ThresholdTooLow float64
  | ThresholdTooHigh float64
  | EmptyMetricsAddr

fun IsNotFound :: "error \<Rightarrow> bool" where
  "IsNotFound (ApiErr (ApiNotFound _)) = True"
| "IsNotFound (Wrapped _ e) = IsNotFound e"
| "IsNotFound _ = False"

fun is_safety_error :: "error \<Rightarrow> bool" where
  "is_safety_error (SafetyProtectedNamespace _) = True"
| "is_safety_error (SafetyProtectedName _) = True"
| "is_safety_error (SafetyUIDMismatch _ _) = True"
| "is_safety_error (SafetyFinalizer _ _) = True"
| "is_safety_error (SafetyOwnerReferences _) = True"
| "is_safety_error (Wrapped _ e) = is_safety_error e"
| "is_safety_error _ = False"

section \<open>Properties\<close>

lemma slash_split:
  "CHR ''/'' \<notin> set a \<Longrightarrow> CHR ''/'' \<notin> set b \<Longrightarrow> a @ CHR ''/'' # s = b @ CHR ''/'' # t \<longleftrightarrow> a = b \<and> s = t"
proof (induction a arbitrary: b)
  case Nil
  then show ?case by (cases b) auto
next
  case (Cons x a)
  then show ?case by (cases b) auto
qed

text \<open>
  The printed form of a reference identifies the object: references whose kind,
  namespace and name contain no slash print alike only if kind, namespace and name agree.
\<close>

theorem ObjectRef_String_identifies:
  assumes "CHR ''/'' \<notin> set (ref_kind a @ ref_namespace a @ ref_name a)"
    and "CHR ''/'' \<notin> set (ref_kind b @ ref_namespace b @ ref_name b)"
    and "ObjectRef_String a = ObjectRef_String b"
  shows "ref_kind a = ref_kind b \<and> ref_namespace a = ref_namespace b \<and> ref_name a = ref_name b"
proof -
  have no: "t \<noteq> a @ CHR ''/'' # b" "a @ CHR ''/'' # b \<noteq> t" if "CHR ''/'' \<notin> set t" for a b t :: string
    using that by auto
  from assms show ?thesis
    by (auto simp: ObjectRef_String_def slash_split no split: if_splits)
qed

theorem ObjectRef_String_identifies_witness:
  "ObjectRef_String \<lparr>ref_group = '''', ref_version = ''v1'', ref_kind = ''ConfigMap'', ref_namespace = ''shop'',
       ref_name = ''cache'', ref_uid = ''u1''\<rparr> = ''ConfigMap/shop/cache'' \<and>
   (ref_name \<lparr>ref_group = '''', ref_version = ''v1'', ref_kind = ''ConfigMap'', ref_namespace = ''shop'',
       ref_name = ''cache'', ref_uid = ''u1''\<rparr> =
    ref_name \<lparr>ref_group = ''x'', ref_version = ''v2'', ref_kind = ''ConfigMap'', ref_namespace = ''shop'',
       ref_name = ''cache'', ref_uid = ''u2''\<rparr>)"
  using ObjectRef_String_identifies [of
      "\<lparr>ref_group = '''', ref_version = ''v1'', ref_kind = ''ConfigMap'', ref_namespace = ''shop'',
         ref_name = ''cache'', ref_uid = ''u1''\<rparr>"
      "\<lparr>ref_group = ''x'', ref_version = ''v2'', ref_kind = ''ConfigMap'', ref_namespace = ''shop'',
         ref_name = ''cache'', ref_uid = ''u2''\<rparr>"]
  by (simp add: ObjectRef_String_def)

end
