(* ===== verification/PolicyTypes.thy ===== *)
theory PolicyTypes
  imports Domain
begin

text \<open>
  \<open>api/v1alpha1/janitorpolicy_types.go\<close>: the JanitorPolicy resource. Pointer fields are
  options. \<open>metav1.LabelSelector\<close> and \<open>metav1.Condition\<close> are library structs whose
  documented fields are listed; the program never looks inside them.
\<close>

datatype action_mode = ActionModeDryRun | ActionModeReport | ActionModeDelete | ActionModeOther string

record resource_kind =
  rk_group :: string
  rk_version :: string
  rk_kind :: string

record label_selector_requirement =
  lsr_key :: string
  lsr_operator :: string
  lsr_values :: "string list"

record label_selector =
  ls_match_labels :: "(string \<times> string) list"
  ls_match_expressions :: "label_selector_requirement list"

record resource_selector =
  sel_kinds :: "resource_kind list"
  sel_namespace_selector :: "label_selector option"
  sel_label_selector :: "label_selector option"

record ttl_config =
  ttl_default :: "duration option"
  ttl_annotation :: string
  ttl_expires_at_annotation :: string

record protection_config =
  prot_labels :: "(string \<times> string) list"
  prot_annotation_key :: string
  prot_namespaces :: "string list"

record orphan_config =
  orph_enabled :: bool
  orph_min_age :: "duration option"
  orph_confidence_threshold :: "float64 option"

record pr_namespace_config =
  prns_enabled :: bool
  prns_label_key :: string
  prns_state_annotation :: string
  prns_closed_ttl :: "duration option"

record action_config =
  ac_mode :: action_mode
  ac_confidence_threshold :: "float64 option"

record reporting_config =
  rep_events :: bool
  rep_annotations :: bool

record janitor_policy_spec =
  spec_selector :: resource_selector
  spec_ttl :: "ttl_config option"
  spec_protection :: "protection_config option"
  spec_orphan :: "orphan_config option"
  spec_pr_namespace :: "pr_namespace_config option"
  spec_action :: action_config
  spec_reporting :: "reporting_config option"

record policy_stats =
  st_total_scanned :: "32 word"
  st_active :: "32 word"
  st_ephemeral :: "32 word"
  st_expired :: "32 word"
  st_orphaned :: "32 word"
  st_abandoned :: "32 word"
  st_protected :: "32 word"
  st_blocked :: "32 word"
  st_deleted :: "32 word"
  st_dry_run_deleted :: "32 word"
  st_errors :: "32 word"

record condition =
  cond_type :: string
  cond_status :: string
  cond_observed_generation :: "64 word"
  cond_last_transition_time :: gotime
  cond_reason :: string
  cond_message :: string

record janitor_policy_status =
  status_observed_generation :: "64 word"
  status_conditions :: "condition list"
  status_last_scan_time :: "gotime option"
  status_stats :: "policy_stats option"

text \<open>Of the object metadata the program reads the name.\<close>

record janitor_policy =
  policy_name :: string
  policy_spec :: janitor_policy_spec
  policy_status :: janitor_policy_status

end
