(* ===== verification/DeepCopy.thy ===== *)
theory DeepCopy
  imports GoHeap PolicyTypes
begin

text \<open>
  \<open>api/v1alpha1/zz_generated.deepcopy.go\<close>: the deep copies of the JanitorPolicy types, on a
  store in which pointers, slices and maps are addresses. The structs below are those of
  \<open>janitorpolicy_types.go\<close> as they lie in memory; their \<open>_view\<close> is the value of
  \<open>PolicyTypes\<close> they stand for, their \<open>_reach\<close> the cells they reach. The structs of the
  metav1 library are opaque: some data in place and the addresses of the cells they own; the
  copiers of the library are arguments.
\<close>

section \<open>Structs in memory\<close>

record lib_struct =
  lib_inline :: "string list"
  lib_cells :: "addr list"

record go_ttl_config =
  gt_default :: "addr option"
  gt_annotation :: string
  gt_expires_at_annotation :: string

record go_protection_config =
  gp_labels :: "addr option"
  gp_annotation_key :: string
  gp_namespaces :: "slice option"

record go_orphan_config =
  go_enabled :: bool
  go_min_age :: "addr option"
  go_confidence_threshold :: "addr option"

record go_pr_namespace_config =
  gn_enabled :: bool
  gn_label_key :: string
  gn_state_annotation :: string
  gn_closed_ttl :: "addr option"

record go_action_config =
  ga_mode :: action_mode
  ga_confidence_threshold :: "addr option"

record go_resource_selector =
  gs_kinds :: "slice option"
  gs_namespace_selector :: "addr option"
  gs_label_selector :: "addr option"

record go_policy_spec =
  gsp_selector :: go_resource_selector
  gsp_ttl :: "addr option"
  gsp_protection :: "addr option"
  gsp_orphan :: "addr option"
  gsp_pr_namespace :: "addr option"
  gsp_action :: go_action_config
  gsp_reporting :: "addr option"

record go_policy_status =
  gst_observed_generation :: "64 word"
  gst_conditions :: "slice option"
  gst_last_scan_time :: "addr option"
  gst_stats :: "addr option"

record type_meta =
  tm_kind :: string
  tm_api_version :: string

record go_policy =
  gpol_type_meta :: type_meta
  gpol_object_meta :: lib_struct
  gpol_spec :: go_policy_spec
  gpol_status :: go_policy_status

record go_policy_list =
  gpl_type_meta :: type_meta
  gpl_list_meta :: lib_struct
  gpl_items :: "slice option"

text \<open>What a cell of the store can hold.\<close>

datatype cell =
    is_lib: CLib (un_lib: string)
  | is_duration: CDuration (un_duration: duration)
  | is_float: CFloat (un_float: float64)
  | is_time: CTime (un_time: gotime)
  | is_selector: CSelector (un_selector: lib_struct)
  | is_strings: CStrings (un_strings: "string list")
  | is_labels: CLabels (un_labels: "(string \<times> string) list")
  | is_kind: CKind (un_kind: resource_kind)
  | is_kinds: CKinds (un_kinds: "resource_kind list")
  | is_conditions: CConditions (un_conditions: "lib_struct list")
  | is_stats: CStats (un_stats: policy_stats)
  | is_reporting: CReporting (un_reporting: reporting_config)
  | is_ttl: CTTL (un_ttl: go_ttl_config)
  | is_protection: CProtection (un_protection: go_protection_config)
  | is_orphan: COrphan (un_orphan: go_orphan_config)
  | is_pr_namespace: CPRNamespace (un_pr_namespace: go_pr_namespace_config)
  | is_action: CAction (un_action: go_action_config)
  | is_resource_selector: CResourceSelector (un_resource_selector: go_resource_selector)
  | is_spec: CSpec (un_spec: go_policy_spec)
  | is_status: CStatus (un_status: go_policy_status)
  | is_policy: CPolicy (un_policy: go_policy)
  | is_policies: CPolicies (un_policies: "go_policy list")
  | is_policy_list: CPolicyList (un_policy_list: go_policy_list)

type_synonym store = "cell list"
type_synonym 'v copier = "'v \<Rightarrow> store \<Rightarrow> ('v \<times> store) option"

definition cell_as :: "(cell \<Rightarrow> bool) \<Rightarrow> (cell \<Rightarrow> 'v) \<Rightarrow> cell \<Rightarrow> 'v option" where
  "cell_as is un c = (if is c then Some (un c) else None)"

text \<open>The zero values that \<open>new\<close> and \<open>make\<close> leave before they are overwritten.\<close>

definition zero_lib :: lib_struct where
  "zero_lib = \<lparr>lib_inline = [], lib_cells = []\<rparr>"

definition zero_kind :: resource_kind where
  "zero_kind = \<lparr>rk_group = '''', rk_version = '''', rk_kind = ''''\<rparr>"

definition zero_stats :: policy_stats where
  "zero_stats = \<lparr>st_total_scanned = 0, st_active = 0, st_ephemeral = 0, st_expired = 0, st_orphaned = 0,
     st_abandoned = 0, st_protected = 0, st_blocked = 0, st_deleted = 0, st_dry_run_deleted = 0, st_errors = 0\<rparr>"

definition zero_reporting :: reporting_config where
  "zero_reporting = \<lparr>rep_events = False, rep_annotations = False\<rparr>"

definition zero_ttl :: go_ttl_config where
  "zero_ttl = \<lparr>gt_default = None, gt_annotation = '''', gt_expires_at_annotation = ''''\<rparr>"

definition zero_protection :: go_protection_config where
  "zero_protection = \<lparr>gp_labels = None, gp_annotation_key = '''', gp_namespaces = None\<rparr>"

definition zero_orphan :: go_orphan_config where
  "zero_orphan = \<lparr>go_enabled = False, go_min_age = None, go_confidence_threshold = None\<rparr>"

definition zero_pr_namespace :: go_pr_namespace_config where
  "zero_pr_namespace = \<lparr>gn_enabled = False, gn_label_key = '''', gn_state_annotation = '''', gn_closed_ttl = None\<rparr>"

definition zero_action :: go_action_config where
  "zero_action = \<lparr>ga_mode = ActionModeOther '''', ga_confidence_threshold = None\<rparr>"

definition zero_resource_selector :: go_resource_selector where
  "zero_resource_selector = \<lparr>gs_kinds = None, gs_namespace_selector = None, gs_label_selector = None\<rparr>"

definition zero_spec :: go_policy_spec where
  "zero_spec = \<lparr>gsp_selector = zero_resource_selector, gsp_ttl = None, gsp_protection = None, gsp_orphan = None,
     gsp_pr_namespace = None, gsp_action = zero_action, gsp_reporting = None\<rparr>"

definition zero_status :: go_policy_status where
  "zero_status = \<lparr>gst_observed_generation = 0, gst_conditions = None, gst_last_scan_time = None, gst_stats = None\<rparr>"

definition zero_type_meta :: type_meta where
  "zero_type_meta = \<lparr>tm_kind = '''', tm_api_version = ''''\<rparr>"

definition zero_policy :: go_policy where
  "zero_policy = \<lparr>gpol_type_meta = zero_type_meta, gpol_object_meta = zero_lib, gpol_spec = zero_spec,
     gpol_status = zero_status\<rparr>"

definition zero_policy_list :: go_policy_list where
  "zero_policy_list = \<lparr>gpl_type_meta = zero_type_meta, gpl_list_meta = zero_lib, gpl_items = None\<rparr>"

section \<open>The metav1 library\<close>

text \<open>
  \<open>DeepCopyInto\<close> of ObjectMeta, ListMeta, LabelSelector and Condition, \<open>DeepCopy\<close> of Time, and
  what the policy types need to see of such a struct: its value is what lies in place and what
  its cells hold.
\<close>

type_synonym lib_value = "string list \<times> string list"

record metav1 =
  ml_object_meta :: "lib_struct copier"
  ml_list_meta :: "lib_struct copier"
  ml_label_selector :: "lib_struct copier"
  ml_condition :: "lib_struct copier"
  ml_time :: "addr \<Rightarrow> store \<Rightarrow> (addr option \<times> store) option"
  ml_name_of :: "lib_value \<Rightarrow> string"
  ml_label_selector_of :: "lib_value \<Rightarrow> label_selector"
  ml_condition_of :: "lib_value \<Rightarrow> condition"

section \<open>DeepCopyInto\<close>

text \<open>
  \<open>in.DeepCopyInto(out)\<close> takes the value of \<open>*in\<close> and returns what it leaves in \<open>*out\<close>, which
  is never \<open>*in\<close> itself in this file.
\<close>

definition ResourceKind_DeepCopyInto :: "resource_kind copier" where
  "ResourceKind_DeepCopyInto = keep"

definition PolicyStats_DeepCopyInto :: "policy_stats copier" where
  "PolicyStats_DeepCopyInto = keep"

definition ReportingConfig_DeepCopyInto :: "reporting_config copier" where
  "ReportingConfig_DeepCopyInto = keep"

definition TTLConfig_DeepCopyInto :: "go_ttl_config copier" where
  "TTLConfig_DeepCopyInto inp s = do {
     let out = inp;
     (p, s) \<leftarrow> copy_ptr (cell_as is_duration un_duration) CDuration 0 keep (gt_default inp) s;
     Some (out\<lparr>gt_default := p\<rparr>, s) }"

definition ProtectionConfig_DeepCopyInto :: "go_protection_config copier" where
  "ProtectionConfig_DeepCopyInto inp s = do {
     let out = inp;
     (p, s) \<leftarrow> copy_map (cell_as is_labels un_labels) CLabels (gp_labels inp) s;
     let out = out\<lparr>gp_labels := p\<rparr>;
     (p, s) \<leftarrow> copy_plain_slice (cell_as is_strings un_strings) CStrings '''' (gp_namespaces inp) s;
     Some (out\<lparr>gp_namespaces := p\<rparr>, s) }"

definition OrphanConfig_DeepCopyInto :: "go_orphan_config copier" where
  "OrphanConfig_DeepCopyInto inp s = do {
     let out = inp;
     (p, s) \<leftarrow> copy_ptr (cell_as is_duration un_duration) CDuration 0 keep (go_min_age inp) s;
     let out = out\<lparr>go_min_age := p\<rparr>;
     (p, s) \<leftarrow> copy_ptr (cell_as is_float un_float) CFloat (F64 0) keep (go_confidence_threshold inp) s;
     Some (out\<lparr>go_confidence_threshold := p\<rparr>, s) }"

definition PRNamespaceConfig_DeepCopyInto :: "go_pr_namespace_config copier" where
  "PRNamespaceConfig_DeepCopyInto inp s = do {
     let out = inp;
     (p, s) \<leftarrow> copy_ptr (cell_as is_duration un_duration) CDuration 0 keep (gn_closed_ttl inp) s;
     Some (out\<lparr>gn_closed_ttl := p\<rparr>, s) }"

definition ActionConfig_DeepCopyInto :: "go_action_config copier" where
  "ActionConfig_DeepCopyInto inp s = do {
     let out = inp;
     (p, s) \<leftarrow> copy_ptr (cell_as is_float un_float) CFloat (F64 0) keep (ga_confidence_threshold inp) s;
     Some (out\<lparr>ga_confidence_threshold := p\<rparr>, s) }"

definition ResourceSelector_DeepCopyInto :: "metav1 \<Rightarrow> go_resource_selector copier" where
  "ResourceSelector_DeepCopyInto lib inp s = do {
     let out = inp;
     (p, s) \<leftarrow> copy_plain_slice (cell_as is_kinds un_kinds) CKinds zero_kind (gs_kinds inp) s;
     let out = out\<lparr>gs_kinds := p\<rparr>;
     (p, s) \<leftarrow> copy_ptr (cell_as is_selector un_selector) CSelector zero_lib (ml_label_selector lib)
       (gs_namespace_selector inp) s;
     let out = out\<lparr>gs_namespace_selector := p\<rparr>;
     (p, s) \<leftarrow> copy_ptr (cell_as is_selector un_selector) CSelector zero_lib (ml_label_selector lib)
       (gs_label_selector inp) s;
     Some (out\<lparr>gs_label_selector := p\<rparr>, s) }"

definition JanitorPolicySpec_DeepCopyInto :: "metav1 \<Rightarrow> go_policy_spec copier" where
  "JanitorPolicySpec_DeepCopyInto lib inp s = do {
     let out = inp;
     (sel, s) \<leftarrow> ResourceSelector_DeepCopyInto lib (gsp_selector inp) s;
     let out = out\<lparr>gsp_selector := sel\<rparr>;
     (p, s) \<leftarrow> copy_ptr (cell_as is_ttl un_ttl) CTTL zero_ttl TTLConfig_DeepCopyInto (gsp_ttl inp) s;
     let out = out\<lparr>gsp_ttl := p\<rparr>;
     (p, s) \<leftarrow> copy_ptr (cell_as is_protection un_protection) CProtection zero_protection
       ProtectionConfig_DeepCopyInto (gsp_protection inp) s;
     let out = out\<lparr>gsp_protection := p\<rparr>;
     (p, s) \<leftarrow> copy_ptr (cell_as is_orphan un_orphan) COrphan zero_orphan OrphanConfig_DeepCopyInto
       (gsp_orphan inp) s;
     let out = out\<lparr>gsp_orphan := p\<rparr>;
     (p, s) \<leftarrow> copy_ptr (cell_as is_pr_namespace un_pr_namespace) CPRNamespace zero_pr_namespace
       PRNamespaceConfig_DeepCopyInto (gsp_pr_namespace inp) s;
     let out = out\<lparr>gsp_pr_namespace := p\<rparr>;
     let out = out\<lparr>gsp_action := gsp_action inp\<rparr>;
     (p, s) \<leftarrow> copy_ptr (cell_as is_reporting un_reporting) CReporting zero_reporting keep
       (gsp_reporting inp) s;
     Some (out\<lparr>gsp_reporting := p\<rparr>, s) }"

definition JanitorPolicyStatus_DeepCopyInto :: "metav1 \<Rightarrow> go_policy_status copier" where
  "JanitorPolicyStatus_DeepCopyInto lib inp s = do {
     let out = inp;
     (p, s) \<leftarrow> copy_slice (cell_as is_conditions un_conditions) CConditions zero_lib (ml_condition lib)
       (gst_conditions inp) s;
     let out = out\<lparr>gst_conditions := p\<rparr>;
     (p, s) \<leftarrow> (case gst_last_scan_time inp of None \<Rightarrow> Some (None, s) | Some a \<Rightarrow> ml_time lib a s);
     let out = out\<lparr>gst_last_scan_time := p\<rparr>;
     (p, s) \<leftarrow> copy_ptr (cell_as is_stats un_stats) CStats zero_stats keep (gst_stats inp) s;
     Some (out\<lparr>gst_stats := p\<rparr>, s) }"

definition JanitorPolicy_DeepCopyInto :: "metav1 \<Rightarrow> go_policy copier" where
  "JanitorPolicy_DeepCopyInto lib inp s = do {
     let out = inp;
     let out = out\<lparr>gpol_type_meta := gpol_type_meta inp\<rparr>;
     (m, s) \<leftarrow> ml_object_meta lib (gpol_object_meta inp) s;
     let out = out\<lparr>gpol_object_meta := m\<rparr>;
     (sp, s) \<leftarrow> JanitorPolicySpec_DeepCopyInto lib (gpol_spec inp) s;
     let out = out\<lparr>gpol_spec := sp\<rparr>;
     (st, s) \<leftarrow> JanitorPolicyStatus_DeepCopyInto lib (gpol_status inp) s;
     Some (out\<lparr>gpol_status := st\<rparr>, s) }"

definition JanitorPolicyList_DeepCopyInto :: "metav1 \<Rightarrow> go_policy_list copier" where
  "JanitorPolicyList_DeepCopyInto lib inp s = do {
     let out = inp;
     let out = out\<lparr>gpl_type_meta := gpl_type_meta inp\<rparr>;
     (m, s) \<leftarrow> ml_list_meta lib (gpl_list_meta inp) s;
     let out = out\<lparr>gpl_list_meta := m\<rparr>;
     (p, s) \<leftarrow> copy_slice (cell_as is_policies un_policies) CPolicies zero_policy (JanitorPolicy_DeepCopyInto lib)
       (gpl_items inp) s;
     Some (out\<lparr>gpl_items := p\<rparr>, s) }"

section \<open>DeepCopy and DeepCopyObject\<close>

text \<open>\<open>if in == nil { return nil }; out := new(T); in.DeepCopyInto(out); return out\<close>.\<close>

definition ResourceKind_DeepCopy :: "addr option copier" where
  "ResourceKind_DeepCopy = copy_ptr (cell_as is_kind un_kind) CKind zero_kind ResourceKind_DeepCopyInto"

definition PolicyStats_DeepCopy :: "addr option copier" where
  "PolicyStats_DeepCopy = copy_ptr (cell_as is_stats un_stats) CStats zero_stats PolicyStats_DeepCopyInto"

definition ReportingConfig_DeepCopy :: "addr option copier" where
  "ReportingConfig_DeepCopy =
     copy_ptr (cell_as is_reporting un_reporting) CReporting zero_reporting ReportingConfig_DeepCopyInto"

definition TTLConfig_DeepCopy :: "addr option copier" where
  "TTLConfig_DeepCopy = copy_ptr (cell_as is_ttl un_ttl) CTTL zero_ttl TTLConfig_DeepCopyInto"

definition ProtectionConfig_DeepCopy :: "addr option copier" where
  "ProtectionConfig_DeepCopy =
     copy_ptr (cell_as is_protection un_protection) CProtection zero_protection ProtectionConfig_DeepCopyInto"

definition OrphanConfig_DeepCopy :: "addr option copier" where
  "OrphanConfig_DeepCopy = copy_ptr (cell_as is_orphan un_orphan) COrphan zero_orphan OrphanConfig_DeepCopyInto"

definition PRNamespaceConfig_DeepCopy :: "addr option copier" where
  "PRNamespaceConfig_DeepCopy =
     copy_ptr (cell_as is_pr_namespace un_pr_namespace) CPRNamespace zero_pr_namespace PRNamespaceConfig_DeepCopyInto"

definition ActionConfig_DeepCopy :: "addr option copier" where
  "ActionConfig_DeepCopy = copy_ptr (cell_as is_action un_action) CAction zero_action ActionConfig_DeepCopyInto"

definition ResourceSelector_DeepCopy :: "metav1 \<Rightarrow> addr option copier" where
  "ResourceSelector_DeepCopy lib =
     copy_ptr (cell_as is_resource_selector un_resource_selector) CResourceSelector zero_resource_selector
       (ResourceSelector_DeepCopyInto lib)"

definition JanitorPolicySpec_DeepCopy :: "metav1 \<Rightarrow> addr option copier" where
  "JanitorPolicySpec_DeepCopy lib =
     copy_ptr (cell_as is_spec un_spec) CSpec zero_spec (JanitorPolicySpec_DeepCopyInto lib)"

definition JanitorPolicyStatus_DeepCopy :: "metav1 \<Rightarrow> addr option copier" where
  "JanitorPolicyStatus_DeepCopy lib =
     copy_ptr (cell_as is_status un_status) CStatus zero_status (JanitorPolicyStatus_DeepCopyInto lib)"

definition JanitorPolicy_DeepCopy :: "metav1 \<Rightarrow> addr option copier" where
  "JanitorPolicy_DeepCopy lib =
     copy_ptr (cell_as is_policy un_policy) CPolicy zero_policy (JanitorPolicy_DeepCopyInto lib)"

definition JanitorPolicyList_DeepCopy :: "metav1 \<Rightarrow> addr option copier" where
  "JanitorPolicyList_DeepCopy lib =
     copy_ptr (cell_as is_policy_list un_policy_list) CPolicyList zero_policy_list (JanitorPolicyList_DeepCopyInto lib)"

text \<open>\<open>runtime.Object\<close>: an interface that is nil or holds a pointer of one of the two types.\<close>

datatype runtime_object = NilObject | PolicyObject addr | PolicyListObject addr

definition JanitorPolicy_DeepCopyObject :: "metav1 \<Rightarrow> addr option \<Rightarrow> store \<Rightarrow> (runtime_object \<times> store) option" where
  "JanitorPolicy_DeepCopyObject lib p s = do {
     (c, s) \<leftarrow> JanitorPolicy_DeepCopy lib p s;
     Some (case c of Some b \<Rightarrow> PolicyObject b | None \<Rightarrow> NilObject, s) }"

definition JanitorPolicyList_DeepCopyObject :: "metav1 \<Rightarrow> addr option \<Rightarrow> store \<Rightarrow> (runtime_object \<times> store) option" where
  "JanitorPolicyList_DeepCopyObject lib p s = do {
     (c, s) \<leftarrow> JanitorPolicyList_DeepCopy lib p s;
     Some (case c of Some b \<Rightarrow> PolicyListObject b | None \<Rightarrow> NilObject, s) }"

end
