(* ===== verification/DeepCopyLaws.thy ===== *)
theory DeepCopyLaws
  imports DeepCopy
begin

text \<open>
  What the values in memory stand for, what they reach, and that the copiers of
  \<open>zz_generated.deepcopy.go\<close> are deep copiers, each from the fields of its struct. One of
  them is not fully deep: the action section of a policy is assigned, not copied, so that its
  threshold is shared between the copy and the original.
\<close>

section \<open>Values in memory\<close>

abbreviation no_cells :: "store \<Rightarrow> 'v \<Rightarrow> addr set" where
  "no_cells \<equiv> \<lambda>_ _. {}"

abbreviation plain_view :: "store \<Rightarrow> 'v \<Rightarrow> 'v option" where
  "plain_view \<equiv> \<lambda>_. Some"

definition lib_view :: "store \<Rightarrow> lib_struct \<Rightarrow> lib_value option" where
  "lib_view s v = do {
     cs \<leftarrow> view_elems (\<lambda>s a. read_as (cell_as is_lib un_lib) a s) s (lib_cells v);
     Some (lib_inline v, cs) }"

definition lib_reach :: "store \<Rightarrow> lib_struct \<Rightarrow> addr set" where
  "lib_reach s v = set (lib_cells v)"

definition TTLConfig_view :: "store \<Rightarrow> go_ttl_config \<Rightarrow> ttl_config option" where
  "TTLConfig_view s v = do {
     d \<leftarrow> view_ptr (cell_as is_duration un_duration) plain_view s (gt_default v);
     Some \<lparr>ttl_default = d, ttl_annotation = gt_annotation v,
       ttl_expires_at_annotation = gt_expires_at_annotation v\<rparr> }"

definition TTLConfig_reach :: "store \<Rightarrow> go_ttl_config \<Rightarrow> addr set" where
  "TTLConfig_reach s v = set_option (gt_default v)"

definition ProtectionConfig_view :: "store \<Rightarrow> go_protection_config \<Rightarrow> protection_config option" where
  "ProtectionConfig_view s v = do {
     ls \<leftarrow> view_map (cell_as is_labels un_labels) s (gp_labels v);
     ns \<leftarrow> view_slice (cell_as is_strings un_strings) plain_view s (gp_namespaces v);
     Some \<lparr>prot_labels = ls, prot_annotation_key = gp_annotation_key v, prot_namespaces = ns\<rparr> }"

definition ProtectionConfig_reach :: "store \<Rightarrow> go_protection_config \<Rightarrow> addr set" where
  "ProtectionConfig_reach s v = set_option (gp_labels v) \<union> sl_array ` set_option (gp_namespaces v)"

definition OrphanConfig_view :: "store \<Rightarrow> go_orphan_config \<Rightarrow> orphan_config option" where
  "OrphanConfig_view s v = do {
     d \<leftarrow> view_ptr (cell_as is_duration un_duration) plain_view s (go_min_age v);
     q \<leftarrow> view_ptr (cell_as is_float un_float) plain_view s (go_confidence_threshold v);
     Some \<lparr>orph_enabled = go_enabled v, orph_min_age = d, orph_confidence_threshold = q\<rparr> }"

definition OrphanConfig_reach :: "store \<Rightarrow> go_orphan_config \<Rightarrow> addr set" where
  "OrphanConfig_reach s v = set_option (go_min_age v) \<union> set_option (go_confidence_threshold v)"

definition PRNamespaceConfig_view :: "store \<Rightarrow> go_pr_namespace_config \<Rightarrow> pr_namespace_config option" where
  "PRNamespaceConfig_view s v = do {
     d \<leftarrow> view_ptr (cell_as is_duration un_duration) plain_view s (gn_closed_ttl v);
     Some \<lparr>prns_enabled = gn_enabled v, prns_label_key = gn_label_key v,
       prns_state_annotation = gn_state_annotation v, prns_closed_ttl = d\<rparr> }"

definition PRNamespaceConfig_reach :: "store \<Rightarrow> go_pr_namespace_config \<Rightarrow> addr set" where
  "PRNamespaceConfig_reach s v = set_option (gn_closed_ttl v)"

definition ActionConfig_view :: "store \<Rightarrow> go_action_config \<Rightarrow> action_config option" where
  "ActionConfig_view s v = do {
     q \<leftarrow> view_ptr (cell_as is_float un_float) plain_view s (ga_confidence_threshold v);
     Some \<lparr>ac_mode = ga_mode v, ac_confidence_threshold = q\<rparr> }"

definition ActionConfig_reach :: "store \<Rightarrow> go_action_config \<Rightarrow> addr set" where
  "ActionConfig_reach s v = set_option (ga_confidence_threshold v)"

text \<open>A pointer to a library struct, and what it reaches.\<close>

definition selector_view :: "metav1 \<Rightarrow> store \<Rightarrow> addr option \<Rightarrow> label_selector option option" where
  "selector_view lib s p = do {
     x \<leftarrow> view_ptr (cell_as is_selector un_selector) lib_view s p;
     Some (map_option (ml_label_selector_of lib) x) }"

definition ResourceSelector_view :: "metav1 \<Rightarrow> store \<Rightarrow> go_resource_selector \<Rightarrow> resource_selector option" where
  "ResourceSelector_view lib s v = do {
     ks \<leftarrow> view_slice (cell_as is_kinds un_kinds) plain_view s (gs_kinds v);
     n \<leftarrow> selector_view lib s (gs_namespace_selector v);
     l \<leftarrow> selector_view lib s (gs_label_selector v);
     Some \<lparr>sel_kinds = ks, sel_namespace_selector = n, sel_label_selector = l\<rparr> }"

definition selector_reach :: "store \<Rightarrow> addr option \<Rightarrow> addr set" where
  "selector_reach = reach_ptr (cell_as is_selector un_selector) lib_reach"

definition ResourceSelector_reach :: "store \<Rightarrow> go_resource_selector \<Rightarrow> addr set" where
  "ResourceSelector_reach s v = sl_array ` set_option (gs_kinds v) \<union>
     selector_reach s (gs_namespace_selector v) \<union> selector_reach s (gs_label_selector v)"

definition JanitorPolicySpec_view :: "metav1 \<Rightarrow> store \<Rightarrow> go_policy_spec \<Rightarrow> janitor_policy_spec option" where
  "JanitorPolicySpec_view lib s v = do {
     sel \<leftarrow> ResourceSelector_view lib s (gsp_selector v);
     t \<leftarrow> view_ptr (cell_as is_ttl un_ttl) TTLConfig_view s (gsp_ttl v);
     p \<leftarrow> view_ptr (cell_as is_protection un_protection) ProtectionConfig_view s (gsp_protection v);
     orph \<leftarrow> view_ptr (cell_as is_orphan un_orphan) OrphanConfig_view s (gsp_orphan v);
     n \<leftarrow> view_ptr (cell_as is_pr_namespace un_pr_namespace) PRNamespaceConfig_view s (gsp_pr_namespace v);
     a \<leftarrow> ActionConfig_view s (gsp_action v);
     r \<leftarrow> view_ptr (cell_as is_reporting un_reporting) plain_view s (gsp_reporting v);
     Some \<lparr>spec_selector = sel, spec_ttl = t, spec_protection = p, spec_orphan = orph,
       spec_pr_namespace = n, spec_action = a, spec_reporting = r\<rparr> }"

text \<open>What a spec reaches besides its action section.\<close>

definition spec_reach_rest :: "store \<Rightarrow> go_policy_spec \<Rightarrow> addr set" where
  "spec_reach_rest s v =
     ResourceSelector_reach s (gsp_selector v) \<union>
     reach_ptr (cell_as is_ttl un_ttl) TTLConfig_reach s (gsp_ttl v) \<union>
     reach_ptr (cell_as is_protection un_protection) ProtectionConfig_reach s (gsp_protection v) \<union>
     reach_ptr (cell_as is_orphan un_orphan) OrphanConfig_reach s (gsp_orphan v) \<union>
     reach_ptr (cell_as is_pr_namespace un_pr_namespace) PRNamespaceConfig_reach s (gsp_pr_namespace v) \<union>
     set_option (gsp_reporting v)"

definition JanitorPolicySpec_reach :: "store \<Rightarrow> go_policy_spec \<Rightarrow> addr set" where
  "JanitorPolicySpec_reach s v = spec_reach_rest s v \<union> ActionConfig_reach s (gsp_action v)"

definition JanitorPolicyStatus_view :: "metav1 \<Rightarrow> store \<Rightarrow> go_policy_status \<Rightarrow> janitor_policy_status option" where
  "JanitorPolicyStatus_view lib s v = do {
     cs \<leftarrow> view_slice (cell_as is_conditions un_conditions) lib_view s (gst_conditions v);
     t \<leftarrow> view_ptr (cell_as is_time un_time) plain_view s (gst_last_scan_time v);
     st \<leftarrow> view_ptr (cell_as is_stats un_stats) plain_view s (gst_stats v);
     Some \<lparr>status_observed_generation = gst_observed_generation v,
       status_conditions = map (ml_condition_of lib) cs, status_last_scan_time = t, status_stats = st\<rparr> }"

definition JanitorPolicyStatus_reach :: "store \<Rightarrow> go_policy_status \<Rightarrow> addr set" where
  "JanitorPolicyStatus_reach s v =
     reach_slice (cell_as is_conditions un_conditions) lib_reach s (gst_conditions v) \<union>
     set_option (gst_last_scan_time v) \<union> set_option (gst_stats v)"

definition JanitorPolicy_view :: "metav1 \<Rightarrow> store \<Rightarrow> go_policy \<Rightarrow> janitor_policy option" where
  "JanitorPolicy_view lib s v = do {
     m \<leftarrow> lib_view s (gpol_object_meta v);
     sp \<leftarrow> JanitorPolicySpec_view lib s (gpol_spec v);
     st \<leftarrow> JanitorPolicyStatus_view lib s (gpol_status v);
     Some \<lparr>policy_name = ml_name_of lib m, policy_spec = sp, policy_status = st\<rparr> }"

definition JanitorPolicy_reach :: "store \<Rightarrow> go_policy \<Rightarrow> addr set" where
  "JanitorPolicy_reach s v = lib_reach s (gpol_object_meta v) \<union> JanitorPolicySpec_reach s (gpol_spec v) \<union>
     JanitorPolicyStatus_reach s (gpol_status v)"

text \<open>The one cell of a policy that its copy shares: the confidence threshold of its action.\<close>

definition action_threshold :: "store \<Rightarrow> go_policy \<Rightarrow> addr set" where
  "action_threshold s v = set_option (ga_confidence_threshold (gsp_action (gpol_spec v)))"

definition JanitorPolicyList_view :: "metav1 \<Rightarrow> store \<Rightarrow> go_policy_list \<Rightarrow> janitor_policy list option" where
  "JanitorPolicyList_view lib s v = do {
     m \<leftarrow> lib_view s (gpl_list_meta v);
     view_slice (cell_as is_policies un_policies) (JanitorPolicy_view lib) s (gpl_items v) }"

definition JanitorPolicyList_reach :: "store \<Rightarrow> go_policy_list \<Rightarrow> addr set" where
  "JanitorPolicyList_reach s v = lib_reach s (gpl_list_meta v) \<union>
     reach_slice (cell_as is_policies un_policies) JanitorPolicy_reach s (gpl_items v)"

definition action_thresholds :: "store \<Rightarrow> go_policy_list \<Rightarrow> addr set" where
  "action_thresholds s v = through_slice (cell_as is_policies un_policies) action_threshold s (gpl_items v)"

section \<open>The copiers are deep\<close>

text \<open>
  What the metav1 library documents: \<open>DeepCopyInto\<close> and \<open>DeepCopy\<close> make a deep copy, equal to the
  original and sharing nothing with it.
\<close>

definition copy_time :: "metav1 \<Rightarrow> addr option copier" where
  "copy_time lib p s = (case p of None \<Rightarrow> Some (None, s) | Some a \<Rightarrow> ml_time lib a s)"

definition metav1_copies :: "metav1 \<Rightarrow> bool" where
  "metav1_copies lib \<longleftrightarrow>
     deep_copier (ml_object_meta lib) lib_view lib_reach no_cells \<and>
     deep_copier (ml_list_meta lib) lib_view lib_reach no_cells \<and>
     deep_copier (ml_label_selector lib) lib_view lib_reach no_cells \<and>
     deep_copier (ml_condition lib) lib_view lib_reach no_cells \<and>
     deep_copier (copy_time lib) (view_ptr (cell_as is_time un_time) plain_view)
       (\<lambda>_. set_option) no_cells"

lemma through_no_cells [simp]: "through proj (\<lambda>_ _. {}) s p = {}"
  by (simp add: through_def split: option.split)

lemma reach_ptr_no_cells [simp]: "reach_ptr proj (\<lambda>_ _. {}) s p = set_option p"
  by (simp add: reach_ptr_def)

lemma over_no_cells [simp]: "over (\<lambda>_ _. {}) s xs = {}"
  by (simp add: over_def)

lemma through_slice_no_cells [simp]: "through_slice proj (\<lambda>_ _. {}) s p = {}"
  by (simp add: through_slice_def split: option.split)

lemma reach_slice_no_cells [simp]: "reach_slice proj (\<lambda>_ _. {}) s p = sl_array ` set_option p"
  by (simp add: reach_slice_def)

lemmas copier_rules = copy_pair_deep_copier copy_ptr_deep_copier copy_slice_deep_copier
  copy_map_deep_copier keep_deep_copier
lemmas copier_defs = copy_pair_def view_pair_def pair_cells_def keep_def copy_plain_slice_eq

lemma TTLConfig_copier: "deep_copier TTLConfig_DeepCopyInto TTLConfig_view TTLConfig_reach no_cells"
proof (rule deep_copier_struct
    [where tup = "\<lambda>v. (gt_default v, gt_annotation v, gt_expires_at_annotation v)"
       and mk = "\<lambda>(d, a, e). \<lparr>gt_default = d, gt_annotation = a, gt_expires_at_annotation = e\<rparr>"
       and g = "\<lambda>(d, a, e). \<lparr>ttl_default = d, ttl_annotation = a, ttl_expires_at_annotation = e\<rparr>"])
  show "deep_copier (copy_pair (copy_ptr (cell_as is_duration un_duration) CDuration 0 keep) keep)
      (view_pair (view_ptr (cell_as is_duration un_duration) plain_view) plain_view)
      (pair_cells (reach_ptr (cell_as is_duration un_duration) no_cells) no_cells)
      (pair_cells (through (cell_as is_duration un_duration) no_cells) no_cells)"
    by (intro copier_rules) (simp add: cell_as_def)
qed (auto simp: TTLConfig_DeepCopyInto_def TTLConfig_view_def TTLConfig_reach_def copier_defs
       split: Option.bind_split)

lemma ProtectionConfig_copier:
  "deep_copier ProtectionConfig_DeepCopyInto ProtectionConfig_view ProtectionConfig_reach no_cells"
proof (rule deep_copier_struct
    [where tup = "\<lambda>v. (gp_labels v, gp_namespaces v, gp_annotation_key v)"
       and mk = "\<lambda>(l, n, k). \<lparr>gp_labels = l, gp_annotation_key = k, gp_namespaces = n\<rparr>"
       and g = "\<lambda>(l, n, k). \<lparr>prot_labels = l, prot_annotation_key = k, prot_namespaces = n\<rparr>"])
  show "deep_copier (copy_pair (copy_map (cell_as is_labels un_labels) CLabels)
        (copy_pair (copy_slice (cell_as is_strings un_strings) CStrings '''' keep) keep))
      (view_pair (view_map (cell_as is_labels un_labels))
        (view_pair (view_slice (cell_as is_strings un_strings) plain_view) plain_view))
      (pair_cells (\<lambda>_. set_option) (pair_cells (reach_slice (cell_as is_strings un_strings) no_cells) no_cells))
      (pair_cells no_cells (pair_cells (through_slice (cell_as is_strings un_strings) no_cells) no_cells))"
    by (intro copier_rules) (simp_all add: cell_as_def)
qed (auto simp: ProtectionConfig_DeepCopyInto_def ProtectionConfig_view_def ProtectionConfig_reach_def
       copier_defs split: Option.bind_split)

lemma OrphanConfig_copier: "deep_copier OrphanConfig_DeepCopyInto OrphanConfig_view OrphanConfig_reach no_cells"
proof (rule deep_copier_struct
    [where tup = "\<lambda>v. (go_min_age v, go_confidence_threshold v, go_enabled v)"
       and mk = "\<lambda>(d, q, e). \<lparr>go_enabled = e, go_min_age = d, go_confidence_threshold = q\<rparr>"
       and g = "\<lambda>(d, q, e). \<lparr>orph_enabled = e, orph_min_age = d, orph_confidence_threshold = q\<rparr>"])
  show "deep_copier (copy_pair (copy_ptr (cell_as is_duration un_duration) CDuration 0 keep)
        (copy_pair (copy_ptr (cell_as is_float un_float) CFloat (F64 0) keep) keep))
      (view_pair (view_ptr (cell_as is_duration un_duration) plain_view)
        (view_pair (view_ptr (cell_as is_float un_float) plain_view) plain_view))
      (pair_cells (reach_ptr (cell_as is_duration un_duration) no_cells)
        (pair_cells (reach_ptr (cell_as is_float un_float) no_cells) no_cells))
      (pair_cells (through (cell_as is_duration un_duration) no_cells)
        (pair_cells (through (cell_as is_float un_float) no_cells) no_cells))"
    by (intro copier_rules) (simp_all add: cell_as_def)
qed (auto simp: OrphanConfig_DeepCopyInto_def OrphanConfig_view_def OrphanConfig_reach_def copier_defs
       split: Option.bind_split)

lemma PRNamespaceConfig_copier:
  "deep_copier PRNamespaceConfig_DeepCopyInto PRNamespaceConfig_view PRNamespaceConfig_reach no_cells"
proof (rule deep_copier_struct
    [where tup = "\<lambda>v. (gn_closed_ttl v, gn_enabled v, gn_label_key v, gn_state_annotation v)"
       and mk = "\<lambda>(d, e, l, a). \<lparr>gn_enabled = e, gn_label_key = l, gn_state_annotation = a, gn_closed_ttl = d\<rparr>"
       and g = "\<lambda>(d, e, l, a). \<lparr>prns_enabled = e, prns_label_key = l, prns_state_annotation = a, prns_closed_ttl = d\<rparr>"])
  show "deep_copier (copy_pair (copy_ptr (cell_as is_duration un_duration) CDuration 0 keep) keep)
      (view_pair (view_ptr (cell_as is_duration un_duration) plain_view) plain_view)
      (pair_cells (reach_ptr (cell_as is_duration un_duration) no_cells) no_cells)
      (pair_cells (through (cell_as is_duration un_duration) no_cells) no_cells)"
    by (intro copier_rules) (simp add: cell_as_def)
qed (auto simp: PRNamespaceConfig_DeepCopyInto_def PRNamespaceConfig_view_def PRNamespaceConfig_reach_def
       copier_defs split: Option.bind_split)

lemma ActionConfig_copier: "deep_copier ActionConfig_DeepCopyInto ActionConfig_view ActionConfig_reach no_cells"
proof (rule deep_copier_struct
    [where tup = "\<lambda>v. (ga_confidence_threshold v, ga_mode v)"
       and mk = "\<lambda>(q, m). \<lparr>ga_mode = m, ga_confidence_threshold = q\<rparr>"
       and g = "\<lambda>(q, m). \<lparr>ac_mode = m, ac_confidence_threshold = q\<rparr>"])
  show "deep_copier (copy_pair (copy_ptr (cell_as is_float un_float) CFloat (F64 0) keep) keep)
      (view_pair (view_ptr (cell_as is_float un_float) plain_view) plain_view)
      (pair_cells (reach_ptr (cell_as is_float un_float) no_cells) no_cells)
      (pair_cells (through (cell_as is_float un_float) no_cells) no_cells)"
    by (intro copier_rules) (simp add: cell_as_def)
qed (auto simp: ActionConfig_DeepCopyInto_def ActionConfig_view_def ActionConfig_reach_def copier_defs
       split: Option.bind_split)

text \<open>The copiers that call no library are interpreted once and for all.\<close>

interpretation ttl_config: deep_copier TTLConfig_DeepCopyInto TTLConfig_view TTLConfig_reach no_cells
  by (rule TTLConfig_copier)

interpretation protection_config: deep_copier ProtectionConfig_DeepCopyInto ProtectionConfig_view
    ProtectionConfig_reach no_cells
  by (rule ProtectionConfig_copier)

interpretation orphan_config: deep_copier OrphanConfig_DeepCopyInto OrphanConfig_view OrphanConfig_reach no_cells
  by (rule OrphanConfig_copier)

interpretation pr_namespace_config: deep_copier PRNamespaceConfig_DeepCopyInto PRNamespaceConfig_view
    PRNamespaceConfig_reach no_cells
  by (rule PRNamespaceConfig_copier)

interpretation action_config: deep_copier ActionConfig_DeepCopyInto ActionConfig_view ActionConfig_reach no_cells
  by (rule ActionConfig_copier)

lemma selector_copier:
  assumes "metav1_copies lib"
  shows "deep_copier (copy_ptr (cell_as is_selector un_selector) CSelector zero_lib (ml_label_selector lib))
    (selector_view lib) selector_reach no_cells"
proof (rule deep_copier_struct [where tup = id and mk = id and g = "map_option (ml_label_selector_of lib)"])
  show "deep_copier (copy_ptr (cell_as is_selector un_selector) CSelector zero_lib (ml_label_selector lib))
      (view_ptr (cell_as is_selector un_selector) lib_view)
      (reach_ptr (cell_as is_selector un_selector) lib_reach) (through (cell_as is_selector un_selector) no_cells)"
    using assms by (intro copier_rules) (simp_all add: metav1_copies_def cell_as_def)
qed (auto simp: selector_view_def selector_reach_def case_prod_unfold option.map_ident split: Option.bind_split)

lemma ResourceSelector_copier:
  assumes "metav1_copies lib"
  shows "deep_copier (ResourceSelector_DeepCopyInto lib) (ResourceSelector_view lib) ResourceSelector_reach no_cells"
proof (rule deep_copier_struct
    [where tup = "\<lambda>v. (gs_kinds v, gs_namespace_selector v, gs_label_selector v)"
       and mk = "\<lambda>(k, n, l). \<lparr>gs_kinds = k, gs_namespace_selector = n, gs_label_selector = l\<rparr>"
       and g = "\<lambda>(k, n, l). \<lparr>sel_kinds = k, sel_namespace_selector = n, sel_label_selector = l\<rparr>"])
  show "deep_copier (copy_pair (copy_slice (cell_as is_kinds un_kinds) CKinds zero_kind keep)
        (copy_pair (copy_ptr (cell_as is_selector un_selector) CSelector zero_lib (ml_label_selector lib))
          (copy_ptr (cell_as is_selector un_selector) CSelector zero_lib (ml_label_selector lib))))
      (view_pair (view_slice (cell_as is_kinds un_kinds) plain_view)
        (view_pair (selector_view lib) (selector_view lib)))
      (pair_cells (reach_slice (cell_as is_kinds un_kinds) no_cells) (pair_cells selector_reach selector_reach))
      (pair_cells (through_slice (cell_as is_kinds un_kinds) no_cells) (pair_cells no_cells no_cells))"
    by (intro copy_pair_deep_copier selector_copier assms copy_slice_deep_copier keep_deep_copier)
       (simp add: cell_as_def)
qed (auto simp: ResourceSelector_DeepCopyInto_def ResourceSelector_view_def ResourceSelector_reach_def
       copier_defs split: Option.bind_split)

text \<open>
  The spec: the action section is assigned, \<open>out.Action = in.Action\<close>, so what it reaches is
  shared.
\<close>

lemma JanitorPolicySpec_copier:
  assumes "metav1_copies lib"
  shows "deep_copier (JanitorPolicySpec_DeepCopyInto lib) (JanitorPolicySpec_view lib) JanitorPolicySpec_reach
    (\<lambda>s v. ActionConfig_reach s (gsp_action v))"
proof (rule deep_copier_struct
    [where tup = "\<lambda>v. (gsp_selector v, gsp_ttl v, gsp_protection v, gsp_orphan v, gsp_pr_namespace v,
         gsp_action v, gsp_reporting v)"
       and mk = "\<lambda>(sel, t, p, orph, n, a, r). \<lparr>gsp_selector = sel, gsp_ttl = t, gsp_protection = p,
         gsp_orphan = orph, gsp_pr_namespace = n, gsp_action = a, gsp_reporting = r\<rparr>"
       and g = "\<lambda>(sel, t, p, orph, n, a, r). \<lparr>spec_selector = sel, spec_ttl = t, spec_protection = p,
         spec_orphan = orph, spec_pr_namespace = n, spec_action = a, spec_reporting = r\<rparr>"])
  show "deep_copier
      (copy_pair (ResourceSelector_DeepCopyInto lib)
        (copy_pair (copy_ptr (cell_as is_ttl un_ttl) CTTL zero_ttl TTLConfig_DeepCopyInto)
        (copy_pair (copy_ptr (cell_as is_protection un_protection) CProtection zero_protection ProtectionConfig_DeepCopyInto)
        (copy_pair (copy_ptr (cell_as is_orphan un_orphan) COrphan zero_orphan OrphanConfig_DeepCopyInto)
        (copy_pair (copy_ptr (cell_as is_pr_namespace un_pr_namespace) CPRNamespace zero_pr_namespace PRNamespaceConfig_DeepCopyInto)
        (copy_pair keep (copy_ptr (cell_as is_reporting un_reporting) CReporting zero_reporting keep)))))))
      (view_pair (ResourceSelector_view lib)
        (view_pair (view_ptr (cell_as is_ttl un_ttl) TTLConfig_view)
        (view_pair (view_ptr (cell_as is_protection un_protection) ProtectionConfig_view)
        (view_pair (view_ptr (cell_as is_orphan un_orphan) OrphanConfig_view)
        (view_pair (view_ptr (cell_as is_pr_namespace un_pr_namespace) PRNamespaceConfig_view)
        (view_pair ActionConfig_view (view_ptr (cell_as is_reporting un_reporting) plain_view)))))))
      (pair_cells ResourceSelector_reach
        (pair_cells (reach_ptr (cell_as is_ttl un_ttl) TTLConfig_reach)
        (pair_cells (reach_ptr (cell_as is_protection un_protection) ProtectionConfig_reach)
        (pair_cells (reach_ptr (cell_as is_orphan un_orphan) OrphanConfig_reach)
        (pair_cells (reach_ptr (cell_as is_pr_namespace un_pr_namespace) PRNamespaceConfig_reach)
        (pair_cells ActionConfig_reach (reach_ptr (cell_as is_reporting un_reporting) no_cells)))))))
      (pair_cells no_cells
        (pair_cells (through (cell_as is_ttl un_ttl) no_cells)
        (pair_cells (through (cell_as is_protection un_protection) no_cells)
        (pair_cells (through (cell_as is_orphan un_orphan) no_cells)
        (pair_cells (through (cell_as is_pr_namespace un_pr_namespace) no_cells)
        (pair_cells ActionConfig_reach (through (cell_as is_reporting un_reporting) no_cells)))))))"
    by (intro copy_pair_deep_copier copy_ptr_deep_copier ResourceSelector_copier assms TTLConfig_copier
          ProtectionConfig_copier OrphanConfig_copier PRNamespaceConfig_copier
          shallow_copier [OF ActionConfig_copier] keep_deep_copier)
       (simp_all add: cell_as_def)
qed (auto simp: JanitorPolicySpec_DeepCopyInto_def JanitorPolicySpec_view_def JanitorPolicySpec_reach_def
       spec_reach_rest_def copier_defs split: Option.bind_split)

lemma JanitorPolicyStatus_copier:
  assumes "metav1_copies lib"
  shows "deep_copier (JanitorPolicyStatus_DeepCopyInto lib) (JanitorPolicyStatus_view lib)
    JanitorPolicyStatus_reach no_cells"
proof (rule deep_copier_struct
    [where tup = "\<lambda>v. (gst_conditions v, gst_last_scan_time v, gst_stats v, gst_observed_generation v)"
       and mk = "\<lambda>(c, t, st, n). \<lparr>gst_observed_generation = n, gst_conditions = c, gst_last_scan_time = t, gst_stats = st\<rparr>"
       and g = "\<lambda>(c, t, st, n). \<lparr>status_observed_generation = n, status_conditions = map (ml_condition_of lib) c,
         status_last_scan_time = t, status_stats = st\<rparr>"])
  show "deep_copier
      (copy_pair (copy_slice (cell_as is_conditions un_conditions) CConditions zero_lib (ml_condition lib))
        (copy_pair (copy_time lib) (copy_pair (copy_ptr (cell_as is_stats un_stats) CStats zero_stats keep) keep)))
      (view_pair (view_slice (cell_as is_conditions un_conditions) lib_view)
        (view_pair (view_ptr (cell_as is_time un_time) plain_view)
          (view_pair (view_ptr (cell_as is_stats un_stats) plain_view) plain_view)))
      (pair_cells (reach_slice (cell_as is_conditions un_conditions) lib_reach)
        (pair_cells (\<lambda>_. set_option) (pair_cells (reach_ptr (cell_as is_stats un_stats) no_cells) no_cells)))
      (pair_cells (through_slice (cell_as is_conditions un_conditions) no_cells)
        (pair_cells no_cells (pair_cells (through (cell_as is_stats un_stats) no_cells) no_cells)))"
    using assms by (intro copier_rules) (simp_all add: metav1_copies_def cell_as_def)
qed (auto simp: JanitorPolicyStatus_DeepCopyInto_def JanitorPolicyStatus_view_def JanitorPolicyStatus_reach_def
       copier_defs copy_time_def split: Option.bind_split)

lemma JanitorPolicy_copier:
  assumes "metav1_copies lib"
  shows "deep_copier (JanitorPolicy_DeepCopyInto lib) (JanitorPolicy_view lib) JanitorPolicy_reach action_threshold"
proof (rule deep_copier_struct
    [where tup = "\<lambda>v. (gpol_object_meta v, gpol_spec v, gpol_status v, gpol_type_meta v)"
       and mk = "\<lambda>(m, sp, st, t). \<lparr>gpol_type_meta = t, gpol_object_meta = m, gpol_spec = sp, gpol_status = st\<rparr>"
       and g = "\<lambda>(m, sp, st, t). \<lparr>policy_name = ml_name_of lib m, policy_spec = sp, policy_status = st\<rparr>"])
  show "deep_copier
      (copy_pair (ml_object_meta lib) (copy_pair (JanitorPolicySpec_DeepCopyInto lib)
        (copy_pair (JanitorPolicyStatus_DeepCopyInto lib) keep)))
      (view_pair lib_view (view_pair (JanitorPolicySpec_view lib) (view_pair (JanitorPolicyStatus_view lib) plain_view)))
      (pair_cells lib_reach (pair_cells JanitorPolicySpec_reach (pair_cells JanitorPolicyStatus_reach no_cells)))
      (pair_cells no_cells (pair_cells (\<lambda>s v. ActionConfig_reach s (gsp_action v)) (pair_cells no_cells no_cells)))"
    using assms
    by (intro copy_pair_deep_copier JanitorPolicySpec_copier JanitorPolicyStatus_copier keep_deep_copier)
       (simp_all add: metav1_copies_def)
qed (auto simp: JanitorPolicy_DeepCopyInto_def JanitorPolicy_view_def JanitorPolicy_reach_def action_threshold_def
       ActionConfig_reach_def copier_defs split: Option.bind_split)

lemma JanitorPolicyList_copier:
  assumes "metav1_copies lib"
  shows "deep_copier (JanitorPolicyList_DeepCopyInto lib) (JanitorPolicyList_view lib) JanitorPolicyList_reach
    action_thresholds"
proof (rule deep_copier_struct
    [where tup = "\<lambda>v. (gpl_list_meta v, gpl_items v, gpl_type_meta v)"
       and mk = "\<lambda>(m, i, t). \<lparr>gpl_type_meta = t, gpl_list_meta = m, gpl_items = i\<rparr>"
       and g = "\<lambda>(m, i, t). i"])
  show "deep_copier
      (copy_pair (ml_list_meta lib)
        (copy_pair (copy_slice (cell_as is_policies un_policies) CPolicies zero_policy (JanitorPolicy_DeepCopyInto lib)) keep))
      (view_pair lib_view
        (view_pair (view_slice (cell_as is_policies un_policies) (JanitorPolicy_view lib)) plain_view))
      (pair_cells lib_reach (pair_cells (reach_slice (cell_as is_policies un_policies) JanitorPolicy_reach) no_cells))
      (pair_cells no_cells (pair_cells (through_slice (cell_as is_policies un_policies) action_threshold) no_cells))"
    using assms
    by (intro copy_pair_deep_copier copy_slice_deep_copier JanitorPolicy_copier keep_deep_copier)
       (simp_all add: metav1_copies_def cell_as_def)
qed (auto simp: JanitorPolicyList_DeepCopyInto_def JanitorPolicyList_view_def JanitorPolicyList_reach_def
       action_thresholds_def copier_defs split: Option.bind_split)

lemma JanitorPolicy_DeepCopy_copier:
  assumes "metav1_copies lib"
  shows "deep_copier (JanitorPolicy_DeepCopy lib) (view_ptr (cell_as is_policy un_policy) (JanitorPolicy_view lib))
    (reach_ptr (cell_as is_policy un_policy) JanitorPolicy_reach) (through (cell_as is_policy un_policy) action_threshold)"
  unfolding JanitorPolicy_DeepCopy_def
  by (intro copy_ptr_deep_copier JanitorPolicy_copier assms) (simp add: cell_as_def)

lemma JanitorPolicyList_DeepCopy_copier:
  assumes "metav1_copies lib"
  shows "deep_copier (JanitorPolicyList_DeepCopy lib)
    (view_ptr (cell_as is_policy_list un_policy_list) (JanitorPolicyList_view lib))
    (reach_ptr (cell_as is_policy_list un_policy_list) JanitorPolicyList_reach)
    (through (cell_as is_policy_list un_policy_list) action_thresholds)"
  unfolding JanitorPolicyList_DeepCopy_def
  by (intro copy_ptr_deep_copier JanitorPolicyList_copier assms) (simp add: cell_as_def)

text \<open>
  \<open>DeepCopy\<close> of the other types, from nil or a pointer: nothing is shared with the original,
  by a spec's action section excepted.
\<close>

lemma DeepCopy_copiers:
  "deep_copier ResourceKind_DeepCopy (view_ptr (cell_as is_kind un_kind) plain_view)
     (reach_ptr (cell_as is_kind un_kind) no_cells) (through (cell_as is_kind un_kind) no_cells)"
  "deep_copier PolicyStats_DeepCopy (view_ptr (cell_as is_stats un_stats) plain_view)
     (reach_ptr (cell_as is_stats un_stats) no_cells) (through (cell_as is_stats un_stats) no_cells)"
  "deep_copier ReportingConfig_DeepCopy (view_ptr (cell_as is_reporting un_reporting) plain_view)
     (reach_ptr (cell_as is_reporting un_reporting) no_cells) (through (cell_as is_reporting un_reporting) no_cells)"
  "deep_copier TTLConfig_DeepCopy (view_ptr (cell_as is_ttl un_ttl) TTLConfig_view)
     (reach_ptr (cell_as is_ttl un_ttl) TTLConfig_reach) (through (cell_as is_ttl un_ttl) no_cells)"
  "deep_copier ProtectionConfig_DeepCopy (view_ptr (cell_as is_protection un_protection) ProtectionConfig_view)
     (reach_ptr (cell_as is_protection un_protection) ProtectionConfig_reach) (through (cell_as is_protection un_protection) no_cells)"
  "deep_copier OrphanConfig_DeepCopy (view_ptr (cell_as is_orphan un_orphan) OrphanConfig_view)
     (reach_ptr (cell_as is_orphan un_orphan) OrphanConfig_reach) (through (cell_as is_orphan un_orphan) no_cells)"
  "deep_copier PRNamespaceConfig_DeepCopy (view_ptr (cell_as is_pr_namespace un_pr_namespace) PRNamespaceConfig_view)
     (reach_ptr (cell_as is_pr_namespace un_pr_namespace) PRNamespaceConfig_reach) (through (cell_as is_pr_namespace un_pr_namespace) no_cells)"
  "deep_copier ActionConfig_DeepCopy (view_ptr (cell_as is_action un_action) ActionConfig_view)
     (reach_ptr (cell_as is_action un_action) ActionConfig_reach) (through (cell_as is_action un_action) no_cells)"
  unfolding ResourceKind_DeepCopy_def PolicyStats_DeepCopy_def ReportingConfig_DeepCopy_def TTLConfig_DeepCopy_def
    ProtectionConfig_DeepCopy_def OrphanConfig_DeepCopy_def PRNamespaceConfig_DeepCopy_def ActionConfig_DeepCopy_def
    ResourceKind_DeepCopyInto_def PolicyStats_DeepCopyInto_def ReportingConfig_DeepCopyInto_def
  by (intro copy_ptr_deep_copier keep_deep_copier TTLConfig_copier ProtectionConfig_copier OrphanConfig_copier
        PRNamespaceConfig_copier ActionConfig_copier; simp add: cell_as_def)+

lemma DeepCopy_library_copiers:
  assumes "metav1_copies lib"
  shows "deep_copier (ResourceSelector_DeepCopy lib)
      (view_ptr (cell_as is_resource_selector un_resource_selector) (ResourceSelector_view lib))
      (reach_ptr (cell_as is_resource_selector un_resource_selector) ResourceSelector_reach)
      (through (cell_as is_resource_selector un_resource_selector) no_cells)"
    and "deep_copier (JanitorPolicySpec_DeepCopy lib) (view_ptr (cell_as is_spec un_spec) (JanitorPolicySpec_view lib))
      (reach_ptr (cell_as is_spec un_spec) JanitorPolicySpec_reach)
      (through (cell_as is_spec un_spec) (\<lambda>s v. ActionConfig_reach s (gsp_action v)))"
    and "deep_copier (JanitorPolicyStatus_DeepCopy lib)
      (view_ptr (cell_as is_status un_status) (JanitorPolicyStatus_view lib))
      (reach_ptr (cell_as is_status un_status) JanitorPolicyStatus_reach) (through (cell_as is_status un_status) no_cells)"
  unfolding ResourceSelector_DeepCopy_def JanitorPolicySpec_DeepCopy_def JanitorPolicyStatus_DeepCopy_def
  by (intro copy_ptr_deep_copier ResourceSelector_copier JanitorPolicySpec_copier JanitorPolicyStatus_copier assms;
      simp add: cell_as_def)+

section \<open>What is shared\<close>

lemma DeepCopyInto_action:
  "JanitorPolicy_DeepCopyInto lib v s = Some (v', s') \<Longrightarrow> gsp_action (gpol_spec v') = gsp_action (gpol_spec v)"
  by (auto simp: JanitorPolicy_DeepCopyInto_def JanitorPolicySpec_DeepCopyInto_def bind_eq_Some_conv)

text \<open>A policy without its action threshold, in memory and as a value.\<close>

definition drop_threshold :: "go_policy \<Rightarrow> go_policy" where
  "drop_threshold v = v\<lparr>gpol_spec := (gpol_spec v)\<lparr>gsp_action :=
     (gsp_action (gpol_spec v))\<lparr>ga_confidence_threshold := None\<rparr>\<rparr>\<rparr>"

definition with_threshold :: "float64 option \<Rightarrow> janitor_policy \<Rightarrow> janitor_policy" where
  "with_threshold q pol = pol\<lparr>policy_spec := (policy_spec pol)\<lparr>spec_action :=
     (spec_action (policy_spec pol))\<lparr>ac_confidence_threshold := q\<rparr>\<rparr>\<rparr>"

lemma view_by_threshold:
  "JanitorPolicy_view lib s v = do {
     pol \<leftarrow> JanitorPolicy_view lib s (drop_threshold v);
     q \<leftarrow> view_ptr (cell_as is_float un_float) plain_view s (ga_confidence_threshold (gsp_action (gpol_spec v)));
     Some (with_threshold q pol) }"
  by (auto simp: JanitorPolicy_view_def JanitorPolicySpec_view_def ActionConfig_view_def drop_threshold_def
        with_threshold_def view_ptr_def split: Option.bind_split)

section \<open>Properties\<close>

text \<open>
  C20. With a metav1 library whose own copiers are deep, \<open>DeepCopyObject\<close> of a policy in memory
  returns a new object that stands for the same policy, leaves every older cell as it was,
  and reaches new cells only, but for the confidence threshold of the action section.
\<close>

theorem DeepCopyObject_copies_the_policy:
  assumes lib: "metav1_copies lib" and v: "read_as (cell_as is_policy un_policy) a s = Some v"
    and pol: "JanitorPolicy_view lib s v = Some pol"
  shows "\<exists>b v' s'. JanitorPolicy_DeepCopyObject lib (Some a) s = Some (PolicyObject b, s') \<and>
     length s \<le> b \<and> take (length s) s' = s \<and>
     read_as (cell_as is_policy un_policy) b s' = Some v' \<and> JanitorPolicy_view lib s' v' = Some pol \<and>
     JanitorPolicy_reach s' v' \<subseteq> {length s..} \<union> action_threshold s v"
proof -
  note d = JanitorPolicy_DeepCopy_copier [OF lib]
  let ?as = "cell_as is_policy un_policy"
  have "view_ptr ?as (JanitorPolicy_view lib) s (Some a) = Some (Some pol)" by (simp add: view_ptr_def v pol)
  from deep_copier.copies [OF d this] obtain p s' where p:
    "JanitorPolicy_DeepCopy lib (Some a) s = Some (p, s')" "prefix s s'"
    "view_ptr ?as (JanitorPolicy_view lib) s' p = Some (Some pol)"
    "reach_ptr ?as JanitorPolicy_reach s' p \<subseteq> {length s..} \<union> action_threshold s v"
    by (auto simp: through_def v)
  from p(3) obtain b v' where b: "p = Some b" "read_as ?as b s' = Some v'" "JanitorPolicy_view lib s' v' = Some pol"
    by (auto simp: view_ptr_def bind_eq_Some_conv split: option.splits)
  have "b = length s" using p(1) b(1) v
    by (auto simp: JanitorPolicy_DeepCopy_def copy_ptr_def new_cell_def bind_eq_Some_conv)
  moreover have "take (length s) s' = s" using p(2) by (auto simp: prefix_def)
  moreover have "JanitorPolicy_reach s' v' \<subseteq> {length s..} \<union> action_threshold s v"
    using p(4) by (simp add: b reach_ptr_def through_def)
  ultimately show ?thesis using p(1) b by (simp add: JanitorPolicy_DeepCopyObject_def)
qed

text \<open>
  C19. A policy list and its deep copy do not disturb each other, action thresholds apart:
  overwriting any cell the copy reaches leaves the original list of policies as it was, and
  overwriting any older cell leaves the copy as it was.
\<close>

theorem list_copy_is_isolated:
  assumes lib: "metav1_copies lib" and v: "JanitorPolicyList_view lib s v = Some pols"
  shows "\<exists>v' s'. JanitorPolicyList_DeepCopyInto lib v s = Some (v', s') \<and>
     JanitorPolicyList_view lib s' v' = Some pols \<and>
     (\<forall>a c. a \<in> JanitorPolicyList_reach s' v' - action_thresholds s v \<longrightarrow>
        JanitorPolicyList_view lib (s'[a := c]) v = Some pols) \<and>
     (\<forall>a c. a \<in> {..<length s} - action_thresholds s v \<longrightarrow>
        JanitorPolicyList_view lib (s'[a := c]) v' = Some pols)"
proof -
  note d = JanitorPolicyList_copier [OF lib]
  obtain v' s' where copy: "JanitorPolicyList_DeepCopyInto lib v s = Some (v', s')"
    using deep_copier.copies [OF d v] by blast
  show ?thesis
    using copy deep_copier.copy_result(2) [OF d v copy] deep_copier.original_isolated [OF d v copy]
      deep_copier.copy_isolated [OF d v copy] by blast
qed

text \<open>
  C18. The confidence threshold of the action section is not copied: the deep copy holds the
  pointer of the original, and writing a threshold through the copy changes the threshold of
  the original policy (and nothing else of it, if no other pointer has that address).
\<close>

theorem deep_copy_shares_the_threshold:
  assumes lib: "metav1_copies lib" and pol: "JanitorPolicy_view lib s v = Some pol"
    and a: "ga_confidence_threshold (gsp_action (gpol_spec v)) = Some a"
    and alone: "a \<notin> JanitorPolicy_reach s (drop_threshold v)"
  shows "\<exists>v' s'. JanitorPolicy_DeepCopyInto lib v s = Some (v', s') \<and>
     ga_confidence_threshold (gsp_action (gpol_spec v')) = Some a \<and>
     JanitorPolicy_view lib (s'[a := CFloat q]) v = Some (with_threshold (Some q) pol)"
proof -
  note d = JanitorPolicy_copier [OF lib]
  obtain v' s' where copy: "JanitorPolicy_DeepCopyInto lib v s = Some (v', s')"
    using deep_copier.copies [OF d pol] by blast
  obtain pol0 q0 where v0: "JanitorPolicy_view lib s (drop_threshold v) = Some pol0"
      and p: "pol = with_threshold q0 pol0"
    using pol by (subst (asm) view_by_threshold) (auto simp: bind_eq_Some_conv)
  have pre: "prefix s s'" by (rule deep_copier.copy_result(1) [OF d pol copy])
  have "a < length s" using deep_copier.allocated [OF d pol] a
    by (auto simp: JanitorPolicy_reach_def JanitorPolicySpec_reach_def ActionConfig_reach_def)
  then have len: "a < length s'" using prefix_length_le [OF pre] by simp
  have "\<And>b. b \<in> JanitorPolicy_reach s (drop_threshold v) \<Longrightarrow> read_cell b (s'[a := CFloat q]) = read_cell b s"
    using alone deep_copier.allocated [OF d v0] read_cell_prefix [OF pre]
    by (auto simp: read_cell_update)
  then have "JanitorPolicy_view lib (s'[a := CFloat q]) (drop_threshold v) = Some pol0"
    using deep_copier.frame [OF d v0] by blast
  then have "JanitorPolicy_view lib (s'[a := CFloat q]) v = Some (with_threshold (Some q) pol0)"
    using len by (subst view_by_threshold) (simp add: a view_ptr_def read_as_def read_cell_def cell_as_def)
  then show ?thesis using a copy DeepCopyInto_action [OF copy] by (simp add: p with_threshold_def)
qed

section \<open>Witnesses\<close>

text \<open>A metav1 library that copies cell by cell, and a policy in memory.\<close>

definition copy_lib_cell :: "addr copier" where
  "copy_lib_cell a s = do {
     x \<leftarrow> read_as (cell_as is_lib un_lib) a s;
     Some (new_cell (CLib x) s) }"

definition copy_lib_struct :: "lib_struct copier" where
  "copy_lib_struct v s = do {
     (cs, s) \<leftarrow> copy_elems copy_lib_cell (lib_cells v) s;
     Some (v\<lparr>lib_cells := cs\<rparr>, s) }"

definition sample_metav1 :: metav1 where
  "sample_metav1 =
     \<lparr>ml_object_meta = copy_lib_struct, ml_list_meta = copy_lib_struct, ml_label_selector = copy_lib_struct,
      ml_condition = copy_lib_struct,
      ml_time = (\<lambda>a. copy_ptr (cell_as is_time un_time) CTime \<lparr>unix_ns = 0, zone_off = 0\<rparr> keep (Some a)),
      ml_name_of = (\<lambda>x. concat (fst x)),
      ml_label_selector_of = (\<lambda>_. \<lparr>ls_match_labels = [], ls_match_expressions = []\<rparr>),
      ml_condition_of = (\<lambda>x. \<lparr>cond_type = concat (fst x), cond_status = '''', cond_observed_generation = 0,
        cond_last_transition_time = \<lparr>unix_ns = 0, zone_off = 0\<rparr>, cond_reason = '''', cond_message = ''''\<rparr>)\<rparr>"

lemma copy_lib_cell_copier:
  "deep_copier copy_lib_cell (\<lambda>s a. read_as (cell_as is_lib un_lib) a s) (\<lambda>_ a. {a}) no_cells"
  by unfold_locales
     (auto simp: copy_lib_cell_def new_cell_def read_as_def read_cell_def cell_as_def nth_append
        split: if_splits)

lemma copy_lib_struct_copier: "deep_copier copy_lib_struct lib_view lib_reach no_cells"
proof (rule deep_copier_struct
    [where tup = "\<lambda>v. (lib_cells v, lib_inline v)" and mk = "\<lambda>(c, i). \<lparr>lib_inline = i, lib_cells = c\<rparr>"
       and g = "\<lambda>(c, i). (i, c)"])
  show "deep_copier (copy_pair (copy_elems copy_lib_cell) keep)
      (view_pair (view_elems (\<lambda>s a. read_as (cell_as is_lib un_lib) a s)) plain_view)
      (pair_cells (over (\<lambda>_ a. {a})) no_cells) (pair_cells (over no_cells) no_cells)"
    by (intro copy_pair_deep_copier deep_copier.copy_elems_deep_copier copy_lib_cell_copier keep_deep_copier)
qed (auto simp: copy_lib_struct_def lib_view_def lib_reach_def over_def copier_defs split: Option.bind_split)

lemma sample_metav1_copies: "metav1_copies sample_metav1"
proof -
  let ?time = "cell_as is_time un_time"
  have "deep_copier (copy_ptr ?time CTime \<lparr>unix_ns = 0, zone_off = 0\<rparr> keep)
      (view_ptr ?time plain_view) (reach_ptr ?time no_cells) (through ?time no_cells)"
    by (intro copier_rules) (simp add: cell_as_def)
  moreover have "reach_ptr ?time no_cells = (\<lambda>_. set_option)" "through ?time no_cells = no_cells"
    by (simp_all add: fun_eq_iff)
  moreover have "copy_time sample_metav1 = copy_ptr ?time CTime \<lparr>unix_ns = 0, zone_off = 0\<rparr> keep"
    by (auto simp: fun_eq_iff copy_time_def sample_metav1_def copy_ptr_def split: option.split)
  ultimately show ?thesis
    by (simp add: metav1_copies_def sample_metav1_def copy_lib_struct_copier)
qed

definition memory_policy :: go_policy where
  "memory_policy = zero_policy\<lparr>gpol_object_meta := \<lparr>lib_inline = [''cleanup''], lib_cells = [2]\<rparr>,
     gpol_spec := zero_spec\<lparr>
       gsp_selector := zero_resource_selector\<lparr>gs_kinds := Some \<lparr>sl_array = 1, sl_off = 0, sl_len = 1\<rparr>\<rparr>,
       gsp_action := \<lparr>ga_mode = ActionModeDelete, ga_confidence_threshold = Some 0\<rparr>\<rparr>\<rparr>"

definition memory :: store where
  "memory = [CFloat (F64 (9 / 10)), CKinds [\<lparr>rk_group = '''', rk_version = ''v1'', rk_kind = ''ConfigMap''\<rparr>],
     CLib ''label'', CPolicy memory_policy, CPolicies [memory_policy]]"

definition memory_list :: go_policy_list where
  "memory_list = zero_policy_list\<lparr>gpl_items := Some \<lparr>sl_array = 4, sl_off = 0, sl_len = 1\<rparr>\<rparr>"

definition memory_value :: janitor_policy where
  "memory_value = \<lparr>policy_name = ''cleanup'',
     policy_spec = \<lparr>
       spec_selector = \<lparr>sel_kinds = [\<lparr>rk_group = '''', rk_version = ''v1'', rk_kind = ''ConfigMap''\<rparr>],
         sel_namespace_selector = None, sel_label_selector = None\<rparr>,
       spec_ttl = None, spec_protection = None, spec_orphan = None, spec_pr_namespace = None,
       spec_action = \<lparr>ac_mode = ActionModeDelete, ac_confidence_threshold = Some (F64 (9 / 10))\<rparr>,
       spec_reporting = None\<rparr>,
     policy_status = \<lparr>status_observed_generation = 0, status_conditions = [], status_last_scan_time = None,
       status_stats = None\<rparr>\<rparr>"

lemmas zero_defs = zero_policy_def zero_spec_def zero_status_def zero_type_meta_def zero_lib_def
  zero_resource_selector_def zero_action_def zero_policy_list_def
lemmas memory_defs = memory_policy_def memory_def memory_list_def memory_value_def zero_defs
lemmas cell_reading = read_as_def read_cell_def read_slice_def cell_as_def view_ptr_def view_slice_def

lemma memory_view: "JanitorPolicy_view sample_metav1 memory memory_policy = Some memory_value"
  by (simp add: JanitorPolicy_view_def JanitorPolicySpec_view_def JanitorPolicyStatus_view_def
        ResourceSelector_view_def ActionConfig_view_def selector_view_def lib_view_def memory_defs
        cell_reading sample_metav1_def)

lemma memory_list_view: "JanitorPolicyList_view sample_metav1 memory memory_list = Some [memory_value]"
proof -
  have "lib_view memory (gpl_list_meta memory_list) = Some ([], [])" by (simp add: lib_view_def memory_defs)
  moreover have "read_slice (cell_as is_policies un_policies) \<lparr>sl_array = 4, sl_off = 0, sl_len = 1\<rparr> memory
      = Some [memory_policy]"
    by (simp add: cell_reading memory_def)
  ultimately show ?thesis
    by (simp add: JanitorPolicyList_view_def memory_view view_slice_def)
       (simp add: memory_list_def memory_view)
qed

lemma memory_reach:
  "JanitorPolicy_reach memory (drop_threshold memory_policy) = {1, 2}"
  "action_thresholds memory memory_list = {0}"
  by (auto simp: JanitorPolicy_reach_def JanitorPolicySpec_reach_def JanitorPolicyStatus_reach_def
        spec_reach_rest_def ResourceSelector_reach_def ActionConfig_reach_def selector_reach_def
        lib_reach_def drop_threshold_def reach_ptr_def reach_slice_def through_def through_slice_def
        action_thresholds_def action_threshold_def read_slice_def read_as_def read_cell_def cell_as_def memory_defs)

theorem DeepCopyObject_copies_the_policy_witness:
  "\<exists>b v' s'. JanitorPolicy_DeepCopyObject sample_metav1 (Some 3) memory = Some (PolicyObject b, s') \<and>
     5 \<le> b \<and> JanitorPolicy_view sample_metav1 s' v' = Some memory_value"
proof -
  have "read_as (cell_as is_policy un_policy) 3 memory = Some memory_policy"
    by (simp add: cell_reading memory_def)
  from DeepCopyObject_copies_the_policy [OF sample_metav1_copies this memory_view]
  show ?thesis by (auto simp: memory_def)
qed

theorem list_copy_is_isolated_witness:
  "\<exists>v' s'. JanitorPolicyList_DeepCopyInto sample_metav1 memory_list memory = Some (v', s') \<and>
     JanitorPolicyList_view sample_metav1 (s'[1 := CLib '''']) v' = Some [memory_value]"
proof -
  have "1 \<in> {..<length memory} - action_thresholds memory memory_list"
    by (simp only: memory_reach) (simp add: memory_def)
  with list_copy_is_isolated [OF sample_metav1_copies memory_list_view] show ?thesis by blast
qed

theorem deep_copy_shares_the_threshold_witness:
  "\<exists>v' s'. JanitorPolicy_DeepCopyInto sample_metav1 memory_policy memory = Some (v', s') \<and>
     JanitorPolicy_view sample_metav1 (s'[0 := CFloat (F64 0)]) memory_policy =
       Some (with_threshold (Some (F64 0)) memory_value)"
proof -
  have a: "ga_confidence_threshold (gsp_action (gpol_spec memory_policy)) = Some 0" by (simp add: memory_defs)
  have "0 \<notin> JanitorPolicy_reach memory (drop_threshold memory_policy)" by (simp add: memory_reach)
  from deep_copy_shares_the_threshold [OF sample_metav1_copies memory_view a this] show ?thesis by blast
qed

end
