(* ===== verification/KubeApi.thy ===== *)
theory KubeApi
  imports PolicyTypes
begin

text \<open>
  What the program sees of the Kubernetes libraries: the fields it reads of objects, Pods
  and Deployments, and the clients it calls. The API server and the client libraries are
  not part of the repository: their answers are the function fields of \<open>reader\<close> and
  \<open>api_client\<close>, arguments of every operation that uses them, with nothing assumed about
  them. Each call is answered anew, so a field stands for the answers during one reconcile.
\<close>

section \<open>Objects\<close>

text \<open>The Go types of the objects that are reconciled.\<close>

datatype go_type = ConfigMapType | NamespaceType

record gvk =
  gvk_group :: string
  gvk_version :: string
  gvk_kind :: string

record owner_reference =
  own_api_version :: string
  own_kind :: string
  own_name :: string
  own_uid :: string

text \<open>
  A \<open>client.Object\<close>: its Go type, its type metadata and object metadata, and, for a
  Namespace, \<open>status.phase\<close>. A nil map and an empty map read alike.
\<close>

record kobject =
  o_type :: go_type
  o_gvk :: gvk
  o_namespace :: string
  o_name :: string
  o_uid :: string
  o_labels :: "string \<rightharpoonup> string"
  o_annotations :: "string \<rightharpoonup> string"
  o_finalizers :: "string list"
  o_owners :: "owner_reference list"
  o_created :: gotime
  o_phase :: string

text \<open>Reading a Go map at a missing key gives the zero value.\<close>

definition map_get :: "(string \<rightharpoonup> string) \<Rightarrow> string \<Rightarrow> string" where
  "map_get m k = (case m k of Some v \<Rightarrow> v | None \<Rightarrow> '''')"

section \<open>Pods and Deployments\<close>

record volume =
  vol_name :: string
  vol_config_map :: "string option"
  vol_projected_config_maps :: "string list"

record env_from_source =
  ef_config_map_ref :: "string option"

record env_var_source =
  evs_config_map_key_ref :: "string option"

record env_var =
  env_name :: string
  env_value_from :: "env_var_source option"

record container =
  c_name :: string
  c_env_from :: "env_from_source list"
  c_env :: "env_var list"

record pod =
  pod_namespace :: string
  pod_name :: string
  pod_uid :: string
  pod_phase :: string
  pod_volumes :: "volume list"
  pod_init_containers :: "container list"
  pod_containers :: "container list"
  pod_ephemeral_containers :: "container list"

record deployment =
  dep_name :: string
  dep_uid :: string

section \<open>Clients\<close>

text \<open>
  \<open>client.Reader\<close>: \<open>Get\<close> into a typed object (the object passed selects the resource),
  \<open>Get\<close> into an unstructured object of a given kind, of which only the UID is read, and
  \<open>List\<close> of Pods and of Deployments in a namespace.
\<close>

record reader =
  rd_get :: "kobject \<Rightarrow> string \<Rightarrow> string \<Rightarrow> api_error + kobject"
  rd_get_uid :: "gvk \<Rightarrow> string \<Rightarrow> string \<Rightarrow> api_error + string"
  rd_list_pods :: "string \<Rightarrow> api_error + pod list"
  rd_list_deployments :: "string \<Rightarrow> api_error + deployment list"

text \<open>The manager's (cached) client: \<open>Get\<close>, \<open>List\<close> of policies, \<open>Delete\<close>.\<close>

record api_client =
  cl_get :: "go_type \<Rightarrow> string \<Rightarrow> string \<Rightarrow> api_error + kobject"
  cl_list_policies :: "api_error + janitor_policy list"
  cl_delete :: "kobject \<Rightarrow> api_error option"

text \<open>
  \<open>schema.ParseGroupVersion\<close>: the group and version of an \<open>apiVersion\<close> string, or the
  text of its error.
\<close>

type_synonym gv_parser = "string \<Rightarrow> string + (string \<times> string)"

end
