(* ===== verification/Samples.thy ===== *)
theory Samples
  imports KubeApi
begin

text \<open>
  A small cluster on which the properties with hypotheses are instantiated: the ConfigMap
  \<open>shop/cache\<close> with a TTL of one hour, created at the epoch and owned by nobody, a policy
  that deletes ConfigMaps, and an API server that knows the ConfigMap and nothing else.
\<close>

definition sample_configmap :: kobject where
  "sample_configmap =
     \<lparr>o_type = ConfigMapType, o_gvk = \<lparr>gvk_group = '''', gvk_version = ''v1'', gvk_kind = ''ConfigMap''\<rparr>,
      o_namespace = ''shop'', o_name = ''cache'', o_uid = ''u1'', o_labels = Map.empty,
      o_annotations = [''janitor.io/ttl'' \<mapsto> ''1h''], o_finalizers = [''janitor.io/cleanup''],
      o_owners = [], o_created = \<lparr>unix_ns = 0, zone_off = 0\<rparr>, o_phase = ''''\<rparr>"

definition sample_owner :: owner_reference where
  "sample_owner = \<lparr>own_api_version = ''apps/v1'', own_kind = ''Deployment'', own_name = ''web'', own_uid = ''u7''\<rparr>"

definition sample_pod :: pod where
  "sample_pod =
     \<lparr>pod_namespace = ''shop'', pod_name = ''web-0'', pod_uid = ''u9'', pod_phase = ''Running'',
      pod_volumes = [\<lparr>vol_name = ''config'', vol_config_map = Some ''cache'', vol_projected_config_maps = []\<rparr>],
      pod_init_containers = [], pod_containers = [], pod_ephemeral_containers = []\<rparr>"

definition sample_policy :: janitor_policy where
  "sample_policy =
     \<lparr>policy_name = ''tidy'',
      policy_spec =
        \<lparr>spec_selector =
           \<lparr>sel_kinds = [\<lparr>rk_group = '''', rk_version = ''v1'', rk_kind = ''ConfigMap''\<rparr>],
            sel_namespace_selector = None, sel_label_selector = None\<rparr>,
         spec_ttl = None, spec_protection = None, spec_orphan = None, spec_pr_namespace = None,
         spec_action = \<lparr>ac_mode = ActionModeDelete, ac_confidence_threshold = None\<rparr>,
         spec_reporting = None\<rparr>,
      policy_status =
        \<lparr>status_observed_generation = 0, status_conditions = [], status_last_scan_time = None,
         status_stats = None\<rparr>\<rparr>"

definition sample_reader :: "kobject \<Rightarrow> pod list \<Rightarrow> reader" where
  "sample_reader obj pods =
     \<lparr>rd_get = (\<lambda>x ns name. if o_type x = o_type obj \<and> ns = o_namespace obj \<and> name = o_name obj then Inr obj
        else Inl (ApiNotFound name)),
      rd_get_uid = (\<lambda>_ _ name. Inl (ApiNotFound name)),
      rd_list_pods = (\<lambda>ns. Inr (filter (\<lambda>p. pod_namespace p = ns) pods)),
      rd_list_deployments = (\<lambda>_. Inr [])\<rparr>"

definition sample_client :: "kobject \<Rightarrow> janitor_policy list \<Rightarrow> api_client" where
  "sample_client obj policies =
     \<lparr>cl_get = (\<lambda>t ns name. if t = o_type obj \<and> ns = o_namespace obj \<and> name = o_name obj then Inr obj
        else Inl (ApiNotFound name)),
      cl_list_policies = Inr policies,
      cl_delete = (\<lambda>_. None)\<rparr>"

definition sample_parser :: gv_parser where
  "sample_parser v = Inr (''apps'', ''v1'')"

definition later :: "int \<Rightarrow> gotime" where
  "later hours = \<lparr>unix_ns = hours * 3600000000000, zone_off = 0\<rparr>"

lemmas sample_defs = sample_configmap_def sample_owner_def sample_pod_def sample_policy_def
  sample_reader_def sample_client_def sample_parser_def later_def

end
