(* ===== verification/Resolver.thy ===== *)
theory Resolver
  imports Samples
begin

text \<open>
  \<open>internal/resolver\<close>: the Resolver interface, its three implementations and the registry.
  An interface value is the record of its methods; a receiver's fields are captured when
  the record is built (\<open>NewOwnerRefResolver\<close>, \<dots>).
\<close>

section \<open>The interface\<close>

record resolver =
  res_name :: string
  res_handles :: "kobject \<Rightarrow> bool"
  res_resolve :: "kobject \<Rightarrow> reader \<Rightarrow> error + reference list"

text \<open>\<open>rd_get_uid\<close> on an owner, in the namespace of the object that names it.\<close>

definition get_owner :: "reader \<Rightarrow> kobject \<Rightarrow> owner_reference \<Rightarrow> string \<times> string \<Rightarrow> api_error + string" where
  "get_owner rd obj owner gv =
     rd_get_uid rd \<lparr>gvk_group = fst gv, gvk_version = snd gv, gvk_kind = own_kind owner\<rparr>
       (o_namespace obj) (own_name owner)"

section \<open>OwnerRefResolver\<close>

definition OwnerRefResolver_Handles :: "kobject \<Rightarrow> bool" where
  "OwnerRefResolver_Handles obj \<longleftrightarrow> 0 < length (o_owners obj)"

definition owner_reference_of :: "kobject \<Rightarrow> owner_reference \<Rightarrow> reference" where
  "owner_reference_of obj owner =
     \<lparr>r_from = \<lparr>ref_group = '''', ref_version = '''', ref_kind = own_kind owner,
                ref_namespace = o_namespace obj, ref_name = own_name owner, ref_uid = own_uid owner\<rparr>,
      r_to = \<lparr>ref_group = '''', ref_version = '''', ref_kind = gvk_kind (o_gvk obj),
              ref_namespace = o_namespace obj, ref_name = o_name obj, ref_uid = o_uid obj\<rparr>,
      r_type = RefTypeOwnerRef,
      r_evidence = \<lparr>ev_type = EvidenceOwnerRef, ev_source = ''metadata.ownerReferences'',
        ev_details = ''live owner '' @ own_kind owner @ ''/'' @ own_name owner @ '' (uid='' @
          own_uid owner @ '') confirmed via API''\<rparr>\<rparr>"

fun OwnerRefResolver_loop ::
    "gv_parser \<Rightarrow> kobject \<Rightarrow> reader \<Rightarrow> owner_reference list \<Rightarrow> reference list \<Rightarrow> error + reference list" where
  "OwnerRefResolver_loop parse obj rd [] refs = Inr refs"
| "OwnerRefResolver_loop parse obj rd (owner # owners) refs =
     (case parse (own_api_version owner) of
        Inl _ \<Rightarrow> OwnerRefResolver_loop parse obj rd owners refs
      | Inr gv \<Rightarrow>
        (case get_owner rd obj owner gv of
           Inl err \<Rightarrow>
             if IsNotFound (ApiErr err) then OwnerRefResolver_loop parse obj rd owners refs
             else Inl (Wrapped (''checking owner '' @ own_kind owner @ ''/'' @ own_name owner) (ApiErr err))
         | Inr uid \<Rightarrow>
             if uid \<noteq> own_uid owner then OwnerRefResolver_loop parse obj rd owners refs
             else OwnerRefResolver_loop parse obj rd owners (refs @ [owner_reference_of obj owner])))"

definition OwnerRefResolver_Resolve :: "gv_parser \<Rightarrow> kobject \<Rightarrow> reader \<Rightarrow> error + reference list" where
  "OwnerRefResolver_Resolve parse obj rd = OwnerRefResolver_loop parse obj rd (o_owners obj) []"

definition NewOwnerRefResolver :: "gv_parser \<Rightarrow> resolver" where
  "NewOwnerRefResolver parse = \<lparr>res_name = ''ownerref'', res_handles = OwnerRefResolver_Handles,
     res_resolve = OwnerRefResolver_Resolve parse\<rparr>"

section \<open>ConfigMapResolver\<close>

definition ConfigMapResolver_Handles :: "kobject \<Rightarrow> bool" where
  "ConfigMapResolver_Handles obj \<longleftrightarrow> gvk_kind (o_gvk obj) = ''ConfigMap''"

definition pod_ref :: "pod \<Rightarrow> object_ref" where
  "pod_ref pod = \<lparr>ref_group = '''', ref_version = ''v1'', ref_kind = ''Pod'',
     ref_namespace = pod_namespace pod, ref_name = pod_name pod, ref_uid = pod_uid pod\<rparr>"

definition volume_reference :: "pod \<Rightarrow> object_ref \<Rightarrow> volume \<Rightarrow> reference option" where
  "volume_reference pod cm vol =
     (if vol_config_map vol = Some (ref_name cm) then
        Some \<lparr>r_from = pod_ref pod, r_to = cm, r_type = RefTypeVolumeMount,
          r_evidence = \<lparr>ev_type = EvidenceVolumeMount,
            ev_source = ''Pod/'' @ pod_namespace pod @ ''/'' @ pod_name pod,
            ev_details = ''pod volume '' @ go_quote (vol_name vol) @ '' references ConfigMap '' @
              go_quote (ref_name cm)\<rparr>\<rparr>
      else None)"

definition env_reference :: "pod \<Rightarrow> object_ref \<Rightarrow> container \<Rightarrow> string \<Rightarrow> reference" where
  "env_reference pod cm c details =
     \<lparr>r_from = pod_ref pod, r_to = cm, r_type = RefTypeEnvFrom,
      r_evidence = \<lparr>ev_type = EvidenceVolumeMount,
        ev_source = ''Pod/'' @ pod_namespace pod @ ''/'' @ pod_name pod @ '' container='' @ c_name c,
        ev_details = details\<rparr>\<rparr>"

definition container_reference :: "pod \<Rightarrow> object_ref \<Rightarrow> container \<Rightarrow> reference option" where
  "container_reference pod cm c =
     (case first_hit
        (\<lambda>ef. if ef_config_map_ref ef = Some (ref_name cm) then
           Some (env_reference pod cm c (''container '' @ go_quote (c_name c) @
             '' envFrom references ConfigMap '' @ go_quote (ref_name cm)))
         else None) (c_env_from c) of
        Some r \<Rightarrow> Some r
      | None \<Rightarrow>
        first_hit
          (\<lambda>e. case env_value_from e of
             None \<Rightarrow> None
           | Some src \<Rightarrow>
             if evs_config_map_key_ref src = Some (ref_name cm) then
               Some (env_reference pod cm c (''container '' @ go_quote (c_name c) @ '' env var '' @
                 go_quote (env_name e) @ '' references ConfigMap '' @ go_quote (ref_name cm)))
             else None) (c_env c))"

definition podReferencesConfigMap :: "pod \<Rightarrow> object_ref \<Rightarrow> reference option" where
  "podReferencesConfigMap pod cm =
     (case first_hit (volume_reference pod cm) (pod_volumes pod) of
        Some r \<Rightarrow> Some r
      | None \<Rightarrow> first_hit (container_reference pod cm) (pod_init_containers pod @ pod_containers pod))"

definition ConfigMapResolver_Resolve :: "kobject \<Rightarrow> reader \<Rightarrow> error + reference list" where
  "ConfigMapResolver_Resolve obj rd =
     (case rd_list_pods rd (o_namespace obj) of
        Inl err \<Rightarrow> Inl (Wrapped (''listing pods in namespace '' @ o_namespace obj) (ApiErr err))
      | Inr pods \<Rightarrow>
        let cmRef = \<lparr>ref_group = '''', ref_version = ''v1'', ref_kind = ''ConfigMap'',
              ref_namespace = o_namespace obj, ref_name = o_name obj, ref_uid = o_uid obj\<rparr> in
        Inr (List.map_filter (\<lambda>pod. podReferencesConfigMap pod cmRef) pods))"

definition NewConfigMapResolver :: resolver where
  "NewConfigMapResolver = \<lparr>res_name = ''configmap'', res_handles = ConfigMapResolver_Handles,
     res_resolve = ConfigMapResolver_Resolve\<rparr>"

section \<open>NamespaceResolver\<close>

record namespace_resolver =
  PRStateLabelKey :: string
  ClosedTTL :: duration

definition NamespaceResolver_defaults :: "string \<Rightarrow> duration \<Rightarrow> namespace_resolver" where
  "NamespaceResolver_defaults prStateLabelKey closedTTL =
     \<lparr>PRStateLabelKey = (if prStateLabelKey = '''' then ''janitor.io/pr-state'' else prStateLabelKey),
      ClosedTTL = (if closedTTL = 0 then Hour else closedTTL)\<rparr>"

definition NamespaceResolver_Handles :: "kobject \<Rightarrow> bool" where
  "NamespaceResolver_Handles obj \<longleftrightarrow> gvk_kind (o_gvk obj) = ''Namespace''"

definition live_phase :: "string \<Rightarrow> bool" where
  "live_phase p \<longleftrightarrow> p = ''Running'' \<or> p = ''Pending''"

definition workload_reference ::
    "object_ref \<Rightarrow> string \<Rightarrow> string \<Rightarrow> string \<Rightarrow> string \<Rightarrow> string \<Rightarrow> string \<Rightarrow> reference" where
  "workload_reference nsRef grp kind ns name uid details =
     \<lparr>r_from = \<lparr>ref_group = grp, ref_version = ''v1'', ref_kind = kind, ref_namespace = ns,
        ref_name = name, ref_uid = uid\<rparr>,
      r_to = nsRef, r_type = RefTypeLabelSelector,
      r_evidence = \<lparr>ev_type = EvidenceEndpoint, ev_source = kind @ ''/'' @ ns @ ''/'' @ name,
        ev_details = details\<rparr>\<rparr>"

definition NamespaceResolver_Resolve ::
    "namespace_resolver \<Rightarrow> kobject \<Rightarrow> reader \<Rightarrow> error + reference list" where
  "NamespaceResolver_Resolve r obj rd =
     (let ns = o_name obj;
          nsRef = \<lparr>ref_group = '''', ref_version = ''v1'', ref_kind = ''Namespace'',
            ref_namespace = '''', ref_name = ns, ref_uid = o_uid obj\<rparr> in
      case rd_list_pods rd ns of
        Inl err \<Rightarrow> Inl (Wrapped (''listing pods in namespace '' @ ns) (ApiErr err))
      | Inr pods \<Rightarrow>
        (case find (\<lambda>p. live_phase (pod_phase p)) pods of
           Some p \<Rightarrow>
             Inr [workload_reference nsRef '''' ''Pod'' ns (pod_name p) (pod_uid p)
               (''namespace has running pod '' @ go_quote (pod_name p) @ '' (phase='' @ pod_phase p @ '')'')]
         | None \<Rightarrow>
           (case rd_list_deployments rd ns of
              Inl err \<Rightarrow> Inl (Wrapped (''listing deployments in namespace '' @ ns) (ApiErr err))
            | Inr [] \<Rightarrow> Inr []
            | Inr (d # _) \<Rightarrow>
                Inr [workload_reference nsRef ''apps'' ''Deployment'' ns (dep_name d) (dep_uid d)
                  (''namespace contains deployment '' @ go_quote (dep_name d))])))"

definition NewNamespaceResolver :: "string \<Rightarrow> duration \<Rightarrow> resolver" where
  "NewNamespaceResolver prStateLabelKey closedTTL =
     \<lparr>res_name = ''namespace'', res_handles = NamespaceResolver_Handles,
      res_resolve = NamespaceResolver_Resolve (NamespaceResolver_defaults prStateLabelKey closedTTL)\<rparr>"

section \<open>The registry\<close>

record registry =
  reg_resolvers :: "resolver list"

definition NewRegistry :: registry where
  "NewRegistry = \<lparr>reg_resolvers = []\<rparr>"

definition Register :: "resolver \<Rightarrow> registry \<Rightarrow> registry" where
  "Register res r = r\<lparr>reg_resolvers := reg_resolvers r @ [res]\<rparr>"

definition Len :: "registry \<Rightarrow> int" where
  "Len r = int (length (reg_resolvers r))"

fun ResolveAll_loop ::
    "resolver list \<Rightarrow> kobject \<Rightarrow> reader \<Rightarrow> reference list \<Rightarrow> error list \<Rightarrow> reference list \<times> error list" where
  "ResolveAll_loop [] obj rd allRefs errs = (allRefs, errs)"
| "ResolveAll_loop (res # rs) obj rd allRefs errs =
     (if \<not> res_handles res obj then ResolveAll_loop rs obj rd allRefs errs
      else case res_resolve res obj rd of
        Inl err \<Rightarrow>
          ResolveAll_loop rs obj rd allRefs (errs @ [Wrapped (''resolver '' @ res_name res) err])
      | Inr refs \<Rightarrow> ResolveAll_loop rs obj rd (allRefs @ refs) errs)"

definition ResolveAll :: "registry \<Rightarrow> kobject \<Rightarrow> reader \<Rightarrow> reference list \<times> error option" where
  "ResolveAll r obj rd =
     (case ResolveAll_loop (reg_resolvers r) obj rd [] [] of
        (allRefs, errs) \<Rightarrow>
          if 0 < length errs then (allRefs, Some (ResolverErrors errs)) else (allRefs, None))"

lemmas resolver_constructors [component_defs] =
  NewOwnerRefResolver_def NewConfigMapResolver_def NewNamespaceResolver_def

section \<open>Owners\<close>

text \<open>
  What one owner reference turns out to be. The classifier's OwnerRefStrategy and the
  OwnerRefResolver both walk the references with these outcomes.
\<close>

datatype owner_status = OwnerLive | OwnerDead | OwnerError api_error

definition owner_status :: "gv_parser \<Rightarrow> kobject \<Rightarrow> reader \<Rightarrow> owner_reference \<Rightarrow> owner_status" where
  "owner_status parse obj rd owner =
     (case parse (own_api_version owner) of
        Inl _ \<Rightarrow> OwnerDead
      | Inr gv \<Rightarrow>
        (case get_owner rd obj owner gv of
           Inl (ApiNotFound _) \<Rightarrow> OwnerDead
         | Inl err \<Rightarrow> OwnerError err
         | Inr uid \<Rightarrow> if uid = own_uid owner then OwnerLive else OwnerDead))"

definition owner_failure :: "gv_parser \<Rightarrow> kobject \<Rightarrow> reader \<Rightarrow> owner_reference \<Rightarrow> error option" where
  "owner_failure parse obj rd owner =
     (case owner_status parse obj rd owner of
        OwnerError err \<Rightarrow>
          Some (Wrapped (''checking owner '' @ own_kind owner @ ''/'' @ own_name owner) (ApiErr err))
      | _ \<Rightarrow> None)"

lemma OwnerRefResolver_loop_eq:
  "OwnerRefResolver_loop parse obj rd owners refs =
     (case first_hit (owner_failure parse obj rd) owners of
        Some err \<Rightarrow> Inl err
      | None \<Rightarrow> Inr (refs @ map (owner_reference_of obj)
          (filter (\<lambda>ow. owner_status parse obj rd ow = OwnerLive) owners)))"
  by (induction owners arbitrary: refs)
     (simp_all add: owner_failure_def owner_status_def
        split: sum.split api_error.split cong: option.case_cong)

lemma OwnerRefResolver_Resolve_eq:
  "OwnerRefResolver_Resolve parse obj rd =
     (case first_hit (owner_failure parse obj rd) (o_owners obj) of
        Some err \<Rightarrow> Inl err
      | None \<Rightarrow> Inr (map (owner_reference_of obj)
          (filter (\<lambda>ow. owner_status parse obj rd ow = OwnerLive) (o_owners obj))))"
  by (simp add: OwnerRefResolver_Resolve_def OwnerRefResolver_loop_eq cong: option.case_cong)

section \<open>Which Pods reference a ConfigMap\<close>

definition container_mentions :: "string \<Rightarrow> container \<Rightarrow> bool" where
  "container_mentions cm c \<longleftrightarrow>
     (\<exists>ef \<in> set (c_env_from c). ef_config_map_ref ef = Some cm) \<or>
     (\<exists>e \<in> set (c_env c). \<exists>src. env_value_from e = Some src \<and> evs_config_map_key_ref src = Some cm)"

definition pod_mentions :: "string \<Rightarrow> pod \<Rightarrow> bool" where
  "pod_mentions cm pod \<longleftrightarrow>
     (\<exists>v \<in> set (pod_volumes pod). vol_config_map v = Some cm) \<or>
     (\<exists>c \<in> set (pod_init_containers pod) \<union> set (pod_containers pod). container_mentions cm c)"

lemma volume_reference_None [simp]:
  "volume_reference pod cm v = None \<longleftrightarrow> vol_config_map v \<noteq> Some (ref_name cm)"
  by (simp add: volume_reference_def)

lemma container_reference_None [simp]:
  "container_reference pod cm c = None \<longleftrightarrow> \<not> container_mentions (ref_name cm) c"
  unfolding container_reference_def container_mentions_def or_else_None_iff first_hit_None_iff
  by (auto split: option.splits if_splits)

lemma podReferencesConfigMap_None:
  "podReferencesConfigMap pod cm = None \<longleftrightarrow> \<not> pod_mentions (ref_name cm) pod"
  unfolding podReferencesConfigMap_def pod_mentions_def or_else_None_iff first_hit_None_iff
  by auto

lemma podReferencesConfigMap_mentions:
  "podReferencesConfigMap pod cm = Some r \<Longrightarrow> pod_mentions (ref_name cm) pod"
  by (metis podReferencesConfigMap_None option.distinct(1))

text \<open>Every reference the resolver builds runs from the Pod to the ConfigMap asked about.\<close>

lemma volume_reference_Some:
  "volume_reference pod cm v = Some r \<Longrightarrow> r_to r = cm \<and> r_from r = pod_ref pod"
  "volume_reference pod cm v = Some r \<Longrightarrow> ev_source (r_evidence r) \<noteq> [] \<and> ev_details (r_evidence r) \<noteq> []"
  by (auto simp: volume_reference_def split: if_splits)

lemma container_reference_Some:
  assumes "container_reference pod cm c = Some r"
  shows "r_to r = cm \<and> r_from r = pod_ref pod"
    and "ev_source (r_evidence r) \<noteq> [] \<and> ev_details (r_evidence r) \<noteq> []"
proof -
  from assms have "\<exists>details. details \<noteq> [] \<and> r = env_reference pod cm c details"
    unfolding container_reference_def or_else_Some_iff
    by (auto dest!: first_hit_SomeD split: if_splits option.splits)
  then show "r_to r = cm \<and> r_from r = pod_ref pod"
    and "ev_source (r_evidence r) \<noteq> [] \<and> ev_details (r_evidence r) \<noteq> []"
    by (auto simp: env_reference_def)
qed

lemma podReferencesConfigMap_Some:
  assumes "podReferencesConfigMap pod cm = Some r"
  shows "r_to r = cm \<and> r_from r = pod_ref pod"
    and "ev_source (r_evidence r) \<noteq> [] \<and> ev_details (r_evidence r) \<noteq> []"
  using assms unfolding podReferencesConfigMap_def or_else_Some_iff
  by (auto dest!: first_hit_SomeD dest: volume_reference_Some container_reference_Some)

section \<open>The contract of a resolver\<close>

text \<open>
  What the Resolver interface promises its client: a reference it returns points to the
  object asked about and carries evidence, and an error comes from the API.
\<close>

fun api_origin :: "error \<Rightarrow> bool" where
  "api_origin (ApiErr _) = True"
| "api_origin (Wrapped _ e) = api_origin e"
| "api_origin (ResolverErrors es) = (\<forall>e \<in> set es. api_origin e)"
| "api_origin _ = False"

locale resolver_contract =
  fixes resolve :: "kobject \<Rightarrow> reader \<Rightarrow> error + reference list"
  assumes target: "resolve obj rd = Inr refs \<Longrightarrow> r \<in> set refs \<Longrightarrow>
      ref_name (r_to r) = o_name obj \<and> ref_uid (r_to r) = o_uid obj"
    and explained: "resolve obj rd = Inr refs \<Longrightarrow> r \<in> set refs \<Longrightarrow>
      ev_source (r_evidence r) \<noteq> [] \<and> ev_details (r_evidence r) \<noteq> []"
    and api_errors: "resolve obj rd = Inl err \<Longrightarrow> api_origin err"

interpretation ownerref_resolver: resolver_contract "OwnerRefResolver_Resolve parse" for parse
  by unfold_locales
     (auto simp: OwnerRefResolver_Resolve_eq owner_reference_of_def owner_failure_def
           split: option.splits owner_status.splits dest!: first_hit_SomeD)

interpretation configmap_resolver: resolver_contract ConfigMapResolver_Resolve
proof unfold_locales
  fix obj rd refs r
  assume "ConfigMapResolver_Resolve obj rd = Inr refs" "r \<in> set refs"
  then obtain pod cm where hit: "podReferencesConfigMap pod cm = Some r"
    and cm: "ref_name cm = o_name obj" "ref_uid cm = o_uid obj"
    by (fastforce simp: ConfigMapResolver_Resolve_def set_map_filter Let_def split: sum.splits)
  then show "ref_name (r_to r) = o_name obj \<and> ref_uid (r_to r) = o_uid obj"
    using podReferencesConfigMap_Some(1) [OF hit] by simp
  show "ev_source (r_evidence r) \<noteq> [] \<and> ev_details (r_evidence r) \<noteq> []"
    by (rule podReferencesConfigMap_Some(2) [OF hit])
next
  fix obj rd err
  assume "ConfigMapResolver_Resolve obj rd = Inl err"
  then show "api_origin err"
    by (auto simp: ConfigMapResolver_Resolve_def Let_def split: sum.splits)
qed

interpretation namespace_resolver: resolver_contract "NamespaceResolver_Resolve r" for r
  by unfold_locales
     (auto simp: NamespaceResolver_Resolve_def workload_reference_def Let_def
           split: sum.splits option.splits list.splits)

section \<open>The registry aggregates\<close>

text \<open>What \<open>ResolveAll\<close> computes: the references of the resolvers that succeed, the errors of the others.\<close>

definition handlers :: "resolver list \<Rightarrow> kobject \<Rightarrow> resolver list" where
  "handlers rs obj = filter (\<lambda>res. res_handles res obj) rs"

definition resolved_refs :: "resolver list \<Rightarrow> kobject \<Rightarrow> reader \<Rightarrow> reference list" where
  "resolved_refs rs obj rd =
     concat (map (\<lambda>res. case res_resolve res obj rd of Inr refs \<Rightarrow> refs | Inl _ \<Rightarrow> []) (handlers rs obj))"

definition resolver_failures :: "resolver list \<Rightarrow> kobject \<Rightarrow> reader \<Rightarrow> error list" where
  "resolver_failures rs obj rd =
     List.map_filter (\<lambda>res. case res_resolve res obj rd of
         Inr _ \<Rightarrow> None
       | Inl err \<Rightarrow> Some (Wrapped (''resolver '' @ res_name res) err)) (handlers rs obj)"

lemma ResolveAll_loop_eq:
  "ResolveAll_loop rs obj rd allRefs errs =
     (allRefs @ resolved_refs rs obj rd, errs @ resolver_failures rs obj rd)"
  by (induction rs arbitrary: allRefs errs)
     (auto simp: resolved_refs_def resolver_failures_def handlers_def map_filter_simps split: sum.splits)

lemma ResolveAll_eq:
  "ResolveAll r obj rd =
     (resolved_refs (reg_resolvers r) obj rd,
      if resolver_failures (reg_resolvers r) obj rd = [] then None
      else Some (ResolverErrors (resolver_failures (reg_resolvers r) obj rd)))"
  by (simp add: ResolveAll_def ResolveAll_loop_eq)

lemma in_failures_iff:
  "err \<in> set (resolver_failures rs obj rd) \<longleftrightarrow>
     (\<exists>res \<in> set (handlers rs obj). \<exists>e.
        res_resolve res obj rd = Inl e \<and> err = Wrapped (''resolver '' @ res_name res) e)"
  by (simp add: resolver_failures_def set_map_filter)

lemma resolver_failures_Nil_iff:
  "resolver_failures rs obj rd = [] \<longleftrightarrow> (\<forall>res \<in> set (handlers rs obj). ok (res_resolve res obj rd))"
proof -
  have "resolver_failures rs obj rd = [] \<longleftrightarrow> (\<forall>err. err \<notin> set (resolver_failures rs obj rd))"
    by (cases "resolver_failures rs obj rd") auto
  also have "\<dots> \<longleftrightarrow> (\<forall>res \<in> set (handlers rs obj). ok (res_resolve res obj rd))"
    unfolding in_failures_iff isl_def by blast
  finally show ?thesis .
qed

lemma resolved_refsE:
  assumes "r \<in> set (resolved_refs rs obj rd)"
  obtains res refs where "res \<in> set (handlers rs obj)" "res_resolve res obj rd = Inr refs" "r \<in> set refs"
proof -
  from assms obtain res where res: "res \<in> set (handlers rs obj)"
    and r: "r \<in> set (case res_resolve res obj rd of Inr refs \<Rightarrow> refs | Inl _ \<Rightarrow> [])"
    unfolding resolved_refs_def set_concat set_map by blast
  from r obtain refs where "res_resolve res obj rd = Inr refs" "r \<in> set refs"
    by (cases "res_resolve res obj rd") auto
  with res show thesis by (rule that)
qed

text \<open>A set of resolvers that all keep the contract: what their aggregate keeps.\<close>

locale resolver_set =
  fixes resolvers :: "resolver list"
  assumes all_keep: "res \<in> set resolvers \<Longrightarrow> resolver_contract (res_resolve res)"
begin

lemma handler_keeps: "res \<in> set (handlers resolvers obj) \<Longrightarrow> resolver_contract (res_resolve res)"
  by (auto simp: handlers_def intro: all_keep)

lemma refs_target:
  assumes "r \<in> set (resolved_refs resolvers obj rd)"
  shows "ref_name (r_to r) = o_name obj \<and> ref_uid (r_to r) = o_uid obj"
  using resolved_refsE [OF assms] handler_keeps resolver_contract.target by metis

lemma refs_explained:
  assumes "r \<in> set (resolved_refs resolvers obj rd)"
  shows "ev_source (r_evidence r) \<noteq> [] \<and> ev_details (r_evidence r) \<noteq> []"
  using resolved_refsE [OF assms] handler_keeps resolver_contract.explained by metis

lemma failures_api:
  assumes "err \<in> set (resolver_failures resolvers obj rd)"
  shows "api_origin err"
proof -
  from assms obtain res e where "res \<in> set (handlers resolvers obj)" "res_resolve res obj rd = Inl e"
    "err = Wrapped (''resolver '' @ res_name res) e"
    by (auto simp: in_failures_iff)
  then show ?thesis using handler_keeps resolver_contract.api_errors by fastforce
qed

end

section \<open>Properties\<close>

text \<open>
  C29. A ConfigMap's references are exactly the Pods of its namespace that have a volume of kind
  configMap for it, or name it in an \<open>envFrom\<close> entry or an environment variable of an init or
  regular container, one reference for each such Pod, in the order of the list; the resolver
  fails only when the list fails. The phase of the Pod plays no part, so finished Pods count,
  and so do volumes that no container mounts; projected volumes and ephemeral containers do not.
\<close>

theorem ConfigMap_references_are_mentioning_pods:
  "map_sum id (map r_from) (ConfigMapResolver_Resolve obj rd) =
     map_sum (\<lambda>err. Wrapped (''listing pods in namespace '' @ o_namespace obj) (ApiErr err))
       (\<lambda>pods. map pod_ref (filter (pod_mentions (o_name obj)) pods))
       (rd_list_pods rd (o_namespace obj))"
proof (cases "rd_list_pods rd (o_namespace obj)")
  case (Inr pods)
  have "map r_from (List.map_filter (\<lambda>pod. podReferencesConfigMap pod cm) ps) =
      map pod_ref (filter (pod_mentions (ref_name cm)) ps)" for cm ps
    by (induction ps)
       (auto simp: map_filter_simps podReferencesConfigMap_Some(1) podReferencesConfigMap_None
          podReferencesConfigMap_mentions split: option.split)
  with Inr show ?thesis by (simp add: ConfigMapResolver_Resolve_def Let_def)
qed (simp add: ConfigMapResolver_Resolve_def)

text \<open>
  C32. A Namespace gets at most one reference. It has one when some Pod of it is Running or
  Pending; only without such a Pod are the Deployments listed, and then it has one when there
  is a Deployment. An error of the second list does not show while a live Pod exists.
\<close>

theorem Namespace_has_reference_iff_workload:
  "map_sum id length (NamespaceResolver_Resolve r obj rd) =
     (case rd_list_pods rd (o_name obj) of
        Inl err \<Rightarrow> Inl (Wrapped (''listing pods in namespace '' @ o_name obj) (ApiErr err))
      | Inr pods \<Rightarrow>
        if list_ex (\<lambda>p. pod_phase p \<in> {''Running'', ''Pending''}) pods then Inr 1
        else case rd_list_deployments rd (o_name obj) of
          Inl err \<Rightarrow> Inl (Wrapped (''listing deployments in namespace '' @ o_name obj) (ApiErr err))
        | Inr deps \<Rightarrow> Inr (if deps = [] then 0 else 1))"
proof -
  have find: "list_ex (\<lambda>p. pod_phase p \<in> {''Running'', ''Pending''}) pods \<longleftrightarrow>
      find (\<lambda>p. live_phase (pod_phase p)) pods \<noteq> None" for pods
    by (auto simp: find_None_iff list_ex_iff live_phase_def)
  show ?thesis
    unfolding find
    by (auto simp: NamespaceResolver_Resolve_def Let_def split: sum.split option.split list.split)
qed

text \<open>
  The registry asks every resolver that handles the object and keeps what the successful
  ones return, whatever the others do; it reports an error exactly when one of them fails.
\<close>

theorem ResolveAll_collects:
  "(ref \<in> set (fst (ResolveAll r obj rd)) \<longleftrightarrow>
      (\<exists>res refs. res \<in> set (reg_resolvers r) \<and> res_handles res obj \<and>
         res_resolve res obj rd = Inr refs \<and> ref \<in> set refs)) \<and>
   (snd (ResolveAll r obj rd) = None \<longleftrightarrow>
      filter (\<lambda>res. res_handles res obj \<and> isl (res_resolve res obj rd)) (reg_resolvers r) = [])"
proof
  show "ref \<in> set (fst (ResolveAll r obj rd)) \<longleftrightarrow>
      (\<exists>res refs. res \<in> set (reg_resolvers r) \<and> res_handles res obj \<and>
         res_resolve res obj rd = Inr refs \<and> ref \<in> set refs)"
    by (auto simp: ResolveAll_eq resolved_refs_def handlers_def split: sum.splits) force
  show "snd (ResolveAll r obj rd) = None \<longleftrightarrow>
      filter (\<lambda>res. res_handles res obj \<and> isl (res_resolve res obj rd)) (reg_resolvers r) = []"
    by (auto simp: ResolveAll_eq resolver_failures_Nil_iff handlers_def filter_empty_conv)
qed

end
