(* ===== verification/DurationText.thy ===== *)
theory DurationText
  imports GoTime
begin

text \<open>
  \<open>time.ParseDuration\<close> reads back what \<open>Duration.String\<close> prints, for every int64: numerals and
  fractions of numerals on both sides, the scaling of a fraction in doubles (exact for what is
  printed), and the sequence of hours, minutes and seconds.
\<close>

section \<open>Printed fractions\<close>

lemma fmtFrac_print:
  assumes "0 \<le> v"
  shows "\<exists>ds. fmtFrac i v True buf = (CHR ''.'' # ds @ buf, v div 10 ^ i) \<and> length ds = i \<and>
    list_all is_digit ds \<and> dec_val 0 ds = v mod 10 ^ i"
  using assms
proof (induction i arbitrary: v buf)
  case (Suc i)
  let ?c = "digit_char (nat (v mod 10))"
  have digit: "nat (v mod 10) < 10" "int (nat (v mod 10)) = v mod 10" by (simp_all add: nat_less_iff)
  have v10: "0 \<le> v div 10" using Suc.prems by (simp add: pos_imp_zdiv_nonneg_iff)
  obtain ds where ds: "fmtFrac i (v div 10) True (?c # buf) = (CHR ''.'' # ds @ ?c # buf, v div 10 div 10 ^ i)"
      "length ds = i" "list_all is_digit ds" "dec_val 0 ds = v div 10 mod 10 ^ i"
    using Suc.IH [OF v10, of "?c # buf"] by blast
  have "v mod 10 ^ Suc i = 10 * (v div 10 mod 10 ^ i) + v mod 10"
    using zmod_zmult2_eq [of "10 ^ i" v 10] by simp
  moreover have "v div 10 div 10 ^ i = v div 10 ^ Suc i" by (simp add: zdiv_zmult2_eq)
  ultimately show ?case
    using ds digit by (intro exI [of _ "ds @ [?c]"]) (simp add: Let_def dec_val_append)
qed simp

lemma fmtFrac_quiet:
  assumes "0 \<le> v"
  shows "v mod 10 ^ i = 0 \<Longrightarrow> fmtFrac i v False buf = (buf, v div 10 ^ i)"
    and "v mod 10 ^ i \<noteq> 0 \<Longrightarrow> \<exists>ds. fmtFrac i v False buf = (CHR ''.'' # ds @ buf, v div 10 ^ i) \<and>
      ds \<noteq> [] \<and> length ds \<le> i \<and> list_all is_digit ds \<and> dec_val 0 ds * 10 ^ (i - length ds) = v mod 10 ^ i"
  using assms
proof (induction i arbitrary: v)
  case 0
  { case 1 then show ?case by simp next case 2 then show ?case by simp }
next
  case (Suc i)
  have split: "v mod 10 ^ Suc i = 10 * (v div 10 mod 10 ^ i) + v mod 10" for v :: int
    using zmod_zmult2_eq [of "10 ^ i" v 10] by simp
  have quot: "v div 10 div 10 ^ i = v div 10 ^ Suc i" for v :: int by (simp add: zdiv_zmult2_eq)
  have v10: "0 \<le> v \<Longrightarrow> 0 \<le> v div 10" for v :: int by (simp add: pos_imp_zdiv_nonneg_iff)
  have nonneg: "0 \<le> v div 10 mod 10 ^ i" "0 \<le> v mod 10" for v :: int by simp_all
  { case 1
    have "10 * (v div 10 mod 10 ^ i) + v mod 10 = v mod 10 ^ Suc i" by (rule split [symmetric])
    also have "\<dots> = 0" by (rule 1)
    finally have "10 * (v div 10 mod 10 ^ i) + v mod 10 = 0" .
    then have "v div 10 mod 10 ^ i = 0" "v mod 10 = 0" using nonneg [of v] by (smt (verit))+
    then show ?case using Suc.IH(1) [of "v div 10"] v10 [OF \<open>0 \<le> v\<close>] quot [of v] by (simp add: Let_def)
  next
    case 2
    show ?case
    proof (cases "v mod 10 = 0")
      case True
      then have "v div 10 mod 10 ^ i \<noteq> 0" using 2 split [of v] by linarith
      then obtain ds where ds: "fmtFrac i (v div 10) False buf = (CHR ''.'' # ds @ buf, v div 10 div 10 ^ i)"
          "ds \<noteq> []" "length ds \<le> i" "list_all is_digit ds" "dec_val 0 ds * 10 ^ (i - length ds) = v div 10 mod 10 ^ i"
        using Suc.IH(2) [of "v div 10"] v10 [OF \<open>0 \<le> v\<close>] by blast
      have "dec_val 0 ds * 10 ^ (Suc i - length ds) = v mod 10 ^ Suc i"
        using ds(3,5) split [of v] True by (simp add: Suc_diff_le)
      then show ?thesis
        using ds True quot [of v] by (intro exI [of _ ds]) (simp add: Let_def)
    next
      case False
      let ?c = "digit_char (nat (v mod 10))"
      have digit: "nat (v mod 10) < 10" "int (nat (v mod 10)) = v mod 10" by (simp_all add: nat_less_iff)
      obtain ds where ds: "fmtFrac i (v div 10) True (?c # buf) = (CHR ''.'' # ds @ ?c # buf, v div 10 div 10 ^ i)"
          "length ds = i" "list_all is_digit ds" "dec_val 0 ds = v div 10 mod 10 ^ i"
        using fmtFrac_print [OF v10 [OF \<open>0 \<le> v\<close>], of i "?c # buf"] by blast
      show ?thesis
        using ds digit False quot [of v] split [of v]
        by (intro exI [of _ "ds @ [?c]"]) (simp add: Let_def dec_val_append)
    qed }
qed

section \<open>Doubles that are exact\<close>

lemma round_half_even_int [simp]: "round_half_even (of_int m) = m"
  by (simp add: round_half_even_def)

lemma pow2_rat_scale:
  assumes "k \<le> 0"
  shows "(of_int n :: rat) / pow2_rat k = of_int (n * 2 ^ nat (- k))" "pow2_rat k * 2 ^ nat (- k) = 1"
  using assms by (auto simp: pow2_rat_def)

lemma f64_round_int:
  assumes "0 \<le> n" "n < 2 ^ 53"
  shows "f64_round (of_int n) = of_int n"
proof (cases "n = 0")
  case True
  then show ?thesis by (simp add: f64_round_def)
next
  case False
  have "bitlen n \<le> 53" using assms by (simp add: bitlen_le_iff_power)
  define k where "k = bitlen n - bitlen 1 - 53"
  define k' where "k' = (if (of_int n :: rat) / pow2_rat k < 2 ^ 53 then k else k + 1)"
  have "bitlen 1 = 1" by (simp add: bitlen_def compute_floorlog)
  then have "k' \<le> 0" using \<open>bitlen n \<le> 53\<close> by (simp add: k_def k'_def)
  note s = pow2_rat_scale [OF this]
  have "f64_round (of_int n) = of_int (round_half_even (of_int n / pow2_rat k')) * pow2_rat k'"
    using False assms by (simp add: f64_round_def Let_def k_def k'_def)
  also have "\<dots> = of_int n" using s(2) unfolding s(1) round_half_even_int by (simp add: mult.commute mult.left_commute)
  finally show ?thesis .
qed

lemma f64_round_pow10 [simp]: "k \<le> 15 \<Longrightarrow> f64_round (10 ^ k) = 10 ^ k"
proof -
  assume "k \<le> 15"
  then have "(10 :: int) ^ k \<le> 10 ^ 15" by (intro power_increasing) simp_all
  then have "f64_round (of_int (10 ^ k)) = of_int (10 ^ k)" by (intro f64_round_int) simp_all
  then show ?thesis by simp
qed

section \<open>Fractions read back\<close>

lemma dec_val_less:
  assumes "list_all is_digit ds" "acc < 10 ^ k"
  shows "dec_val acc ds < 10 ^ (k + length ds)"
  using assms
proof (induction ds arbitrary: acc k)
  case (Cons c ds)
  have "int (digit_val c) \<le> 9" using Cons.prems(1) digit_val_le [of c] by simp
  then have "acc * 10 + int (digit_val c) < 10 ^ Suc k" using Cons.prems(2) by simp
  then show ?case using Cons.IH [of _ "Suc k"] Cons.prems(1) by simp
qed simp

lemma leadingFraction_digits:
  assumes "list_all is_digit ds" "t = [] \<or> \<not> is_digit (hd t)" "0 \<le> acc" "acc < 10 ^ k" "k + length ds \<le> 9"
  shows "leadingFraction (ds @ t) (word_of_int acc) (10 ^ k) False =
    (word_of_int (dec_val acc ds), 10 ^ (k + length ds), t)"
  using assms
proof (induction ds arbitrary: acc k)
  case Nil
  then show ?case by (cases t) simp_all
next
  case (Cons c ds)
  have c: "is_digit c" and d: "int (digit_val c) \<le> 9" using Cons.prems(1) digit_val_le [of c] by simp_all
  let ?acc = "acc * 10 + int (digit_val c)"
  have "(10 :: int) ^ Suc k \<le> 10 ^ 9" using Cons.prems(5) by (intro power_increasing) simp_all
  moreover have next_acc: "0 \<le> ?acc" "?acc < 10 ^ Suc k" using Cons.prems(3,4) d by simp_all
  ultimately have small: "acc < 10 ^ 9" "?acc < 10 ^ 9" using Cons.prems(3) by simp_all
  have "\<not> 922337203685477580 < (word_of_int acc :: 64 word)"
    using small(1) Cons.prems(3) by (simp add: word_of_int_less_64 not_less word_le_def uint_word_of_int_64)
  moreover have y: "(word_of_int acc :: 64 word) * 10 + of_nat (digit_val c) = word_of_int ?acc" by simp
  moreover have "\<not> 2 ^ 63 < (word_of_int ?acc :: 64 word)"
    using small(2) next_acc(1) by (simp add: word_less_def uint_word_of_int_64 del: of_int_add of_int_mult)
  moreover have "f64_round (10 ^ k * 10) = 10 ^ Suc k"
    using f64_round_pow10 [of "Suc k"] Cons.prems(5) by (simp add: mult.commute)
  ultimately have "leadingFraction ((c # ds) @ t) (word_of_int acc) (10 ^ k) False =
      leadingFraction (ds @ t) (word_of_int ?acc) (10 ^ Suc k) False"
    using c unfolding append_Cons leadingFraction.simps Let_def y by (simp only: if_False if_True simp_thms)
  also have "\<dots> = (word_of_int (dec_val ?acc ds), 10 ^ (Suc k + length ds), t)"
    using Cons.prems(1,2,5) next_acc by (intro Cons.IH) simp_all
  finally show ?case by simp
qed

lemma scaleFraction_exact:
  assumes "0 \<le> f" "f < 10 ^ n" "n \<le> p" "p \<le> 9"
  shows "scaleFraction (word_of_int f) (word_of_int (10 ^ p)) (10 ^ n) = word_of_int (f * 10 ^ (p - n))"
proof -
  have p: "(10 :: int) ^ p \<le> 10 ^ 9" "(10 :: int) ^ n \<le> 10 ^ 9" using assms by (intro power_increasing; simp)+
  have u: "uint (word_of_int f :: 64 word) = f" "uint (word_of_int (10 ^ p) :: 64 word) = 10 ^ p"
    using assms(1,2) p by (intro uint_word_of_int_64; simp)+
  have "(10 :: int) ^ n * 10 ^ (p - n) = 10 ^ p" using assms(3) by (simp flip: power_add)
  then have prod: "f * 10 ^ (p - n) < 10 ^ p" using assms(2) by (metis mult_strict_right_mono zero_less_power zero_less_numeral)
  have "(10 :: rat) ^ p / 10 ^ n = 10 ^ (p - n)" using assms(3) by (simp add: power_diff)
  moreover have "f64_round (of_int f) = of_int f" using assms(1,2) p(2) by (intro f64_round_int) simp_all
  moreover have "f64_round (of_int (f * 10 ^ (p - n))) = of_int (f * 10 ^ (p - n))"
    using assms(1) prod p(1) by (intro f64_round_int) simp_all
  moreover have "\<lfloor>rat_of_int f * 10 ^ (p - n)\<rfloor> = f * 10 ^ (p - n)"
    by (metis floor_of_int of_int_mult of_int_power of_int_numeral)
  ultimately show ?thesis
    using assms(4) unfolding scaleFraction_def u by simp
qed

section \<open>One element\<close>

text \<open>A number with an optional fraction, then a unit of \<open>10 ^ p\<close> nanoseconds (or any unit without fraction).\<close>

definition unit_text :: "string \<Rightarrow> int \<Rightarrow> bool" where
  "unit_text us U \<longleftrightarrow> us \<noteq> [] \<and> list_all is_unit_char us \<and> unitMap us = Some (word_of_int U) \<and> 0 < U \<and> U < 2 ^ 63"

definition frac_text :: "string \<Rightarrow> nat \<Rightarrow> int \<Rightarrow> bool" where
  "frac_text fr p r \<longleftrightarrow> fr = [] \<and> r = 0 \<or>
     (\<exists>ds. fr = CHR ''.'' # ds \<and> ds \<noteq> [] \<and> length ds \<le> p \<and> list_all is_digit ds \<and>
        0 < r \<and> dec_val 0 ds * 10 ^ (p - length ds) = r)"

definition stops :: "string \<Rightarrow> bool" where
  "stops rest \<longleftrightarrow> rest = [] \<or> is_digit (hd rest)"

lemma unit_text_hd: "unit_text us U \<Longrightarrow> \<not> is_digit (hd (us @ t)) \<and> hd (us @ t) \<noteq> CHR ''.'' \<and> us @ t \<noteq> []"
  by (cases us) (auto simp: unit_text_def is_unit_char_def)

lemma unit_split:
  assumes "unit_text us U" "stops rest"
  shows "takeWhile is_unit_char (us @ rest) = us" "dropWhile is_unit_char (us @ rest) = rest"
proof -
  have "rest = [] \<or> \<not> is_unit_char (hd rest)" using assms(2) by (auto simp: stops_def is_unit_char_def)
  moreover have "\<And>x. x \<in> set us \<Longrightarrow> is_unit_char x" using assms(1) by (simp add: unit_text_def list_all_iff)
  ultimately show "takeWhile is_unit_char (us @ rest) = us" "dropWhile is_unit_char (us @ rest) = rest"
    by (cases rest; simp add: takeWhile_append2 dropWhile_append2)+
qed

lemma applyUnit_exact:
  assumes u: "unit_text us U" and rest: "stops rest" and n: "0 \<le> n" "n * U + r \<le> 2 ^ 63" and r: "0 \<le> r"
    and f: "f = 0 \<and> r = 0 \<or> 0 < f \<and> scaleFraction f (word_of_int U) scale = word_of_int r"
  shows "applyUnit orig (word_of_int n) f scale (us @ rest) = Inr (word_of_int (n * U + r), rest)"
proof -
  have U: "unitMap us = Some (word_of_int U)" "us \<noteq> []" "0 < U" "U < 2 ^ 63" using u by (simp_all add: unit_text_def)
  have nU: "n * U \<le> 2 ^ 63" using n r by simp
  then have n63: "n \<le> 2 ^ 63" using n(1) U(3) by (smt (verit) mult_le_cancel_left1)
  have "n \<le> 2 ^ 63 div U" using zdiv_mono1 [OF nU U(3)] U(3) by simp
  then have "\<not> 2 ^ 63 div word_of_int U < (word_of_int n :: 64 word)"
    using n n63 U by (simp add: word_less_def uint_div uint_word_of_int_64)
  moreover have "\<not> 2 ^ 63 < (word_of_int (n * U + r) :: 64 word)"
    using n r U(3) by (simp add: word_less_def uint_word_of_int_64 del: of_int_add of_int_mult)
  moreover have "(word_of_int n :: 64 word) * word_of_int U + word_of_int r = word_of_int (n * U + r)" by simp
  ultimately show ?thesis
    using f U(1,2) unit_split [OF u rest]
    by (auto simp: applyUnit_def Let_def simp del: of_int_add of_int_mult)
qed

lemma optFraction_printed:
  assumes fr: "frac_text fr p r" and u: "unit_text us U" and p: "fr \<noteq> [] \<Longrightarrow> U = 10 ^ p \<and> p \<le> 9"
  obtains f scale post where "optFraction (fr @ us @ rest) = (f, scale, us @ rest, post)"
    "f = 0 \<and> r = 0 \<or> 0 < f \<and> scaleFraction f (word_of_int U) scale = word_of_int r"
proof (cases "fr = []")
  case True
  then have "r = 0" using fr by (auto simp: frac_text_def)
  moreover have "optFraction (fr @ us @ rest) = (0, 1, us @ rest, False)"
    using True unit_text_hd [OF u, of rest] by (cases "us @ rest") (auto simp: optFraction_def)
  ultimately show thesis using that [of 0 1 False] by simp
next
  case False
  then obtain ds where ds: "fr = CHR ''.'' # ds" "ds \<noteq> []" "length ds \<le> p" "list_all is_digit ds"
      "0 < r" "dec_val 0 ds * 10 ^ (p - length ds) = r"
    using fr by (auto simp: frac_text_def)
  have p9: "U = 10 ^ p" "p \<le> 9" using p False by simp_all
  let ?f = "dec_val 0 ds"
  have f: "0 \<le> ?f" "?f < 10 ^ length ds"
    using dec_val_ge [of 0 ds] dec_val_less [OF ds(4), of 0 0] by simp_all
  have "leadingFraction (ds @ us @ rest) 0 1 False = (word_of_int ?f, 10 ^ length ds, us @ rest)"
    using leadingFraction_digits [OF ds(4), of "us @ rest" 0 0] unit_text_hd [OF u, of rest] ds(3) p9(2) by simp
  then have "optFraction (fr @ us @ rest) = (word_of_int ?f, 10 ^ length ds, us @ rest, True)"
    using ds(1,2) by (simp add: optFraction_def)
  moreover have "scaleFraction (word_of_int ?f) (word_of_int U) (10 ^ length ds) = word_of_int r"
    using scaleFraction_exact [OF f ds(3) p9(2)] ds(6) p9(1) by simp
  moreover have "(0 :: 64 word) < word_of_int ?f"
  proof -
    have "0 < ?f" using ds(5,6) f(1) by (cases "?f = 0") auto
    moreover have "(10 :: int) ^ length ds \<le> 10 ^ 9" using ds(3) p9(2) by (intro power_increasing) simp_all
    ultimately show ?thesis using f(2) by (simp add: word_less_def uint_word_of_int_64)
  qed
  ultimately show thesis by (intro that) blast+
qed

lemma parseElement_printed:
  assumes u: "unit_text us U" and rest: "stops rest" and n: "0 \<le> n" "n * U + r \<le> 2 ^ 63" and r: "0 \<le> r"
    and fr: "frac_text fr p r" and p: "fr \<noteq> [] \<Longrightarrow> U = 10 ^ p \<and> p \<le> 9"
  shows "parseElement orig (uint_dec n @ fr @ us @ rest) = Inr (word_of_int (n * U + r), rest)"
proof -
  let ?s1 = "fr @ us @ rest"
  have digits: "list_all is_digit (uint_dec n)" using uint_dec_digits [OF n(1)] by (auto simp: list_all_iff)
  have hd: "is_digit (hd (uint_dec n @ ?s1))" using digits by (cases "uint_dec n") auto
  have "0 < U" using u by (simp add: unit_text_def)
  then have n63: "n \<le> 2 ^ 63" using n r by (smt (verit) mult_le_cancel_left1)
  have "\<not> is_digit (hd ?s1)"
    using fr unit_text_hd [OF u, of rest] by (auto simp: frac_text_def is_digit_def)
  then have lead: "leadingInt (uint_dec n @ ?s1) 0 = Some (word_of_int n, ?s1)"
    using leadingInt_numeral [OF digits, of ?s1 0] n(1) n63 by simp
  obtain f scale post where o: "optFraction ?s1 = (f, scale, us @ rest, post)"
      "f = 0 \<and> r = 0 \<or> 0 < f \<and> scaleFraction f (word_of_int U) scale = word_of_int r"
    using optFraction_printed [OF fr u p, of rest] by blast
  show ?thesis
    using hd applyUnit_exact [OF u rest n r o(2)]
    by (simp add: parseElement_def lead o(1))
qed

section \<open>The whole text\<close>

lemma parseElements_printed:
  assumes u: "unit_text us U" and rest: "stops rest" and n: "0 \<le> n" "d + n * U + r \<le> 2 ^ 63" and r: "0 \<le> r"
    and fr: "frac_text fr p r" and p: "fr \<noteq> [] \<Longrightarrow> U = 10 ^ p \<and> p \<le> 9" and d: "0 \<le> d"
  shows "parseElements orig (uint_dec n @ fr @ us @ rest) (word_of_int d) =
    parseElements orig rest (word_of_int (d + n * U + r))"
proof -
  have "0 \<le> n * U" using n(1) u by (simp add: unit_text_def)
  then have "\<not> 2 ^ 63 < (word_of_int (d + n * U + r) :: 64 word)"
    using n r d by (simp add: word_less_def uint_word_of_int_64 del: of_int_add of_int_mult)
  moreover have "(word_of_int d :: 64 word) + word_of_int (n * U + r) = word_of_int (d + n * U + r)" by simp
  moreover have "parseElement orig (uint_dec n @ fr @ us @ rest) = Inr (word_of_int (n * U + r), rest)"
    using parseElement_printed [OF u rest n(1) _ r fr p] n(2) d by simp
  ultimately show ?thesis
    by (subst parseElements.simps) (simp del: of_int_add of_int_mult add: Let_def)
qed

lemma fmtFrac_text:
  assumes "0 \<le> u"
  obtains fr where "fmtFrac p u False suffix = (fr @ suffix, u div 10 ^ p)" "frac_text fr p (u mod 10 ^ p)"
proof (cases "u mod 10 ^ p = 0")
  case True
  then show thesis using fmtFrac_quiet(1) [OF assms True, of suffix] that [of "[]"] by (simp add: frac_text_def)
next
  case False
  obtain ds where ds: "fmtFrac p u False suffix = (CHR ''.'' # ds @ suffix, u div 10 ^ p)" "ds \<noteq> []"
      "length ds \<le> p" "list_all is_digit ds" "dec_val 0 ds * 10 ^ (p - length ds) = u mod 10 ^ p"
    using fmtFrac_quiet(2) [OF assms False, of suffix] by blast
  have "0 \<le> u mod 10 ^ p" by simp
  then have "0 < u mod 10 ^ p" using False by linarith
  then show thesis using that [of "CHR ''.'' # ds"] ds by (auto simp: frac_text_def)
qed

lemma unit_texts:
  "unit_text ''ns'' 1" "unit_text (micro_sign @ ''s'') (10 ^ 3)" "unit_text ''ms'' (10 ^ 6)" "unit_text ''s'' (10 ^ 9)"
  "unit_text ''m'' (60 * 10 ^ 9)" "unit_text ''h'' (3600 * 10 ^ 9)"
  by (simp_all add: unit_text_def unitMap_def is_unit_char_def is_digit_def micro_sign_def duration_consts)

lemma stops_simps [simp]: "stops []" "0 \<le> n \<Longrightarrow> stops (uint_dec n @ t)"
  by (auto simp: stops_def uint_dec_digits hd_append)

lemma no_frac [simp]: "frac_text [] p 0"
  by (simp add: frac_text_def)

text \<open>A value in a unit with fraction, then nothing.\<close>

lemma parse_with_unit:
  assumes "0 \<le> u" "u \<le> 2 ^ 63" "unit_text us (10 ^ p)" "p \<le> 9" "0 \<le> d" "d + u \<le> 2 ^ 63"
    and "fmtFrac p u False us = (buf, v)"
  shows "parseElements orig (uint_dec v @ buf) (word_of_int d) = Inr (word_of_int (d + u))"
proof -
  obtain fr where fr: "fmtFrac p u False us = (fr @ us, u div 10 ^ p)" "frac_text fr p (u mod 10 ^ p)"
    by (rule fmtFrac_text [OF assms(1)])
  have v: "buf = fr @ us" "v = u div 10 ^ p" using fr(1) assms(7) by simp_all
  have sum: "u div 10 ^ p * 10 ^ p + u mod 10 ^ p = u" by (rule div_mult_mod_eq)
  then have le: "d + u div 10 ^ p * 10 ^ p + u mod 10 ^ p \<le> 2 ^ 63" using assms(6) by linarith
  have "0 \<le> u div 10 ^ p" using assms(1) by (simp add: pos_imp_zdiv_nonneg_iff)
  from parseElements_printed [OF assms(3) stops_simps(1) this le _ fr(2) _ assms(5), of orig]
  have "parseElements orig (uint_dec v @ buf) (word_of_int d) =
      parseElements orig [] (word_of_int (d + u div 10 ^ p * 10 ^ p + u mod 10 ^ p))"
    using assms(4) by (simp add: v del: of_int_add of_int_mult)
  also have "d + u div 10 ^ p * 10 ^ p + u mod 10 ^ p = d + u" using sum by linarith
  finally show ?thesis by (simp add: parseElements.simps [of _ "[]"])
qed

lemma fmt_with_unit_read:
  assumes "0 \<le> u" "u \<le> 2 ^ 63" "unit_text us (10 ^ p)" "p \<le> 9"
  shows "parseElements orig (fmt_with_unit p u us) 0 = Inr (word_of_int u)"
  using parse_with_unit [OF assms order_refl, of _ _ orig] assms(2)
  by (cases "fmtFrac p u False us") (simp add: fmt_with_unit_def)

text \<open>A whole number of a unit, then more.\<close>

lemma parse_whole:
  assumes "unit_text us U" "stops rest" "0 \<le> n" "0 \<le> d" "d + n * U \<le> 2 ^ 63"
  shows "parseElements orig (uint_dec n @ us @ rest) (word_of_int d) = parseElements orig rest (word_of_int (d + n * U))"
  using parseElements_printed [OF assms(1-3), of d 0 "[]" 0 orig] assms(4,5) by simp

lemma clock_text_read:
  assumes "u \<le> 2 ^ 63" "1000000000 \<le> u"
  shows "parseElements orig (Duration_String_abs u) 0 = Inr (word_of_int u)"
proof -
  obtain fr where fr: "fmtFrac 9 u False ''s'' = (fr @ ''s'', u div 10 ^ 9)" "frac_text fr 9 (u mod 10 ^ 9)"
    using fmtFrac_text [of u 9 "''s''"] assms(2) by auto
  define q r where "q = u div 10 ^ 9" and "r = u mod 10 ^ 9"
  define m h where "m = q div 60" and "h = m div 60"
  have q: "0 \<le> q" unfolding q_def using assms(2) by (simp add: pos_imp_zdiv_nonneg_iff)
  then have m: "0 \<le> m" unfolding m_def by (simp add: pos_imp_zdiv_nonneg_iff)
  then have h: "0 \<le> h" unfolding h_def by (simp add: pos_imp_zdiv_nonneg_iff)
  define q' m' where "q' = q mod 60" and "m' = m mod 60"
  have rests: "0 \<le> r" "0 \<le> q'" "0 \<le> m'" by (simp_all add: r_def q'_def m'_def)
  have parts: "u = q * 10 ^ 9 + r" "q = m * 60 + q'" "m = h * 60 + m'"
    by (simp_all add: q_def r_def m_def q'_def h_def m'_def)
  then have sum: "u = h * (3600 * 10 ^ 9) + m' * (60 * 10 ^ 9) + q' * 10 ^ 9 + r" by simp
  have printed: "Duration_String_abs u =
      (let secs = uint_dec q' @ fr @ ''s'' in
       if m = 0 then secs
       else if h = 0 then uint_dec m' @ ''m'' @ secs
       else uint_dec h @ ''h'' @ uint_dec m' @ ''m'' @ secs)"
    using assms fr(1) by (simp add: Duration_String_abs_def Let_def q_def m_def h_def q'_def m'_def)
  have secs: "parseElements orig (uint_dec q' @ fr @ ''s'') (word_of_int d) = Inr (word_of_int (d + q' * 10 ^ 9 + r))"
    if "0 \<le> d" "d + q' * 10 ^ 9 + r \<le> 2 ^ 63" for d
    using parseElements_printed [OF unit_texts(4) stops_simps(1) rests(2) that(2) rests(1) fr(2) [folded r_def] _ that(1), of orig]
    by (simp add: parseElements.simps [of _ "[]"] del: of_int_add of_int_mult)
  have mins: "parseElements orig (uint_dec m' @ ''m'' @ uint_dec q' @ fr @ ''s'') (word_of_int d) =
      Inr (word_of_int (d + m' * (60 * 10 ^ 9) + q' * 10 ^ 9 + r))"
    if "0 \<le> d" "d + m' * (60 * 10 ^ 9) + q' * 10 ^ 9 + r \<le> 2 ^ 63" for d
  proof -
    have "d + m' * (60 * 10 ^ 9) \<le> 2 ^ 63" using that(2) rests by simp
    then have "parseElements orig (uint_dec m' @ ''m'' @ uint_dec q' @ fr @ ''s'') (word_of_int d) =
        parseElements orig (uint_dec q' @ fr @ ''s'') (word_of_int (d + m' * (60 * 10 ^ 9)))"
      using parse_whole [OF unit_texts(5) stops_simps(2) [OF rests(2)] rests(3) that(1)] by blast
    also have "\<dots> = Inr (word_of_int (d + m' * (60 * 10 ^ 9) + q' * 10 ^ 9 + r))"
      using that rests by (intro secs) simp_all
    finally show ?thesis .
  qed
  consider "m = 0" | "m \<noteq> 0" "h = 0" | "h \<noteq> 0" by blast
  then show ?thesis
  proof cases
    case 1
    then have "h = 0" "m' = 0" by (simp_all add: h_def m'_def)
    then have eq: "0 + q' * 10 ^ 9 + r = u" using sum by simp
    have "Duration_String_abs u = uint_dec q' @ fr @ ''s''" using 1 by (simp add: printed)
    then show ?thesis using secs [of 0] assms(1) unfolding eq by simp
  next
    case 2
    then have eq: "0 + m' * (60 * 10 ^ 9) + q' * 10 ^ 9 + r = u" using sum by simp
    have "Duration_String_abs u = uint_dec m' @ ''m'' @ uint_dec q' @ fr @ ''s''"
      using 2 by (simp add: printed)
    then show ?thesis using mins [of 0] assms(1) unfolding eq by simp
  next
    case 3
    then have "m \<noteq> 0" by (auto simp: h_def)
    have "h * (3600 * 10 ^ 9) \<le> 2 ^ 63" using sum rests assms(1) by simp
    then have "parseElements orig (uint_dec h @ ''h'' @ uint_dec m' @ ''m'' @ uint_dec q' @ fr @ ''s'') (word_of_int 0) =
        parseElements orig (uint_dec m' @ ''m'' @ uint_dec q' @ fr @ ''s'') (word_of_int (0 + h * (3600 * 10 ^ 9)))"
      using parse_whole [OF unit_texts(6) stops_simps(2) [OF rests(3)] h order_refl] by simp
    also have "\<dots> = Inr (word_of_int (0 + h * (3600 * 10 ^ 9) + m' * (60 * 10 ^ 9) + q' * 10 ^ 9 + r))"
      using h sum assms(1) by (intro mins) simp_all
    also have "0 + h * (3600 * 10 ^ 9) + m' * (60 * 10 ^ 9) + q' * 10 ^ 9 + r = u" using sum by simp
    finally show ?thesis using 3 \<open>m \<noteq> 0\<close> by (simp add: printed)
  qed
qed

lemma Duration_String_abs_read:
  assumes "0 \<le> u" "u \<le> 2 ^ 63"
  shows "parseElements orig (Duration_String_abs u) 0 = Inr (word_of_int u)"
proof -
  consider (zero) "u = 0" | (ns) "0 < u" "u < 1000" | (us) "1000 \<le> u" "u < 1000000"
    | (ms) "1000000 \<le> u" "u < 1000000000" | (s) "1000000000 \<le> u" using assms(1) by linarith
  then show ?thesis
  proof cases
    case zero
    have "uint_dec 0 = ''0''" by (simp add: uint_dec.simps digit_char_def)
    then show ?thesis
      using parse_whole [OF unit_texts(4) stops_simps(1), of 0 0 orig] zero
      by (simp add: Duration_String_abs_def parseElements.simps [of _ "[]"])
  next
    case ns
    then show ?thesis using fmt_with_unit_read [of u "''ns''" 0] assms unit_texts(1)
      by (simp add: Duration_String_abs_def)
  next
    case us
    then show ?thesis using fmt_with_unit_read [OF assms unit_texts(2)] by (simp add: Duration_String_abs_def)
  next
    case ms
    then show ?thesis using fmt_with_unit_read [OF assms unit_texts(3)] by (simp add: Duration_String_abs_def)
  next
    case s
    then show ?thesis by (rule clock_text_read [OF assms(2)])
  qed
qed

section \<open>The round trip\<close>

lemma parse_zero_text: "\<not> isl (parseElements orig s 0) \<Longrightarrow> s \<noteq> ''0''"
  by (auto simp: parseElements.simps [of _ "''0''"] parseElement_def optFraction_def applyUnit_def is_digit_def
      digit_val_def)

lemma parse_hd: "\<not> isl (parseElements orig s 0) \<Longrightarrow> s \<noteq> [] \<Longrightarrow> hd s = CHR ''.'' \<or> is_digit (hd s)"
  by (subst (asm) parseElements.simps) (auto simp: parseElement_def split: if_splits)

lemma Duration_String_abs_not_Nil: "Duration_String_abs u \<noteq> []"
  by (auto simp: Duration_String_abs_def fmt_with_unit_def Let_def split: prod.split)

lemma ParseDuration_String: "ParseDuration (Duration_String d) = Inr d"
proof -
  define u where "u = \<bar>sint d\<bar>"
  have u: "0 \<le> u" "u \<le> 2 ^ 63" using sint_range_64 [of d] by (simp_all add: u_def)
  have read: "parseElements orig (Duration_String_abs u) 0 = Inr (word_of_int u)" for orig
    by (rule Duration_String_abs_read [OF u])
  have ok: "Duration_String_abs u \<noteq> ''0''" using parse_zero_text [of "[]"] read [of "[]"] by auto
  have hd: "hd (Duration_String_abs u) \<noteq> CHR ''-''" "hd (Duration_String_abs u) \<noteq> CHR ''+''"
    using parse_hd [of "[]" "Duration_String_abs u"] read [of "[]"] Duration_String_abs_not_Nil [of u]
    by (auto simp: is_digit_def)
  have inverse: "(word_of_int (sint d) :: 64 word) = d" by simp
  show ?thesis
  proof (cases "sint d < 0")
    case True
    have "(- d :: 64 word) = word_of_int u" using True inverse by (simp add: u_def)
    then have "uint (- d) = u" using u by (simp add: uint_word_of_int_64)
    then have "Duration_String d = CHR ''-'' # Duration_String_abs u" using True by (simp add: Duration_String_def)
    moreover have "- (word_of_int u :: 64 word) = d" using True inverse by (simp add: u_def)
    ultimately show ?thesis
      using ok Duration_String_abs_not_Nil [of u] read by (simp add: ParseDuration_def)
  next
    case False
    then have "d = word_of_int u" using inverse by (simp add: u_def)
    then have "uint d = u" using u by (simp add: uint_word_of_int_64)
    then have s: "Duration_String d = Duration_String_abs u" using False by (simp add: Duration_String_def)
    obtain c t where ct: "Duration_String_abs u = c # t" using Duration_String_abs_not_Nil [of u]
      by (cases "Duration_String_abs u") auto
    have "u \<le> 2 ^ 63 - 1" using sint_range_64 [of d] False by (simp add: u_def)
    then have "\<not> 2 ^ 63 - 1 < (word_of_int u :: 64 word)" using u(1) by (simp add: word_less_def uint_word_of_int_64)
    then have "ParseDuration (c # t) = Inr (word_of_int u)"
      using ok hd read [of "c # t"] by (auto simp: ParseDuration_def ct Let_def)
    then show ?thesis using s ct \<open>d = word_of_int u\<close> by simp
  qed
qed

end
