(* ===== verification/Strategies.thy ===== *)
theory Strategies
  imports Resolver DurationText
begin

text \<open>
  \<open>internal/classifier/*_strategy.go\<close>: the Strategy interface and its six implementations.
  A verdict is the class, the confidence and the reasons a strategy returns; \<open>no_verdict\<close>
  is Go's \<open>return domain.ClassUnknown, 0, nil, nil\<close>. The injectable clock \<open>now\<close> of a
  strategy is the reading it gives.
\<close>

section \<open>The interface\<close>

type_synonym verdict = "resource_class \<times> confidence \<times> reason list"

record strategy =
  strat_name :: string
  strat_classify :: "kobject \<Rightarrow> reader \<Rightarrow> error + verdict"

definition no_verdict :: verdict where
  "no_verdict = (ClassUnknown, f64_0, [])"

definition single_reason :: "string \<Rightarrow> string \<Rightarrow> evidence list \<Rightarrow> reason list" where
  "single_reason code message evidence = [\<lparr>re_code = code, re_message = message, re_evidence = evidence\<rparr>]"

section \<open>ProtectionStrategy\<close>

record protection_strategy =
  ps_annotation_key :: string
  ps_labels :: "(string \<times> string) list"
  ps_namespaces :: "string set"

definition ProtectionStrategy_init :: "string \<Rightarrow> string list \<Rightarrow> protection_strategy" where
  "ProtectionStrategy_init annotationKey protectedNamespaces =
     \<lparr>ps_annotation_key = (if annotationKey = '''' then ''janitor.io/protected'' else annotationKey),
      ps_labels = [], ps_namespaces = set protectedNamespaces\<rparr>"

definition protected_list_text :: "string \<Rightarrow> string" where
  "protected_list_text ns = ''namespace '' @ go_quote ns @ '' is in the protected namespace list''"

definition ProtectionStrategy_Classify ::
    "protection_strategy \<Rightarrow> kobject \<Rightarrow> reader \<Rightarrow> error + verdict" where
  "ProtectionStrategy_Classify s obj rd =
     (if o_namespace obj \<in> ps_namespaces s then
        Inr (ClassProtected, ConfidenceHigh, single_reason ''protected-namespace''
          (''resource is in a protected namespace '' @ go_quote (o_namespace obj))
          [\<lparr>ev_type = EvidenceAnnotation, ev_source = ''controller-config'',
            ev_details = protected_list_text (o_namespace obj)\<rparr>])
      else if o_namespace obj = '''' \<and> o_name obj \<in> ps_namespaces s then
        Inr (ClassProtected, ConfidenceHigh, single_reason ''protected-namespace''
          (protected_list_text (o_name obj))
          [\<lparr>ev_type = EvidenceAnnotation, ev_source = ''controller-config'',
            ev_details = protected_list_text (o_name obj)\<rparr>])
      else if map_get (o_annotations obj) (ps_annotation_key s) = ''true'' then
        Inr (ClassProtected, ConfidenceHigh, single_reason ''protection-annotation''
          (''resource has protection annotation '' @ ps_annotation_key s @ ''=true'')
          [\<lparr>ev_type = EvidenceAnnotation, ev_source = ''annotation:'' @ ps_annotation_key s,
            ev_details = ''annotation '' @ ps_annotation_key s @ '' is set to '' @
              go_quote (map_get (o_annotations obj) (ps_annotation_key s))\<rparr>])
      else if 0 < length (ps_labels s) \<and>
              list_all (\<lambda>(k, v). map_get (o_labels obj) k = v) (ps_labels s) then
        Inr (ClassProtected, ConfidenceHigh, single_reason ''protection-label''
          ''resource has protection labels''
          [\<lparr>ev_type = EvidenceLabelSelector, ev_source = ''controller-config'',
            ev_details = ''resource matches protection labels '' @ fmt_v_map (ps_labels s)\<rparr>])
      else Inr no_verdict)"

definition NewProtectionStrategy :: "string \<Rightarrow> string list \<Rightarrow> strategy" where
  "NewProtectionStrategy annotationKey protectedNamespaces =
     \<lparr>strat_name = ''protection'',
      strat_classify = ProtectionStrategy_Classify (ProtectionStrategy_init annotationKey protectedNamespaces)\<rparr>"

section \<open>FinalizerStrategy\<close>

definition janitorFinalizer :: string where
  "janitorFinalizer = ''janitor.io/cleanup''"

definition foreign_finalizers :: "string list \<Rightarrow> string list" where
  "foreign_finalizers fs = filter (\<lambda>f. f \<noteq> janitorFinalizer) fs"

definition FinalizerStrategy_Classify :: "kobject \<Rightarrow> reader \<Rightarrow> error + verdict" where
  "FinalizerStrategy_Classify obj rd =
     (if length (o_finalizers obj) = 0 then Inr no_verdict
      else let foreign = foreign_finalizers (o_finalizers obj) in
        if length foreign = 0 then Inr no_verdict
        else Inr (ClassBlocked, ConfidenceHigh, single_reason ''foreign-finalizers''
          (''resource has '' @ int_dec (int (length foreign)) @ '' foreign finalizer(s) blocking deletion'')
          [\<lparr>ev_type = EvidenceFinalizer, ev_source = ''metadata.finalizers'',
            ev_details = ''finalizers: ['' @ join '', '' foreign @ '']''\<rparr>]))"

definition NewFinalizerStrategy :: strategy where
  "NewFinalizerStrategy = \<lparr>strat_name = ''finalizer'', strat_classify = FinalizerStrategy_Classify\<rparr>"

section \<open>TTLStrategy\<close>

record ttl_strategy =
  ts_annotation_key :: string
  ts_default_ttl :: duration
  ts_now :: gotime

definition resolveTTL :: "ttl_strategy \<Rightarrow> kobject \<Rightarrow> error + (duration \<times> string)" where
  "resolveTTL s obj =
     (case o_annotations obj (ts_annotation_key s) of
        Some v \<Rightarrow>
          (case ParseDuration v of
             Inl err \<Rightarrow> Inl (BadDuration (ts_annotation_key s) v err)
           | Inr d \<Rightarrow> Inr (d, ''annotation:'' @ ts_annotation_key s))
      | None \<Rightarrow>
          if 0 < sint (ts_default_ttl s) then Inr (ts_default_ttl s, ''policy-default-ttl'')
          else Inr (0, ''''))"

definition TTLStrategy_Classify :: "ttl_strategy \<Rightarrow> kobject \<Rightarrow> reader \<Rightarrow> error + verdict" where
  "TTLStrategy_Classify s obj rd =
     (case resolveTTL s obj of
        Inl err \<Rightarrow> Inl (Wrapped ''parsing TTL'' err)
      | Inr (ttl, source) \<Rightarrow>
        if ttl = 0 then Inr no_verdict
        else let age = Time_Sub (UTC (ts_now s)) (UTC (o_created obj)) in
          if sint age \<le> sint ttl then Inr no_verdict
          else let overdue = age - ttl in
            Inr (ClassExpired, ConfidenceHigh, single_reason ''ttl-expired''
              (''resource TTL of '' @ Duration_String ttl @ '' has elapsed (age: '' @
                Duration_String (Duration_Round age Second) @ '', overdue by: '' @
                Duration_String (Duration_Round overdue Second) @ '')'')
              [\<lparr>ev_type = EvidenceTTL, ev_source = source,
                ev_details = ''TTL='' @ Duration_String ttl @ '', created='' @
                  FormatRFC3339 (UTC (o_created obj)) @ '', age='' @
                  Duration_String (Duration_Round age Second)\<rparr>]))"

definition NewTTLStrategy :: "string \<Rightarrow> duration \<Rightarrow> gotime \<Rightarrow> strategy" where
  "NewTTLStrategy annotationKey defaultTTL now =
     \<lparr>strat_name = ''ttl'',
      strat_classify = TTLStrategy_Classify
        \<lparr>ts_annotation_key = annotationKey, ts_default_ttl = defaultTTL, ts_now = now\<rparr>\<rparr>"

section \<open>ExpiresAtStrategy\<close>

record expires_at_strategy =
  es_annotation_key :: string
  es_now :: gotime

definition ExpiresAtStrategy_Classify :: "expires_at_strategy \<Rightarrow> kobject \<Rightarrow> reader \<Rightarrow> error + verdict" where
  "ExpiresAtStrategy_Classify s obj rd =
     (case o_annotations obj (es_annotation_key s) of
        None \<Rightarrow> Inr no_verdict
      | Some v \<Rightarrow>
        if v = '''' then Inr no_verdict
        else case ParseRFC3339 v of
          None \<Rightarrow> Inl (BadTimestamp (es_annotation_key s) v)
        | Some t \<Rightarrow>
          let now = UTC (es_now s) in
          if Time_Before now t then Inr no_verdict
          else let overdue = Time_Sub now t in
            Inr (ClassExpired, ConfidenceHigh, single_reason ''expires-at-elapsed''
              (''resource expiry timestamp '' @ FormatRFC3339 t @ '' has elapsed (overdue by: '' @
                Duration_String (Duration_Round overdue Second) @ '')'')
              [\<lparr>ev_type = EvidenceExpiresAt, ev_source = ''annotation:'' @ es_annotation_key s,
                ev_details = ''expires-at='' @ FormatRFC3339 t @ '', now='' @ FormatRFC3339 now\<rparr>]))"

definition NewExpiresAtStrategy :: "string \<Rightarrow> gotime \<Rightarrow> strategy" where
  "NewExpiresAtStrategy annotationKey now =
     \<lparr>strat_name = ''expires-at'',
      strat_classify = ExpiresAtStrategy_Classify \<lparr>es_annotation_key = annotationKey, es_now = now\<rparr>\<rparr>"

section \<open>OwnerRefStrategy\<close>

definition owner_text :: "owner_reference \<Rightarrow> string" where
  "owner_text owner = own_kind owner @ ''/'' @ own_name owner"

fun OwnerRefStrategy_loop ::
    "gv_parser \<Rightarrow> kobject \<Rightarrow> reader \<Rightarrow> owner_reference list \<Rightarrow> string list \<Rightarrow> string list
      \<Rightarrow> error + (string list \<times> string list)" where
  "OwnerRefStrategy_loop parse obj rd [] live dead = Inr (live, dead)"
| "OwnerRefStrategy_loop parse obj rd (owner # owners) live dead =
     (case parse (own_api_version owner) of
        Inl err \<Rightarrow>
          OwnerRefStrategy_loop parse obj rd owners live
            (dead @ [owner_text owner @ '' (parse error: '' @ err @ '')''])
      | Inr gv \<Rightarrow>
        (case get_owner rd obj owner gv of
           Inr uid \<Rightarrow>
             if uid = own_uid owner then
               OwnerRefStrategy_loop parse obj rd owners (live @ [owner_text owner]) dead
             else
               OwnerRefStrategy_loop parse obj rd owners live
                 (dead @ [owner_text owner @ '' (UID mismatch: expected '' @ own_uid owner @ '', got '' @ uid @ '')''])
         | Inl err \<Rightarrow>
             if IsNotFound (ApiErr err) then
               OwnerRefStrategy_loop parse obj rd owners live (dead @ [owner_text owner @ '' (not found)''])
             else Inl (Wrapped (''checking owner '' @ owner_text owner) (ApiErr err))))"

definition OwnerRefStrategy_Classify :: "gv_parser \<Rightarrow> kobject \<Rightarrow> reader \<Rightarrow> error + verdict" where
  "OwnerRefStrategy_Classify parse obj rd =
     (if length (o_owners obj) = 0 then Inr no_verdict
      else case OwnerRefStrategy_loop parse obj rd (o_owners obj) [] [] of
        Inl err \<Rightarrow> Inl err
      | Inr (live, dead) \<Rightarrow>
        if 0 < length live then
          Inr (ClassActive, ConfidenceHigh, single_reason ''live-owner''
            (''resource has '' @ int_dec (int (length live)) @ '' live owner(s): '' @ fmt_v_strings live)
            [\<lparr>ev_type = EvidenceOwnerRef, ev_source = ''metadata.ownerReferences'',
              ev_details = ''live owners: '' @ fmt_v_strings live\<rparr>])
        else
          Inr (ClassOrphaned, ConfidenceHigh, single_reason ''dead-owners''
            (''resource has ownerReferences but all '' @ int_dec (int (length dead)) @
              '' owner(s) are gone: '' @ fmt_v_strings dead)
            [\<lparr>ev_type = EvidenceOwnerRef, ev_source = ''metadata.ownerReferences'',
              ev_details = ''dead owners: '' @ fmt_v_strings dead\<rparr>]))"

definition NewOwnerRefStrategy :: "gv_parser \<Rightarrow> strategy" where
  "NewOwnerRefStrategy parse =
     \<lparr>strat_name = ''owner-ref'', strat_classify = OwnerRefStrategy_Classify parse\<rparr>"

section \<open>ResolverStrategy\<close>

definition ResolverStrategy_Classify :: "registry \<Rightarrow> kobject \<Rightarrow> reader \<Rightarrow> error + verdict" where
  "ResolverStrategy_Classify reg obj rd =
     (case ResolveAll reg obj rd of
        (_, Some err) \<Rightarrow> Inl (Wrapped ''resolving references'' err)
      | (refs, None) \<Rightarrow>
        if 0 < length refs then
          Inr (ClassActive, ConfidenceHigh, single_reason ''referenced''
            (''resource has '' @ int_dec (int (length refs)) @ '' live reference(s)'')
            (map r_evidence refs))
        else
          Inr (ClassAbandoned, ConfidenceMedium, single_reason ''no-references''
            ''no live references to this resource were found by any resolver''
            [\<lparr>ev_type = EvidenceAge, ev_source = ''resolver-registry'',
              ev_details = ''checked '' @ int_dec (Len reg) @ '' resolver(s), found 0 references''\<rparr>]))"

definition NewResolverStrategy :: "registry \<Rightarrow> strategy" where
  "NewResolverStrategy reg =
     \<lparr>strat_name = ''resolver'', strat_classify = ResolverStrategy_Classify reg\<rparr>"

lemmas strategy_constructors [component_defs] =
  NewProtectionStrategy_def NewFinalizerStrategy_def NewTTLStrategy_def NewExpiresAtStrategy_def
  NewOwnerRefStrategy_def NewResolverStrategy_def

section \<open>When each strategy answers\<close>

text \<open>The class a strategy returns, or its error.\<close>

abbreviation outcome :: "error + verdict \<Rightarrow> error + resource_class" where
  "outcome r \<equiv> map_sum id fst r"

definition is_protected :: "protection_strategy \<Rightarrow> kobject \<Rightarrow> bool" where
  "is_protected s obj \<longleftrightarrow>
     o_namespace obj \<in> ps_namespaces s \<or>
     o_namespace obj = '''' \<and> o_name obj \<in> ps_namespaces s \<or>
     o_annotations obj (ps_annotation_key s) = Some ''true'' \<or>
     ps_labels s \<noteq> [] \<and> (\<forall>(k, v) \<in> set (ps_labels s). map_get (o_labels obj) k = v)"

lemma map_get_true: "map_get m k = ''true'' \<longleftrightarrow> m k = Some ''true''"
  by (simp add: map_get_def split: option.split)

lemma Protection_outcome:
  "outcome (ProtectionStrategy_Classify s obj rd) =
     Inr (if is_protected s obj then ClassProtected else ClassUnknown)"
  by (auto simp: ProtectionStrategy_Classify_def is_protected_def map_get_true no_verdict_def list_all_iff)

lemma Finalizer_outcome:
  "outcome (FinalizerStrategy_Classify obj rd) =
     Inr (if foreign_finalizers (o_finalizers obj) \<noteq> [] then ClassBlocked else ClassUnknown)"
  by (auto simp: FinalizerStrategy_Classify_def no_verdict_def Let_def foreign_finalizers_def)

lemma foreign_finalizers_Nil_iff:
  "foreign_finalizers fs = [] \<longleftrightarrow> (\<forall>f \<in> set fs. f = janitorFinalizer)"
  by (auto simp: foreign_finalizers_def filter_empty_conv)

definition ttl_elapsed :: "gotime \<Rightarrow> gotime \<Rightarrow> duration \<Rightarrow> bool" where
  "ttl_elapsed now created ttl \<longleftrightarrow> ttl \<noteq> 0 \<and> sint ttl < sint (Time_Sub now created)"

lemma Time_Sub_UTC [simp]: "Time_Sub (UTC t) u = Time_Sub t u" "Time_Sub t (UTC u) = Time_Sub t u"
  by (simp_all add: Time_Sub_def)

lemma TTL_outcome:
  "outcome (TTLStrategy_Classify s obj rd) =
     (case resolveTTL s obj of
        Inl err \<Rightarrow> Inl (Wrapped ''parsing TTL'' err)
      | Inr (ttl, _) \<Rightarrow>
          Inr (if ttl_elapsed (ts_now s) (o_created obj) ttl then ClassExpired else ClassUnknown))"
  by (auto simp: TTLStrategy_Classify_def ttl_elapsed_def no_verdict_def Let_def split: sum.split)

text \<open>Between the extremes of an int64 the comparison is the one on the time line.\<close>

lemma ttl_elapsed_iff:
  assumes "ttl \<noteq> maxDuration"
  shows "ttl_elapsed now created ttl \<longleftrightarrow> ttl \<noteq> 0 \<and> sint ttl < unix_ns now - unix_ns created"
proof -
  have "sint ttl \<noteq> 2 ^ 63 - 1"
  proof
    assume eq: "sint ttl = 2 ^ 63 - 1"
    have "ttl = word_of_int (sint ttl)" by simp
    also have "\<dots> = maxDuration" by (simp only: eq maxDuration_def)
    finally show False using assms by simp
  qed
  then have "sint ttl < 2 ^ 63 - 1" using sint_range_64(2) [of ttl] by simp
  then show ?thesis
    using sint_range_64(1) [of ttl] by (auto simp: ttl_elapsed_def sint_Time_Sub)
qed

lemma ExpiresAt_outcome:
  "outcome (ExpiresAtStrategy_Classify s obj rd) =
     (case o_annotations obj (es_annotation_key s) of
        None \<Rightarrow> Inr ClassUnknown
      | Some v \<Rightarrow>
        if v = '''' then Inr ClassUnknown
        else case ParseRFC3339 v of
          None \<Rightarrow> Inl (BadTimestamp (es_annotation_key s) v)
        | Some t \<Rightarrow> Inr (if unix_ns t \<le> unix_ns (es_now s) then ClassExpired else ClassUnknown))"
  by (auto simp: ExpiresAtStrategy_Classify_def no_verdict_def Let_def Time_Before_def split: option.split)

definition dead_owner_text :: "gv_parser \<Rightarrow> kobject \<Rightarrow> reader \<Rightarrow> owner_reference \<Rightarrow> string" where
  "dead_owner_text parse obj rd owner =
     (case parse (own_api_version owner) of
        Inl err \<Rightarrow> owner_text owner @ '' (parse error: '' @ err @ '')''
      | Inr gv \<Rightarrow>
        (case get_owner rd obj owner gv of
           Inr uid \<Rightarrow> owner_text owner @ '' (UID mismatch: expected '' @ own_uid owner @ '', got '' @ uid @ '')''
         | Inl _ \<Rightarrow> owner_text owner @ '' (not found)''))"

lemma OwnerRefStrategy_loop_eq:
  "OwnerRefStrategy_loop parse obj rd owners live dead =
     (case first_hit (owner_failure parse obj rd) owners of
        Some err \<Rightarrow> Inl err
      | None \<Rightarrow> Inr (live @ map owner_text (filter (\<lambda>ow. owner_status parse obj rd ow = OwnerLive) owners),
          dead @ map (dead_owner_text parse obj rd)
            (filter (\<lambda>ow. owner_status parse obj rd ow \<noteq> OwnerLive) owners)))"
  by (induction owners arbitrary: live dead)
     (simp_all add: owner_failure_def owner_status_def dead_owner_text_def owner_text_def
        split: sum.split api_error.split cong: option.case_cong)

lemma OwnerRef_outcome:
  "outcome (OwnerRefStrategy_Classify parse obj rd) =
     (if o_owners obj = [] then Inr ClassUnknown
      else case first_hit (owner_failure parse obj rd) (o_owners obj) of
        Some err \<Rightarrow> Inl err
      | None \<Rightarrow>
          Inr (if \<exists>ow \<in> set (o_owners obj). owner_status parse obj rd ow = OwnerLive
               then ClassActive else ClassOrphaned))"
  by (simp add: OwnerRefStrategy_Classify_def OwnerRefStrategy_loop_eq no_verdict_def
        filter_empty_conv split: option.split)

lemma Resolver_outcome:
  "outcome (ResolverStrategy_Classify reg obj rd) =
     (let failures = resolver_failures (reg_resolvers reg) obj rd in
      if failures \<noteq> [] then Inl (Wrapped ''resolving references'' (ResolverErrors failures))
      else Inr (if resolved_refs (reg_resolvers reg) obj rd \<noteq> [] then ClassActive else ClassAbandoned))"
  by (simp add: ResolverStrategy_Classify_def ResolveAll_eq Let_def)

section \<open>The contract of a strategy\<close>

text \<open>
  What the Strategy interface promises the classifier: either no determination at all, or
  one of its classes with that class's confidence and at least one reason, each with a
  code, a message and evidence.
\<close>

definition class_confidence :: "resource_class \<Rightarrow> confidence" where
  "class_confidence c = (if c = ClassAbandoned then ConfidenceMedium else ConfidenceHigh)"

definition explains :: "reason list \<Rightarrow> bool" where
  "explains rs \<longleftrightarrow> rs \<noteq> [] \<and> (\<forall>r \<in> set rs. re_code r \<noteq> [] \<and> re_message r \<noteq> [] \<and> re_evidence r \<noteq> [])"

lemma explains_single [simp]:
  "explains (single_reason code message evidence) \<longleftrightarrow> code \<noteq> [] \<and> message \<noteq> [] \<and> evidence \<noteq> []"
  by (simp add: explains_def single_reason_def)

locale strategy_contract =
  fixes classify :: "kobject \<Rightarrow> reader \<Rightarrow> error + verdict"
    and classes :: "resource_class set"
  assumes determined: "ClassUnknown \<notin> classes"
    and verdict: "classify obj rd = Inr (c, q, rs) \<Longrightarrow>
      (c, q, rs) = no_verdict \<or> c \<in> classes \<and> q = class_confidence c \<and> explains rs"

lemma strategy_contract_mono:
  assumes "strategy_contract f A" "A \<subseteq> B" "ClassUnknown \<notin> B"
  shows "strategy_contract f B"
  using assms unfolding strategy_contract_def by blast

interpretation protection: strategy_contract "ProtectionStrategy_Classify s" "{ClassProtected}" for s
  by unfold_locales
     (auto simp: ProtectionStrategy_Classify_def class_confidence_def protected_list_text_def split: if_splits)

interpretation finalizer: strategy_contract FinalizerStrategy_Classify "{ClassBlocked}"
  by unfold_locales
     (auto simp: FinalizerStrategy_Classify_def class_confidence_def Let_def split: if_splits)

interpretation ttl: strategy_contract "TTLStrategy_Classify s" "{ClassExpired}" for s
  by unfold_locales
     (auto simp: TTLStrategy_Classify_def class_confidence_def Let_def split: if_splits sum.splits)

interpretation expires_at: strategy_contract "ExpiresAtStrategy_Classify s" "{ClassExpired}" for s
  by unfold_locales
     (auto simp: ExpiresAtStrategy_Classify_def class_confidence_def Let_def split: if_splits option.splits)

interpretation owner_ref: strategy_contract "OwnerRefStrategy_Classify parse" "{ClassActive, ClassOrphaned}" for parse
  by unfold_locales
     (auto simp: OwnerRefStrategy_Classify_def class_confidence_def split: if_splits sum.splits)

interpretation resolver_based: strategy_contract "ResolverStrategy_Classify reg" "{ClassActive, ClassAbandoned}" for reg
  by unfold_locales
     (auto simp: ResolverStrategy_Classify_def class_confidence_def split: if_splits prod.splits option.splits)

section \<open>Properties\<close>

lemma int_dec_nonneg: "0 \<le> n \<Longrightarrow> int_dec n = uint_dec n"
  by (simp add: int_dec_def)

text \<open>
  C25. A TTL annotation of n hours is honoured exactly: up to 2562047h, the largest that an
  int64 of nanoseconds holds, the object is expired when its age on the unbounded time line
  exceeds n hours (never for 0h); a longer one is a parse error.
\<close>

theorem TTL_hours_expiry:
  assumes "o_annotations obj (ts_annotation_key s) = Some (int_dec n @ ''h'')" "0 \<le> n"
  shows "outcome (TTLStrategy_Classify s obj rd) =
     (if n \<le> 2562047 then
        Inr (if n \<noteq> 0 \<and> n * 3600000000000 < unix_ns (ts_now s) - unix_ns (o_created obj)
             then ClassExpired else ClassUnknown)
      else Inl (Wrapped ''parsing TTL'' (BadDuration (ts_annotation_key s) (int_dec n @ ''h'')
             (InvalidDuration (int_dec n @ ''h'')))))"
proof (cases "n \<le> 2562047")
  case True
  let ?ttl = "word_of_int (n * 3600000000000) :: duration"
  have sint: "sint ?ttl = n * 3600000000000"
    using True assms(2) by (intro sint_word_of_int_64) auto
  have "?ttl \<noteq> maxDuration"
    using sint True sint_saturate [of "2 ^ 63"] by (auto simp: saturate_def)
  moreover have "?ttl = 0 \<longleftrightarrow> n = 0"
    using sint by (metis mult_eq_0_iff of_int_0 signed_0 zero_neq_numeral)
  moreover have "resolveTTL s obj = Inr (?ttl, ''annotation:'' @ ts_annotation_key s)"
    using assms True by (simp add: resolveTTL_def int_dec_nonneg ParseDuration_hours)
  ultimately show ?thesis
    using True sint by (simp add: TTL_outcome ttl_elapsed_iff)
next
  case False
  then show ?thesis
    using assms by (simp add: TTL_outcome resolveTTL_def int_dec_nonneg ParseDuration_hours)
qed

text \<open>
  The OwnerRefStrategy of the chain and the OwnerRefResolver of the registry agree: they
  fail on the same owners with the same error, and the strategy says Active exactly when the
  resolver finds a reference, Orphaned otherwise.
\<close>

theorem OwnerRef_strategy_agrees_with_resolver:
  assumes "o_owners obj \<noteq> []"
  shows "outcome (OwnerRefStrategy_Classify parse obj rd) =
     map_sum id (\<lambda>refs. if refs = [] then ClassOrphaned else ClassActive)
       (OwnerRefResolver_Resolve parse obj rd)"
  using assms
  by (simp add: OwnerRef_outcome OwnerRefResolver_Resolve_eq filter_empty_conv split: option.split)

text \<open>
  C31. The protection strategy never fails; it protects exactly the objects in a protected
  namespace, the protected namespaces themselves, the objects whose annotation is the string
  \<open>true\<close>, and those that carry all of its (one or more) labels, a missing label reading as
  the empty string. The annotation is compared exactly, not without regard to case as the
  comment of the field has it, and all labels are asked for, where the comment of the type
  says any of them (that of the field says all).
\<close>

theorem Protection_decides:
  "outcome (ProtectionStrategy_Classify s obj rd) =
     Inr (if o_namespace obj \<in> ps_namespaces s \<or>
             (o_namespace obj = '''' \<and> o_name obj \<in> ps_namespaces s) \<or>
             o_annotations obj (ps_annotation_key s) = Some ''true'' \<or>
             ps_labels s \<noteq> [] \<and> filter (\<lambda>(k, v). map_get (o_labels obj) k \<noteq> v) (ps_labels s) = []
          then ClassProtected else ClassUnknown)"
  unfolding Protection_outcome is_protected_def
  by (auto simp: filter_empty_conv)

text \<open>
  C26. A TTL annotation that holds any duration as \<open>Duration.String\<close> prints it, fractions and
  negative durations included, is read back exactly: the object is Expired when its age,
  saturated to an int64, exceeds it (a negative TTL has elapsed from the start, a zero TTL
  never does).
\<close>

theorem TTL_reads_printed_duration:
  assumes "o_annotations obj (ts_annotation_key s) = Some (Duration_String ttl)"
  shows "outcome (TTLStrategy_Classify s obj rd) =
     Inr (if ttl \<noteq> 0 \<and>
             sint ttl < max (- (2 ^ 63)) (min (2 ^ 63 - 1) (unix_ns (ts_now s) - unix_ns (o_created obj)))
          then ClassExpired else ClassUnknown)"
  using assms
  by (simp add: TTL_outcome resolveTTL_def ParseDuration_String ttl_elapsed_def sint_Time_Sub)

lemma FormatRFC3339_not_Nil:
  "zone_off t = 0 \<Longrightarrow> 0 \<le> utc_year t \<Longrightarrow> utc_year t \<le> 9999 \<Longrightarrow> FormatRFC3339 t \<noteq> []"
  using ParseRFC3339_Format [of t] by (auto simp: ParseRFC3339_def parse_year_def bind2_def)

text \<open>
  C40. An expiry annotation that holds any UTC instant of the years 0 to 9999, printed as
  RFC 3339, is read back to the second: the object is Expired from that second on, Unknown
  before it, and never an error.
\<close>

theorem ExpiresAt_reads_printed_instant:
  assumes "o_annotations obj (es_annotation_key s) = Some (FormatRFC3339 t)"
    and "zone_off t = 0" "0 \<le> utc_year t" "utc_year t \<le> 9999"
  shows "outcome (ExpiresAtStrategy_Classify s obj rd) =
     Inr (if unix_ns t div 1000000000 * 1000000000 \<le> unix_ns (es_now s) then ClassExpired
          else ClassUnknown)"
  using assms by (simp add: ExpiresAt_outcome ParseRFC3339_Format FormatRFC3339_not_Nil)

section \<open>Witnesses\<close>

theorem ExpiresAt_reads_printed_instant_witness:
  "outcome (ExpiresAtStrategy_Classify \<lparr>es_annotation_key = ''janitor.io/expires-at'', es_now = later 2\<rparr>
      (sample_configmap\<lparr>o_annotations := [''janitor.io/expires-at'' \<mapsto> FormatRFC3339 (later 1)]\<rparr>)
      (sample_reader sample_configmap [])) = Inr ClassExpired"
  using ExpiresAt_reads_printed_instant
    [of "sample_configmap\<lparr>o_annotations := [''janitor.io/expires-at'' \<mapsto> FormatRFC3339 (later 1)]\<rparr>"
      "\<lparr>es_annotation_key = ''janitor.io/expires-at'', es_now = later 2\<rparr>" "later 1"
      "sample_reader sample_configmap []"]
  by (simp add: later_def utc_year_def year_of_day_def days_before_year_def epoch_day_def Let_def)

theorem TTL_reads_printed_duration_witness:
  "outcome (TTLStrategy_Classify \<lparr>ts_annotation_key = ''janitor.io/ttl'', ts_default_ttl = 0, ts_now = later 2\<rparr>
      (sample_configmap\<lparr>o_annotations := [''janitor.io/ttl'' \<mapsto> Duration_String 1500000000]\<rparr>)
      (sample_reader sample_configmap [])) = Inr ClassExpired"
  using TTL_reads_printed_duration
    [of "sample_configmap\<lparr>o_annotations := [''janitor.io/ttl'' \<mapsto> Duration_String 1500000000]\<rparr>"
      "\<lparr>ts_annotation_key = ''janitor.io/ttl'', ts_default_ttl = 0, ts_now = later 2\<rparr>" 1500000000
      "sample_reader sample_configmap []"]
  by (simp add: sample_configmap_def later_def)

theorem TTL_hours_expiry_witness:
  "outcome (TTLStrategy_Classify \<lparr>ts_annotation_key = ''janitor.io/ttl'', ts_default_ttl = 0, ts_now = later 2\<rparr>
      sample_configmap (sample_reader sample_configmap [])) = Inr ClassExpired"
  using TTL_hours_expiry [of sample_configmap
      "\<lparr>ts_annotation_key = ''janitor.io/ttl'', ts_default_ttl = 0, ts_now = later 2\<rparr>" 1
      "sample_reader sample_configmap []"]
  by (simp add: sample_configmap_def later_def int_dec_def uint_dec.simps digit_char_def)

theorem OwnerRef_strategy_agrees_with_resolver_witness:
  "outcome (OwnerRefStrategy_Classify sample_parser (sample_configmap\<lparr>o_owners := [sample_owner]\<rparr>)
      (sample_reader sample_configmap [])) = Inr ClassOrphaned"
  using OwnerRef_strategy_agrees_with_resolver [of "sample_configmap\<lparr>o_owners := [sample_owner]\<rparr>"
      sample_parser "sample_reader sample_configmap []"]
  by (simp add: OwnerRefResolver_Resolve_def get_owner_def sample_defs)

end
