(* ===== verification/Classifier.thy ===== *)
theory Classifier
  imports Strategies
begin

text \<open>
  \<open>internal/classifier/classifier.go\<close>: the chain of strategies. The reader is the one the
  classifier was built with; \<open>now\<close> is its own reading of the clock.
\<close>

record default_classifier =
  clf_strategies :: "strategy list"
  clf_reader :: reader

definition New :: "reader \<Rightarrow> strategy list \<Rightarrow> default_classifier" where
  "New rd strategies = \<lparr>clf_strategies = strategies, clf_reader = rd\<rparr>"

definition objectRefFrom :: "kobject \<Rightarrow> object_ref" where
  "objectRefFrom obj =
     \<lparr>ref_group = gvk_group (o_gvk obj), ref_version = gvk_version (o_gvk obj),
      ref_kind = gvk_kind (o_gvk obj), ref_namespace = o_namespace obj,
      ref_name = o_name obj, ref_uid = o_uid obj\<rparr>"

fun Classify_loop :: "strategy list \<Rightarrow> reader \<Rightarrow> gotime \<Rightarrow> kobject \<Rightarrow> error + finding" where
  "Classify_loop [] rd now obj =
     Inr \<lparr>f_ref = objectRefFrom obj, f_class = ClassUnknown, f_confidence = ConfidenceLow,
       f_reasons = single_reason ''no-strategy-matched''
         ''no classification strategy could determine the class of this resource'' [],
       f_classified_at = UTC now, f_reconcile_id = ''''\<rparr>"
| "Classify_loop (s # ss) rd now obj =
     (case strat_classify s obj rd of
        Inl err \<Rightarrow> Inl (Wrapped (''strategy '' @ strat_name s) err)
      | Inr (class, confidence, reasons) \<Rightarrow>
        if class = ClassUnknown then Classify_loop ss rd now obj
        else Inr \<lparr>f_ref = objectRefFrom obj, f_class = class, f_confidence = confidence,
          f_reasons = reasons, f_classified_at = UTC now, f_reconcile_id = ''''\<rparr>)"

definition Classify :: "default_classifier \<Rightarrow> gotime \<Rightarrow> kobject \<Rightarrow> error + finding" where
  "Classify c now obj = Classify_loop (clf_strategies c) (clf_reader c) now obj"

section \<open>The first strategy that determines a class wins\<close>

text \<open>A strategy settles the classification when it fails or returns a class other than Unknown.\<close>

definition settles :: "reader \<Rightarrow> kobject \<Rightarrow> strategy \<Rightarrow> (error + verdict) option" where
  "settles rd obj s =
     (case strat_classify s obj rd of
        Inl err \<Rightarrow> Some (Inl (Wrapped (''strategy '' @ strat_name s) err))
      | Inr v \<Rightarrow> if fst v = ClassUnknown then None else Some (Inr v))"

lemma settles_Inr_iff:
  "settles rd obj s = Some (Inr v) \<longleftrightarrow> strat_classify s obj rd = Inr v \<and> fst v \<noteq> ClassUnknown"
  by (cases "strat_classify s obj rd") (auto simp: settles_def)

lemma settles_Inl_iff:
  "settles rd obj s = Some (Inl err) \<longleftrightarrow>
     (\<exists>e. strat_classify s obj rd = Inl e \<and> err = Wrapped (''strategy '' @ strat_name s) e)"
  by (cases "strat_classify s obj rd") (auto simp: settles_def)

lemma settles_None_iff:
  "settles rd obj s = None \<longleftrightarrow> outcome (strat_classify s obj rd) = Inr ClassUnknown"
  by (cases "strat_classify s obj rd") (auto simp: settles_def)

definition finding_of :: "kobject \<Rightarrow> gotime \<Rightarrow> verdict \<Rightarrow> finding" where
  "finding_of obj now v = \<lparr>f_ref = objectRefFrom obj, f_class = fst v, f_confidence = fst (snd v),
     f_reasons = snd (snd v), f_classified_at = UTC now, f_reconcile_id = ''''\<rparr>"

definition undetermined :: verdict where
  "undetermined = (ClassUnknown, ConfidenceLow, single_reason ''no-strategy-matched''
     ''no classification strategy could determine the class of this resource'' [])"

lemma Classify_loop_eq:
  "Classify_loop ss rd now obj =
     (case first_hit (settles rd obj) ss of
        None \<Rightarrow> Inr (finding_of obj now undetermined)
      | Some r \<Rightarrow> map_sum id (finding_of obj now) r)"
  by (induction ss) (auto simp: settles_def finding_of_def undetermined_def split: sum.split prod.split)

lemma Classify_eq:
  "Classify c now obj =
     (case first_hit (settles (clf_reader c) obj) (clf_strategies c) of
        None \<Rightarrow> Inr (finding_of obj now undetermined)
      | Some r \<Rightarrow> map_sum id (finding_of obj now) r)"
  by (simp add: Classify_def Classify_loop_eq)

lemma objectRefFrom_simps [simp]:
  "ref_kind (objectRefFrom obj) = gvk_kind (o_gvk obj)"
  "ref_namespace (objectRefFrom obj) = o_namespace obj"
  "ref_name (objectRefFrom obj) = o_name obj"
  "ref_uid (objectRefFrom obj) = o_uid obj"
  by (simp_all add: objectRefFrom_def)

lemma finding_of_simps [simp]:
  "f_ref (finding_of obj now v) = objectRefFrom obj"
  "f_class (finding_of obj now v) = fst v"
  "f_confidence (finding_of obj now v) = fst (snd v)"
  "f_reasons (finding_of obj now v) = snd (snd v)"
  by (simp_all add: finding_of_def)

lemma Classify_ref: "Classify c now obj = Inr f \<Longrightarrow> f_ref f = objectRefFrom obj"
  by (auto simp: Classify_eq split: option.splits)

text \<open>The class of the finding, without its explanation.\<close>

definition settled_class :: "reader \<Rightarrow> kobject \<Rightarrow> strategy \<Rightarrow> (error + resource_class) option" where
  "settled_class rd obj s =
     (case outcome (strat_classify s obj rd) of
        Inl err \<Rightarrow> Some (Inl (Wrapped (''strategy '' @ strat_name s) err))
      | Inr c \<Rightarrow> if c = ClassUnknown then None else Some (Inr c))"

lemma settled_class_eq: "settled_class rd obj s = map_option (map_sum id fst) (settles rd obj s)"
  by (auto simp: settled_class_def settles_def split: sum.split)

lemma first_hit_map_option: "first_hit (\<lambda>x. map_option h (f x)) xs = map_option h (first_hit f xs)"
  by (induction xs) (auto split: option.split)

lemma Classify_class:
  "map_sum id f_class (Classify c now obj) =
     (case first_hit (settled_class (clf_reader c) obj) (clf_strategies c) of
        None \<Rightarrow> Inr ClassUnknown
      | Some r \<Rightarrow> r)"
proof -
  have "settled_class (clf_reader c) obj = (\<lambda>s. map_option (map_sum id fst) (settles (clf_reader c) obj s))"
    by (rule ext) (rule settled_class_eq)
  then show ?thesis
    by (cases "first_hit (settles (clf_reader c) obj) (clf_strategies c)")
       (simp_all add: Classify_eq first_hit_map_option undetermined_def sum.map_comp comp_def id_def)
qed

section \<open>Chains of strategies that keep their contract\<close>

locale strategy_chain =
  fixes chain :: "strategy list"
    and classes :: "resource_class set"
  assumes all_keep: "s \<in> set chain \<Longrightarrow> strategy_contract (strat_classify s) classes"
begin

lemma finding_determined:
  assumes "Classify_loop chain rd now obj = Inr f" "f_class f \<noteq> ClassUnknown"
  shows "f_class f \<in> classes" "f_confidence f = class_confidence (f_class f)" "explains (f_reasons f)"
proof -
  from assms obtain v where hit: "first_hit (settles rd obj) chain = Some (Inr v)"
    and f: "f = finding_of obj now v"
    by (auto simp: Classify_loop_eq undetermined_def split: option.splits)
  from first_hit_SomeD [OF hit] obtain s where "s \<in> set chain"
    and v: "strat_classify s obj rd = Inr v" "fst v \<noteq> ClassUnknown"
    by (auto simp: settles_Inr_iff)
  from all_keep [OF \<open>s \<in> set chain\<close>] v(1)
  have "v = no_verdict \<or> fst v \<in> classes \<and> fst (snd v) = class_confidence (fst v) \<and> explains (snd (snd v))"
    using strategy_contract.verdict [of "strat_classify s" classes obj rd "fst v" "fst (snd v)" "snd (snd v)"]
    by auto
  with v(2) show "f_class f \<in> classes" "f_confidence f = class_confidence (f_class f)"
    "explains (f_reasons f)"
    by (auto simp: f no_verdict_def)
qed

lemma finding_undetermined:
  assumes "Classify_loop chain rd now obj = Inr f" "f_class f = ClassUnknown"
  shows "f = finding_of obj now undetermined"
proof (cases "first_hit (settles rd obj) chain")
  case None
  with assms(1) show ?thesis by (simp add: Classify_loop_eq)
next
  case (Some r)
  with assms(1) obtain v where "first_hit (settles rd obj) chain = Some (Inr v)" "f_class f = fst v"
    by (auto simp: Classify_loop_eq)
  with assms(2) show ?thesis
    by (auto simp: settles_Inr_iff dest!: first_hit_SomeD)
qed

end

section \<open>Properties\<close>

text \<open>
  C23. The chain is a priority list: the classification determines a class with a finding f
  exactly when f is the verdict of the first strategy that settles it, every strategy before
  having answered Unknown without an error; the strategies after it play no part.
\<close>

theorem first_determined_class_wins:
  "Classify c now obj = Inr f \<and> f_class f \<noteq> ClassUnknown \<longleftrightarrow>
     (\<exists>us s vs v. clf_strategies c = us @ s # vs \<and>
        list_all (\<lambda>u. outcome (strat_classify u obj (clf_reader c)) = Inr ClassUnknown) us \<and>
        strat_classify s obj (clf_reader c) = Inr v \<and> fst v \<noteq> ClassUnknown \<and> f = finding_of obj now v)"
proof -
  have "Classify c now obj = Inr f \<and> f_class f \<noteq> ClassUnknown \<longleftrightarrow>
      (\<exists>v. first_hit (settles (clf_reader c) obj) (clf_strategies c) = Some (Inr v) \<and> f = finding_of obj now v)"
    by (auto simp: Classify_eq undetermined_def settles_Inr_iff split: option.splits dest!: first_hit_SomeD)
  then show ?thesis
    unfolding first_hit_Some_split settles_Inr_iff settles_None_iff list_all_iff by blast
qed

text \<open>
  An error of a strategy ends the classification with that error, named after the
  strategy, exactly when every strategy before it has answered Unknown: a later strategy
  cannot recover from it and an earlier determination hides it.
\<close>

theorem first_error_aborts:
  "Classify c now obj = Inl err \<longleftrightarrow>
     (\<exists>us s vs e. clf_strategies c = us @ s # vs \<and>
        list_all (\<lambda>u. outcome (strat_classify u obj (clf_reader c)) = Inr ClassUnknown) us \<and>
        strat_classify s obj (clf_reader c) = Inl e \<and> err = Wrapped (''strategy '' @ strat_name s) e)"
proof -
  have "Classify c now obj = Inl err \<longleftrightarrow>
      first_hit (settles (clf_reader c) obj) (clf_strategies c) = Some (Inl err)"
    by (auto simp: Classify_eq split: option.splits)
  then show ?thesis
    unfolding first_hit_Some_split settles_Inl_iff settles_None_iff list_all_iff by blast
qed

end
