(* ===== verification/Effects.thy ===== *)
theory Effects
  imports KubeApi
begin

text \<open>
  The program's effects on the outside, threaded through every operation that has some:
  the Prometheus counters of \<open>pkg/metrics/metrics.go\<close>, the Delete requests sent to the
  API server and the Events emitted, both in the order of the calls. Log lines are not
  recorded. A counter maps its label values to the number of increments; of the duration
  histogram only the number of observations is kept.
\<close>

section \<open>The metrics recorder\<close>

record recorder =
  m_scanned :: "string \<Rightarrow> nat"
  m_classified :: "string \<times> string \<Rightarrow> nat"
  m_actions :: "string \<times> string \<times> string \<Rightarrow> nat"
  m_durations :: "string \<Rightarrow> nat"
  m_errors :: "string \<times> string \<Rightarrow> nat"
  m_policy :: "string \<times> string \<Rightarrow> nat"

definition new_recorder :: recorder where
  "new_recorder = \<lparr>m_scanned = (\<lambda>_. 0), m_classified = (\<lambda>_. 0), m_actions = (\<lambda>_. 0),
     m_durations = (\<lambda>_. 0), m_errors = (\<lambda>_. 0), m_policy = (\<lambda>_. 0)\<rparr>"

text \<open>
  \<open>once\<close> and \<open>defaultRecorder\<close> of the package: \<open>Register\<close> creates the recorder the first
  time only; \<open>DefaultRecorder\<close> panics (\<open>None\<close>) before that.
\<close>

record metrics_global =
  once_done :: bool
  defaultRecorder :: "recorder option"

definition Register_metrics :: "metrics_global \<Rightarrow> metrics_global" where
  "Register_metrics g =
     (if once_done g then g else \<lparr>once_done = True, defaultRecorder = Some new_recorder\<rparr>)"

definition DefaultRecorder :: "metrics_global \<Rightarrow> recorder option" where
  "DefaultRecorder g = defaultRecorder g"

definition inc :: "('k \<Rightarrow> nat) \<Rightarrow> 'k \<Rightarrow> 'k \<Rightarrow> nat" where
  "inc c k = c(k := Suc (c k))"

definition RecordScan :: "string \<Rightarrow> recorder \<Rightarrow> recorder" where
  "RecordScan kind r = r\<lparr>m_scanned := inc (m_scanned r) kind\<rparr>"

definition RecordClassification :: "string \<Rightarrow> string \<Rightarrow> recorder \<Rightarrow> recorder" where
  "RecordClassification kind class r = r\<lparr>m_classified := inc (m_classified r) (kind, class)\<rparr>"

definition RecordAction :: "string \<Rightarrow> string \<Rightarrow> bool \<Rightarrow> recorder \<Rightarrow> recorder" where
  "RecordAction kind act dryRun r =
     (let dryRunLabel = (if dryRun then ''true'' else ''false'') in
      r\<lparr>m_actions := inc (m_actions r) (kind, act, dryRunLabel)\<rparr>)"

definition RecordError :: "string \<Rightarrow> recorder \<Rightarrow> recorder" where
  "RecordError kind r = r\<lparr>m_errors := inc (m_errors r) (''unknown'', kind)\<rparr>"

definition RecordReconcileError :: "string \<Rightarrow> string \<Rightarrow> recorder \<Rightarrow> recorder" where
  "RecordReconcileError controller kind r = r\<lparr>m_errors := inc (m_errors r) (controller, kind)\<rparr>"

definition RecordPolicyEvaluation :: "string \<Rightarrow> string \<Rightarrow> recorder \<Rightarrow> recorder" where
  "RecordPolicyEvaluation policyName act r =
     (let policyName' = (if policyName = '''' then ''<default>'' else policyName) in
      r\<lparr>m_policy := inc (m_policy r) (policyName', act)\<rparr>)"

definition ObserveReconcileDuration :: "string \<Rightarrow> recorder \<Rightarrow> recorder" where
  "ObserveReconcileDuration controller r = r\<lparr>m_durations := inc (m_durations r) controller\<rparr>"

lemmas recorder_defs = RecordScan_def RecordClassification_def RecordAction_def RecordError_def
  RecordReconcileError_def RecordPolicyEvaluation_def ObserveReconcileDuration_def

lemma inc_same [simp]: "inc c k k = Suc (c k)"
  by (simp add: inc_def)

lemma inc_other [simp]: "j \<noteq> k \<Longrightarrow> inc c k j = c j"
  by (simp add: inc_def)

lemma inc_mono: "c j \<le> inc c k j"
  by (simp add: inc_def)

section \<open>Effects\<close>

record k8s_event =
  evt_object :: kobject
  evt_type :: string
  evt_reason :: string
  evt_message :: string

record effects =
  fx_metrics :: recorder
  fx_deletes :: "kobject list"
  fx_events :: "k8s_event list"

definition new_effects :: "recorder \<Rightarrow> effects" where
  "new_effects r = \<lparr>fx_metrics = r, fx_deletes = [], fx_events = []\<rparr>"

definition metered :: "(recorder \<Rightarrow> recorder) \<Rightarrow> effects \<Rightarrow> effects" where
  "metered f s = s\<lparr>fx_metrics := f (fx_metrics s)\<rparr>"

definition send_delete :: "kobject \<Rightarrow> effects \<Rightarrow> effects" where
  "send_delete obj s = s\<lparr>fx_deletes := fx_deletes s @ [obj]\<rparr>"

definition emit_event :: "k8s_event \<Rightarrow> effects \<Rightarrow> effects" where
  "emit_event ev s = s\<lparr>fx_events := fx_events s @ [ev]\<rparr>"

lemma metered_simps [simp]:
  "fx_deletes (metered f s) = fx_deletes s"
  "fx_events (metered f s) = fx_events s"
  "fx_metrics (metered f s) = f (fx_metrics s)"
  by (simp_all add: metered_def)

lemma send_delete_simps [simp]:
  "fx_deletes (send_delete obj s) = fx_deletes s @ [obj]"
  "fx_events (send_delete obj s) = fx_events s"
  "fx_metrics (send_delete obj s) = fx_metrics s"
  by (simp_all add: send_delete_def)

lemma emit_event_simps [simp]:
  "fx_deletes (emit_event ev s) = fx_deletes s"
  "fx_events (emit_event ev s) = fx_events s @ [ev]"
  "fx_metrics (emit_event ev s) = fx_metrics s"
  by (simp_all add: emit_event_def)

end
