(* ===== verification/Contracts.thy ===== *)
theory Contracts
  imports Effects
begin

text \<open>
  The interfaces between the reconcilers and the packages they call: what \<open>policy.Engine\<close>,
  \<open>action.Executor\<close> and \<open>report.Reporter\<close> promise. The implementations discharge these
  laws in their own theories; the reconcile pipeline rests on the laws only.
\<close>

text \<open>A decision to really delete.\<close>

definition deletes_now :: "action_decision \<Rightarrow> bool" where
  "deletes_now d \<longleftrightarrow> d_action d = ActionDelete \<and> \<not> d_dry_run d"

text \<open>The classes that are never deleted, whatever the policies say.\<close>

definition shielded :: "resource_class \<Rightarrow> bool" where
  "shielded c \<longleftrightarrow> c \<in> {ClassProtected, ClassUnknown, ClassBlocked}"

locale policy_engine =
  fixes evaluate :: "(string \<rightharpoonup> string) \<Rightarrow> finding \<Rightarrow> janitor_policy list \<Rightarrow> error + action_decision"
    and dry :: bool
  assumes total: "\<exists>d. evaluate ann f ps = Inr d"
    and declared: "evaluate ann f ps = Inr d \<Longrightarrow> d_action d \<le> ActionDelete"
    and shield: "evaluate ann f ps = Inr d \<Longrightarrow> shielded (f_class f) \<Longrightarrow> d_action d \<le> ActionReport"
    and dry_run: "evaluate ann f ps = Inr d \<Longrightarrow> dry \<Longrightarrow> d_dry_run d"
    and traced: "evaluate ann f ps = Inr d \<Longrightarrow> d_reconcile_id d = f_reconcile_id f"
begin

lemma dry_never_deletes: "evaluate ann f ps = Inr d \<Longrightarrow> dry \<Longrightarrow> \<not> deletes_now d"
  by (auto simp: deletes_now_def dest: dry_run)

lemma shielded_never_deleted: "evaluate ann f ps = Inr d \<Longrightarrow> deletes_now d \<Longrightarrow> \<not> shielded (f_class f)"
  by (auto simp: deletes_now_def dest: shield)

end

text \<open>What the executor has checked when it sends a Delete request for the object \<open>x\<close>.\<close>

definition preflight_cleared :: "string set \<Rightarrow> object_ref \<Rightarrow> kobject \<Rightarrow> bool" where
  "preflight_cleared protected ref x \<longleftrightarrow>
     ref_namespace ref \<notin> protected \<and>
     (ref_namespace ref = '''' \<longrightarrow> ref_name ref \<notin> protected) \<and>
     o_uid x = ref_uid ref \<and>
     (\<forall>f \<in> set (o_finalizers x). f = ''janitor.io/cleanup'') \<and>
     o_owners x = []"

locale action_executor =
  fixes execute :: "kobject \<Rightarrow> finding \<Rightarrow> action_decision \<Rightarrow> effects \<Rightarrow> error option \<times> effects"
    and protected :: "string set"
  assumes quiet: "\<not> deletes_now d \<Longrightarrow> fx_deletes (snd (execute obj f d s)) = fx_deletes s"
    and careful: "fx_deletes (snd (execute obj f d s)) = fx_deletes s \<or>
      (\<exists>x. fx_deletes (snd (execute obj f d s)) = fx_deletes s @ [x] \<and>
           preflight_cleared protected (f_ref f) x)"
    and silent: "fx_events (snd (execute obj f d s)) = fx_events s"
    and own_errors: "c \<noteq> ''unknown'' \<Longrightarrow>
      m_errors (fx_metrics (snd (execute obj f d s))) (c, k) = m_errors (fx_metrics s) (c, k)"
    and untimed: "m_durations (fx_metrics (snd (execute obj f d s))) = m_durations (fx_metrics s)"
begin

lemma deleted_cleared:
  assumes "fx_deletes (snd (execute obj f d s)) \<noteq> fx_deletes s"
  obtains x where "deletes_now d" "preflight_cleared protected (f_ref f) x"
    "fx_deletes (snd (execute obj f d s)) = fx_deletes s @ [x]"
  using assms quiet careful by metis

end

locale finding_reporter =
  fixes report :: "kobject \<Rightarrow> finding \<Rightarrow> action_decision \<Rightarrow> effects \<Rightarrow> error option \<times> effects"
  assumes harmless: "fx_deletes (snd (report obj f d s)) = fx_deletes s"
    and unmetered: "fx_metrics (snd (report obj f d s)) = fx_metrics s"
    and one_event: "\<exists>ev. fx_events (snd (report obj f d s)) = fx_events s @ [ev] \<and> evt_object ev = obj"

end
