(* ===== verification/PolicyEngine.thy ===== *)
theory PolicyEngine
  imports Contracts Samples
begin

text \<open>
  \<open>internal/policy/engine.go\<close>: the decision on a finding. \<open>now\<close> is the reading of the
  clock at the start of \<open>Evaluate\<close>; the object is read through its annotations only
  (\<open>AnnotationReader\<close>).
\<close>

record default_engine =
  GlobalDryRun :: bool

definition NewDefaultEngine :: "bool \<Rightarrow> default_engine" where
  "NewDefaultEngine globalDryRun = \<lparr>GlobalDryRun = globalDryRun\<rparr>"

definition annotationActionOverride :: string where
  "annotationActionOverride = ''janitor.io/action''"

definition defaultDeleteConfidenceThreshold :: float64 where
  "defaultDeleteConfidenceThreshold = f64_0_9"

definition defaultReportConfidenceThreshold :: float64 where
  "defaultReportConfidenceThreshold = f64_0_6"

definition decision_text :: "string \<Rightarrow> string \<Rightarrow> string \<Rightarrow> float64 \<Rightarrow> float64 \<Rightarrow> string" where
  "decision_text policyRef what rel confidence threshold =
     ''policy '' @ policyRef @ '': mode='' @ what @ '' (confidence='' @ fmt_2f confidence @ rel @
     ''threshold='' @ fmt_2f threshold @ '')''"

definition annotationOverride ::
    "default_engine \<Rightarrow> (string \<rightharpoonup> string) \<Rightarrow> finding \<Rightarrow> gotime \<Rightarrow> string \<Rightarrow> action_decision option" where
  "annotationOverride e annotations finding now reconcileID =
     (case annotations annotationActionOverride of
        None \<Rightarrow> None
      | Some override \<Rightarrow>
        if override = ''skip'' then
          Some \<lparr>d_action = ActionNone, d_dry_run = GlobalDryRun e,
            d_reason = ''per-resource annotation '' @ annotationActionOverride @ ''=skip'',
            d_policy_ref = '''', d_decided_at = now, d_reconcile_id = reconcileID\<rparr>
        else if override = ''report'' then
          Some \<lparr>d_action = ActionReport, d_dry_run = GlobalDryRun e,
            d_reason = ''per-resource annotation '' @ annotationActionOverride @ ''=report'',
            d_policy_ref = '''', d_decided_at = now, d_reconcile_id = reconcileID\<rparr>
        else if override = ''delete'' then
          (if GlobalDryRun e then
             Some \<lparr>d_action = ActionDelete, d_dry_run = True,
               d_reason = ''per-resource annotation '' @ annotationActionOverride @
                 ''=delete (global dry-run active)'',
               d_policy_ref = '''', d_decided_at = now, d_reconcile_id = reconcileID\<rparr>
           else
             Some \<lparr>d_action = ActionDelete, d_dry_run = False,
               d_reason = ''per-resource annotation '' @ annotationActionOverride @ ''=delete'',
               d_policy_ref = '''', d_decided_at = now, d_reconcile_id = reconcileID\<rparr>)
        else None)"

definition policyMatchesFinding :: "janitor_policy \<Rightarrow> finding \<Rightarrow> bool" where
  "policyMatchesFinding policy finding \<longleftrightarrow>
     list_ex (\<lambda>kind. rk_kind kind = ref_kind (f_ref finding)) (sel_kinds (spec_selector (policy_spec policy)))"

definition findMatchingPolicy :: "finding \<Rightarrow> janitor_policy list \<Rightarrow> janitor_policy option" where
  "findMatchingPolicy finding policies = find (\<lambda>p. policyMatchesFinding p finding) policies"

definition confidenceThreshold :: "janitor_policy \<Rightarrow> action_mode \<Rightarrow> float64" where
  "confidenceThreshold policy mode =
     (case ac_confidence_threshold (spec_action (policy_spec policy)) of
        Some t \<Rightarrow> t
      | None \<Rightarrow> (case mode of
            ActionModeDelete \<Rightarrow> defaultDeleteConfidenceThreshold
          | _ \<Rightarrow> defaultReportConfidenceThreshold))"

definition actionableClass :: "resource_class \<Rightarrow> bool" where
  "actionableClass c \<longleftrightarrow> c \<in> {ClassExpired, ClassOrphaned, ClassAbandoned, ClassEphemeral}"

definition defaultDecision :: "default_engine \<Rightarrow> finding \<Rightarrow> gotime \<Rightarrow> string \<Rightarrow> action_decision" where
  "defaultDecision e finding now reconcileID =
     (let cls = class_string (f_class finding); conf = fmt_2f (f_confidence finding) in
      if actionableClass (f_class finding) \<and>
         f64_le defaultReportConfidenceThreshold (f_confidence finding) then
        \<lparr>d_action = ActionReport, d_dry_run = GlobalDryRun e,
         d_reason = ''no matching policy; reporting by default (class='' @ cls @ '', confidence='' @ conf @ '')'',
         d_policy_ref = '''', d_decided_at = now, d_reconcile_id = reconcileID\<rparr>
      else
        \<lparr>d_action = ActionNone, d_dry_run = GlobalDryRun e,
         d_reason = ''no matching policy and below report threshold (class='' @ cls @
           '', confidence='' @ conf @ '')'',
         d_policy_ref = '''', d_decided_at = now, d_reconcile_id = reconcileID\<rparr>)"

definition evaluatePolicy ::
    "default_engine \<Rightarrow> finding \<Rightarrow> janitor_policy \<Rightarrow> gotime \<Rightarrow> string \<Rightarrow> action_decision" where
  "evaluatePolicy e finding policy now reconcileID =
     (let mode = ac_mode (spec_action (policy_spec policy));
          threshold = confidenceThreshold policy mode;
          policyRef = policy_name policy;
          dryRun = (GlobalDryRun e \<or> mode = ActionModeDryRun);
          confidence = f_confidence finding;
          decide = (\<lambda>act dry what rel. \<lparr>d_action = act, d_dry_run = dry,
            d_reason = decision_text policyRef what rel confidence threshold,
            d_policy_ref = policyRef, d_decided_at = now, d_reconcile_id = reconcileID\<rparr>)
      in case mode of
        ActionModeDryRun \<Rightarrow>
          if f64_le threshold confidence then decide ActionDelete True ''DryRun, would delete'' '' >= ''
          else decide ActionReport True ''DryRun, reporting'' '' < ''
      | ActionModeReport \<Rightarrow>
          if f64_le threshold confidence then decide ActionReport dryRun ''Report'' '' >= ''
          else decide ActionNone dryRun ''Report, below threshold'' '' < ''
      | ActionModeDelete \<Rightarrow>
          if f64_le threshold confidence then decide ActionDelete dryRun ''Delete'' '' >= ''
          else decide ActionReport dryRun ''Delete but below threshold, reporting'' '' < ''
      | ActionModeOther _ \<Rightarrow> defaultDecision e finding now reconcileID)"

definition Evaluate ::
    "default_engine \<Rightarrow> gotime \<Rightarrow> (string \<rightharpoonup> string) \<Rightarrow> finding \<Rightarrow> janitor_policy list
      \<Rightarrow> error + action_decision" where
  "Evaluate e clock obj finding policies =
     (let now = UTC clock; reconcileID = f_reconcile_id finding in
      if f_class finding = ClassProtected then
        Inr \<lparr>d_action = ActionNone, d_dry_run = GlobalDryRun e,
          d_reason = ''resource is protected '' @ em_dash @ '' no action taken'',
          d_policy_ref = '''', d_decided_at = now, d_reconcile_id = reconcileID\<rparr>
      else if f_class finding = ClassUnknown then
        Inr \<lparr>d_action = ActionNone, d_dry_run = GlobalDryRun e,
          d_reason = ''classification is unknown '' @ em_dash @ '' no action taken'',
          d_policy_ref = '''', d_decided_at = now, d_reconcile_id = reconcileID\<rparr>
      else if f_class finding = ClassBlocked then
        Inr \<lparr>d_action = ActionReport, d_dry_run = GlobalDryRun e,
          d_reason = ''resource has blocking finalizers '' @ em_dash @ '' reporting only, no deletion'',
          d_policy_ref = '''', d_decided_at = now, d_reconcile_id = reconcileID\<rparr>
      else case annotationOverride e obj finding now reconcileID of
        Some decision \<Rightarrow> Inr decision
      | None \<Rightarrow>
        (case findMatchingPolicy finding policies of
           None \<Rightarrow> Inr (defaultDecision e finding now reconcileID)
         | Some policy \<Rightarrow> Inr (evaluatePolicy e finding policy now reconcileID)))"

section \<open>Decisions\<close>

text \<open>What the annotation override decides, and when a policy deletes.\<close>

lemma annotationOverride_None:
  "annotationOverride e ann f now rid = None \<longleftrightarrow>
     ann annotationActionOverride \<notin> {Some ''skip'', Some ''report'', Some ''delete''}"
  by (auto simp: annotationOverride_def split: option.split)

lemma annotationOverride_Some:
  assumes "annotationOverride e ann f now rid = Some d"
  shows "d_dry_run d = GlobalDryRun e" "d_policy_ref d = ''''" "d_reconcile_id d = rid" "d_decided_at d = now"
    and "d_action d = (if ann annotationActionOverride = Some ''skip'' then ActionNone
                       else if ann annotationActionOverride = Some ''report'' then ActionReport
                       else ActionDelete)"
    and "ann annotationActionOverride \<in> {Some ''skip'', Some ''report'', Some ''delete''}"
  using assms by (auto simp: annotationOverride_def split: option.splits if_splits)

lemma defaultDecision_simps [simp]:
  "d_action (defaultDecision e f now rid) =
     (if actionableClass (f_class f) \<and> f64_le defaultReportConfidenceThreshold (f_confidence f)
      then ActionReport else ActionNone)"
  "d_dry_run (defaultDecision e f now rid) = GlobalDryRun e"
  "d_policy_ref (defaultDecision e f now rid) = ''''"
  "d_reconcile_id (defaultDecision e f now rid) = rid"
  "d_decided_at (defaultDecision e f now rid) = now"
  by (simp_all add: defaultDecision_def Let_def)

abbreviation policy_mode :: "janitor_policy \<Rightarrow> action_mode" where
  "policy_mode p \<equiv> ac_mode (spec_action (policy_spec p))"

definition meets_threshold :: "janitor_policy \<Rightarrow> finding \<Rightarrow> bool" where
  "meets_threshold p f \<longleftrightarrow> f64_le (confidenceThreshold p (policy_mode p)) (f_confidence f)"

lemma evaluatePolicy_action:
  "d_action (evaluatePolicy e f p now rid) =
     (case policy_mode p of
        ActionModeDryRun \<Rightarrow> if meets_threshold p f then ActionDelete else ActionReport
      | ActionModeReport \<Rightarrow> if meets_threshold p f then ActionReport else ActionNone
      | ActionModeDelete \<Rightarrow> if meets_threshold p f then ActionDelete else ActionReport
      | ActionModeOther _ \<Rightarrow> d_action (defaultDecision e f now rid))"
  by (simp add: evaluatePolicy_def meets_threshold_def Let_def split: action_mode.split)

lemma evaluatePolicy_dry_run:
  "d_dry_run (evaluatePolicy e f p now rid) \<longleftrightarrow> GlobalDryRun e \<or> policy_mode p = ActionModeDryRun"
  by (auto simp: evaluatePolicy_def Let_def split: action_mode.split)

lemma evaluatePolicy_ids [simp]:
  "d_reconcile_id (evaluatePolicy e f p now rid) = rid"
  "d_decided_at (evaluatePolicy e f p now rid) = now"
  by (auto simp: evaluatePolicy_def Let_def split: action_mode.split)

lemma evaluatePolicy_deletes:
  "deletes_now (evaluatePolicy e f p now rid) \<longleftrightarrow>
     \<not> GlobalDryRun e \<and> policy_mode p = ActionModeDelete \<and> meets_threshold p f"
  by (auto simp: deletes_now_def evaluatePolicy_action evaluatePolicy_dry_run split: action_mode.splits)

text \<open>\<open>Evaluate\<close> below the three safety returns.\<close>

lemma Evaluate_unshielded:
  assumes "\<not> shielded (f_class f)"
  shows "Evaluate e clock ann f ps =
     Inr (case annotationOverride e ann f (UTC clock) (f_reconcile_id f) of
        Some d \<Rightarrow> d
      | None \<Rightarrow> (case findMatchingPolicy f ps of
            None \<Rightarrow> defaultDecision e f (UTC clock) (f_reconcile_id f)
          | Some p \<Rightarrow> evaluatePolicy e f p (UTC clock) (f_reconcile_id f)))"
  using assms by (auto simp: Evaluate_def shielded_def Let_def split: option.split)

lemma Evaluate_shielded:
  assumes "shielded (f_class f)" "Evaluate e clock ann f ps = Inr d"
  shows "d_action d = (if f_class f = ClassBlocked then ActionReport else ActionNone)"
    "d_dry_run d = GlobalDryRun e" "d_reconcile_id d = f_reconcile_id f" "d_policy_ref d = ''''"
  using assms by (auto simp: Evaluate_def shielded_def Let_def)

interpretation engine: policy_engine "Evaluate e clock" "GlobalDryRun e" for e clock
proof unfold_locales
  fix ann f ps
  show "\<exists>d. Evaluate e clock ann f ps = Inr d"
    by (auto simp: Evaluate_def Let_def split: option.split)
next
  fix ann f ps d
  assume d: "Evaluate e clock ann f ps = Inr d"
  show "d_action d \<le> ActionDelete"
    using d by (cases "shielded (f_class f)")
      (auto simp: Evaluate_shielded(1) Evaluate_unshielded evaluatePolicy_action annotationOverride_Some(5)
         split: option.splits action_mode.splits if_splits)
  show "d_dry_run d" if "GlobalDryRun e"
    using d that by (cases "shielded (f_class f)")
      (auto simp: Evaluate_shielded(2) Evaluate_unshielded evaluatePolicy_dry_run annotationOverride_Some(1)
         split: option.splits)
  show "d_reconcile_id d = f_reconcile_id f"
    using d by (cases "shielded (f_class f)")
      (auto simp: Evaluate_shielded(3) Evaluate_unshielded annotationOverride_Some(3)
         split: option.splits)
  show "d_action d \<le> ActionReport" if "shielded (f_class f)"
    using Evaluate_shielded(1) [OF that d] by simp
qed

text \<open>The fields of a policy that the engine reads.\<close>

definition policy_view :: "janitor_policy \<Rightarrow> string \<times> string list \<times> action_mode \<times> float64 option" where
  "policy_view p = (policy_name p, map rk_kind (sel_kinds (spec_selector (policy_spec p))),
     policy_mode p, ac_confidence_threshold (spec_action (policy_spec p)))"

lemma policyMatchesFinding_iff:
  "policyMatchesFinding p f \<longleftrightarrow> ref_kind (f_ref f) \<in> set (map rk_kind (sel_kinds (spec_selector (policy_spec p))))"
  by (force simp: policyMatchesFinding_def list_ex_iff)

lemma policyMatchesFinding_view:
  "policy_view p = policy_view q \<Longrightarrow> policyMatchesFinding p f \<longleftrightarrow> policyMatchesFinding q f"
  unfolding policyMatchesFinding_iff policy_view_def by (metis prod.inject)

lemma evaluatePolicy_view:
  "policy_view p = policy_view q \<Longrightarrow> evaluatePolicy e f p now rid = evaluatePolicy e f q now rid"
  by (simp add: policy_view_def evaluatePolicy_def confidenceThreshold_def Let_def)

lemma findMatchingPolicy_view:
  "map policy_view ps = map policy_view qs \<Longrightarrow>
     map_option policy_view (findMatchingPolicy f ps) = map_option policy_view (findMatchingPolicy f qs)"
proof (induction ps arbitrary: qs)
  case (Cons p ps)
  then obtain q qs' where qs: "qs = q # qs'" "policy_view p = policy_view q"
    "map policy_view ps = map policy_view qs'" by (cases qs) auto
  with Cons.IH [of qs'] policyMatchesFinding_view [of p q f] show ?case
    by (simp add: findMatchingPolicy_def)
qed (simp add: findMatchingPolicy_def)

section \<open>When the engine decides to delete\<close>

lemma annotationOverride_deletes:
  "annotationOverride e ann f now rid = Some d \<Longrightarrow>
     deletes_now d \<longleftrightarrow> \<not> GlobalDryRun e \<and> ann annotationActionOverride = Some ''delete''"
  by (auto simp: deletes_now_def annotationOverride_def split: option.splits if_splits)

lemma Evaluate_deletes:
  assumes "Evaluate e clock ann f ps = Inr d"
  shows "deletes_now d \<longleftrightarrow> \<not> GlobalDryRun e \<and> \<not> shielded (f_class f) \<and>
     (ann annotationActionOverride = Some ''delete'' \<or>
      ann annotationActionOverride \<notin> {Some ''skip'', Some ''report'', Some ''delete''} \<and>
      (\<exists>p. findMatchingPolicy f ps = Some p \<and> policy_mode p = ActionModeDelete \<and> meets_threshold p f))"
proof (cases "shielded (f_class f)")
  case True
  with assms engine.shielded_never_deleted show ?thesis by blast
next
  case unshielded: False
  note d = assms [unfolded Evaluate_unshielded [OF unshielded]]
  show ?thesis
  proof (cases "annotationOverride e ann f (UTC clock) (f_reconcile_id f)")
    case None
    then have "ann annotationActionOverride \<notin> {Some ''skip'', Some ''report'', Some ''delete''}"
      unfolding annotationOverride_None .
    moreover have "\<not> deletes_now (defaultDecision e f now rid)" for now rid
      by (simp add: deletes_now_def)
    ultimately show ?thesis
      using d None unshielded by (auto simp: evaluatePolicy_deletes split: option.splits)
  next
    case (Some d')
    with d have "d' = d" by simp
    with annotationOverride_deletes [OF Some] annotationOverride_Some(6) [OF Some] unshielded
    show ?thesis by auto
  qed
qed

text \<open>The list the reconcilers pass has been filtered by kind already, which changes nothing.\<close>

lemma findMatchingPolicy_eq:
  "findMatchingPolicy f ps = find (\<lambda>p. ref_kind (f_ref f) \<in> set (map rk_kind (sel_kinds (spec_selector (policy_spec p))))) ps"
  by (simp add: findMatchingPolicy_def policyMatchesFinding_iff)

section \<open>Properties\<close>

text \<open>
  C4. The decision to really delete, exactly: never in dry-run mode and never for a
  protected, blocked or unknown object; else by the annotation \<open>janitor.io/action=delete\<close>
  alone, or, when the annotation has none of its three values, by the first policy that
  lists the object's kind, if its mode is Delete and its threshold is met. The first policy
  in the order of the list counts, not the one with the most specific selector, as the comment
  of the package has it.
\<close>

theorem Evaluate_deletes_exactly:
  "map_sum id deletes_now (Evaluate e clock ann f ps) =
     Inr (\<not> GlobalDryRun e \<and> f_class f \<notin> {ClassProtected, ClassUnknown, ClassBlocked} \<and>
       (if ann ''janitor.io/action'' = Some ''delete'' then True
        else if ann ''janitor.io/action'' \<in> {Some ''report'', Some ''skip''} then False
        else (case find (\<lambda>p. list_ex (\<lambda>k. rk_kind k = ref_kind (f_ref f))
                        (sel_kinds (spec_selector (policy_spec p)))) ps of
              None \<Rightarrow> False
            | Some p \<Rightarrow> ac_mode (spec_action (policy_spec p)) = ActionModeDelete \<and>
                f64_le (confidenceThreshold p ActionModeDelete) (f_confidence f))))"
proof -
  obtain d where d: "Evaluate e clock ann f ps = Inr d" using engine.total by blast
  have "findMatchingPolicy f ps = find (\<lambda>p. list_ex (\<lambda>k. rk_kind k = ref_kind (f_ref f))
      (sel_kinds (spec_selector (policy_spec p)))) ps"
    by (simp add: findMatchingPolicy_def policyMatchesFinding_def)
  then show ?thesis
    unfolding d using Evaluate_deletes [OF d]
    by (auto simp: shielded_def annotationActionOverride_def meets_threshold_def split: option.splits)
qed

text \<open>
  C21. The whole decision table: the action and the dry-run flag for every class, annotation,
  first matching policy (mode and threshold) and confidence. \<open>Evaluate\<close> never fails. A policy
  in DryRun mode uses its threshold too, although the comment of the API type says that it is
  ignored there, and it is again the first policy listed that counts.
\<close>

theorem Evaluate_decision_table:
  "map_sum id (\<lambda>d. (d_action d, d_dry_run d)) (Evaluate e clock ann f ps) =
     (let report_by_default = (if actionableClass (f_class f) \<and> f64_le f64_0_6 (f_confidence f)
            then ActionReport else ActionNone);
          override = ann ''janitor.io/action'' in
      Inr (if f_class f \<in> {ClassProtected, ClassUnknown} then (ActionNone, GlobalDryRun e)
           else if f_class f = ClassBlocked then (ActionReport, GlobalDryRun e)
           else if override = Some ''skip'' then (ActionNone, GlobalDryRun e)
           else if override = Some ''report'' then (ActionReport, GlobalDryRun e)
           else if override = Some ''delete'' then (ActionDelete, GlobalDryRun e)
           else case findMatchingPolicy f ps of
             None \<Rightarrow> (report_by_default, GlobalDryRun e)
           | Some p \<Rightarrow>
             (let met = f64_le (confidenceThreshold p (policy_mode p)) (f_confidence f) in
              case policy_mode p of
                ActionModeDryRun \<Rightarrow> (if met then ActionDelete else ActionReport, True)
              | ActionModeReport \<Rightarrow> (if met then ActionReport else ActionNone, GlobalDryRun e)
              | ActionModeDelete \<Rightarrow> (if met then ActionDelete else ActionReport, GlobalDryRun e)
              | ActionModeOther _ \<Rightarrow> (report_by_default, GlobalDryRun e))))"
proof (cases "shielded (f_class f)")
  case True
  then show ?thesis by (auto simp: Evaluate_def shielded_def Let_def)
next
  case unshielded: False
  then have cls: "f_class f \<notin> {ClassProtected, ClassUnknown}" "f_class f \<noteq> ClassBlocked"
    by (simp_all add: shielded_def)
  have override: "(case annotationOverride e ann f now rid of Some d \<Rightarrow> (d_action d, d_dry_run d) | None \<Rightarrow> rest) =
      (if ann ''janitor.io/action'' = Some ''skip'' then (ActionNone, GlobalDryRun e)
       else if ann ''janitor.io/action'' = Some ''report'' then (ActionReport, GlobalDryRun e)
       else if ann ''janitor.io/action'' = Some ''delete'' then (ActionDelete, GlobalDryRun e) else rest)"
    for now rid rest
    by (auto simp: annotationOverride_def annotationActionOverride_def split: option.split)
  have pair: "(d_action (evaluatePolicy e f p now rid), d_dry_run (evaluatePolicy e f p now rid)) =
      (let met = f64_le (confidenceThreshold p (policy_mode p)) (f_confidence f) in
       case policy_mode p of
         ActionModeDryRun \<Rightarrow> (if met then ActionDelete else ActionReport, True)
       | ActionModeReport \<Rightarrow> (if met then ActionReport else ActionNone, GlobalDryRun e)
       | ActionModeDelete \<Rightarrow> (if met then ActionDelete else ActionReport, GlobalDryRun e)
       | ActionModeOther _ \<Rightarrow> (if actionableClass (f_class f) \<and> f64_le f64_0_6 (f_confidence f)
            then ActionReport else ActionNone, GlobalDryRun e))" for p now rid
    by (simp add: evaluatePolicy_action evaluatePolicy_dry_run meets_threshold_def Let_def
          defaultReportConfidenceThreshold_def split: action_mode.split)
  show ?thesis
    unfolding Evaluate_unshielded [OF unshielded] if_not_P [OF cls(1)] if_not_P [OF cls(2)]
      override [symmetric, of _ "UTC clock" "f_reconcile_id f"] pair [symmetric, of _ "UTC clock" "f_reconcile_id f"]
      Let_def [of "ann _"] Let_def [of "if _ then ActionReport else ActionNone"]
    by (simp add: defaultReportConfidenceThreshold_def split: option.split)
qed

text \<open>
  C22. Dry-run mode changes nothing but the flag: the controller previews the action, the
  policy and the trace it would have in real mode, on the same findings and policies.
\<close>

theorem dry_run_previews_real_mode:
  "map_sum id (\<lambda>d. (d_action d, d_policy_ref d, d_decided_at d, d_reconcile_id d))
       (Evaluate (NewDefaultEngine True) clock ann f ps) =
     map_sum id (\<lambda>d. (d_action d, d_policy_ref d, d_decided_at d, d_reconcile_id d))
       (Evaluate (NewDefaultEngine False) clock ann f ps)"
proof -
  have "d_policy_ref (evaluatePolicy e f p now rid) = d_policy_ref (evaluatePolicy e' f p now rid)" for e e' p now rid
    by (simp add: evaluatePolicy_def Let_def split: action_mode.split)
  moreover have "d_action (evaluatePolicy e f p now rid) = d_action (evaluatePolicy e' f p now rid)" for e e' p now rid
    by (simp add: evaluatePolicy_action split: action_mode.split)
  ultimately show ?thesis
    by (auto simp: Evaluate_def annotationOverride_def Let_def split: option.split)
qed

text \<open>
  C35. Of a policy the engine reads the name, the kinds it lists, the mode and the threshold.
  Policies that agree on these decide alike: the group and version of the kinds, the
  namespace and label selectors, and the TTL, protection, orphan and reporting sections
  have no influence.
\<close>

theorem unread_policy_fields_are_ignored:
  assumes "map policy_view ps = map policy_view qs"
  shows "Evaluate e clock ann f ps = Evaluate e clock ann f qs"
proof -
  have "(case findMatchingPolicy f ps of None \<Rightarrow> d | Some p \<Rightarrow> evaluatePolicy e f p now rid) =
      (case findMatchingPolicy f qs of None \<Rightarrow> d | Some p \<Rightarrow> evaluatePolicy e f p now rid)" for d now rid
    using findMatchingPolicy_view [OF assms, of f]
    by (cases "findMatchingPolicy f ps"; cases "findMatchingPolicy f qs") (auto intro: evaluatePolicy_view)
  then show ?thesis
    by (cases "shielded (f_class f)")
       (auto simp: Evaluate_unshielded Evaluate_def shielded_def Let_def split: option.split)
qed

text \<open>
  C34. A matching Delete policy without a threshold of its own deletes live resources and
  spares abandoned ones: with the confidences of the strategies, an Active finding (0.9)
  meets the default threshold 0.9 and is deleted, an Abandoned finding (0.6) does not and is
  only reported. The class plays no part.
\<close>

theorem default_threshold_spares_only_abandoned:
  assumes "findMatchingPolicy f ps = Some p" "policy_mode p = ActionModeDelete"
    and "ac_confidence_threshold (spec_action (policy_spec p)) = None"
    and "f_class f \<in> {ClassActive, ClassExpired, ClassOrphaned, ClassAbandoned}"
    and "f_confidence f = (if f_class f = ClassAbandoned then ConfidenceMedium else ConfidenceHigh)"
    and "ann ''janitor.io/action'' = None"
  shows "map_sum id d_action (Evaluate e clock ann f ps) =
     Inr (if f_class f = ClassAbandoned then ActionReport else ActionDelete)"
proof -
  have "\<not> shielded (f_class f)" using assms(4) by (auto simp: shielded_def)
  moreover have "annotationOverride e ann f now rid = None" for now rid
    using assms(6) by (simp add: annotationOverride_def annotationActionOverride_def)
  moreover have "meets_threshold p f \<longleftrightarrow> f_class f \<noteq> ClassAbandoned"
    using assms(2,3,5)
    by (simp add: meets_threshold_def confidenceThreshold_def defaultDeleteConfidenceThreshold_def confidence_defs)
  ultimately show ?thesis
    using assms(1,2) by (simp add: Evaluate_unshielded evaluatePolicy_action)
qed

section \<open>Witnesses\<close>

definition sample_finding :: finding where
  "sample_finding =
     \<lparr>f_ref = \<lparr>ref_group = '''', ref_version = ''v1'', ref_kind = ''ConfigMap'', ref_namespace = ''shop'',
        ref_name = ''cache'', ref_uid = ''u1''\<rparr>,
      f_class = ClassActive, f_confidence = ConfidenceHigh, f_reasons = [], f_classified_at = later 2,
      f_reconcile_id = ''shop/cache''\<rparr>"

definition fussy_policy :: janitor_policy where
  "fussy_policy = sample_policy\<lparr>policy_spec := (policy_spec sample_policy)
     \<lparr>spec_selector := \<lparr>sel_kinds = [\<lparr>rk_group = ''other'', rk_version = ''v9'', rk_kind = ''ConfigMap''\<rparr>],
        sel_namespace_selector = Some \<lparr>ls_match_labels = [(''env'', ''prod'')], ls_match_expressions = []\<rparr>,
        sel_label_selector = Some \<lparr>ls_match_labels = [(''app'', ''web'')], ls_match_expressions = []\<rparr>\<rparr>\<rparr>\<rparr>"

theorem unread_policy_fields_are_ignored_witness:
  "fussy_policy \<noteq> sample_policy \<and>
   Evaluate (NewDefaultEngine False) (later 2) Map.empty sample_finding [fussy_policy] =
     Evaluate (NewDefaultEngine False) (later 2) Map.empty sample_finding [sample_policy]"
proof
  show "fussy_policy \<noteq> sample_policy"
    by (simp add: fussy_policy_def sample_policy_def)
  show "Evaluate (NewDefaultEngine False) (later 2) Map.empty sample_finding [fussy_policy] =
     Evaluate (NewDefaultEngine False) (later 2) Map.empty sample_finding [sample_policy]"
    by (rule unread_policy_fields_are_ignored) (simp add: policy_view_def fussy_policy_def sample_policy_def)
qed

theorem default_threshold_spares_only_abandoned_witness:
  "map_sum id d_action (Evaluate (NewDefaultEngine False) (later 2) Map.empty sample_finding [sample_policy]) =
     Inr ActionDelete"
  using default_threshold_spares_only_abandoned [of sample_finding "[sample_policy]" sample_policy Map.empty
      "NewDefaultEngine False" "later 2"]
  by (simp add: findMatchingPolicy_def policyMatchesFinding_def sample_finding_def sample_policy_def)

end
