(* ===== verification/Executor.thy ===== *)
theory Executor
  imports Contracts
begin

text \<open>
  \<open>internal/action/executor.go\<close>: carrying out a decision, with the pre-flight checks before
  a deletion. The second component of a result is the effects after the call; an error
  return is \<open>Some\<close> error. Every Delete request that is sent is recorded with the object
  that was sent, whatever the server answers.
\<close>

record default_executor =
  ex_client :: api_client
  ex_api_reader :: reader
  ex_protected_ns :: "string set"

definition NewDefaultExecutor :: "api_client \<Rightarrow> reader \<Rightarrow> string list \<Rightarrow> default_executor" where
  "NewDefaultExecutor c apiReader protectedNamespaces =
     \<lparr>ex_client = c, ex_api_reader = apiReader, ex_protected_ns = set protectedNamespaces\<rparr>"

definition delete_fresh :: "default_executor \<Rightarrow> object_ref \<Rightarrow> kobject \<Rightarrow> effects \<Rightarrow> error option \<times> effects" where
  "delete_fresh e ref fresh s =
     (let s' = send_delete fresh s in
      case cl_delete (ex_client e) fresh of
        Some err \<Rightarrow>
          if IsNotFound (ApiErr err) then (None, s')
          else (Some (Wrapped (''deleting '' @ ObjectRef_String ref) (ApiErr err)),
                metered (RecordError (ref_kind ref)) s')
      | None \<Rightarrow> (None, metered (RecordAction (ref_kind ref) (action_string ActionDelete) False) s'))"

definition executor_delete ::
    "default_executor \<Rightarrow> kobject \<Rightarrow> finding \<Rightarrow> action_decision \<Rightarrow> effects \<Rightarrow> error option \<times> effects" where
  "executor_delete e obj finding decision s =
     (let ref = f_ref finding in
      if ref_namespace ref \<in> ex_protected_ns e then (Some (SafetyProtectedNamespace ref), s)
      else if ref_namespace ref = '''' \<and> ref_name ref \<in> ex_protected_ns e then
        (Some (SafetyProtectedName (ref_name ref)), s)
      else case rd_get (ex_api_reader e) obj (ref_namespace ref) (ref_name ref) of
        Inl err \<Rightarrow>
          if IsNotFound (ApiErr err) then (None, s)
          else (Some (Wrapped ''re-fetching object before delete'' (ApiErr err)), s)
      | Inr fresh \<Rightarrow>
        if o_uid fresh \<noteq> ref_uid ref then (Some (SafetyUIDMismatch ref (o_uid fresh)), s)
        else case find (\<lambda>f. f \<noteq> ''janitor.io/cleanup'') (o_finalizers fresh) of
          Some f \<Rightarrow> (Some (SafetyFinalizer ref f), s)
        | None \<Rightarrow>
          if 0 < length (o_owners fresh) then (Some (SafetyOwnerReferences ref), s)
          else delete_fresh e ref fresh s)"

definition Execute ::
    "default_executor \<Rightarrow> kobject \<Rightarrow> finding \<Rightarrow> action_decision \<Rightarrow> effects \<Rightarrow> error option \<times> effects" where
  "Execute e obj finding decision s =
     (case d_action decision of
        ActionNone \<Rightarrow> (None, s)
      | ActionReport \<Rightarrow>
          (None, metered (RecordAction (ref_kind (f_ref finding)) (action_string ActionReport)
             (d_dry_run decision)) s)
      | ActionDelete \<Rightarrow>
          if d_dry_run decision then
            (None, metered (RecordAction (ref_kind (f_ref finding)) ''dryrun-delete'' True) s)
          else executor_delete e obj finding decision s
      | ActionOther a \<Rightarrow> (Some (UnknownAction (ActionOther a)), s))"

section \<open>The pre-flight checks decide\<close>

lemma delete_fresh_deletes [simp]:
  "fx_deletes (snd (delete_fresh e ref x s)) = fx_deletes s @ [x]"
  "fx_events (snd (delete_fresh e ref x s)) = fx_events s"
  by (auto simp: delete_fresh_def Let_def split: option.split)

lemma delete_fresh_errors:
  "c \<noteq> ''unknown'' \<Longrightarrow>
     m_errors (fx_metrics (snd (delete_fresh e ref x s))) (c, k) = m_errors (fx_metrics s) (c, k)"
  by (auto simp: delete_fresh_def recorder_defs Let_def split: option.split)

lemma delete_fresh_durations [simp]:
  "m_durations (fx_metrics (snd (delete_fresh e ref x s))) = m_durations (fx_metrics s)"
  by (auto simp: delete_fresh_def recorder_defs Let_def split: option.split)

text \<open>What the namespace check lets through.\<close>

definition namespace_cleared :: "string set \<Rightarrow> object_ref \<Rightarrow> bool" where
  "namespace_cleared protected ref \<longleftrightarrow> ref_namespace ref \<notin> protected \<and>
     (ref_namespace ref = '''' \<longrightarrow> ref_name ref \<notin> protected)"

definition object_cleared :: "object_ref \<Rightarrow> kobject \<Rightarrow> bool" where
  "object_cleared ref x \<longleftrightarrow> o_uid x = ref_uid ref \<and>
     (\<forall>f \<in> set (o_finalizers x). f = ''janitor.io/cleanup'') \<and> o_owners x = []"

lemma preflight_cleared_iff:
  "preflight_cleared protected ref x \<longleftrightarrow> namespace_cleared protected ref \<and> object_cleared ref x"
  by (auto simp: preflight_cleared_def namespace_cleared_def object_cleared_def)

lemma executor_delete_namespace:
  assumes "\<not> namespace_cleared (ex_protected_ns e) (f_ref f)"
  shows "\<exists>err. executor_delete e obj f d s = (Some err, s) \<and> is_safety_error err"
  using assms by (auto simp: executor_delete_def namespace_cleared_def Let_def)

lemma executor_delete_refused:
  assumes "namespace_cleared (ex_protected_ns e) (f_ref f)"
    and "rd_get (ex_api_reader e) obj (ref_namespace (f_ref f)) (ref_name (f_ref f)) = Inr x"
    and "\<not> object_cleared (f_ref f) x"
  shows "\<exists>err. executor_delete e obj f d s = (Some err, s) \<and> is_safety_error err"
  using assms
  by (auto simp: executor_delete_def namespace_cleared_def object_cleared_def Let_def find_None_iff
           split: option.split)

lemma executor_delete_cleared:
  assumes "namespace_cleared (ex_protected_ns e) (f_ref f)"
    and "rd_get (ex_api_reader e) obj (ref_namespace (f_ref f)) (ref_name (f_ref f)) = Inr x"
    and "object_cleared (f_ref f) x"
  shows "executor_delete e obj f d s = delete_fresh e (f_ref f) x s"
proof -
  have "find (\<lambda>g. g \<noteq> ''janitor.io/cleanup'') (o_finalizers x) = None"
    using assms(3) by (auto simp: object_cleared_def find_None_iff)
  with assms show ?thesis
    by (auto simp: executor_delete_def namespace_cleared_def object_cleared_def Let_def)
qed

lemma executor_delete_gone:
  assumes "namespace_cleared (ex_protected_ns e) (f_ref f)"
    and "rd_get (ex_api_reader e) obj (ref_namespace (f_ref f)) (ref_name (f_ref f)) = Inl err"
  shows "snd (executor_delete e obj f d s) = s"
    "fst (executor_delete e obj f d s) =
       (if IsNotFound (ApiErr err) then None
        else Some (Wrapped ''re-fetching object before delete'' (ApiErr err)))"
  using assms by (auto simp: executor_delete_def namespace_cleared_def Let_def)

lemma executor_delete_cases:
  obtains (refused) err where "executor_delete e obj f d s = (err, s)"
  | (sent) x where "executor_delete e obj f d s = delete_fresh e (f_ref f) x s"
      "rd_get (ex_api_reader e) obj (ref_namespace (f_ref f)) (ref_name (f_ref f)) = Inr x"
      "preflight_cleared (ex_protected_ns e) (f_ref f) x"
proof (cases "namespace_cleared (ex_protected_ns e) (f_ref f)")
  case False
  then show thesis using executor_delete_namespace refused by blast
next
  case ns: True
  show thesis
  proof (cases "rd_get (ex_api_reader e) obj (ref_namespace (f_ref f)) (ref_name (f_ref f))")
    case (Inl err)
    then show thesis using executor_delete_gone(1) [OF ns Inl] refused by (metis prod.collapse)
  next
    case (Inr x)
    then show thesis
      using ns executor_delete_refused [OF ns Inr] executor_delete_cleared [OF ns Inr] refused sent
      by (metis preflight_cleared_iff)
  qed
qed

lemma Execute_deletes_now:
  "deletes_now d \<Longrightarrow> Execute e obj f d s = executor_delete e obj f d s"
  by (simp add: Execute_def deletes_now_def)

lemma Execute_otherwise:
  assumes "\<not> deletes_now d"
  shows "fx_deletes (snd (Execute e obj f d s)) = fx_deletes s"
    "fx_events (snd (Execute e obj f d s)) = fx_events s"
    "m_errors (fx_metrics (snd (Execute e obj f d s))) = m_errors (fx_metrics s)"
    "m_durations (fx_metrics (snd (Execute e obj f d s))) = m_durations (fx_metrics s)"
  using assms by (auto simp: Execute_def deletes_now_def recorder_defs Let_def split: action.split)

interpretation executor: action_executor "Execute e" "ex_protected_ns e" for e
proof unfold_locales
  fix d obj f s
  show "fx_deletes (snd (Execute e obj f d s)) = fx_deletes s" if "\<not> deletes_now d"
    using that by (rule Execute_otherwise(1))
  show "fx_deletes (snd (Execute e obj f d s)) = fx_deletes s \<or>
      (\<exists>x. fx_deletes (snd (Execute e obj f d s)) = fx_deletes s @ [x] \<and>
           preflight_cleared (ex_protected_ns e) (f_ref f) x)"
    by (cases "deletes_now d"; cases rule: executor_delete_cases [of e obj f d s])
       (auto simp: Execute_otherwise Execute_deletes_now)
  show "fx_events (snd (Execute e obj f d s)) = fx_events s"
    by (cases "deletes_now d"; cases rule: executor_delete_cases [of e obj f d s])
       (auto simp: Execute_otherwise Execute_deletes_now)
  show "m_errors (fx_metrics (snd (Execute e obj f d s))) (c, k) = m_errors (fx_metrics s) (c, k)"
    if "c \<noteq> ''unknown''" for c k
    using that by (cases "deletes_now d"; cases rule: executor_delete_cases [of e obj f d s])
       (auto simp: Execute_otherwise Execute_deletes_now delete_fresh_errors)
  show "m_durations (fx_metrics (snd (Execute e obj f d s))) = m_durations (fx_metrics s)"
    by (cases "deletes_now d"; cases rule: executor_delete_cases [of e obj f d s])
       (auto simp: Execute_otherwise Execute_deletes_now)
qed

section \<open>Everything \<open>Execute\<close> deletes, and when it fails\<close>

lemma Execute_deletes:
  "fx_deletes (snd (Execute e obj f d s)) = fx_deletes s @
     (if deletes_now d then
        (case rd_get (ex_api_reader e) obj (ref_namespace (f_ref f)) (ref_name (f_ref f)) of
           Inl _ \<Rightarrow> []
         | Inr x \<Rightarrow> if preflight_cleared (ex_protected_ns e) (f_ref f) x then [x] else [])
      else [])"
proof (cases "deletes_now d \<and> namespace_cleared (ex_protected_ns e) (f_ref f)")
  case False
  then show ?thesis
    using executor_delete_namespace [of e f obj d s]
    by (auto simp: Execute_otherwise Execute_deletes_now preflight_cleared_iff split: sum.split)
next
  case True
  then have ns: "namespace_cleared (ex_protected_ns e) (f_ref f)" and now: "deletes_now d" by simp_all
  show ?thesis
  proof (cases "rd_get (ex_api_reader e) obj (ref_namespace (f_ref f)) (ref_name (f_ref f))")
    case (Inl err)
    with executor_delete_gone(1) [OF ns Inl] now show ?thesis by (simp add: Execute_deletes_now)
  next
    case (Inr x)
    with executor_delete_refused [OF ns Inr, of d s] executor_delete_cleared [OF ns Inr] ns now
    show ?thesis by (cases "object_cleared (f_ref f) x") (auto simp: Execute_deletes_now preflight_cleared_iff)
  qed
qed

lemma delete_fresh_fails:
  "fst (delete_fresh e ref x s) \<noteq> None \<longleftrightarrow>
     (\<exists>err. cl_delete (ex_client e) x = Some err \<and> \<not> IsNotFound (ApiErr err))"
  by (auto simp: delete_fresh_def Let_def split: option.split)

lemma executor_delete_fails:
  assumes "namespace_cleared (ex_protected_ns e) (f_ref f)"
  shows "fst (executor_delete e obj f d s) \<noteq> None \<longleftrightarrow>
     (case rd_get (ex_api_reader e) obj (ref_namespace (f_ref f)) (ref_name (f_ref f)) of
        Inl err \<Rightarrow> \<not> IsNotFound (ApiErr err)
      | Inr x \<Rightarrow> \<not> object_cleared (f_ref f) x \<or>
          (\<exists>err. cl_delete (ex_client e) x = Some err \<and> \<not> IsNotFound (ApiErr err)))"
proof (cases "rd_get (ex_api_reader e) obj (ref_namespace (f_ref f)) (ref_name (f_ref f))")
  case (Inl err)
  with executor_delete_gone(2) [OF assms Inl] show ?thesis by simp
next
  case (Inr x)
  show ?thesis
  proof (cases "object_cleared (f_ref f) x")
    case True
    with Inr executor_delete_cleared [OF assms Inr] show ?thesis
      by (simp only: delete_fresh_fails sum.case simp_thms)
  next
    case False
    with Inr executor_delete_refused [OF assms Inr, of d s] show ?thesis by auto
  qed
qed

section \<open>Properties\<close>

text \<open>
  C5. What \<open>Execute\<close> deletes, exactly: for a real Delete decision, the object as read again
  from the API server under the finding's name, when the finding is not in (nor names) a
  protected namespace and the object read has the finding's UID, no finalizer but the
  janitor's and no owner. Any other decision or answer sends no Delete request.
\<close>

theorem Execute_deletes_only_cleared:
  "fx_deletes (snd (Execute e obj f d s)) = fx_deletes s @
     (let ref = f_ref f in
      if d_action d = ActionDelete \<and> \<not> d_dry_run d \<and> ref_namespace ref \<notin> ex_protected_ns e \<and>
         (ref_namespace ref = '''' \<and> ref_name ref \<in> ex_protected_ns e) = False then
        (case rd_get (ex_api_reader e) obj (ref_namespace ref) (ref_name ref) of
           Inl _ \<Rightarrow> []
         | Inr x \<Rightarrow>
           if o_uid x = ref_uid ref \<and> set (o_finalizers x) \<subseteq> {''janitor.io/cleanup''} \<and> o_owners x = []
           then [x] else [])
      else [])"
  unfolding Execute_deletes Let_def preflight_cleared_def deletes_now_def
  by (auto split: sum.split)

text \<open>
  C15. A safety refusal leaves no trace: \<open>Execute\<close> returns a safety error, with no Delete
  request, no Event and no metric, exactly when a real deletion is decided and either the
  namespace is protected or the object read again has another UID, a foreign finalizer or
  an owner.
\<close>

theorem Execute_safety_errors:
  "(\<exists>err. Execute e obj f d s = (Some err, s) \<and> is_safety_error err) \<longleftrightarrow>
     deletes_now d \<and>
     (if namespace_cleared (ex_protected_ns e) (f_ref f) then
        (case rd_get (ex_api_reader e) obj (ref_namespace (f_ref f)) (ref_name (f_ref f)) of
           Inl _ \<Rightarrow> False
         | Inr x \<Rightarrow> \<not> object_cleared (f_ref f) x)
      else True)"
proof (cases "deletes_now d")
  case False
  then show ?thesis by (auto simp: Execute_def deletes_now_def split: action.splits)
next
  case now: True
  show ?thesis
  proof (cases "namespace_cleared (ex_protected_ns e) (f_ref f)")
    case False
    with now executor_delete_namespace [OF False, of obj d s] show ?thesis
      by (simp add: Execute_deletes_now)
  next
    case ns: True
    show ?thesis
    proof (cases "rd_get (ex_api_reader e) obj (ref_namespace (f_ref f)) (ref_name (f_ref f))")
      case (Inl err)
      with ns now executor_delete_gone(2) [OF ns Inl, of d s] show ?thesis
        by (auto simp: Execute_deletes_now split: if_splits)
    next
      case (Inr x)
      show ?thesis
      proof (cases "object_cleared (f_ref f) x")
        case True
        then have "executor_delete e obj f d s = delete_fresh e (f_ref f) x s"
          by (rule executor_delete_cleared [OF ns Inr])
        with True ns now Inr show ?thesis
          by (auto simp: Execute_deletes_now delete_fresh_def Let_def split: option.splits if_splits)
      next
        case False
        with now ns Inr executor_delete_refused [OF ns Inr False, of d s] show ?thesis
          by (simp add: Execute_deletes_now)
      qed
    qed
  qed
qed

text \<open>
  The delete counter of a kind moves by one exactly when a Delete request was sent for
  an object of that kind and the API server acknowledged it; reports, dry runs, refusals,
  failures and objects found gone leave it alone.
\<close>

theorem delete_counter_counts_acknowledged:
  "m_actions (fx_metrics (snd (Execute e obj f d s))) (kind, ''delete'', ''false'') =
     m_actions (fx_metrics s) (kind, ''delete'', ''false'') +
     (if kind = ref_kind (f_ref f) \<and>
         map (cl_delete (ex_client e)) (drop (length (fx_deletes s)) (fx_deletes (snd (Execute e obj f d s)))) = [None]
      then 1 else 0)"
proof (cases "deletes_now d")
  case False
  then show ?thesis
    by (auto simp: Execute_def deletes_now_def recorder_defs Let_def inc_def split: action.split)
next
  case True
  then show ?thesis
    unfolding Execute_deletes_now [OF True]
    by (cases rule: executor_delete_cases [of e obj f d s])
       (auto simp: delete_fresh_def recorder_defs Let_def inc_def split: option.split)
qed

end
