(* ===== verification/Reporter.thy ===== *)
theory Reporter
  imports Contracts
begin

text \<open>\<open>internal/report/reporter.go\<close>: the Kubernetes Event for a finding and its decision.\<close>

datatype event_reason =
    ReasonClassified | ReasonDryRunDelete | ReasonDeleted | ReasonProtected | ReasonBlocked
  | ReasonTTLExpired | ReasonOrphaned | ReasonAbandoned | ReasonPRClosed | ReasonError

fun event_reason_string :: "event_reason \<Rightarrow> string" where
  "event_reason_string ReasonClassified = ''Classified''"
| "event_reason_string ReasonDryRunDelete = ''DryRunDelete''"
| "event_reason_string ReasonDeleted = ''Deleted''"
| "event_reason_string ReasonProtected = ''Protected''"
| "event_reason_string ReasonBlocked = ''Blocked''"
| "event_reason_string ReasonTTLExpired = ''TTLExpired''"
| "event_reason_string ReasonOrphaned = ''Orphaned''"
| "event_reason_string ReasonAbandoned = ''Abandoned''"
| "event_reason_string ReasonPRClosed = ''PRNamespaceClosed''"
| "event_reason_string ReasonError = ''Error''"

record event_reporter =
  er_annotations :: bool

definition NewEventReporter :: "bool \<Rightarrow> event_reporter" where
  "NewEventReporter emitAnnotations = \<lparr>er_annotations = emitAnnotations\<rparr>"

definition summaryReasons :: "finding \<Rightarrow> string" where
  "summaryReasons finding =
     (case f_reasons finding of
        [] \<Rightarrow> ''no reasons recorded''
      | r # rs \<Rightarrow>
        if 1 < length (f_reasons finding) then
          re_message r @ '' (+'' @ int_dec (int (length (f_reasons finding)) - 1) @ '' more)''
        else re_message r)"

definition buildEvent :: "finding \<Rightarrow> action_decision \<Rightarrow> event_reason \<times> string" where
  "buildEvent finding decision =
     (let cls = f_class finding; sum = summaryReasons finding in
      if cls = ClassProtected then (ReasonProtected, ''Resource is protected: '' @ sum)
      else if cls = ClassBlocked then
        (ReasonBlocked, ''Resource has blocking finalizers, cannot delete: '' @ sum)
      else if cls = ClassExpired \<and> d_action decision = ActionDelete \<and> d_dry_run decision then
        (ReasonDryRunDelete, ''[DRY-RUN] Would delete expired resource. '' @ sum @ ''. Policy: '' @
          d_policy_ref decision)
      else if cls = ClassExpired \<and> d_action decision = ActionDelete then
        (ReasonDeleted, ''Deleted expired resource. '' @ sum @ ''. Policy: '' @ d_policy_ref decision)
      else if cls = ClassExpired then (ReasonTTLExpired, ''Resource TTL has expired: '' @ sum)
      else if cls = ClassOrphaned then
        (ReasonOrphaned, ''Resource is structurally orphaned (dead ownerRef): '' @ sum)
      else if cls = ClassAbandoned then
        (ReasonAbandoned, ''Resource appears abandoned (no live references found): '' @ sum)
      else
        (ReasonClassified, ''Resource classified as '' @ class_string cls @ '' (confidence='' @
          fmt_2f (f_confidence finding) @ ''): '' @ sum))"

definition Report ::
    "event_reporter \<Rightarrow> kobject \<Rightarrow> finding \<Rightarrow> action_decision \<Rightarrow> effects \<Rightarrow> error option \<times> effects" where
  "Report r obj finding decision s =
     (case buildEvent finding decision of
        (reason, message) \<Rightarrow>
          (None, emit_event \<lparr>evt_object = obj, evt_type = ''Normal'',
             evt_reason = event_reason_string reason, evt_message = message\<rparr> s))"

section \<open>The reporter only emits\<close>

interpretation reporter: finding_reporter "Report r" for r
  by unfold_locales (auto simp: Report_def split: prod.split)

lemma Report_event:
  "Report r obj f d s =
     (None, emit_event \<lparr>evt_object = obj, evt_type = ''Normal'',
        evt_reason = event_reason_string (fst (buildEvent f d)), evt_message = snd (buildEvent f d)\<rparr> s)"
  by (simp add: Report_def split: prod.split)

lemma buildEvent_Deleted:
  "fst (buildEvent f d) = ReasonDeleted \<longleftrightarrow> f_class f = ClassExpired \<and> deletes_now d"
  by (auto simp: buildEvent_def deletes_now_def Let_def)

end
