(* ===== verification/Config.thy ===== *)
theory Config
  imports Domain
begin

text \<open>
  \<open>internal/config\<close>: the controller's configuration, its defaults and its validation.
  An error return is \<open>Some\<close> error, nil is \<open>None\<close>.
\<close>

record config =
  MetricsAddr :: string
  ProbeAddr :: string
  EnableLeaderElection :: bool
  DryRun :: bool
  OTelEndpoint :: string
  ScanInterval :: duration
  ProtectedNamespaces :: "string list"
  DefaultDeleteConfidenceThreshold :: float64
  Development :: bool

definition Default :: config where
  "Default = \<lparr>MetricsAddr = '':8080'', ProbeAddr = '':8081'', EnableLeaderElection = False,
     DryRun = True, OTelEndpoint = '''', ScanInterval = 5 * Minute,
     ProtectedNamespaces = [''kube-system'', ''kube-public'', ''default'', ''kube-node-lease''],
     DefaultDeleteConfidenceThreshold = f64_0_9, Development = False\<rparr>"

definition Validate :: "config \<Rightarrow> error option" where
  "Validate c =
     (if sint (ScanInterval c) < sint (30 * Second) then Some (ScanIntervalTooShort (ScanInterval c))
      else if f64_lt (DefaultDeleteConfidenceThreshold c) f64_0_7
        then Some (ThresholdTooLow (DefaultDeleteConfidenceThreshold c))
      else if f64_lt f64_1 (DefaultDeleteConfidenceThreshold c)
        then Some (ThresholdTooHigh (DefaultDeleteConfidenceThreshold c))
      else if MetricsAddr c = '''' then Some EmptyMetricsAddr
      else None)"

definition ProtectedNamespaceSet :: "config \<Rightarrow> string set" where
  "ProtectedNamespaceSet c = set (ProtectedNamespaces c)"

section \<open>Properties\<close>

lemma sint_30_seconds: "sint (30 * Second) = 30000000000"
  by (simp add: Second_def)

lemma scan_interval_bound: "Validate cfg = None \<Longrightarrow> 30000000000 \<le> sint (ScanInterval cfg)"
  by (simp add: Validate_def sint_30_seconds split: if_splits)

lemma scan_interval_positive: "Validate cfg = None \<Longrightarrow> 0 < sint (ScanInterval cfg)"
  using scan_interval_bound [of cfg] by linarith


end
