(* ===== verification/Controller.thy ===== *)
theory Controller
  imports Contracts Config
begin

text \<open>
  \<open>internal/controller\<close>: the two reconcilers. \<open>shared_deps\<close> holds the interface values of
  \<open>SharedDeps\<close> as functions. A reconcile returns its error, or the delay after which the
  object is to be reconciled again (0 for the empty Result), with the effects; the deferred
  observation of the duration happens on every path.
\<close>

text \<open>The interfaces: what a reconciler calls, each method as a function.\<close>

type_synonym annotation_reader = "string \<rightharpoonup> string"
type_synonym classifier_interface = "kobject \<Rightarrow> error + finding"
type_synonym engine_interface =
  "annotation_reader \<Rightarrow> finding \<Rightarrow> janitor_policy list \<Rightarrow> error + action_decision"
type_synonym executor_interface = "kobject \<Rightarrow> finding \<Rightarrow> action_decision \<Rightarrow> effects \<Rightarrow> error option \<times> effects"
type_synonym reporter_interface = "kobject \<Rightarrow> finding \<Rightarrow> action_decision \<Rightarrow> effects \<Rightarrow> error option \<times> effects"

record shared_deps =
  sd_client :: api_client
  sd_classifier :: classifier_interface
  sd_engine :: engine_interface
  sd_executor :: executor_interface
  sd_reporter :: reporter_interface
  sd_config :: config

text \<open>Each reconciler embeds the shared dependencies and has nothing of its own.\<close>

type_synonym namespace_reconciler = shared_deps
type_synonym configmap_reconciler = shared_deps

section \<open>Watches\<close>

text \<open>
  What \<open>SetupWithManager\<close> hands to the controller builder of the library: the watched type and
  the event predicates, of which any one lets an event through. What \<open>Complete\<close> makes of it is a parameter:
  its error, if it fails.
\<close>

datatype event_predicate = GenerationChangedPredicate | LabelChangedPredicate | AnnotationChangedPredicate

record controller_setup =
  cs_for :: go_type
  cs_filter_or :: "event_predicate list"

definition NamespaceReconciler_SetupWithManager :: "(controller_setup \<Rightarrow> string option) \<Rightarrow> string option" where
  "NamespaceReconciler_SetupWithManager build =
     build \<lparr>cs_for = NamespaceType,
       cs_filter_or = [GenerationChangedPredicate, LabelChangedPredicate, AnnotationChangedPredicate]\<rparr>"

definition ConfigMapReconciler_SetupWithManager :: "(controller_setup \<Rightarrow> string option) \<Rightarrow> string option" where
  "ConfigMapReconciler_SetupWithManager build =
     build \<lparr>cs_for = ConfigMapType,
       cs_filter_or = [GenerationChangedPredicate, LabelChangedPredicate, AnnotationChangedPredicate]\<rparr>"

section \<open>Policies\<close>

definition targets_kind :: "string \<Rightarrow> janitor_policy \<Rightarrow> bool" where
  "targets_kind kind p \<longleftrightarrow> list_ex (\<lambda>k. rk_kind k = kind) (sel_kinds (spec_selector (policy_spec p)))"

definition listMatchingPoliciesForKind :: "api_client \<Rightarrow> string \<Rightarrow> error + janitor_policy list" where
  "listMatchingPoliciesForKind c kind =
     (case cl_list_policies c of
        Inl err \<Rightarrow> Inl (Wrapped ''listing janitor policies'' (ApiErr err))
      | Inr items \<Rightarrow> Inr (filter (targets_kind kind) items))"

definition listMatchingPolicies :: "namespace_reconciler \<Rightarrow> string \<Rightarrow> error + janitor_policy list" where
  "listMatchingPolicies r kind =
     (case cl_list_policies (sd_client r) of
        Inl err \<Rightarrow> Inl (Wrapped ''listing janitor policies'' (ApiErr err))
      | Inr items \<Rightarrow> Inr (filter (targets_kind kind) items))"

text \<open>
  The error returns of a reconcile: count the error under the controller's labels and
  wrap it with what was being done to which object.
\<close>

definition fail_reconcile ::
    "string \<Rightarrow> string \<Rightarrow> string \<Rightarrow> error \<Rightarrow> effects \<Rightarrow> (error + duration) \<times> effects" where
  "fail_reconcile controller kind doing err s =
     (Inl (Wrapped doing err), metered (RecordReconcileError controller kind) s)"

text \<open>
  From the scan counter to the requeue: the part of the two \<open>Reconcile\<close> bodies that is
  the same up to the controller's label, the kind, the way the object is named in errors
  and the reconcile id.
\<close>

definition reconcile_object ::
    "shared_deps \<Rightarrow> string \<Rightarrow> string \<Rightarrow> string \<Rightarrow> string \<Rightarrow> (string \<Rightarrow> error + janitor_policy list)
      \<Rightarrow> kobject \<Rightarrow> effects \<Rightarrow> (error + duration) \<times> effects" where
  "reconcile_object r controller kind what reconcileID listPolicies obj s0 =
     (let s1 = metered (RecordScan kind) s0 in
      case sd_classifier r obj of
        Inl err \<Rightarrow> fail_reconcile controller kind (''classifying '' @ what) err s1
      | Inr f0 \<Rightarrow>
        let finding = f0\<lparr>f_reconcile_id := reconcileID\<rparr>;
            s2 = metered (RecordClassification kind (class_string (f_class finding))) s1 in
        case listPolicies kind of
          Inl err \<Rightarrow> fail_reconcile controller kind (''listing policies for '' @ what) err s2
        | Inr policies \<Rightarrow>
          (case sd_engine r (o_annotations obj) finding policies of
             Inl err \<Rightarrow> fail_reconcile controller kind (''evaluating policy for '' @ what) err s2
           | Inr decision \<Rightarrow>
             let s3 = metered (RecordPolicyEvaluation (d_policy_ref decision)
                        (action_string (d_action decision))) s2 in
             case sd_executor r obj finding decision s3 of
               (Some err, s4) \<Rightarrow> fail_reconcile controller kind (''executing action for '' @ what) err s4
             | (None, s4) \<Rightarrow>
               let s5 = (if action_string (d_action decision) \<noteq> '''' \<and>
                            class_string (f_class finding) \<noteq> ''active'' \<and>
                            class_string (f_class finding) \<noteq> ''unknown''
                         then snd (sd_reporter r obj finding decision s4) else s4)
               in (Inr (ScanInterval (sd_config r)), s5)))"

definition NamespaceReconciler_Reconcile ::
    "namespace_reconciler \<Rightarrow> string \<Rightarrow> string \<Rightarrow> effects \<Rightarrow> (error + duration) \<times> effects" where
  "NamespaceReconciler_Reconcile r ns name s =
     (let result =
        (case cl_get (sd_client r) NamespaceType ns name of
           Inl err \<Rightarrow>
             if IsNotFound (ApiErr err) then (Inr 0, s)
             else fail_reconcile ''namespace'' ''Namespace'' (''getting namespace '' @ name) (ApiErr err) s
         | Inr obj \<Rightarrow>
             if o_phase obj = ''Terminating'' then (Inr (ScanInterval (sd_config r)), s)
             else reconcile_object r ''namespace'' ''Namespace'' (''namespace '' @ name) name
                    (listMatchingPolicies r) obj s)
      in (fst result, metered (ObserveReconcileDuration ''namespace'') (snd result)))"

definition NamespacedName_String :: "string \<Rightarrow> string \<Rightarrow> string" where
  "NamespacedName_String ns name = ns @ ''/'' @ name"

definition ConfigMapReconciler_Reconcile ::
    "configmap_reconciler \<Rightarrow> string \<Rightarrow> string \<Rightarrow> effects \<Rightarrow> (error + duration) \<times> effects" where
  "ConfigMapReconciler_Reconcile r ns name s =
     (let id = NamespacedName_String ns name;
          result =
        (case cl_get (sd_client r) ConfigMapType ns name of
           Inl err \<Rightarrow>
             if IsNotFound (ApiErr err) then (Inr 0, s)
             else fail_reconcile ''configmap'' ''ConfigMap'' (''getting configmap '' @ id) (ApiErr err) s
         | Inr cm \<Rightarrow>
             reconcile_object r ''configmap'' ''ConfigMap'' (''configmap '' @ id) id
               (listMatchingPoliciesForKind (sd_client r)) cm s)
      in (fst result, metered (ObserveReconcileDuration ''configmap'') (snd result)))"

section \<open>The pipeline over the interfaces\<close>

lemma targets_kind_iff:
  "targets_kind kind p \<longleftrightarrow> kind \<in> set (map rk_kind (sel_kinds (spec_selector (policy_spec p))))"
  by (force simp: targets_kind_def list_ex_iff)

lemma listMatchingPolicies_eq: "listMatchingPolicies r = listMatchingPoliciesForKind (sd_client r)"
  by (rule ext) (simp add: listMatchingPolicies_def listMatchingPoliciesForKind_def)

lemma fail_reconcile_simps [simp]:
  "fst (fail_reconcile c k doing err s) = Inl (Wrapped doing err)"
  "fx_deletes (snd (fail_reconcile c k doing err s)) = fx_deletes s"
  "fx_events (snd (fail_reconcile c k doing err s)) = fx_events s"
  "fx_metrics (snd (fail_reconcile c k doing err s)) = RecordReconcileError c k (fx_metrics s)"
  by (simp_all add: fail_reconcile_def)

lemma error_counter_simps [simp]:
  "m_errors (RecordScan k m) = m_errors m"
  "m_errors (RecordClassification k cl m) = m_errors m"
  "m_errors (RecordPolicyEvaluation p a m) = m_errors m"
  "m_errors (ObserveReconcileDuration c m) = m_errors m"
  "m_errors (RecordReconcileError c k m) = inc (m_errors m) (c, k)"
  by (simp_all add: recorder_defs Let_def)

lemma duration_counter_simps [frame_simps]:
  "m_durations (RecordScan k m) = m_durations m"
  "m_durations (RecordClassification k cl m) = m_durations m"
  "m_durations (RecordPolicyEvaluation p a m) = m_durations m"
  "m_durations (RecordReconcileError c k m) = m_durations m"
  "m_durations (ObserveReconcileDuration c m) = inc (m_durations m) c"
  by (simp_all add: recorder_defs Let_def)

locale reconcile_pipeline =
  policy_engine "sd_engine r" dry + action_executor "sd_executor r" protected + finding_reporter "sd_reporter r"
  for r :: shared_deps and dry :: bool and protected :: "string set"
begin

text \<open>
  The stages of a reconcile: it fails before the execution with nothing sent and nothing
  emitted, or it reaches the executor with a finding and a decision.
\<close>

lemma object_stages:
  fixes ctl kind what rid lp obj s
  defines "R \<equiv> reconcile_object r ctl kind what rid lp obj s"
  obtains (failed) err s1 where "R = (Inl err, metered (RecordReconcileError ctl kind) s1)"
      "fx_deletes s1 = fx_deletes s" "fx_events s1 = fx_events s"
      "m_errors (fx_metrics s1) = m_errors (fx_metrics s)"
      "m_durations (fx_metrics s1) = m_durations (fx_metrics s)"
  | (refused) f ps d s1 err where "sd_classifier r obj = Inr f" "lp kind = Inr ps"
      "sd_engine r (o_annotations obj) (f\<lparr>f_reconcile_id := rid\<rparr>) ps = Inr d"
      "fx_deletes s1 = fx_deletes s" "fx_events s1 = fx_events s"
      "m_errors (fx_metrics s1) = m_errors (fx_metrics s)"
      "fst (sd_executor r obj (f\<lparr>f_reconcile_id := rid\<rparr>) d s1) = Some err"
      "R = (Inl (Wrapped (''executing action for '' @ what) err), metered (RecordReconcileError ctl kind)
             (snd (sd_executor r obj (f\<lparr>f_reconcile_id := rid\<rparr>) d s1)))"
      "m_durations (fx_metrics s1) = m_durations (fx_metrics s)"
  | (executed) f ps d s1 s2 where "sd_classifier r obj = Inr f" "lp kind = Inr ps"
      "sd_engine r (o_annotations obj) (f\<lparr>f_reconcile_id := rid\<rparr>) ps = Inr d"
      "fx_deletes s1 = fx_deletes s" "fx_events s1 = fx_events s"
      "m_errors (fx_metrics s1) = m_errors (fx_metrics s)"
      "fst (sd_executor r obj (f\<lparr>f_reconcile_id := rid\<rparr>) d s1) = None"
      "s2 = snd (sd_executor r obj (f\<lparr>f_reconcile_id := rid\<rparr>) d s1)"
      "R = (Inr (ScanInterval (sd_config r)),
            if action_string (d_action d) \<noteq> '''' \<and> class_string (f_class f) \<noteq> ''active'' \<and>
               class_string (f_class f) \<noteq> ''unknown''
            then snd (sd_reporter r obj (f\<lparr>f_reconcile_id := rid\<rparr>) d s2) else s2)"
      "m_durations (fx_metrics s1) = m_durations (fx_metrics s)"
proof -
  let ?s1 = "metered (RecordScan kind) s"
  show thesis
  proof (cases "sd_classifier r obj")
    case (Inl err)
    show thesis
      by (rule failed [of "Wrapped (''classifying '' @ what) err" ?s1])
         (simp_all add: R_def reconcile_object_def fail_reconcile_def Inl frame_simps)
  next
    case f: (Inr f)
    let ?f = "f\<lparr>f_reconcile_id := rid\<rparr>"
    let ?s2 = "metered (RecordClassification kind (class_string (f_class f))) ?s1"
    show thesis
    proof (cases "lp kind")
      case (Inl err)
      show thesis
        by (rule failed [of "Wrapped (''listing policies for '' @ what) err" ?s2])
           (simp_all add: R_def reconcile_object_def fail_reconcile_def Let_def f Inl frame_simps)
    next
      case ps: (Inr ps)
      obtain d where d: "sd_engine r (o_annotations obj) ?f ps = Inr d"
        using total by blast
      let ?s3 = "metered (RecordPolicyEvaluation (d_policy_ref d) (action_string (d_action d))) ?s2"
      obtain res s4 where x: "sd_executor r obj ?f d ?s3 = (res, s4)" by fastforce
      show thesis
      proof (cases res)
        case None
        show thesis
          by (rule executed [of f ps d ?s3 s4])
             (simp_all add: R_def reconcile_object_def Let_def f ps d x None frame_simps)
      next
        case (Some err)
        show thesis
          by (rule refused [of f ps d ?s3 err])
             (simp_all add: R_def reconcile_object_def fail_reconcile_def Let_def f ps d x Some frame_simps)
      qed
    qed
  qed
qed

lemma object_deletes:
  fixes ctl kind what rid lp obj s
  defines "R \<equiv> reconcile_object r ctl kind what rid lp obj s"
  obtains (kept) "fx_deletes (snd R) = fx_deletes s"
  | (deleted) f ps d x where "sd_classifier r obj = Inr f" "lp kind = Inr ps"
      "sd_engine r (o_annotations obj) (f\<lparr>f_reconcile_id := rid\<rparr>) ps = Inr d"
      "deletes_now d" "preflight_cleared protected (f_ref f) x"
      "fx_deletes (snd R) = fx_deletes s @ [x]"
proof (cases rule: object_stages [of ctl kind what rid lp obj s])
  case (failed err s1)
  then show thesis using kept by (simp add: R_def)
next
  case (refused f ps d s1 err)
  let ?e = "sd_executor r obj (f\<lparr>f_reconcile_id := rid\<rparr>) d s1"
  have "fx_deletes (snd R) = fx_deletes (snd ?e)" using refused(8) by (simp add: R_def)
  then show thesis
    using refused(1-4) kept deleted deleted_cleared [of obj "f\<lparr>f_reconcile_id := rid\<rparr>" d s1]
    by (metis finding.select_convs(1) finding.surjective finding.update_convs(6))
next
  case (executed f ps d s1 s2)
  have "fx_deletes (snd R) = fx_deletes s2" using executed(9) by (simp add: R_def harmless)
  then show thesis
    using executed(1-4,8) kept deleted deleted_cleared [of obj "f\<lparr>f_reconcile_id := rid\<rparr>" d s1]
    by (metis finding.select_convs(1) finding.surjective finding.update_convs(6))
qed

text \<open>Once the decision is made, the executor settles the outcome.\<close>

lemma object_decided:
  fixes ctl kind what rid lp obj s
  defines "R \<equiv> reconcile_object r ctl kind what rid lp obj s"
  assumes "sd_classifier r obj = Inr f" "lp kind = Inr ps"
    and "sd_engine r (o_annotations obj) (f\<lparr>f_reconcile_id := rid\<rparr>) ps = Inr d"
  obtains s1 where "fx_deletes s1 = fx_deletes s"
    "fx_deletes (snd R) = fx_deletes (snd (sd_executor r obj (f\<lparr>f_reconcile_id := rid\<rparr>) d s1))"
    "isl (fst R) \<longleftrightarrow> fst (sd_executor r obj (f\<lparr>f_reconcile_id := rid\<rparr>) d s1) \<noteq> None"
proof -
  let ?s1 = "metered (RecordPolicyEvaluation (d_policy_ref d) (action_string (d_action d)))
    (metered (RecordClassification kind (class_string (f_class f))) (metered (RecordScan kind) s))"
  obtain res s4 where x: "sd_executor r obj (f\<lparr>f_reconcile_id := rid\<rparr>) d ?s1 = (res, s4)" by fastforce
  show thesis
    by (rule that [of ?s1])
       (use assms x in \<open>auto simp: reconcile_object_def Let_def harmless split: option.split\<close>)
qed

lemma object_dry: "dry \<Longrightarrow> fx_deletes (snd (reconcile_object r ctl kind what rid lp obj s)) = fx_deletes s"
  by (cases rule: object_deletes [of ctl kind what rid lp obj s]) (auto dest: dry_never_deletes)

text \<open>The error counter of the controller moves exactly when the reconcile returns an error.\<close>

lemma object_errors:
  assumes "c \<noteq> ''unknown''"
  shows "m_errors (fx_metrics (snd (reconcile_object r ctl kind what rid lp obj s))) (c, k) =
     m_errors (fx_metrics s) (c, k) +
     (if isl (fst (reconcile_object r ctl kind what rid lp obj s)) \<and> (c, k) = (ctl, kind) then 1 else 0)"
  using assms
  by (cases rule: object_stages [of ctl kind what rid lp obj s])
     (auto simp: own_errors unmetered inc_def)

lemma object_durations:
  "m_durations (fx_metrics (snd (reconcile_object r ctl kind what rid lp obj s))) = m_durations (fx_metrics s)"
  by (cases rule: object_stages [of ctl kind what rid lp obj s])
     (auto simp: untimed unmetered frame_simps)

text \<open>At most one Event, and none on an error.\<close>

lemma object_events:
  obtains (quiet) "fx_events (snd (reconcile_object r ctl kind what rid lp obj s)) = fx_events s"
  | (event) ev f where "fx_events (snd (reconcile_object r ctl kind what rid lp obj s)) = fx_events s @ [ev]"
      "evt_object ev = obj" "sd_classifier r obj = Inr f"
      "class_string (f_class f) \<notin> {''active'', ''unknown''}"
      "fst (reconcile_object r ctl kind what rid lp obj s) = Inr (ScanInterval (sd_config r))"
proof (cases rule: object_stages [of ctl kind what rid lp obj s])
  case (failed err s1)
  then show thesis using that(1) by simp
next
  case (refused f ps d s1 err)
  then show thesis using that(1) by (simp add: silent)
next
  case (executed f ps d s1 s2)
  show thesis
  proof (cases "action_string (d_action d) \<noteq> '''' \<and> class_string (f_class f) \<noteq> ''active'' \<and>
               class_string (f_class f) \<noteq> ''unknown''")
    case True
    obtain ev where "fx_events (snd (sd_reporter r obj (f\<lparr>f_reconcile_id := rid\<rparr>) d s2)) = fx_events s2 @ [ev]"
      "evt_object ev = obj" using one_event by blast
    with True executed show thesis by (intro that(2) [of ev f]) (auto simp: silent)
  next
    case False
    with executed show thesis by (intro that(1)) (auto simp: silent)
  qed
qed

end

end
