(* ===== verification/Flags.thy ===== *)
theory Flags
  imports Config
begin

text \<open>
  The command line of \<open>cmd/manager/main.go\<close>: the seven flags bound to the configuration, and
  \<open>flag.Parse\<close> of Go's standard library. The flags that libraries bind on the same command
  line (\<open>zapOpts.BindFlags\<close> and the controller-runtime packages) are not part of the
  repository: \<open>foreign_flags\<close> says which names they have, whether they are Boolean, and what a
  value does to the options of the libraries, those of the logger included.
\<close>

section \<open>The flags of the configuration\<close>

definition ParseBool :: "string \<Rightarrow> bool option" where
  "ParseBool s =
     (if s \<in> {''1'', ''t'', ''T'', ''true'', ''TRUE'', ''True''} then Some True
      else if s \<in> {''0'', ''f'', ''F'', ''false'', ''FALSE'', ''False''} then Some False
      else None)"

text \<open>
  \<open>flag.StringVar\<close>, \<open>flag.BoolVar\<close> and \<open>flag.DurationVar\<close> of each flag: what setting it to a
  string does to the configuration; \<open>None\<close> when the value does not parse.
\<close>

definition bound_flags :: "(string \<times> bool \<times> (string \<Rightarrow> config \<Rightarrow> config option)) list" where
  "bound_flags =
     [(''metrics-bind-address'', False, \<lambda>v c. Some (c\<lparr>MetricsAddr := v\<rparr>)),
      (''health-probe-bind-address'', False, \<lambda>v c. Some (c\<lparr>ProbeAddr := v\<rparr>)),
      (''leader-elect'', True, \<lambda>v c. map_option (\<lambda>b. c\<lparr>EnableLeaderElection := b\<rparr>) (ParseBool v)),
      (''dry-run'', True, \<lambda>v c. map_option (\<lambda>b. c\<lparr>DryRun := b\<rparr>) (ParseBool v)),
      (''otel-endpoint'', False, \<lambda>v c. Some (c\<lparr>OTelEndpoint := v\<rparr>)),
      (''scan-interval'', False,
         \<lambda>v c. (case ParseDuration v of Inl _ \<Rightarrow> None | Inr d \<Rightarrow> Some (c\<lparr>ScanInterval := d\<rparr>))),
      (''development'', True, \<lambda>v c. map_option (\<lambda>b. c\<lparr>Development := b\<rparr>) (ParseBool v))]"

text \<open>
  \<open>zapOpts\<close>: the fields of \<open>zap.Options\<close> that \<open>main\<close> sets, and whatever else the flags of the
  libraries are set to. The pointer to it is bound before the flags are parsed.
\<close>

record library_options =
  lo_development :: bool
  lo_time_encoder :: string
  lo_others :: "string \<rightharpoonup> string"

definition zapOpts :: "config \<Rightarrow> library_options" where
  "zapOpts cfg = \<lparr>lo_development = Development cfg, lo_time_encoder = ''iso8601'', lo_others = Map.empty\<rparr>"

record foreign_flag =
  ff_bool :: bool
  ff_set :: "string \<Rightarrow> library_options \<Rightarrow> library_options option"

type_synonym foreign_flags = "string \<Rightarrow> foreign_flag option"

type_synonym settings = "config \<times> library_options"

text \<open>A flag's name on the command line gives whether it is Boolean, and its setter.\<close>

definition lookup_flag :: "foreign_flags \<Rightarrow> string \<Rightarrow> (bool \<times> (string \<Rightarrow> settings \<Rightarrow> settings option)) option" where
  "lookup_flag foreign name =
     (case map_of bound_flags name of
        Some (isBool, setFlag) \<Rightarrow> Some (isBool, \<lambda>v (c, lib). map_option (\<lambda>c'. (c', lib)) (setFlag v c))
      | None \<Rightarrow>
        map_option (\<lambda>f. (ff_bool f, \<lambda>v (c, lib). map_option (Pair c) (ff_set f v lib))) (foreign name))"

section \<open>Parsing\<close>

datatype flag_error =
    BadFlagSyntax string
  | FlagNotDefined string
  | HelpRequested
  | InvalidFlagValue string string
  | FlagNeedsArgument string

definition flag_name :: "string \<Rightarrow> string" where
  "flag_name s = (if s ! 1 = CHR ''-'' then drop 2 s else drop 1 s)"

text \<open>\<open>parseOne\<close>: \<open>None\<close> when parsing ends, else an error or what is left to parse.\<close>

definition parseOne ::
    "foreign_flags \<Rightarrow> string \<Rightarrow> string list \<Rightarrow> settings \<Rightarrow> (flag_error + (settings \<times> string list)) option" where
  "parseOne foreign s args cfg =
     (if length s < 2 \<or> hd s \<noteq> CHR ''-'' \<or> s = ''--'' then None
      else let name = flag_name s in
        if name = [] \<or> hd name = CHR ''-'' \<or> hd name = CHR ''='' then Some (Inl (BadFlagSyntax s))
        else let key = takeWhile (\<lambda>c. c \<noteq> CHR ''='') name;
                 hasValue = (length key < length name);
                 assign = (\<lambda>setFlag v args'. Some (case setFlag v cfg of
                     None \<Rightarrow> Inl (InvalidFlagValue key v)
                   | Some cfg' \<Rightarrow> Inr (cfg', args'))) in
          case lookup_flag foreign key of
            None \<Rightarrow> Some (Inl (if key = ''help'' \<or> key = ''h'' then HelpRequested else FlagNotDefined key))
          | Some (isBool, setFlag) \<Rightarrow>
            if hasValue then assign setFlag (drop (length key + 1) name) args
            else if isBool then assign setFlag ''true'' args
            else case args of
              [] \<Rightarrow> Some (Inl (FlagNeedsArgument key))
            | v # args' \<Rightarrow> assign setFlag v args')"

lemma parseOne_sets:
  assumes "parseOne foreign s args cfg = Some (Inr (cfg', args'))"
  obtains key isBool setFlag v where "lookup_flag foreign key = Some (isBool, setFlag)"
    "setFlag v cfg = Some cfg'" "args' = args \<or> args' = tl args"
    "isBool \<Longrightarrow> v \<noteq> ''true'' \<Longrightarrow>
       flag_name s = key @ CHR ''='' # v \<and> \<not> length s < 2 \<and> hd s = CHR ''-''"
proof -
  let ?key = "takeWhile (\<lambda>c. c \<noteq> CHR ''='') (flag_name s)"
  have shape: "flag_name s = ?key @ CHR ''='' # drop (Suc (length ?key)) (flag_name s)"
    if "length ?key < length (flag_name s)"
  proof -
    from that have at: "flag_name s ! length ?key = CHR ''=''"
      using nth_length_takeWhile [of "\<lambda>c. c \<noteq> CHR ''=''" "flag_name s"] by simp
    have "flag_name s = take (length ?key) (flag_name s) @ drop (length ?key) (flag_name s)" by simp
    also have "take (length ?key) (flag_name s) = ?key" by (rule takeWhile_eq_take [symmetric])
    also have "drop (length ?key) (flag_name s) = CHR ''='' # drop (Suc (length ?key)) (flag_name s)"
      using Cons_nth_drop_Suc [OF that] at by simp
    finally show ?thesis .
  qed
  from assms show thesis
    by (auto simp: parseOne_def Let_def split: if_splits option.splits prod.splits list.splits
        intro: that [of ?key _ _ "drop (Suc (length ?key)) (flag_name s)"] that [of ?key _ _ "''true''"] that shape)
qed

lemma parseOne_shorter:
  "parseOne foreign s args cfg = Some (Inr (cfg', args')) \<Longrightarrow> length args' \<le> length args"
  by (erule parseOne_sets) auto

lemma parseOne_rest:
  "parseOne foreign s args cfg = Some (Inr (cfg', args')) \<Longrightarrow> set args' \<subseteq> set args"
  by (erule parseOne_sets) (cases args; auto)+

function parse_flags :: "foreign_flags \<Rightarrow> string list \<Rightarrow> settings \<Rightarrow> flag_error + settings" where
  "parse_flags foreign [] cfg = Inr cfg"
| "parse_flags foreign (s # args) cfg =
     (case parseOne foreign s args cfg of
        None \<Rightarrow> Inr cfg
      | Some (Inl err) \<Rightarrow> Inl err
      | Some (Inr (cfg', args')) \<Rightarrow> parse_flags foreign args' cfg')"
  by pat_completeness auto
termination
  by (relation "measure (\<lambda>(foreign, args, cfg). length args)") (auto dest: parseOne_shorter)

text \<open>\<open>flag.CommandLine\<close> exits on an error: with 0 after printing the help, with 2 otherwise.\<close>

fun flag_exit_code :: "flag_error \<Rightarrow> nat" where
  "flag_exit_code HelpRequested = 0"
| "flag_exit_code _ = 2"

section \<open>What the command line can change\<close>

definition sets_dry_run_off :: "string \<Rightarrow> bool" where
  "sets_dry_run_off a \<longleftrightarrow>
     (\<exists>v. (a = ''-dry-run='' @ v \<or> a = ''--dry-run='' @ v) \<and> ParseBool v = Some False)"

text \<open>The part of the configuration that no flag is bound to.\<close>

definition fixed_part :: "config \<Rightarrow> string list \<times> float64" where
  "fixed_part c = (ProtectedNamespaces c, DefaultDeleteConfidenceThreshold c)"

lemma lookup_flag_fixed:
  assumes "lookup_flag foreign key = Some (b, setFlag)" "setFlag v c = Some c'"
  shows "fixed_part (fst c') = fixed_part (fst c)"
  using assms
  by (auto simp: lookup_flag_def bound_flags_def fixed_part_def split: option.splits if_splits sum.splits prod.splits)

lemma lookup_flag_dry_run:
  assumes "lookup_flag foreign key = Some (b, setFlag)" "setFlag v c = Some c'" "DryRun (fst c)" "\<not> DryRun (fst c')"
  shows "key = ''dry-run'' \<and> b \<and> ParseBool v = Some False"
  using assms
  by (auto simp: lookup_flag_def bound_flags_def split: option.splits if_splits sum.splits prod.splits)

lemma parse_flags_fixed:
  "parse_flags foreign args c = Inr c' \<Longrightarrow> fixed_part (fst c') = fixed_part (fst c)"
proof (induction foreign args c rule: parse_flags.induct)
  case (2 foreign s args c)
  show ?case
  proof (cases "parseOne foreign s args c")
    case (Some r)
    with "2.prems" obtain c1 args1 where r: "r = Inr (c1, args1)" by (cases r) auto
    with Some have "fixed_part (fst c1) = fixed_part (fst c)"
      by (auto elim!: parseOne_sets dest: lookup_flag_fixed)
    with 2 Some r show ?thesis by auto
  qed (use "2.prems" in simp)
qed simp

lemma dash_forms:
  assumes "flag_name s = t" "\<not> length s < 2" "hd s = CHR ''-''"
  shows "s = ''-'' @ t \<or> s = ''--'' @ t"
proof -
  from assms(2) obtain a b u where "s = a # b # u"
    by (cases s; cases "tl s") auto
  with assms(1,3) show ?thesis by (auto simp: flag_name_def split: if_splits)
qed

lemma parseOne_dry_run:
  assumes "parseOne foreign s args c = Some (Inr (c', args'))" "DryRun (fst c)" "\<not> DryRun (fst c')"
  shows "sets_dry_run_off s"
proof -
  from assms(1) obtain key b setFlag v where f: "lookup_flag foreign key = Some (b, setFlag)"
    "setFlag v c = Some c'" and shape: "b \<Longrightarrow> v \<noteq> ''true'' \<Longrightarrow>
       flag_name s = key @ CHR ''='' # v \<and> \<not> length s < 2 \<and> hd s = CHR ''-''"
    by (rule parseOne_sets) blast
  from lookup_flag_dry_run [OF f assms(2,3)]
  have key: "key = ''dry-run''" "b" "ParseBool v = Some False" by simp_all
  then have "v \<noteq> ''true''" by (auto simp: ParseBool_def)
  with shape key(2) have "flag_name s = key @ CHR ''='' # v" "\<not> length s < 2" "hd s = CHR ''-''" by simp_all
  from dash_forms [OF this] key show ?thesis by (auto simp: sets_dry_run_off_def)
qed

lemma parse_flags_dry_run:
  "parse_flags foreign args c = Inr c' \<Longrightarrow> DryRun (fst c) \<Longrightarrow> \<not> DryRun (fst c') \<Longrightarrow>
     \<exists>a \<in> set args. sets_dry_run_off a"
proof (induction foreign args c rule: parse_flags.induct)
  case (2 foreign s args c)
  show ?case
  proof (cases "parseOne foreign s args c")
    case (Some r)
    with "2.prems" obtain c1 args1 where r: "r = Inr (c1, args1)" by (cases r) auto
    have args1: "set args1 \<subseteq> set args"
      using Some r by (auto dest: parseOne_rest)
    show ?thesis
    proof (cases "DryRun (fst c1)")
      case True
      with 2 Some r have "\<exists>a \<in> set args1. sets_dry_run_off a" by auto
      with args1 show ?thesis by auto
    next
      case False
      with parseOne_dry_run [of foreign s args c c1 args1] Some r "2.prems" show ?thesis by auto
    qed
  qed (use "2.prems" in simp)
qed simp

text \<open>
  The flag \<open>--development\<close> does not reach the logger, whose options are copied before the flags
  are parsed: only the flags of the libraries change \<open>zapOpts\<close>. A property of the options that
  those flags keep, they have after parsing if they had it before.
\<close>

lemma lookup_flag_library:
  assumes "lookup_flag foreign key = Some (b, setFlag)" "setFlag v c = Some c'" "P (snd c)"
    and "\<And>name f v lib lib'. foreign name = Some f \<Longrightarrow> ff_set f v lib = Some lib' \<Longrightarrow> P lib \<Longrightarrow> P lib'"
  shows "P (snd c')"
proof (cases "map_of bound_flags key")
  case None
  with assms(1,2) obtain f where "foreign key = Some f" "ff_set f v (snd c) = Some (snd c')"
    by (auto simp: lookup_flag_def split: prod.splits)
  with assms(3,4) show ?thesis by blast
next
  case (Some f)
  with assms(1,2) have "snd c' = snd c" by (auto simp: lookup_flag_def split: prod.splits)
  with assms(3) show ?thesis by simp
qed

lemma parse_flags_library:
  assumes "\<And>name f v lib lib'. foreign name = Some f \<Longrightarrow> ff_set f v lib = Some lib' \<Longrightarrow> P lib \<Longrightarrow> P lib'"
  shows "parse_flags foreign args c = Inr c' \<Longrightarrow> P (snd c) \<Longrightarrow> P (snd c')"
  using assms
proof (induction foreign args c rule: parse_flags.induct)
  case (2 foreign s args c)
  show ?case
  proof (cases "parseOne foreign s args c")
    case (Some r)
    with "2.prems"(1) obtain c1 args1 where r: "r = Inr (c1, args1)" by (cases r) auto
    with Some obtain key b setFlag v where "lookup_flag foreign key = Some (b, setFlag)" "setFlag v c = Some c1"
      using parseOne_sets [of foreign s args c c1 args1] by metis
    then have "P (snd c1)" using "2.prems"(2,3) by (rule lookup_flag_library)
    with 2 Some r show ?thesis by auto
  qed (use "2.prems" in simp)
qed simp

end
