(* ===== verification/Observability.thy ===== *)
theory Observability
  imports Prelude GoFmt "HOL-Library.Word"
begin

text \<open>
  \<open>pkg/tracing/tracing.go\<close> and \<open>pkg/logging/logging.go\<close>: the set-up of tracing and of the
  alternative logger. The OpenTelemetry and zap libraries are parameters: which of their
  calls fail, and with what text.
\<close>

section \<open>Tracing\<close>

datatype sampler = AlwaysSample

text \<open>
  The global tracer provider: the no-op one it starts as, or an SDK provider with its exporter's
  endpoint and whether that is reached without TLS, the service name given to the resource
  (which the environment may override), and its sampler.
\<close>

datatype tracer_provider =
    NoopProvider
  | SdkProvider (tp_endpoint: string) (tp_insecure: bool) (tp_service_attribute: string) (tp_sampler: sampler)

datatype shutdown_func = NoopShutdown | ProviderShutdown tracer_provider

record tracing =
  tr_provider :: tracer_provider
  tr_shutdown :: shutdown_func

record otel_library =
  otlp_exporter :: "string \<Rightarrow> string option"
  otel_resource :: "string \<Rightarrow> string option"

definition no_tracing :: tracing where
  "no_tracing = \<lparr>tr_provider = NoopProvider, tr_shutdown = NoopShutdown\<rparr>"

text \<open>\<open>tracing.Init\<close> at startup, when the provider is still the no-op one.\<close>

definition Tracing_Init :: "otel_library \<Rightarrow> string \<Rightarrow> string + tracing" where
  "Tracing_Init lib endpoint =
     (if endpoint = '''' then Inr no_tracing
      else case otlp_exporter lib endpoint of
        Some err \<Rightarrow> Inl (''creating OTLP exporter: '' @ err)
      | None \<Rightarrow>
        (case otel_resource lib ''kube-janitor'' of
           Some err \<Rightarrow> Inl (''creating OTel resource: '' @ err)
         | None \<Rightarrow>
           let tp = SdkProvider endpoint True ''kube-janitor'' AlwaysSample in
           Inr \<lparr>tr_provider = tp, tr_shutdown = ProviderShutdown tp\<rparr>))"

definition otel_ready :: "otel_library \<Rightarrow> string \<Rightarrow> bool" where
  "otel_ready lib endpoint \<longleftrightarrow> endpoint = '''' \<or>
     otlp_exporter lib endpoint = None \<and> otel_resource lib ''kube-janitor'' = None"

definition tracing_for :: "string \<Rightarrow> tracing" where
  "tracing_for endpoint =
     (if endpoint = '''' then no_tracing
      else let tp = SdkProvider endpoint True ''kube-janitor'' AlwaysSample in
        \<lparr>tr_provider = tp, tr_shutdown = ProviderShutdown tp\<rparr>)"

text \<open>\<open>Tracer()\<close>: the tracer of the program's name from the global provider.\<close>

definition tracerName :: string where
  "tracerName = ''github.com/kaiohenricunha/kube-janitor''"

definition Tracer :: "tracing \<Rightarrow> tracer_provider \<times> string" where
  "Tracer tr = (tr_provider tr, tracerName)"

lemma Tracing_Init_Inr:
  "Tracing_Init lib endpoint = Inr tr \<longleftrightarrow> otel_ready lib endpoint \<and> tr = tracing_for endpoint"
  by (auto simp: Tracing_Init_def otel_ready_def tracing_for_def Let_def split: option.split)

lemma Tracing_Init_Inl: "Tracing_Init lib endpoint = Inl err \<Longrightarrow> \<not> otel_ready lib endpoint"
  using Tracing_Init_Inr [of lib endpoint] by auto

lemma no_endpoint_no_tracing [simp]: "tracing_for '''' = no_tracing" "otel_ready lib ''''"
  by (simp_all add: tracing_for_def otel_ready_def)

section \<open>Logging\<close>

text \<open>
  \<open>logging.Init\<close>: the preset, the time encoder and the level, a signed byte in zapcore, into
  which the negated verbosity is truncated.
\<close>

datatype zap_preset = DevelopmentConfig | ProductionConfig

record zap_config =
  zc_preset :: zap_preset
  zc_encode_time :: string
  zc_level :: "8 word"

definition Logging_Init :: "(zap_config \<Rightarrow> string option) \<Rightarrow> bool \<Rightarrow> 64 word \<Rightarrow> string + zap_config" where
  "Logging_Init build development level =
     (let preset = (if development then DevelopmentConfig else ProductionConfig);
          cfg = \<lparr>zc_preset = preset, zc_encode_time = ''ISO8601'', zc_level = ucast (- level)\<rparr> in
      case build cfg of Some err \<Rightarrow> Inl err | None \<Rightarrow> Inr cfg)"

definition StandardFields :: "string \<Rightarrow> string \<Rightarrow> string \<Rightarrow> string list" where
  "StandardFields controller objectName reconcileID =
     [''controller'', controller, ''object'', objectName, ''reconcileID'', reconcileID]"

text \<open>Verbosities up to 128 are honoured; 129 wraps round to a level that silences the logger.\<close>

lemma zap_level:
  assumes "0 \<le> n" "n \<le> 128"
  shows "sint (ucast (- (word_of_int n :: 64 word)) :: 8 word) = - n"
proof -
  have "ucast (- (word_of_int n :: 64 word)) = (word_of_int (- n) :: 8 word)"
  proof -
    have "- (word_of_int n :: 64 word) = word_of_int (- n)" by simp
    then show ?thesis by (simp only:) (rule ucast_down_wi, simp add: is_down)
  qed
  then show ?thesis using assms by (simp only:) (simp add: sint_sbintrunc' signed_take_bit_int_eq_self del: word_of_int_minus of_int_minus)
qed

lemma zap_level_wraps: "sint (ucast (- (129 :: 64 word)) :: 8 word) = 127"
  by simp

end
