(* ===== verification/Registration.thy ===== *)
theory Registration
  imports Prelude
begin

text \<open>
  \<open>api/v1alpha1/groupversion_info.go\<close> and the two \<open>init\<close> functions: the types of the API group
  are registered with a scheme builder, and the program's scheme is built from the types of
  client-go and of the group. The scheme library of Kubernetes is a parameter: its builder and
  scheme are types \<open>'b\<close> and \<open>'s\<close> it knows alone.
\<close>

record group_version =
  gv_group :: string
  gv_version :: string

datatype api_type = JanitorPolicyType | JanitorPolicyListType

record ('b, 's) scheme_library =
  sl_new_builder :: "group_version \<Rightarrow> 'b"
  sl_register :: "'b \<Rightarrow> api_type list \<Rightarrow> 'b"
  sl_add_to_scheme :: "'b \<Rightarrow> 's \<Rightarrow> string + 's"
  sl_new_scheme :: 's
  sl_clientgo_add_to_scheme :: "'s \<Rightarrow> string + 's"

definition GroupVersion :: group_version where
  "GroupVersion = \<lparr>gv_group = ''janitor.io'', gv_version = ''v1alpha1''\<rparr>"

definition SchemeBuilder :: "('b, 's) scheme_library \<Rightarrow> 'b" where
  "SchemeBuilder lib = sl_new_builder lib GroupVersion"

text \<open>\<open>init\<close> of \<open>janitorpolicy_types.go\<close>: the builder with the types of the group.\<close>

definition types_init :: "('b, 's) scheme_library \<Rightarrow> 'b" where
  "types_init lib = sl_register lib (SchemeBuilder lib) [JanitorPolicyType, JanitorPolicyListType]"

text \<open>
  \<open>AddToScheme\<close> is a method value of the pointer to the builder, so it adds what has been
  registered when it is called, after \<open>init\<close>, and not what was there when the variable got its
  value.
\<close>

definition AddToScheme :: "('b, 's) scheme_library \<Rightarrow> 's \<Rightarrow> string + 's" where
  "AddToScheme lib = sl_add_to_scheme lib (types_init lib)"

text \<open>\<open>init\<close> of \<open>main.go\<close>: the program's scheme, or the text of the panic of \<open>utilruntime.Must\<close>.\<close>

definition main_init :: "('b, 's) scheme_library \<Rightarrow> string + 's" where
  "main_init lib =
     (case sl_clientgo_add_to_scheme lib (sl_new_scheme lib) of
        Inl err \<Rightarrow> Inl err
      | Inr s \<Rightarrow> AddToScheme lib s)"

end
