(* ===== verification/Manager.thy ===== *)
theory Manager
  imports Classifier PolicyEngine Executor Reporter Controller Flags Observability Registration
begin

text \<open>
  \<open>cmd/manager/main.go\<close>: validation at startup and the wiring of the components, and the
  controller as a state machine over its effects. \<open>environment\<close> collects what is outside
  the program during one reconcile: the answers of the manager's client, of the API reader
  to the classifier and, later, to the executor, the group-version parser of the
  apimachinery library, and the clock readings at the four calls of \<open>time.Now\<close>.
\<close>

record clock_readings =
  ck_ttl :: gotime
  ck_expires_at :: gotime
  ck_classify :: gotime
  ck_evaluate :: gotime

record environment =
  env_client :: api_client
  env_classify_reader :: reader
  env_execute_reader :: reader
  env_parse_gv :: gv_parser
  env_clock :: clock_readings

definition build_registry :: "gv_parser \<Rightarrow> registry" where
  "build_registry parse =
     Register (NewNamespaceResolver ''janitor.io/pr-state'' Hour)
       (Register NewConfigMapResolver
         (Register (NewOwnerRefResolver parse) NewRegistry))"

definition default_chain :: "config \<Rightarrow> environment \<Rightarrow> strategy list" where
  "default_chain cfg env =
     [NewProtectionStrategy ''janitor.io/protected'' (ProtectedNamespaces cfg),
      NewFinalizerStrategy,
      NewTTLStrategy ''janitor.io/ttl'' 0 (ck_ttl (env_clock env)),
      NewExpiresAtStrategy ''janitor.io/expires-at'' (ck_expires_at (env_clock env)),
      NewOwnerRefStrategy (env_parse_gv env),
      NewResolverStrategy (build_registry (env_parse_gv env))]"

definition build_classifier :: "config \<Rightarrow> environment \<Rightarrow> default_classifier" where
  "build_classifier cfg env = New (env_classify_reader env) (default_chain cfg env)"

definition build_executor :: "config \<Rightarrow> environment \<Rightarrow> default_executor" where
  "build_executor cfg env =
     NewDefaultExecutor (env_client env) (env_execute_reader env) (ProtectedNamespaces cfg)"

definition build_deps :: "config \<Rightarrow> environment \<Rightarrow> shared_deps" where
  "build_deps cfg env =
     \<lparr>sd_client = env_client env,
      sd_classifier = Classify (build_classifier cfg env) (ck_classify (env_clock env)),
      sd_engine = Evaluate (NewDefaultEngine (DryRun cfg)) (ck_evaluate (env_clock env)),
      sd_executor = Execute (build_executor cfg env),
      sd_reporter = Report (NewEventReporter True),
      sd_config = cfg\<rparr>"

text \<open>
  \<open>main\<close> up to \<open>mgr.Start\<close>: the flags are parsed over the defaults, the configuration is
  validated, tracing is set up when there is an endpoint, the kubeconfig is loaded
  (\<open>ctrl.GetConfigOrDie\<close>), the manager is created, the metrics are registered, and the
  controllers and health checks are added to the manager. \<open>boot\<close> says which of the library
  calls succeed; loading the kubeconfig may depend on the flags of the libraries. The
  logger's options are copied from the configuration before the flags are parsed.
\<close>

record boot =
  bt_otel :: otel_library
  bt_kubeconfig :: "library_options \<Rightarrow> bool"
  bt_manager :: "config \<Rightarrow> bool"
  bt_complete :: "controller_setup \<Rightarrow> string option"
  bt_healthz :: bool
  bt_readyz :: bool

datatype exit_reason =
    ExitFlags flag_error
  | ExitInvalidConfig error
  | ExitTracing string
  | ExitKubeconfig
  | ExitManager
  | ExitMetricsPanic
  | ExitSchemePanic string
  | ExitController string
  | ExitHealthCheck
  | ExitReadyCheck

fun exit_code :: "exit_reason \<Rightarrow> nat" where
  "exit_code (ExitFlags err) = flag_exit_code err"
| "exit_code ExitMetricsPanic = 2"
| "exit_code (ExitSchemePanic err) = 2"
| "exit_code _ = 1"

record running =
  run_config :: config
  run_library :: library_options
  run_effects :: effects
  run_tracing :: tracing

definition main_program :: "foreign_flags \<Rightarrow> boot \<Rightarrow> string list \<Rightarrow> exit_reason + running" where
  "main_program foreign bt args =
     (let cfg0 = Default in
      case parse_flags foreign args (cfg0, zapOpts cfg0) of
        Inl err \<Rightarrow> Inl (ExitFlags err)
      | Inr (cfg, lib) \<Rightarrow>
        (case Validate cfg of
           Some err \<Rightarrow> Inl (ExitInvalidConfig err)
         | None \<Rightarrow>
           (case (if OTelEndpoint cfg \<noteq> '''' then Tracing_Init (bt_otel bt) (OTelEndpoint cfg)
                  else Inr no_tracing) of
              Inl err \<Rightarrow> Inl (ExitTracing err)
            | Inr tr \<Rightarrow>
              if \<not> bt_kubeconfig bt lib then Inl ExitKubeconfig
              else if \<not> bt_manager bt cfg then Inl ExitManager
              else case DefaultRecorder (Register_metrics \<lparr>once_done = False, defaultRecorder = None\<rparr>) of
                None \<Rightarrow> Inl ExitMetricsPanic
              | Some m \<Rightarrow>
                if NamespaceReconciler_SetupWithManager (bt_complete bt) \<noteq> None then Inl (ExitController ''Namespace'')
                else if ConfigMapReconciler_SetupWithManager (bt_complete bt) \<noteq> None then Inl (ExitController ''ConfigMap'')
                else if \<not> bt_healthz bt then Inl ExitHealthCheck
                else if \<not> bt_readyz bt then Inl ExitReadyCheck
                else Inr \<lparr>run_config = cfg, run_library = lib,
                  run_effects = new_effects m, run_tracing = tr\<rparr>)))"

text \<open>The whole process: \<open>init\<close>, which panics when the scheme cannot be built, then \<open>main\<close>.\<close>

definition process :: "('b, 's) scheme_library \<Rightarrow> foreign_flags \<Rightarrow> boot \<Rightarrow> string list \<Rightarrow> exit_reason + running" where
  "process lib foreign bt args =
     (case main_init lib of
        Inl err \<Rightarrow> Inl (ExitSchemePanic err)
      | Inr _ \<Rightarrow> main_program foreign bt args)"

lemma process_Inr:
  "process lib foreign bt args = Inr r \<longleftrightarrow> \<not> isl (main_init lib) \<and> main_program foreign bt args = Inr r"
  by (auto simp: process_def split: sum.split)

text \<open>
  How \<open>main\<close> ends, by what \<open>mgr.Start\<close> returns: the exit code and the shutdown functions that
  are run. The shutdown of the tracer is deferred, and \<open>os.Exit\<close> runs no deferred call.
\<close>

definition main_end :: "running \<Rightarrow> string option \<Rightarrow> nat \<times> shutdown_func list" where
  "main_end r started =
     (case started of
        Some err \<Rightarrow> (1, [])
      | None \<Rightarrow> (0, if OTelEndpoint (run_config r) \<noteq> '''' then [tr_shutdown (run_tracing r)] else []))"

definition starts :: "config \<Rightarrow> effects \<Rightarrow> bool" where
  "starts cfg s \<longleftrightarrow> (\<exists>foreign bt args r. main_program foreign bt args = Inr r \<and> run_config r = cfg \<and> run_effects r = s)"

section \<open>The controller as a state machine\<close>

text \<open>A Namespace is cluster-scoped: the namespace of a request for one is empty.\<close>

datatype request = NamespaceRequest string | ConfigMapRequest string string

fun reconcile :: "config \<Rightarrow> environment \<Rightarrow> request \<Rightarrow> effects \<Rightarrow> (error + duration) \<times> effects" where
  "reconcile cfg env (NamespaceRequest name) s = NamespaceReconciler_Reconcile (build_deps cfg env) '''' name s"
| "reconcile cfg env (ConfigMapRequest ns name) s = ConfigMapReconciler_Reconcile (build_deps cfg env) ns name s"

inductive janitor_step :: "config \<Rightarrow> effects \<Rightarrow> effects \<Rightarrow> bool" for cfg where
  reconciles: "reconcile cfg env req s = (result, s') \<Longrightarrow> janitor_step cfg s s'"

inductive reachable :: "config \<Rightarrow> effects \<Rightarrow> bool" for cfg where
  started: "starts cfg s \<Longrightarrow> reachable cfg s"
| stepped: "reachable cfg s \<Longrightarrow> janitor_step cfg s s' \<Longrightarrow> reachable cfg s'"

section \<open>The components keep their contracts when wired together\<close>

definition default_classes :: "resource_class set" where
  "default_classes = {ClassProtected, ClassBlocked, ClassExpired, ClassActive, ClassOrphaned, ClassAbandoned}"

interpretation registry_kept: resolver_set "reg_resolvers (build_registry parse)" for parse
  by (rule resolver_set.intro)
     (auto simp: build_registry_def Register_def NewRegistry_def component_defs
        intro: ownerref_resolver.resolver_contract_axioms configmap_resolver.resolver_contract_axioms
               namespace_resolver.resolver_contract_axioms)

interpretation chain_kept: strategy_chain "default_chain cfg env" default_classes for cfg env
proof (rule strategy_chain.intro)
  fix s
  assume "s \<in> set (default_chain cfg env)"
  then show "strategy_contract (strat_classify s) default_classes"
    unfolding default_chain_def
    by (auto simp: component_defs default_classes_def
        intro!: strategy_contract_mono [OF protection.strategy_contract_axioms]
          strategy_contract_mono [OF finalizer.strategy_contract_axioms]
          strategy_contract_mono [OF ttl.strategy_contract_axioms]
          strategy_contract_mono [OF expires_at.strategy_contract_axioms]
          strategy_contract_mono [OF owner_ref.strategy_contract_axioms]
          strategy_contract_mono [OF resolver_based.strategy_contract_axioms])
qed

lemma build_deps_simps [simp]:
  "sd_client (build_deps cfg env) = env_client env"
  "sd_classifier (build_deps cfg env) = Classify (build_classifier cfg env) (ck_classify (env_clock env))"
  "sd_engine (build_deps cfg env) = Evaluate (NewDefaultEngine (DryRun cfg)) (ck_evaluate (env_clock env))"
  "sd_executor (build_deps cfg env) = Execute (build_executor cfg env)"
  "sd_reporter (build_deps cfg env) = Report (NewEventReporter True)"
  "sd_config (build_deps cfg env) = cfg"
  by (simp_all add: build_deps_def)

lemma NewDefaultEngine_simps [simp]: "GlobalDryRun (NewDefaultEngine b) = b"
  by (simp add: NewDefaultEngine_def)

lemma build_executor_simps [simp]:
  "ex_protected_ns (build_executor cfg env) = set (ProtectedNamespaces cfg)"
  "ex_api_reader (build_executor cfg env) = env_execute_reader env"
  "ex_client (build_executor cfg env) = env_client env"
  by (simp_all add: build_executor_def NewDefaultExecutor_def)

interpretation wired: reconcile_pipeline "build_deps cfg env" "DryRun cfg" "set (ProtectedNamespaces cfg)"
  for cfg env
proof -
  have "policy_engine (sd_engine (build_deps cfg env)) (DryRun cfg)"
    using engine.policy_engine_axioms [of "NewDefaultEngine (DryRun cfg)"] by simp
  moreover have "action_executor (sd_executor (build_deps cfg env)) (set (ProtectedNamespaces cfg))"
    using executor.action_executor_axioms [of "build_executor cfg env"] by simp
  moreover have "finding_reporter (sd_reporter (build_deps cfg env))"
    using reporter.finding_reporter_axioms by simp
  ultimately show "reconcile_pipeline (build_deps cfg env) (DryRun cfg) (set (ProtectedNamespaces cfg))"
    by (simp add: reconcile_pipeline_def)
qed

section \<open>What the default chain computes\<close>

text \<open>
  The classification as a specification: a decision over the object, the answers of the
  API and the time line, in the documented order of priorities. \<open>None\<close> is an error.
\<close>

definition guarded :: "config \<Rightarrow> kobject \<Rightarrow> bool" where
  "guarded cfg obj \<longleftrightarrow> o_namespace obj \<in> set (ProtectedNamespaces cfg) \<or>
     o_namespace obj = '''' \<and> o_name obj \<in> set (ProtectedNamespaces cfg) \<or>
     o_annotations obj ''janitor.io/protected'' = Some ''true''"

definition ttl_spec :: "environment \<Rightarrow> kobject \<Rightarrow> bool option" where
  "ttl_spec env obj =
     (case o_annotations obj ''janitor.io/ttl'' of
        None \<Rightarrow> Some False
      | Some v \<Rightarrow> (case ParseDuration v of
            Inl _ \<Rightarrow> None
          | Inr ttl \<Rightarrow> Some (ttl_elapsed (ck_ttl (env_clock env)) (o_created obj) ttl)))"

definition expiry_spec :: "environment \<Rightarrow> kobject \<Rightarrow> bool option" where
  "expiry_spec env obj =
     (case o_annotations obj ''janitor.io/expires-at'' of
        None \<Rightarrow> Some False
      | Some v \<Rightarrow> if v = '''' then Some False
          else map_option (\<lambda>t. unix_ns t \<le> unix_ns (ck_expires_at (env_clock env))) (ParseRFC3339 v))"

definition owners_spec :: "environment \<Rightarrow> kobject \<Rightarrow> resource_class option" where
  "owners_spec env obj =
     (let status = owner_status (env_parse_gv env) obj (env_classify_reader env) in
      if \<exists>ow \<in> set (o_owners obj). \<exists>err. status ow = OwnerError err then None
      else Some (if \<exists>ow \<in> set (o_owners obj). status ow = OwnerLive then ClassActive else ClassOrphaned))"

definition references_spec :: "environment \<Rightarrow> kobject \<Rightarrow> resource_class option" where
  "references_spec env obj =
     (let rd = env_classify_reader env; kind = gvk_kind (o_gvk obj);
          used = (\<lambda>b. Some (if b then ClassActive else ClassAbandoned)) in
      if kind = ''ConfigMap'' then
        (case rd_list_pods rd (o_namespace obj) of
           Inl _ \<Rightarrow> None
         | Inr pods \<Rightarrow> used (\<exists>p \<in> set pods. pod_mentions (o_name obj) p))
      else if kind = ''Namespace'' then
        (case rd_list_pods rd (o_name obj) of
           Inl _ \<Rightarrow> None
         | Inr pods \<Rightarrow>
           if \<exists>p \<in> set pods. live_phase (pod_phase p) then used True
           else (case rd_list_deployments rd (o_name obj) of
               Inl _ \<Rightarrow> None
             | Inr deps \<Rightarrow> used (deps \<noteq> [])))
      else used False)"

definition classify_spec :: "config \<Rightarrow> environment \<Rightarrow> kobject \<Rightarrow> resource_class option" where
  "classify_spec cfg env obj =
     (if guarded cfg obj then Some ClassProtected
      else if \<exists>f \<in> set (o_finalizers obj). f \<noteq> ''janitor.io/cleanup'' then Some ClassBlocked
      else case ttl_spec env obj of
        None \<Rightarrow> None
      | Some True \<Rightarrow> Some ClassExpired
      | Some False \<Rightarrow>
        (case expiry_spec env obj of
           None \<Rightarrow> None
         | Some True \<Rightarrow> Some ClassExpired
         | Some False \<Rightarrow>
           if o_owners obj \<noteq> [] then owners_spec env obj else references_spec env obj))"

definition result_class :: "(error + finding) \<Rightarrow> resource_class option" where
  "result_class r = (case r of Inl _ \<Rightarrow> None | Inr f \<Rightarrow> Some (f_class f))"

definition settled_option :: "(error + resource_class) option \<Rightarrow> resource_class option" where
  "settled_option r = (case r of None \<Rightarrow> Some ClassUnknown | Some (Inl _) \<Rightarrow> None | Some (Inr c) \<Rightarrow> Some c)"

lemma result_class_Classify:
  "result_class (Classify c now obj) =
     settled_option (first_hit (settled_class (clf_reader c) obj) (clf_strategies c))"
proof -
  have "result_class (Classify c now obj) =
      (case map_sum id f_class (Classify c now obj) of Inl _ \<Rightarrow> None | Inr c \<Rightarrow> Some c)"
    by (cases "Classify c now obj") (simp_all add: result_class_def)
  then show ?thesis
    unfolding Classify_class settled_option_def by (simp split: option.split sum.split)
qed

lemma settled_protection:
  "settled_option (case settled_class rd obj
       (NewProtectionStrategy ''janitor.io/protected'' (ProtectedNamespaces cfg)) of
       None \<Rightarrow> rest | Some r \<Rightarrow> Some r) =
     (if guarded cfg obj then Some ClassProtected else settled_option rest)"
  by (auto simp: settled_class_def NewProtectionStrategy_def Protection_outcome is_protected_def
        ProtectionStrategy_init_def guarded_def settled_option_def)

lemma settled_finalizer:
  "settled_option (case settled_class rd obj NewFinalizerStrategy of
       None \<Rightarrow> rest | Some r \<Rightarrow> Some r) =
     (if \<exists>f \<in> set (o_finalizers obj). f \<noteq> ''janitor.io/cleanup'' then Some ClassBlocked
      else settled_option rest)"
  by (auto simp: settled_class_def NewFinalizerStrategy_def Finalizer_outcome
        foreign_finalizers_Nil_iff janitorFinalizer_def settled_option_def)

lemma settled_ttl:
  "settled_option (case settled_class rd obj (NewTTLStrategy ''janitor.io/ttl'' 0 (ck_ttl (env_clock env))) of
       None \<Rightarrow> rest | Some r \<Rightarrow> Some r) =
     (case ttl_spec env obj of
        None \<Rightarrow> None | Some True \<Rightarrow> Some ClassExpired | Some False \<Rightarrow> settled_option rest)"
  by (auto simp: settled_class_def NewTTLStrategy_def TTL_outcome resolveTTL_def ttl_spec_def
        settled_option_def ttl_elapsed_def split: option.split sum.split)

lemma settled_expires_at:
  "settled_option (case settled_class rd obj
       (NewExpiresAtStrategy ''janitor.io/expires-at'' (ck_expires_at (env_clock env))) of
       None \<Rightarrow> rest | Some r \<Rightarrow> Some r) =
     (case expiry_spec env obj of
        None \<Rightarrow> None | Some True \<Rightarrow> Some ClassExpired | Some False \<Rightarrow> settled_option rest)"
  by (auto simp: settled_class_def NewExpiresAtStrategy_def ExpiresAt_outcome expiry_spec_def
        settled_option_def split: option.split)

lemma owner_failure_iff:
  "(\<exists>ow \<in> set owners. owner_failure parse obj rd ow \<noteq> None) \<longleftrightarrow>
     (\<exists>ow \<in> set owners. \<exists>err. owner_status parse obj rd ow = OwnerError err)"
proof -
  have "owner_failure parse obj rd ow \<noteq> None \<longleftrightarrow> (\<exists>err. owner_status parse obj rd ow = OwnerError err)" for ow
    by (cases "owner_status parse obj rd ow") (simp_all add: owner_failure_def)
  then show ?thesis by simp
qed

lemma settled_owner_ref:
  "settled_option (case settled_class (env_classify_reader env) obj (NewOwnerRefStrategy (env_parse_gv env)) of
       None \<Rightarrow> rest | Some r \<Rightarrow> Some r) =
     (if o_owners obj \<noteq> [] then owners_spec env obj else settled_option rest)"
proof (cases "first_hit (owner_failure (env_parse_gv env) obj (env_classify_reader env)) (o_owners obj)")
  case None
  then have "\<not> (\<exists>ow \<in> set (o_owners obj). \<exists>err.
      owner_status (env_parse_gv env) obj (env_classify_reader env) ow = OwnerError err)"
    using owner_failure_iff unfolding first_hit_None_iff by metis
  with None show ?thesis
    by (auto simp: settled_class_def NewOwnerRefStrategy_def OwnerRef_outcome owners_spec_def
          settled_option_def Let_def)
next
  case (Some err)
  then have "\<exists>ow \<in> set (o_owners obj). \<exists>err.
      owner_status (env_parse_gv env) obj (env_classify_reader env) ow = OwnerError err"
    using owner_failure_iff first_hit_SomeD by (metis option.distinct(1))
  with Some show ?thesis
    by (auto simp: settled_class_def NewOwnerRefStrategy_def OwnerRef_outcome owners_spec_def
          settled_option_def Let_def)
qed

lemma handlers_default:
  "handlers (reg_resolvers (build_registry parse)) obj =
     (if o_owners obj \<noteq> [] then [NewOwnerRefResolver parse] else []) @
     (if gvk_kind (o_gvk obj) = ''ConfigMap'' then [NewConfigMapResolver] else []) @
     (if gvk_kind (o_gvk obj) = ''Namespace'' then [NewNamespaceResolver ''janitor.io/pr-state'' Hour] else [])"
  by (simp add: handlers_def build_registry_def Register_def NewRegistry_def component_defs
        OwnerRefResolver_Handles_def
        ConfigMapResolver_Handles_def NamespaceResolver_Handles_def)

lemma settled_resolver:
  assumes "o_owners obj = []"
  shows "settled_option (settled_class (env_classify_reader env) obj
       (NewResolverStrategy (build_registry parse))) = references_spec env obj"
  by (auto simp: settled_class_def NewResolverStrategy_def Resolver_outcome resolved_refs_def
        resolver_failures_def handlers_default assms NewConfigMapResolver_def NewNamespaceResolver_def
        references_spec_def settled_option_def ConfigMapResolver_Resolve_def NamespaceResolver_Resolve_def
        Let_def map_filter_simps map_filter_Nil_iff podReferencesConfigMap_None find_None_iff find_Some_iff
      split: sum.split option.split list.split)

lemma classify_by_spec:
  "result_class (Classify (build_classifier cfg env) now obj) = classify_spec cfg env obj"
proof -
  let ?rd = "env_classify_reader env"
  have chain: "settled_option (first_hit (settled_class ?rd obj) (default_chain cfg env)) =
    (if guarded cfg obj then Some ClassProtected
      else if \<exists>f \<in> set (o_finalizers obj). f \<noteq> ''janitor.io/cleanup'' then Some ClassBlocked
      else case ttl_spec env obj of
        None \<Rightarrow> None
      | Some True \<Rightarrow> Some ClassExpired
      | Some False \<Rightarrow>
        (case expiry_spec env obj of
           None \<Rightarrow> None
         | Some True \<Rightarrow> Some ClassExpired
         | Some False \<Rightarrow>
           if o_owners obj \<noteq> [] then owners_spec env obj
           else settled_option (settled_class ?rd obj
             (NewResolverStrategy (build_registry (env_parse_gv env))))))"
    by (simp only: default_chain_def first_hit_two first_hit_single settled_protection
          settled_finalizer settled_ttl settled_expires_at settled_owner_ref)
  show ?thesis
    unfolding result_class_Classify build_classifier_def New_def default_classifier.simps
      chain classify_spec_def
    by (cases "o_owners obj = []") (simp_all add: settled_resolver split: option.split bool.split)
qed

section \<open>Time only moves towards expiry\<close>

lemma ttl_elapsed_mono:
  "ttl_elapsed now created ttl \<Longrightarrow> unix_ns now \<le> unix_ns now' \<Longrightarrow> ttl_elapsed now' created ttl"
  by (auto simp: ttl_elapsed_def sint_Time_Sub)

lemma classify_spec_expired:
  "classify_spec cfg env obj = Some ClassExpired \<longleftrightarrow>
     \<not> guarded cfg obj \<and> (\<forall>f \<in> set (o_finalizers obj). f = ''janitor.io/cleanup'') \<and>
     (ttl_spec env obj = Some True \<or> ttl_spec env obj = Some False \<and> expiry_spec env obj = Some True)"
proof -
  have "owners_spec env obj \<noteq> Some ClassExpired" "references_spec env obj \<noteq> Some ClassExpired"
    by (auto simp: owners_spec_def references_spec_def Let_def split: sum.split)
  then show ?thesis by (auto simp: classify_spec_def split: option.split bool.split)
qed

section \<open>The ownerref resolver in the default registry\<close>

lemma handlers_unowned:
  "o_owners obj = [] \<Longrightarrow>
     handlers (reg_resolvers (build_registry parse)) obj =
     handlers (tl (reg_resolvers (build_registry parse))) obj"
  by (simp add: handlers_def build_registry_def Register_def NewRegistry_def NewOwnerRefResolver_def
        OwnerRefResolver_Handles_def)

lemma resolver_outcome_unowned:
  assumes "o_owners obj = []" "handlers (reg_resolvers r) obj = handlers (reg_resolvers r') obj"
  shows "outcome (ResolverStrategy_Classify r obj rd) = outcome (ResolverStrategy_Classify r' obj rd)"
  by (simp only: Resolver_outcome resolved_refs_def resolver_failures_def assms(2))

end
