(* ===== verification/Pipeline.thy ===== *)
theory Pipeline
  imports Manager
begin

text \<open>
  What one reconcile of the wired controller promises, stated on the object, the policies
  and the answers of the API alone: which object it deletes, whether it fails, and what
  every run of the controller keeps.
\<close>

section \<open>The wired classifier\<close>

lemma Classify_spec_cases:
  obtains (error) err where "Classify (build_classifier cfg env) now obj = Inl err"
      "classify_spec cfg env obj = None"
  | (found) f where "Classify (build_classifier cfg env) now obj = Inr f"
      "classify_spec cfg env obj = Some (f_class f)" "f_ref f = objectRefFrom obj"
      "f_class f \<in> default_classes" "f_confidence f = class_confidence (f_class f)"
      "explains (f_reasons f)"
proof (cases "Classify (build_classifier cfg env) now obj")
  case (Inl err)
  with classify_by_spec [of cfg env now obj] error show thesis by (simp add: result_class_def)
next
  case (Inr f)
  with classify_by_spec [of cfg env now obj] have spec: "classify_spec cfg env obj = Some (f_class f)"
    by (simp add: result_class_def)
  then have "f_class f \<noteq> ClassUnknown"
    by (auto simp: classify_spec_def owners_spec_def references_spec_def Let_def
          split: if_splits option.splits bool.splits sum.splits)
  moreover have "Classify_loop (default_chain cfg env) (env_classify_reader env) now obj = Inr f"
    using Inr by (simp add: Classify_def build_classifier_def New_def)
  ultimately show thesis
    using found [OF Inr spec Classify_ref [OF Inr]] chain_kept.finding_determined by blast
qed

text \<open>
  Expiry is decided before the API is asked: the first four strategies of the chain do not
  use the reader, and the last two never say Expired.
\<close>

lemma early_strategies_ignore_the_reader:
  "s \<in> set (take 4 (default_chain cfg env)) \<Longrightarrow> settles rd obj s = settles rd' obj s"
  by (auto simp: default_chain_def settles_def component_defs ProtectionStrategy_Classify_def
      FinalizerStrategy_Classify_def TTLStrategy_Classify_def ExpiresAtStrategy_Classify_def)

lemma late_strategies_never_expire:
  assumes "first_hit (settles rd obj) (drop 4 (default_chain cfg env)) = Some (Inr v)"
  shows "fst v \<noteq> ClassExpired"
proof -
  from first_hit_SomeD [OF assms] obtain s where s: "s \<in> set (drop 4 (default_chain cfg env))"
    and v: "strat_classify s obj rd = Inr v" "fst v \<noteq> ClassUnknown"
    by (auto simp: settles_Inr_iff)
  obtain c q rs where "v = (c, q, rs)" by (cases v)
  with s v owner_ref.verdict [of "env_parse_gv env" obj rd c q rs]
    resolver_based.verdict [of "build_registry (env_parse_gv env)" obj rd c q rs]
  show ?thesis by (auto simp: default_chain_def component_defs no_verdict_def)
qed

lemma expired_without_the_reader:
  assumes "Classify (build_classifier cfg env) now obj = Inr f" "f_class f = ClassExpired"
  shows "Classify (build_classifier cfg (env\<lparr>env_classify_reader := rd\<rparr>)) now obj = Inr f"
proof -
  let ?early = "take 4 (default_chain cfg env)" and ?late = "drop 4 (default_chain cfg env)"
  let ?rd = "env_classify_reader env"
  have chain: "default_chain cfg (env\<lparr>env_classify_reader := rd\<rparr>) = default_chain cfg env"
    by (simp add: default_chain_def)
  have split: "first_hit (settles r obj) (default_chain cfg env) =
      (case first_hit (settles r obj) ?early of None \<Rightarrow> first_hit (settles r obj) ?late | Some x \<Rightarrow> Some x)" for r
    using first_hit_append [of "settles r obj" ?early ?late] by (simp split: option.split)
  have same: "first_hit (settles rd obj) ?early = first_hit (settles ?rd obj) ?early"
  proof -
    have "first_hit (settles rd obj) ss = first_hit (settles ?rd obj) ss" if "set ss \<subseteq> set ?early" for ss
      using that early_strategies_ignore_the_reader [of _ cfg env rd obj ?rd]
      by (induction ss) (auto split: option.split)
    then show ?thesis by blast
  qed
  show ?thesis
  proof (cases "first_hit (settles ?rd obj) ?early")
    case (Some r)
    with assms(1) same show ?thesis
      by (simp add: Classify_eq build_classifier_def New_def chain split)
  next
    case None
    with assms have "\<exists>v. first_hit (settles ?rd obj) ?late = Some (Inr v) \<and> fst v = ClassExpired"
      by (auto simp: Classify_eq build_classifier_def New_def split undetermined_def split: option.splits)
    with late_strategies_never_expire show ?thesis by blast
  qed
qed

section \<open>Which object a reconcile deletes\<close>

definition deletion_authorised ::
    "config \<Rightarrow> string \<Rightarrow> kobject \<Rightarrow> resource_class \<Rightarrow> janitor_policy list \<Rightarrow> bool" where
  "deletion_authorised cfg kind obj c policies \<longleftrightarrow> \<not> DryRun cfg \<and> \<not> shielded c \<and>
     (o_annotations obj ''janitor.io/action'' = Some ''delete'' \<or>
      o_annotations obj ''janitor.io/action'' \<notin> {Some ''skip'', Some ''report'', Some ''delete''} \<and>
      (case find (\<lambda>p. targets_kind kind p \<and> targets_kind (gvk_kind (o_gvk obj)) p) policies of
         None \<Rightarrow> False
       | Some p \<Rightarrow> policy_mode p = ActionModeDelete \<and>
           f64_le (confidenceThreshold p ActionModeDelete) (class_confidence c)))"

text \<open>The object the executor reads again, if all its checks pass.\<close>

definition cleared_object :: "environment \<Rightarrow> kobject \<Rightarrow> kobject option" where
  "cleared_object env obj =
     (case rd_get (env_execute_reader env) obj (o_namespace obj) (o_name obj) of
        Inl _ \<Rightarrow> None
      | Inr x \<Rightarrow> if object_cleared (objectRefFrom obj) x then Some x else None)"

definition object_deletion_spec :: "config \<Rightarrow> environment \<Rightarrow> string \<Rightarrow> kobject \<Rightarrow> kobject option" where
  "object_deletion_spec cfg env kind obj =
     (case (classify_spec cfg env obj, cl_list_policies (env_client env)) of
        (Some c, Inr policies) \<Rightarrow>
          if deletion_authorised cfg kind obj c policies then cleared_object env obj else None
      | _ \<Rightarrow> None)"

fun request_kind :: "request \<Rightarrow> string" where
  "request_kind (NamespaceRequest _) = ''Namespace''"
| "request_kind (ConfigMapRequest _ _) = ''ConfigMap''"

fun request_controller :: "request \<Rightarrow> string" where
  "request_controller (NamespaceRequest _) = ''namespace''"
| "request_controller (ConfigMapRequest _ _) = ''configmap''"

fun getting_text :: "request \<Rightarrow> string" where
  "getting_text (NamespaceRequest name) = ''getting namespace '' @ name"
| "getting_text (ConfigMapRequest ns name) = ''getting configmap '' @ NamespacedName_String ns name"

fun request_get :: "environment \<Rightarrow> request \<Rightarrow> api_error + kobject" where
  "request_get env (NamespaceRequest name) = cl_get (env_client env) NamespaceType '''' name"
| "request_get env (ConfigMapRequest ns name) = cl_get (env_client env) ConfigMapType ns name"

text \<open>The object a reconcile works on: none when it is gone or a Namespace is going already.\<close>

definition request_object :: "environment \<Rightarrow> request \<Rightarrow> kobject option" where
  "request_object env req =
     (case request_get env req of
        Inl _ \<Rightarrow> None
      | Inr obj \<Rightarrow> if request_kind req = ''Namespace'' \<and> o_phase obj = ''Terminating'' then None else Some obj)"

definition deletion_spec :: "config \<Rightarrow> environment \<Rightarrow> request \<Rightarrow> kobject option" where
  "deletion_spec cfg env req =
     Option.bind (request_object env req) (object_deletion_spec cfg env (request_kind req))"

lemma cleared_namespace:
  "classify_spec cfg env obj = Some c \<Longrightarrow> \<not> shielded c \<Longrightarrow>
     namespace_cleared (set (ProtectedNamespaces cfg)) (objectRefFrom obj)"
  by (auto simp: classify_spec_def shielded_def namespace_cleared_def guarded_def split: if_splits)

lemma find_targets:
  "findMatchingPolicy f (filter (targets_kind kind) ps) =
     find (\<lambda>p. targets_kind kind p \<and> targets_kind (ref_kind (f_ref f)) p) ps"
  by (induction ps) (auto simp: findMatchingPolicy_eq targets_kind_iff)

lemma decision_authorised:
  assumes "Evaluate (NewDefaultEngine (DryRun cfg)) clock (o_annotations obj) f
      (filter (targets_kind kind) ps) = Inr d"
    and "f_ref f = objectRefFrom obj" "f_confidence f = class_confidence (f_class f)"
  shows "deletes_now d \<longleftrightarrow> deletion_authorised cfg kind obj (f_class f) ps"
  unfolding Evaluate_deletes [OF assms(1)] deletion_authorised_def find_targets assms(2,3)
    meets_threshold_def annotationActionOverride_def
  by (auto split: option.splits)

lemma decided_pipeline:
  fixes cfg env ctl kind what rid obj s
  defines "R \<equiv> reconcile_object (build_deps cfg env) ctl kind what rid
      (listMatchingPoliciesForKind (env_client env)) obj s"
  obtains (unclassified) "classify_spec cfg env obj = None" "fx_deletes (snd R) = fx_deletes s" "isl (fst R)"
  | (unlisted) err c where "classify_spec cfg env obj = Some c" "cl_list_policies (env_client env) = Inl err"
      "fx_deletes (snd R) = fx_deletes s" "isl (fst R)"
  | (decided) f policies d s1 where "classify_spec cfg env obj = Some (f_class f)"
      "cl_list_policies (env_client env) = Inr policies" "f_ref f = objectRefFrom obj"
      "deletes_now d \<longleftrightarrow> deletion_authorised cfg kind obj (f_class f) policies"
      "d_action d \<le> ActionDelete" "fx_deletes s1 = fx_deletes s"
      "fx_deletes (snd R) = fx_deletes (snd (Execute (build_executor cfg env) obj f d s1))"
      "isl (fst R) \<longleftrightarrow> fst (Execute (build_executor cfg env) obj f d s1) \<noteq> None"
proof (cases rule: Classify_spec_cases [of cfg env "ck_classify (env_clock env)" obj])
  case (error err)
  then show thesis
    by (intro unclassified) (simp_all add: R_def reconcile_object_def)
next
  case f: (found f)
  let ?f = "f\<lparr>f_reconcile_id := rid\<rparr>"
  show thesis
  proof (cases "cl_list_policies (env_client env)")
    case (Inl err)
    with f show thesis
      by (intro unlisted) (simp_all add: R_def reconcile_object_def listMatchingPoliciesForKind_def Let_def)
  next
    case ps: (Inr policies)
    let ?ps = "filter (targets_kind kind) policies"
    obtain d where d: "Evaluate (NewDefaultEngine (DryRun cfg)) (ck_evaluate (env_clock env))
        (o_annotations obj) ?f ?ps = Inr d"
      using engine.total by blast
    obtain s1 where "fx_deletes s1 = fx_deletes s"
      "fx_deletes (snd R) = fx_deletes (snd (Execute (build_executor cfg env) obj ?f d s1))"
      "isl (fst R) \<longleftrightarrow> fst (Execute (build_executor cfg env) obj ?f d s1) \<noteq> None"
      by (rule wired.object_decided [where cfg = cfg and env = env and obj = obj and f = f and kind = kind
            and lp = "listMatchingPoliciesForKind (env_client env)" and ps = ?ps and rid = rid and d = d
            and ctl = ctl and what = what and s = s])
         (use f(1) ps d in \<open>simp_all add: R_def listMatchingPoliciesForKind_def\<close>)
    moreover have "deletes_now d \<longleftrightarrow> deletion_authorised cfg kind obj (f_class f) policies"
      using decision_authorised [OF d] f by simp
    ultimately show thesis
      using f ps engine.declared [OF d] by (intro decided [of ?f policies d s1]) simp_all
  qed
qed

lemma object_deletes_exactly:
  "fx_deletes (snd (reconcile_object (build_deps cfg env) ctl kind what rid
       (listMatchingPoliciesForKind (env_client env)) obj s)) =
     fx_deletes s @ (case object_deletion_spec cfg env kind obj of None \<Rightarrow> [] | Some x \<Rightarrow> [x])"
proof (cases rule: decided_pipeline [of cfg env obj ctl kind what rid s])
  case (decided f policies d s1)
  have "namespace_cleared (set (ProtectedNamespaces cfg)) (objectRefFrom obj)"
    if "deletion_authorised cfg kind obj (f_class f) policies"
    using that cleared_namespace [OF decided(1)] by (simp add: deletion_authorised_def)
  with decided show ?thesis
    by (auto simp: Execute_deletes object_deletion_spec_def cleared_object_def preflight_cleared_iff
        split: sum.split)
qed (simp_all add: object_deletion_spec_def)

section \<open>When a reconcile fails\<close>

definition execution_fails :: "environment \<Rightarrow> kobject \<Rightarrow> bool" where
  "execution_fails env obj \<longleftrightarrow>
     (case rd_get (env_execute_reader env) obj (o_namespace obj) (o_name obj) of
        Inl err \<Rightarrow> \<not> IsNotFound (ApiErr err)
      | Inr x \<Rightarrow> \<not> object_cleared (objectRefFrom obj) x \<or>
          (\<exists>err. cl_delete (env_client env) x = Some err \<and> \<not> IsNotFound (ApiErr err)))"

definition object_failure_spec :: "config \<Rightarrow> environment \<Rightarrow> string \<Rightarrow> kobject \<Rightarrow> bool" where
  "object_failure_spec cfg env kind obj \<longleftrightarrow>
     (case (classify_spec cfg env obj, cl_list_policies (env_client env)) of
        (Some c, Inr policies) \<Rightarrow> deletion_authorised cfg kind obj c policies \<and> execution_fails env obj
      | _ \<Rightarrow> True)"

definition failure_spec :: "config \<Rightarrow> environment \<Rightarrow> request \<Rightarrow> bool" where
  "failure_spec cfg env req \<longleftrightarrow>
     (case request_get env req of
        Inl err \<Rightarrow> \<not> IsNotFound (ApiErr err)
      | Inr _ \<Rightarrow>
        (case request_object env req of
           None \<Rightarrow> False
         | Some obj \<Rightarrow> object_failure_spec cfg env (request_kind req) obj))"

lemma object_fails_exactly:
  "isl (fst (reconcile_object (build_deps cfg env) ctl kind what rid
       (listMatchingPoliciesForKind (env_client env)) obj s)) \<longleftrightarrow> object_failure_spec cfg env kind obj"
proof (cases rule: decided_pipeline [of cfg env obj ctl kind what rid s])
  case (decided f policies d s1)
  show ?thesis
  proof (cases "deletes_now d")
    case True
    with decided have "namespace_cleared (ex_protected_ns (build_executor cfg env)) (f_ref f)"
      using cleared_namespace [OF decided(1)] by (simp add: deletion_authorised_def)
    from executor_delete_fails [OF this, of obj d s1] decided True show ?thesis
      by (simp add: Execute_deletes_now object_failure_spec_def execution_fails_def split: sum.split)
  next
    case False
    with decided show ?thesis
      by (auto simp: object_failure_spec_def Execute_def deletes_now_def)
  qed
qed (simp_all add: object_failure_spec_def)

text \<open>The two controllers agree up to the labels.\<close>

lemma reconcile_cases:
  obtains (absent) err where "request_get env req = Inl err" "IsNotFound (ApiErr err)" "request_object env req = None"
      "\<And>s. reconcile cfg env req s = (Inr 0, metered (ObserveReconcileDuration (request_controller req)) s)"
  | (unread) err where "request_get env req = Inl err" "\<not> IsNotFound (ApiErr err)" "request_object env req = None"
      "\<And>s. reconcile cfg env req s =
         (fst (fail_reconcile (request_controller req) (request_kind req) (getting_text req) (ApiErr err) s),
          metered (ObserveReconcileDuration (request_controller req))
            (snd (fail_reconcile (request_controller req) (request_kind req) (getting_text req) (ApiErr err) s)))"
  | (leaving) obj where "request_get env req = Inr obj" "request_object env req = None"
      "\<And>s. reconcile cfg env req s =
         (Inr (ScanInterval cfg), metered (ObserveReconcileDuration (request_controller req)) s)"
  | (object) obj what rid where "request_get env req = Inr obj" "request_object env req = Some obj"
      "\<And>s. reconcile cfg env req s =
         (fst (reconcile_object (build_deps cfg env) (request_controller req) (request_kind req) what rid
            (listMatchingPoliciesForKind (env_client env)) obj s),
          metered (ObserveReconcileDuration (request_controller req))
            (snd (reconcile_object (build_deps cfg env) (request_controller req) (request_kind req) what rid
              (listMatchingPoliciesForKind (env_client env)) obj s)))"
proof (cases req)
  case (NamespaceRequest name)
  show thesis
  proof (cases "request_get env req")
    case (Inl err)
    with NamespaceRequest absent unread show thesis
      by (cases "IsNotFound (ApiErr err)")
         (simp_all add: request_object_def NamespaceReconciler_Reconcile_def Let_def)
  next
    case (Inr obj)
    show thesis
    proof (cases "o_phase obj = ''Terminating''")
      case True
      with NamespaceRequest Inr leaving show thesis
        by (simp add: request_object_def NamespaceReconciler_Reconcile_def Let_def)
    next
      case False
      show thesis
        by (rule object [of obj "''namespace '' @ name" name])
           (use NamespaceRequest Inr False in
             \<open>simp_all add: request_object_def NamespaceReconciler_Reconcile_def listMatchingPolicies_eq Let_def\<close>)
    qed
  qed
next
  case (ConfigMapRequest ns name)
  show thesis
  proof (cases "request_get env req")
    case (Inl err)
    with ConfigMapRequest absent unread show thesis
      by (cases "IsNotFound (ApiErr err)")
         (simp_all add: request_object_def ConfigMapReconciler_Reconcile_def Let_def)
  next
    case (Inr obj)
    show thesis
      by (rule object [of obj "''configmap '' @ NamespacedName_String ns name" "NamespacedName_String ns name"])
         (use ConfigMapRequest Inr in
           \<open>simp_all add: request_object_def ConfigMapReconciler_Reconcile_def Let_def\<close>)
  qed
qed

lemma reconcile_deletes_exactly:
  "fx_deletes (snd (reconcile cfg env req s)) =
     fx_deletes s @ (case deletion_spec cfg env req of None \<Rightarrow> [] | Some x \<Rightarrow> [x])"
  by (cases rule: reconcile_cases [of env req cfg])
     (simp_all add: deletion_spec_def object_deletes_exactly)

lemma reconcile_fails_exactly:
  "isl (fst (reconcile cfg env req s)) \<longleftrightarrow> failure_spec cfg env req"
  by (cases rule: reconcile_cases [of env req cfg])
     (simp_all add: failure_spec_def object_fails_exactly del: IsNotFound.simps)

section \<open>The Events of a reconcile\<close>

lemma found_class:
  assumes "Classify (build_classifier cfg env) now obj = Inr f"
  shows "classify_spec cfg env obj = Some (f_class f)" "f_class f \<in> default_classes"
    "f_ref f = objectRefFrom obj"
  by (cases rule: Classify_spec_cases [of cfg env now obj]; use assms in simp)+

lemma declared_action_string: "a \<le> ActionDelete \<Longrightarrow> action_string a \<noteq> ''''"
  by auto

lemma event_reason_Deleted: "event_reason_string r = ''Deleted'' \<longleftrightarrow> r = ReasonDeleted"
  by (cases r) auto

lemma object_events_exactly:
  "length (fx_events (snd (reconcile_object (build_deps cfg env) ctl kind what rid
       (listMatchingPoliciesForKind (env_client env)) obj s))) = length (fx_events s) +
     (if object_failure_spec cfg env kind obj \<or> classify_spec cfg env obj = Some ClassActive then 0 else 1)"
proof (cases rule: wired.object_stages [of cfg env ctl kind what rid
      "listMatchingPoliciesForKind (env_client env)" obj s])
  case (failed err s1)
  with object_fails_exactly [of cfg env ctl kind what rid obj s] show ?thesis by simp
next
  case (refused f ps d s1 err)
  with object_fails_exactly [of cfg env ctl kind what rid obj s] show ?thesis by (simp add: executor.silent)
next
  case (executed f ps d s1 s2)
  have "\<not> object_failure_spec cfg env kind obj"
    using object_fails_exactly [of cfg env ctl kind what rid obj s] executed(9) by simp
  moreover have "action_string (d_action d) \<noteq> ''''"
    by (intro declared_action_string wired.declared [OF executed(3)])
  moreover have "class_string (f_class f) = ''active'' \<longleftrightarrow> f_class f = ClassActive"
    "class_string (f_class f) \<noteq> ''unknown''"
    using found_class(2) [of cfg env "ck_classify (env_clock env)" obj f] executed(1)
    by (auto simp: default_classes_def)
  moreover have "fx_events s2 = fx_events s"
    using executed(5,8) by (simp add: executor.silent)
  ultimately show ?thesis
    using executed found_class(1) [of cfg env "ck_classify (env_clock env)" obj f]
    by (simp add: Report_event)
qed

text \<open>When \<open>Execute\<close> reports success for a deletion, the object is deleted or was gone.\<close>

lemma Execute_success:
  assumes "deletes_now d" "fst (Execute e obj f d s) = None"
  obtains (gone) err where "rd_get (ex_api_reader e) obj (ref_namespace (f_ref f)) (ref_name (f_ref f)) = Inl err"
      "IsNotFound (ApiErr err)"
  | (sent) x where "fx_deletes (snd (Execute e obj f d s)) = fx_deletes s @ [x]"
      "preflight_cleared (ex_protected_ns e) (f_ref f) x"
proof (cases "namespace_cleared (ex_protected_ns e) (f_ref f)")
  case False
  with executor_delete_namespace [OF False, of obj d s] assms show thesis
    by (auto simp: Execute_deletes_now)
next
  case True
  show thesis
  proof (cases "rd_get (ex_api_reader e) obj (ref_namespace (f_ref f)) (ref_name (f_ref f))")
    case (Inl err)
    with executor_delete_fails [OF True, of obj d s] assms show thesis
      by (intro gone [of err]) (simp_all add: Execute_deletes_now del: IsNotFound.simps)
  next
    case (Inr x)
    with executor_delete_fails [OF True, of obj d s] assms True
    have "preflight_cleared (ex_protected_ns e) (f_ref f) x"
      by (simp add: Execute_deletes_now preflight_cleared_iff)
    with Inr assms(1) show thesis
      by (intro sent [of x]) (simp_all add: Execute_deletes)
  qed
qed

lemma object_deleted_event:
  fixes cfg env ctl kind what rid obj s
  defines "R \<equiv> reconcile_object (build_deps cfg env) ctl kind what rid
      (listMatchingPoliciesForKind (env_client env)) obj s"
  assumes "fx_events (snd R) = fx_events s @ [ev]" "evt_reason ev = ''Deleted''"
  shows "evt_object ev = obj" "classify_spec cfg env obj = Some ClassExpired" "\<not> DryRun cfg"
    "(\<exists>x. fx_deletes (snd R) = fx_deletes s @ [x]) \<or>
     (\<exists>err. rd_get (env_execute_reader env) obj (o_namespace obj) (o_name obj) = Inl err \<and>
        IsNotFound (ApiErr err))"
proof -
  note R = R_def
  have "evt_object ev = obj \<and> classify_spec cfg env obj = Some ClassExpired \<and> \<not> DryRun cfg \<and>
    ((\<exists>x. fx_deletes (snd R) = fx_deletes s @ [x]) \<or>
     (\<exists>err. rd_get (env_execute_reader env) obj (o_namespace obj) (o_name obj) = Inl err \<and>
        IsNotFound (ApiErr err)))"
  proof (cases rule: wired.object_stages [of cfg env ctl kind what rid
        "listMatchingPoliciesForKind (env_client env)" obj s])
    case (executed f ps d s1 s2)
    let ?f = "f\<lparr>f_reconcile_id := rid\<rparr>"
    have s2: "fx_events s2 = fx_events s"
      using executed(5,8) by (simp add: executor.silent)
    with assms(2) have R': "R = (Inr (ScanInterval cfg), snd (Report (NewEventReporter True) obj ?f d s2))"
      using executed(9) by (auto simp: R split: if_splits)
    from assms(2) have ev: "ev = \<lparr>evt_object = obj, evt_type = ''Normal'',
        evt_reason = event_reason_string (fst (buildEvent ?f d)), evt_message = snd (buildEvent ?f d)\<rparr>"
      by (simp add: R' Report_event s2)
    with assms(3) have "f_class f = ClassExpired" and now: "deletes_now d"
      by (auto simp: event_reason_Deleted buildEvent_Deleted)
    moreover have "\<not> DryRun cfg"
      using executed(3) engine.dry_never_deletes [of "NewDefaultEngine (DryRun cfg)"] now by auto
    moreover have "f_ref f = objectRefFrom obj"
      using found_class(3) [of cfg env "ck_classify (env_clock env)" obj f] executed(1) by simp
    moreover have "fx_deletes (snd R) = fx_deletes s2"
      by (simp add: R' Report_event)
    moreover have "classify_spec cfg env obj = Some (f_class f)"
      using found_class(1) [of cfg env "ck_classify (env_clock env)" obj f] executed(1) by simp
    moreover have "(\<exists>x. fx_deletes s2 = fx_deletes s @ [x]) \<or>
      (\<exists>err. rd_get (env_execute_reader env) obj (ref_namespace (f_ref f)) (ref_name (f_ref f)) = Inl err \<and>
         IsNotFound (ApiErr err))"
      using executed(4,7,8)
      by (cases rule: Execute_success [OF now, of "build_executor cfg env" obj ?f s1])
         (simp_all del: IsNotFound.simps)
    ultimately show ?thesis by (simp add: ev del: IsNotFound.simps)
  qed (use assms(2) in \<open>simp_all add: R executor.silent\<close>)
  then show "evt_object ev = obj" "classify_spec cfg env obj = Some ClassExpired" "\<not> DryRun cfg"
    "(\<exists>x. fx_deletes (snd R) = fx_deletes s @ [x]) \<or>
     (\<exists>err. rd_get (env_execute_reader env) obj (o_namespace obj) (o_name obj) = Inl err \<and>
        IsNotFound (ApiErr err))" by blast+
qed

section \<open>Consequences of the specifications\<close>

lemma object_deletion_spec_Some:
  "object_deletion_spec cfg env kind obj = Some x \<longleftrightarrow>
     (\<exists>c policies. classify_spec cfg env obj = Some c \<and> cl_list_policies (env_client env) = Inr policies \<and>
        deletion_authorised cfg kind obj c policies \<and> cleared_object env obj = Some x)"
  by (auto simp: object_deletion_spec_def split: option.split sum.split)

lemma cleared_object_Some:
  "cleared_object env obj = Some x \<longleftrightarrow>
     rd_get (env_execute_reader env) obj (o_namespace obj) (o_name obj) = Inr x \<and> object_cleared (objectRefFrom obj) x"
  by (auto simp: cleared_object_def split: sum.split)

lemma deletion_spec_Some:
  assumes "deletion_spec cfg env req = Some x"
  shows "\<exists>obj. request_object env req = Some obj \<and> object_cleared (objectRefFrom obj) x" "\<not> DryRun cfg"
proof -
  from assms obtain obj where obj: "request_object env req = Some obj"
    and x: "object_deletion_spec cfg env (request_kind req) obj = Some x"
    by (auto simp: deletion_spec_def bind_eq_Some_conv)
  then show "\<exists>obj. request_object env req = Some obj \<and> object_cleared (objectRefFrom obj) x"
    by (auto simp: object_deletion_spec_Some cleared_object_Some)
  from x show "\<not> DryRun cfg"
    by (auto simp: object_deletion_spec_Some deletion_authorised_def)
qed

lemma deletion_spec_dry: "DryRun cfg \<Longrightarrow> deletion_spec cfg env req = None"
  using deletion_spec_Some(2) by (cases "deletion_spec cfg env req") auto

lemma deletion_spec_guarded:
  "request_object env req = Some obj \<Longrightarrow> guarded cfg obj \<Longrightarrow> deletion_spec cfg env req = None"
  by (simp add: deletion_spec_def object_deletion_spec_def classify_spec_def deletion_authorised_def
      shielded_def split: sum.split)

end
