(* ===== verification/Runs.thy ===== *)
theory Runs
  imports Pipeline
begin

text \<open>
  Runs of the controller: sequences of reconciles from startup, each in an environment of
  its own. The effects of a run and its counters are computed from the requests alone, and
  the reachable states of the step relation are the ends of runs.
\<close>

fun run :: "config \<Rightarrow> (environment \<times> request) list \<Rightarrow> effects \<Rightarrow> (error + duration) list \<times> effects" where
  "run cfg [] s = ([], s)"
| "run cfg ((env, req) # w) s =
     (case reconcile cfg env req s of
        (result, s1) \<Rightarrow> (case run cfg w s1 of (results, s2) \<Rightarrow> (result # results, s2)))"

inductive_cases janitor_stepE: "janitor_step cfg s s'"
inductive_simps janitor_step_iff: "janitor_step cfg s s'"

lemma snd_run_Cons [simp]: "snd (run cfg ((env, req) # w) s) = snd (run cfg w (snd (reconcile cfg env req s)))"
  by (simp split: prod.split)

lemma fst_run_Cons [simp]:
  "fst (run cfg ((env, req) # w) s) =
     fst (reconcile cfg env req s) # fst (run cfg w (snd (reconcile cfg env req s)))"
  by (simp split: prod.split)

lemma snd_run_append: "snd (run cfg (v @ w) s) = snd (run cfg w (snd (run cfg v s)))"
  by (induction v arbitrary: s) (auto simp del: run.simps(2))

lemma reachable_run: "reachable cfg s \<Longrightarrow> reachable cfg (snd (run cfg w s))"
proof (induction w arbitrary: s)
  case (Cons a w)
  obtain env req where a: "a = (env, req)" by (cases a)
  have "janitor_step cfg s (snd (reconcile cfg env req s))"
    by (rule janitor_step.reconciles [of _ env req _ "fst (reconcile cfg env req s)"]) simp
  from Cons.IH [OF reachable.stepped [OF Cons.prems this]] show ?case
    by (simp add: a del: run.simps(2))
qed simp

lemma run_of_reachable:
  "reachable cfg s \<Longrightarrow> \<exists>w s0. starts cfg s0 \<and> s = snd (run cfg w s0)"
proof (induction rule: reachable.induct)
  case (started s)
  then show ?case by (intro exI [of _ "[]"] exI [of _ s]) simp
next
  case (stepped s s')
  then obtain w s0 where s0: "starts cfg s0" "s = snd (run cfg w s0)" by blast
  from stepped.hyps(2) obtain env req where "s' = snd (reconcile cfg env req s)"
    by (auto elim!: janitor_stepE) (metis snd_conv)
  with s0 have "s' = snd (run cfg (w @ [(env, req)]) s0)"
    by (simp add: snd_run_append del: run.simps(2))
  with s0 show ?case by blast
qed

section \<open>What a run has done\<close>

lemma main_program_Inr:
  "main_program foreign bt args = Inr r \<longleftrightarrow>
     (\<exists>cfg lib. parse_flags foreign args (Default, zapOpts Default) = Inr (cfg, lib) \<and> Validate cfg = None \<and>
        otel_ready (bt_otel bt) (OTelEndpoint cfg) \<and> bt_kubeconfig bt lib \<and> bt_manager bt cfg \<and>
        NamespaceReconciler_SetupWithManager (bt_complete bt) = None \<and>
        ConfigMapReconciler_SetupWithManager (bt_complete bt) = None \<and> bt_healthz bt \<and> bt_readyz bt \<and>
        r = \<lparr>run_config = cfg, run_library = lib, run_effects = new_effects new_recorder,
          run_tracing = tracing_for (OTelEndpoint cfg)\<rparr>)"
  by (auto simp: main_program_def Let_def DefaultRecorder_def Register_metrics_def Default_def
        Tracing_Init_Inr dest: Tracing_Init_Inl split: sum.split option.split)

lemma starts_facts:
  assumes "starts cfg s"
  shows "Validate cfg = None" "s = new_effects new_recorder" "fixed_part cfg = fixed_part Default"
  using assms by (auto simp: starts_def main_program_Inr dest: parse_flags_fixed)

lemma run_deletes:
  "fx_deletes (snd (run cfg w s)) =
     fx_deletes s @ List.map_filter (\<lambda>(env, req). deletion_spec cfg env req) w"
  by (induction w arbitrary: s)
     (auto simp: reconcile_deletes_exactly map_filter_simps simp del: run.simps(2) split: option.split)

lemma run_results:
  "map isl (fst (run cfg w s)) = map (\<lambda>(env, req). failure_spec cfg env req) w"
  by (induction w arbitrary: s) (auto simp: reconcile_fails_exactly simp del: run.simps(2))

section \<open>Counters\<close>

lemma reconcile_errors:
  assumes "c \<noteq> ''unknown''"
  shows "m_errors (fx_metrics (snd (reconcile cfg env req s))) (c, k) = m_errors (fx_metrics s) (c, k) +
     (if failure_spec cfg env req \<and> (c, k) = (request_controller req, request_kind req) then 1 else 0)"
  unfolding reconcile_fails_exactly [of cfg env req s, symmetric]
  by (cases rule: reconcile_cases [of env req cfg])
     (use assms in \<open>auto simp: wired.object_errors inc_def\<close>)

lemma run_errors:
  assumes "c \<noteq> ''unknown''"
  shows "m_errors (fx_metrics (snd (run cfg w s))) (c, k) = m_errors (fx_metrics s) (c, k) +
     length (filter (\<lambda>(env, req). failure_spec cfg env req \<and>
       (c, k) = (request_controller req, request_kind req)) w)"
proof (induction w arbitrary: s)
  case (Cons a w)
  obtain env req where "a = (env, req)" by (cases a)
  with Cons.IH reconcile_errors [OF assms] show ?case by (simp del: run.simps(2))
qed simp

lemma reconcile_durations:
  "m_durations (fx_metrics (snd (reconcile cfg env req s))) =
     inc (m_durations (fx_metrics s)) (request_controller req)"
  by (cases rule: reconcile_cases [of env req cfg])
     (simp_all add: frame_simps wired.object_durations)

lemma run_durations:
  "m_durations (fx_metrics (snd (run cfg w s))) c = m_durations (fx_metrics s) c +
     length (filter (\<lambda>(env, req). request_controller req = c) w)"
  by (induction w arbitrary: s) (auto simp: reconcile_durations inc_def simp del: run.simps(2))

lemma run_failures:
  "length (filter (\<lambda>(result, env, r). P r \<and> isl result) (zip (fst (run cfg w s)) w)) =
     length (filter (\<lambda>(env, r). failure_spec cfg env r \<and> P r) w)"
proof (induction w arbitrary: s)
  case (Cons a w)
  obtain env req where "a = (env, req)" by (cases a)
  with Cons.IH show ?case by (simp add: reconcile_fails_exactly del: run.simps(2))
qed simp

end
