(* ===== verification/SampleRuns.thy ===== *)
theory SampleRuns
  imports Runs Samples
begin

text \<open>
  The sample cluster as an environment of the controller, two hours after its ConfigMap was
  created, and the default configuration in real mode, started by its command line: what
  the witnesses of the properties of whole reconciles are evaluated on.
\<close>

definition sample_env :: "kobject \<Rightarrow> janitor_policy list \<Rightarrow> environment" where
  "sample_env obj policies =
     \<lparr>env_client = sample_client obj policies, env_classify_reader = sample_reader obj [],
      env_execute_reader = sample_reader obj [], env_parse_gv = sample_parser,
      env_clock = \<lparr>ck_ttl = later 2, ck_expires_at = later 2, ck_classify = later 2, ck_evaluate = later 2\<rparr>\<rparr>"

lemma sample_env_simps:
  "env_clock (sample_env obj ps) = \<lparr>ck_ttl = later 2, ck_expires_at = later 2, ck_classify = later 2, ck_evaluate = later 2\<rparr>"
  "cl_list_policies (env_client (sample_env obj ps)) = Inr ps"
  by (simp_all add: sample_env_def sample_client_def)

definition real_mode :: config where
  "real_mode = Default\<lparr>DryRun := False\<rparr>"

definition sample_request :: request where
  "sample_request = ConfigMapRequest ''shop'' ''cache''"

lemma ParseDuration_1h: "ParseDuration ''1h'' = Inr Hour"
  using ParseDuration_hours [of 1] by (simp add: uint_dec.simps digit_char_def Hour_def)

lemma Hour_facts: "Hour \<noteq> 0" "Hour \<noteq> maxDuration" "sint Hour = 3600000000000"
  by (simp_all add: Hour_def maxDuration_def)

lemmas config_defs = real_mode_def Default_def

lemma sample_request_object:
  "o_type obj = ConfigMapType \<Longrightarrow> o_namespace obj = ''shop'' \<Longrightarrow> o_name obj = ''cache'' \<Longrightarrow>
     request_object (sample_env obj policies) sample_request = Some obj"
  by (simp add: request_object_def sample_env_def sample_request_def sample_client_def)

lemma sample_expired:
  "classify_spec cfg (sample_env sample_configmap ps) sample_configmap = Some ClassExpired"
  if "ProtectedNamespaces cfg = ProtectedNamespaces Default"
  using that
  by (simp add: classify_spec_def guarded_def Default_def sample_configmap_def ttl_spec_def sample_env_def
        ParseDuration_1h ttl_elapsed_iff Hour_facts later_def)

lemma sample_cleared:
  "o_namespace obj = ''shop'' \<Longrightarrow> o_name obj = ''cache'' \<Longrightarrow>
     rd_get (env_execute_reader (sample_env obj ps)) obj ''shop'' ''cache'' = Inr obj"
  by (simp add: sample_env_def sample_reader_def)

definition sample_boot :: boot where
  "sample_boot = \<lparr>bt_otel = \<lparr>otlp_exporter = \<lambda>_. None, otel_resource = \<lambda>_. None\<rparr>, bt_kubeconfig = \<lambda>_. True,
     bt_manager = \<lambda>_. True, bt_complete = \<lambda>_. None, bt_healthz = True, bt_readyz = True\<rparr>"

lemma sample_starts:
  assumes "parse_flags (\<lambda>_. None) args (Default, zapOpts Default) = Inr (cfg, lib)" "cfg = real_mode \<or> cfg = Default"
  shows "main_program (\<lambda>_. None) sample_boot args =
     Inr \<lparr>run_config = cfg, run_library = lib, run_effects = new_effects new_recorder,
       run_tracing = tracing_for (OTelEndpoint cfg)\<rparr>"
  using assms
  by (auto simp: main_program_Inr sample_boot_def otel_ready_def NamespaceReconciler_SetupWithManager_def
        ConfigMapReconciler_SetupWithManager_def Validate_def config_defs Minute_def Second_def f64_consts)

lemma real_mode_flag: "parse_flags (\<lambda>_. None) [''--dry-run=false''] (Default, zapOpts Default) =
    Inr (real_mode, zapOpts Default)"
  by (simp add: parseOne_def flag_name_def lookup_flag_def bound_flags_def ParseBool_def real_mode_def)

lemma real_mode_starts: "starts real_mode (new_effects new_recorder)"
  using sample_starts [OF real_mode_flag] unfolding starts_def
  by (metis running.select_convs(1,3))

lemma default_starts: "starts Default (new_effects new_recorder)"
  using sample_starts [of "[]" Default] unfolding starts_def
  by (metis parse_flags.simps(1) running.select_convs(1,3))

lemma sample_deletion:
  "deletion_spec real_mode (sample_env sample_configmap [sample_policy]) sample_request = Some sample_configmap"
proof -
  have "deletion_authorised real_mode ''ConfigMap'' sample_configmap ClassExpired [sample_policy]"
    by (simp add: deletion_authorised_def config_defs shielded_def sample_configmap_def sample_policy_def
          targets_kind_def confidenceThreshold_def defaultDeleteConfidenceThreshold_def confidence_defs
          class_confidence_def)
  moreover have "cleared_object (sample_env sample_configmap [sample_policy]) sample_configmap = Some sample_configmap"
    by (simp add: cleared_object_def sample_env_def sample_reader_def object_cleared_def sample_configmap_def)
  ultimately show ?thesis
    using sample_request_object [of sample_configmap "[sample_policy]"] sample_expired [of real_mode "[sample_policy]"]
    by (simp add: deletion_spec_def object_deletion_spec_def sample_request_def sample_configmap_def
          real_mode_def) (simp add: sample_env_def sample_client_def)
qed

end
