(* ===== verification/Cluster.thy ===== *)
theory Cluster
  imports SampleRuns
begin

text \<open>
  The cluster around the controller. What the API server stores is a map from keys to
  objects; a trace interleaves reconciles with changes from outside. Of the server only
  documented behaviour is used: it may do anything to what a Delete request names and, when
  that is a Namespace, to everything in it, and leaves the rest alone; an object it returns
  has the name that was asked for. Otherwise the answers a reconcile gets are arbitrary, so a
  cache may lag by any amount.
\<close>

section \<open>Objects of the cluster\<close>

type_synonym object_key = "go_type \<times> string \<times> string"
type_synonym cluster = "object_key \<rightharpoonup> kobject"

definition object_key :: "kobject \<Rightarrow> object_key" where
  "object_key x = (o_type x, o_namespace x, o_name x)"

definition key_namespace :: "object_key \<Rightarrow> string" where
  "key_namespace k = fst (snd k)"

fun request_key :: "request \<Rightarrow> object_key" where
  "request_key (NamespaceRequest name) = (NamespaceType, '''', name)"
| "request_key (ConfigMapRequest ns name) = (ConfigMapType, ns, name)"

text \<open>
  What a Delete request may touch: the object it names and, when that is a Namespace, all it
  contains. Whether and when these objects go is left open, so refused requests, finalizers and
  slow deletions are covered; the step relation below only uses that the rest stays.
\<close>

definition falls_with :: "kobject \<Rightarrow> object_key \<Rightarrow> bool" where
  "falls_with x k \<longleftrightarrow> k = object_key x \<or>
     (o_type x = NamespaceType \<and> key_namespace k \<noteq> '''' \<and> key_namespace k = o_name x)"

text \<open>The requests a reconcile has added.\<close>

definition sent :: "effects \<Rightarrow> effects \<Rightarrow> kobject list" where
  "sent s s' = drop (length (fx_deletes s)) (fx_deletes s')"

definition answers_by_name :: "environment \<Rightarrow> bool" where
  "answers_by_name env \<longleftrightarrow>
     (\<forall>t ns name x. cl_get (env_client env) t ns name = Inr x \<longrightarrow> object_key x = (t, ns, name)) \<and>
     (\<forall>obj ns name x. rd_get (env_execute_reader env) obj ns name = Inr x \<longrightarrow> object_key x = (o_type obj, ns, name))"

section \<open>Traces\<close>

datatype world_label = Outside "object_key set" | Reconciles environment request

type_synonym world = "cluster \<times> effects"

inductive world_step :: "config \<Rightarrow> world \<Rightarrow> world_label \<Rightarrow> world \<Rightarrow> bool" for cfg where
  outside: "(\<And>k. k \<notin> ks \<Longrightarrow> c' k = c k) \<Longrightarrow> world_step cfg (c, s) (Outside ks) (c', s)"
| reconciles: "reconcile cfg env req s = (result, s') \<Longrightarrow>
     (\<And>k. \<not> list_ex (\<lambda>x. falls_with x k) (sent s s') \<Longrightarrow> c' k = c k) \<Longrightarrow>
     world_step cfg (c, s) (Reconciles env req) (c', s')"

inductive world_trace :: "config \<Rightarrow> world \<Rightarrow> world_label list \<Rightarrow> world \<Rightarrow> bool" for cfg where
  ends: "world_trace cfg w [] w"
| goes_on: "world_step cfg w l w' \<Longrightarrow> world_trace cfg w' ls w'' \<Longrightarrow> world_trace cfg w (l # ls) w''"

inductive_cases world_step_outsideE: "world_step cfg w (Outside ks) w'"
inductive_cases world_step_reconcilesE: "world_step cfg w (Reconciles env req) w'"
inductive_simps world_trace_Nil [simp]: "world_trace cfg w [] w'"
inductive_simps world_trace_Cons: "world_trace cfg w (l # ls) w'"

section \<open>What a reconcile can reach\<close>

lemma sent_reconcile:
  "sent s (snd (reconcile cfg env req s)) =
     (case deletion_spec cfg env req of None \<Rightarrow> [] | Some x \<Rightarrow> [x])"
  by (simp add: sent_def reconcile_deletes_exactly)

lemma request_object_key:
  assumes "answers_by_name env" "request_object env req = Some obj"
  shows "object_key obj = request_key req"
proof -
  from assms(2) have "request_get env req = Inr obj"
    by (auto simp: request_object_def split: sum.splits if_splits)
  with assms(1) show ?thesis by (cases req) (auto simp: answers_by_name_def)
qed

lemma deletion_spec_key:
  assumes "answers_by_name env" "deletion_spec cfg env req = Some x"
  shows "object_key x = request_key req"
proof -
  from assms(2) obtain obj where obj: "request_object env req = Some obj"
    and "cleared_object env obj = Some x"
    by (auto simp: deletion_spec_def bind_eq_Some_conv object_deletion_spec_Some)
  then have "object_key x = (o_type obj, o_namespace obj, o_name obj)"
    using assms(1) by (auto simp: cleared_object_Some answers_by_name_def)
  with request_object_key [OF assms(1) obj] show ?thesis by (simp add: object_key_def)
qed

text \<open>The requests that can bring an object down: its own and its Namespace's.\<close>

definition concerns :: "request \<Rightarrow> object_key \<Rightarrow> bool" where
  "concerns req k \<longleftrightarrow> request_key req = k \<or>
     (key_namespace k \<noteq> '''' \<and> request_key req = (NamespaceType, '''', key_namespace k))"

lemma falls_with_concerns:
  assumes "answers_by_name env" "deletion_spec cfg env req = Some x" "falls_with x k"
  shows "concerns req k"
  using deletion_spec_key [OF assms(1,2)] assms(3)
  by (cases req) (auto simp: falls_with_def concerns_def object_key_def)

text \<open>
  A reconcile leaves an object alone unless it is a request for it or its Namespace that
  reads an unguarded object.
\<close>

lemma reconcile_leaves_alone:
  assumes "world_step cfg w (Reconciles env req) w'" "answers_by_name env"
    and "\<And>obj. concerns req k \<Longrightarrow> request_object env req = Some obj \<Longrightarrow> guarded cfg obj"
  shows "fst w' k = fst w k"
proof -
  have "\<not> falls_with x k" if x: "deletion_spec cfg env req = Some x" for x
  proof
    assume "falls_with x k"
    from falls_with_concerns [OF assms(2) x this] have "concerns req k" .
    moreover from x obtain obj where "request_object env req = Some obj"
      by (auto simp: deletion_spec_def bind_eq_Some_conv)
    ultimately show False using assms(3) deletion_spec_guarded x by fastforce
  qed
  then have "\<not> list_ex (\<lambda>x. falls_with x k) (sent s (snd (reconcile cfg env req s)))" for s
    by (auto simp: sent_reconcile split: option.split)
  with assms(1) show ?thesis
    by (elim world_step_reconcilesE) (metis fst_conv snd_conv)
qed

lemma outside_leaves_alone: "world_step cfg w (Outside ks) w' \<Longrightarrow> k \<notin> ks \<Longrightarrow> fst w' k = fst w k"
  by (auto elim!: world_step_outsideE)

lemma guarded_objects_stay:
  assumes "world_trace cfg w ls w'"
    and "\<And>ks. Outside ks \<in> set ls \<Longrightarrow> k \<notin> ks"
    and "\<And>env req. Reconciles env req \<in> set ls \<Longrightarrow> answers_by_name env"
    and "\<And>env req obj. Reconciles env req \<in> set ls \<Longrightarrow> concerns req k \<Longrightarrow>
      request_object env req = Some obj \<Longrightarrow> guarded cfg obj"
  shows "fst w' k = fst w k"
  using assms
proof (induction rule: world_trace.induct)
  case (goes_on w l w' ls w'')
  have "fst w' k = fst w k"
  proof (cases l)
    case (Outside ks)
    with goes_on.prems(1) have "k \<notin> ks" by simp
    with goes_on.hyps(1) Outside show ?thesis by (simp add: outside_leaves_alone)
  next
    case (Reconciles env req)
    then have "answers_by_name env" by (intro goes_on.prems(2) [of env req]) simp
    moreover have "guarded cfg obj" if "concerns req k" "request_object env req = Some obj" for obj
      using goes_on.prems(3) [OF _ that] Reconciles by simp
    ultimately show ?thesis
      using goes_on.hyps(1) Reconciles by (simp add: reconcile_leaves_alone)
  qed
  moreover have "fst w'' k = fst w' k"
    by (rule goes_on.IH; meson goes_on.prems list.set_intros(2))
  ultimately show ?case by simp
qed simp

lemma concerned_object_in_namespace:
  assumes "answers_by_name env" "concerns req k" "request_object env req = Some obj"
    and "key_namespace k \<in> P \<or> (key_namespace k = '''' \<and> snd (snd k) \<in> P)"
  shows "o_namespace obj \<in> P \<or> (o_namespace obj = '''' \<and> o_name obj \<in> P)"
  using request_object_key [OF assms(1,3)] assms(2,4)
  by (cases req) (auto simp: concerns_def object_key_def key_namespace_def)

text \<open>An environment that differs in what the executor reads before it deletes.\<close>

definition rereads :: "environment \<Rightarrow> kobject \<Rightarrow> environment" where
  "rereads env x = env\<lparr>env_execute_reader := (env_execute_reader env)\<lparr>rd_get := \<lambda>_ _ _. Inr x\<rparr>\<rparr>"

lemma rereads_simps [simp]:
  "env_client (rereads env x) = env_client env" "env_classify_reader (rereads env x) = env_classify_reader env"
  "env_parse_gv (rereads env x) = env_parse_gv env" "env_clock (rereads env x) = env_clock env"
  "rd_get (env_execute_reader (rereads env x)) obj ns name = Inr x"
  by (simp_all add: rereads_def)

section \<open>Properties\<close>

text \<open>
  C12. Whatever happens around it, the controller leaves the system alone: however it is
  started, along every trace of reconciles and outside changes an object that is one of the
  four system namespaces, or lives in one, stays in the cluster as it is, unless it is changed
  from outside. The caches may be as stale as they like, as long as what they return bears the
  name that was asked for; and Namespaces may be deleted with all they contain.
\<close>

theorem system_objects_stay:
  assumes "main_program foreign bt args = Inr r" "world_trace (run_config r) w ls w'"
    and "key_namespace k \<in> {''kube-system'', ''kube-public'', ''default'', ''kube-node-lease''} \<or>
      (key_namespace k = '''' \<and> snd (snd k) \<in> {''kube-system'', ''kube-public'', ''default'', ''kube-node-lease''})"
    and "\<And>ks. Outside ks \<in> set ls \<Longrightarrow> k \<notin> ks"
    and "\<And>env req. Reconciles env req \<in> set ls \<Longrightarrow> answers_by_name env"
  shows "fst w' k = fst w k"
proof (rule guarded_objects_stay [OF assms(2,4,5)])
  fix env req obj
  assume l: "Reconciles env req \<in> set ls" and c: "concerns req k" and obj: "request_object env req = Some obj"
  have "starts (run_config r) (run_effects r)" using assms(1) by (auto simp: starts_def)
  then have "set (ProtectedNamespaces (run_config r)) = {''kube-system'', ''kube-public'', ''default'', ''kube-node-lease''}"
    using starts_facts(3) by (simp add: fixed_part_def Default_def)
  with concerned_object_in_namespace [OF assms(5) [OF l] c obj assms(3)]
  show "guarded (run_config r) obj" unfolding guarded_def by auto
qed

text \<open>
  C13. The executor reads an object again before it deletes it, but of that reading only the
  UID, the finalizers and the owners count: if a reconcile deletes an object, it also deletes
  any object with the same UID, finalizers and owners that it finds instead, so a protection
  annotation, a longer TTL or \<open>janitor.io/action=skip\<close> set after the cached copy was taken does
  not save the object.
\<close>

theorem late_changes_are_ignored:
  assumes "deletion_spec cfg env req = Some x"
    and "o_uid y = o_uid x" "o_finalizers y = o_finalizers x" "o_owners y = o_owners x"
  shows "fx_deletes (snd (reconcile cfg (rereads env y) req s)) = fx_deletes s @ [y]"
proof -
  from assms(1) obtain obj c policies where obj: "request_object env req = Some obj"
    and c: "classify_spec cfg env obj = Some c" "cl_list_policies (env_client env) = Inr policies"
      "deletion_authorised cfg (request_kind req) obj c policies" "cleared_object env obj = Some x"
    by (auto simp: deletion_spec_def bind_eq_Some_conv object_deletion_spec_Some)
  have "classify_spec cfg (rereads env y) obj = classify_spec cfg env obj"
    unfolding classify_spec_def ttl_spec_def expiry_spec_def owners_spec_def references_spec_def rereads_simps ..
  moreover have "request_object (rereads env y) req = request_object env req"
    by (cases req) (simp_all add: request_object_def)
  moreover have "cleared_object (rereads env y) obj = Some y"
    using c(4) assms(2-4) by (simp add: cleared_object_Some object_cleared_def)
  ultimately have "deletion_spec cfg (rereads env y) req = Some y"
    using obj c by (simp add: deletion_spec_def object_deletion_spec_def)
  then show ?thesis by (simp add: reconcile_deletes_exactly)
qed

section \<open>Witnesses\<close>

text \<open>The sample ConfigMap, protected after the cached copy was taken.\<close>

definition sample_kept :: kobject where
  "sample_kept = sample_configmap\<lparr>o_annotations := [''janitor.io/protected'' \<mapsto> ''true'']\<rparr>"

lemma sample_env_by_name: "answers_by_name (sample_env obj ps)"
  by (auto simp: answers_by_name_def sample_env_def sample_client_def sample_reader_def object_key_def split: if_splits)

theorem late_changes_are_ignored_witness:
  "fx_deletes (snd (reconcile real_mode (rereads (sample_env sample_configmap [sample_policy]) sample_kept)
     sample_request (new_effects new_recorder))) = [sample_kept] \<and>
   o_annotations sample_kept ''janitor.io/protected'' = Some ''true''"
proof -
  have "o_uid sample_kept = o_uid sample_configmap" "o_finalizers sample_kept = o_finalizers sample_configmap"
    "o_owners sample_kept = o_owners sample_configmap"
    by (simp_all add: sample_kept_def)
  from late_changes_are_ignored [OF sample_deletion this, of "new_effects new_recorder"]
  show ?thesis by (simp add: new_effects_def sample_kept_def)
qed

definition sample_system :: kobject where
  "sample_system = sample_configmap\<lparr>o_namespace := ''kube-system''\<rparr>"

theorem system_objects_stay_witness:
  "\<exists>env s'. world_trace real_mode ([(ConfigMapType, ''shop'', ''cache'') \<mapsto> sample_configmap]((ConfigMapType, ''kube-system'', ''cache'') \<mapsto> sample_system),
        new_effects new_recorder)
      [Outside {(ConfigMapType, ''shop'', ''cache'')}, Reconciles env (ConfigMapRequest ''kube-system'' ''cache'')]
      ([(ConfigMapType, ''shop'', ''cache'') \<mapsto> sample_configmap]((ConfigMapType, ''kube-system'', ''cache'') \<mapsto> sample_system,
         (ConfigMapType, ''shop'', ''cache'') := None), s') \<and>
    ([(ConfigMapType, ''shop'', ''cache'') \<mapsto> sample_configmap]((ConfigMapType, ''kube-system'', ''cache'') \<mapsto> sample_system,
         (ConfigMapType, ''shop'', ''cache'') := None)) (ConfigMapType, ''kube-system'', ''cache'') = Some sample_system"
proof -
  let ?k = "(ConfigMapType, ''kube-system'', ''cache'')" and ?gone = "(ConfigMapType, ''shop'', ''cache'')"
  let ?env = "sample_env sample_system [sample_policy]" and ?req = "ConfigMapRequest ''kube-system'' ''cache''"
  let ?c = "[(ConfigMapType, ''shop'', ''cache'') \<mapsto> sample_configmap](?k \<mapsto> sample_system)"
  let ?s = "new_effects new_recorder" let ?s' = "snd (reconcile real_mode ?env ?req ?s)"
  have "world_step real_mode (?c, ?s) (Outside {?gone}) (?c(?gone := None), ?s)"
    by (rule world_step.outside) simp
  moreover have "world_step real_mode (?c(?gone := None), ?s) (Reconciles ?env ?req) (?c(?gone := None), ?s')"
    by (rule world_step.reconciles [where result = "fst (reconcile real_mode ?env ?req ?s)"]) simp_all
  ultimately have trace: "world_trace real_mode (?c, ?s) [Outside {?gone}, Reconciles ?env ?req] (?c(?gone := None), ?s')"
    by (blast intro: world_trace.intros)
  have "fst (?c(?gone := None), ?s') ?k = fst (?c, ?s) ?k"
    by (rule system_objects_stay [OF sample_starts [OF real_mode_flag], simplified, OF trace])
       (auto simp: key_namespace_def sample_env_by_name)
  with trace show ?thesis by (intro exI conjI) simp_all
qed

end
