(* ===== verification/ErrorText.thy ===== *)
theory ErrorText
  imports Runs
begin

text \<open>
  The text of the errors, as \<open>fmt.Errorf\<close> and the \<open>Error\<close> methods render it. Elsewhere an
  error is a value of \<open>error\<close>; here it is printed, so that what a test or an operator sees
  of a failed reconcile can be stated. What \<open>time.Parse\<close> prints on a timestamp it cannot read
  is a parameter, as are the texts of the API errors, which the errors themselves hold.
\<close>

section \<open>Rendering\<close>

text \<open>
  The \<open>time\<close> package quotes strings on its own: a control character or a byte outside ASCII
  prints as \<open>\x\<close> and two digits.
\<close>

definition time_quote_char :: "char \<Rightarrow> string" where
  "time_quote_char c =
     (let n = of_char c :: nat; bs = CHR 0x5C in
      if 128 \<le> n \<or> n < 32 then bs # CHR ''x'' # [hex_digit (n div 16), hex_digit (n mod 16)]
      else if n = 0x22 \<or> n = 0x5C then [bs, c]
      else [c])"

definition time_quote :: "string \<Rightarrow> string" where
  "time_quote s = CHR 0x22 # concat (map time_quote_char s) @ [CHR 0x22]"

fun duration_error_text :: "duration_error \<Rightarrow> string" where
  "duration_error_text (InvalidDuration s) = ''time: invalid duration '' @ time_quote s"
| "duration_error_text (MissingUnit s) = ''time: missing unit in duration '' @ time_quote s"
| "duration_error_text (UnknownUnit u s) = ''time: unknown unit '' @ time_quote u @ '' in duration '' @ time_quote s"

fun api_error_text :: "api_error \<Rightarrow> string" where
  "api_error_text (ApiNotFound s) = s"
| "api_error_text (ApiFailure s) = s"

text \<open>The refusals of \<open>DefaultExecutor\<close>.\<close>

fun executor_error_text :: "error \<Rightarrow> string" where
  "executor_error_text (UnknownAction a) = ''unknown action '' @ go_quote (action_string a)"
| "executor_error_text (SafetyProtectedNamespace ref) =
     ''SAFETY: refusing to delete '' @ ObjectRef_String ref @ '': namespace '' @ go_quote (ref_namespace ref) @
     '' is protected''"
| "executor_error_text (SafetyProtectedName name) =
     ''SAFETY: refusing to delete namespace '' @ go_quote name @ '': it is in the protected namespace list''"
| "executor_error_text (SafetyUIDMismatch ref uid) =
     ''SAFETY: UID mismatch for '' @ ObjectRef_String ref @ '' (expected '' @ ref_uid ref @ '', got '' @ uid @
     '') '' @ em_dash @ '' object may have been recreated; skipping deletion''"
| "executor_error_text (SafetyFinalizer ref f) =
     ''SAFETY: object '' @ ObjectRef_String ref @ '' has finalizer '' @ go_quote f @ '' '' @ em_dash @ '' not deleting''"
| "executor_error_text (SafetyOwnerReferences ref) =
     ''SAFETY: object '' @ ObjectRef_String ref @ '' has ownerReferences '' @ em_dash @
     '' not deleting (owner should handle GC)''"
| "executor_error_text _ = ''''"

text \<open>The errors of \<open>Config.Validate\<close>.\<close>

fun config_error_text :: "error \<Rightarrow> string" where
  "config_error_text (ScanIntervalTooShort d) =
     ''scan-interval '' @ Duration_String d @ '' is too short (minimum 30s) '' @ em_dash @
     '' would cause excessive API load''"
| "config_error_text (ThresholdTooLow t) =
     ''default-delete-confidence-threshold '' @ fmt_2f t @ '' is too low (minimum 0.7) '' @ em_dash @
     '' low thresholds dramatically increase false-positive deletion risk''"
| "config_error_text (ThresholdTooHigh t) =
     ''default-delete-confidence-threshold '' @ fmt_2f t @ '' exceeds 1.0 (maximum)''"
| "config_error_text EmptyMetricsAddr = ''metrics-bind-address must not be empty''"
| "config_error_text _ = ''''"

text \<open>
  Any error: \<open>%w\<close> prints the wrapped error after the colon, \<open>%v\<close> of a list of errors prints
  them in brackets.
\<close>

fun error_text :: "(string \<Rightarrow> string) \<Rightarrow> error \<Rightarrow> string" where
  "error_text time_text (ApiErr e) = api_error_text e"
| "error_text time_text (Wrapped doing e) = doing @ '': '' @ error_text time_text e"
| "error_text time_text (BadDuration key v e) =
     ''annotation '' @ key @ ''='' @ go_quote v @ '' is not a valid duration: '' @ duration_error_text e"
| "error_text time_text (BadTimestamp key v) =
     ''annotation '' @ key @ ''='' @ go_quote v @ '' is not a valid RFC3339 timestamp: '' @ time_text v"
| "error_text time_text (ResolverErrors errs) =
     ''resolver errors: '' @ fmt_v_strings (map (error_text time_text) errs)"
| "error_text time_text (ScanIntervalTooShort d) = config_error_text (ScanIntervalTooShort d)"
| "error_text time_text (ThresholdTooLow t) = config_error_text (ThresholdTooLow t)"
| "error_text time_text (ThresholdTooHigh t) = config_error_text (ThresholdTooHigh t)"
| "error_text time_text EmptyMetricsAddr = config_error_text EmptyMetricsAddr"
| "error_text time_text e = executor_error_text e"

section \<open>Marked refusals\<close>

text \<open>What \<open>Execute\<close> can return as an error.\<close>

lemma Execute_errors:
  assumes "fst (Execute e obj f d s) = Some err"
  obtains (refused) "is_safety_error err" "\<nexists>doing err'. err = Wrapped doing err'"
  | (unread) a where "err = Wrapped ''re-fetching object before delete'' (ApiErr a)"
  | (failed) a where "err = Wrapped (''deleting '' @ ObjectRef_String (f_ref f)) (ApiErr a)"
  | (unknown) a where "err = UnknownAction a"
  using assms
  by (auto simp: Execute_def executor_delete_def delete_fresh_def Let_def simp del: IsNotFound.simps
      split: action.splits if_splits sum.splits option.splits)

lemma safety_text_marked: "is_safety_error err \<Longrightarrow> \<nexists>doing err'. err = Wrapped doing err' \<Longrightarrow>
    take 8 (error_text time_text err) = ''SAFETY: ''"
  by (cases err) simp_all

text \<open>
  C16. Refusals are marked: what \<open>Execute\<close> returns is one of its safety refusals exactly when
  its text starts with \<open>SAFETY:\<close>, the mark that the tests and the operators look for;
  neither an API error nor an unknown action carries it.
\<close>

theorem safety_refusals_are_marked:
  "map_option is_safety_error (fst (Execute e obj f d s)) =
     map_option (\<lambda>err. take 8 (error_text time_text err) = ''SAFETY: '') (fst (Execute e obj f d s))"
proof (cases "fst (Execute e obj f d s)")
  case (Some err)
  then show ?thesis
    by (cases rule: Execute_errors) (auto simp: Some safety_text_marked)
qed simp

end
