(* ===== verification/Spec2Isabelle.thy ===== *)
theory Spec2Isabelle
  imports DeepCopyLaws Cluster ErrorText
begin

text \<open>
  kube-janitor is a Kubernetes controller that finds objects nobody needs any more (Namespaces
  and ConfigMaps) and, where a policy or an annotation allows it, deletes them. This
  development models the controller and proves what it deletes, when, and what it reports.

  The program. \<open>cmd/manager/main.go\<close> parses the flags over the default configuration, validates
  it and wires the components. For every request, one of the two reconcilers in
  \<open>internal/controller\<close> reads the object, asks the classifier for a finding, lists the
  policies for its kind, asks the policy engine for a decision, lets the executor carry it out
  and the reporter announce it as an Event, and counts all this in the metrics. The classifier
  asks a chain of strategies in order, of which the last consults a registry of resolvers.

  Theories and sources.
  \<^item> \<open>Prelude\<close>: the collections of facts and the lemmas the components share.
  \<^item> \<open>GoFmt\<close>, \<open>GoTime\<close>, \<open>GoCalendar\<close>: what the code uses of Go's \<open>fmt\<close>, \<open>strconv\<close> and \<open>time\<close>:
    numerals, \<open>%q\<close>, \<open>%.2f\<close>; durations as 64-bit words with their printer and parser; instants,
    the Gregorian calendar, RFC 3339 read and printed. \<open>DurationText\<close>: every duration is read
    back as it is printed, the scaling of fractions in doubles included.
  \<^item> \<open>Domain\<close> (\<open>internal/domain/types.go\<close>) and \<open>PolicyTypes\<close>
    (\<open>api/v1alpha1/janitorpolicy_types.go\<close>): structs as records, string enumerations as
    datatypes with their text. \<open>KubeApi\<close>: what is read of Kubernetes objects, and the clients,
    which are parameters. \<open>Effects\<close> (\<open>pkg/metrics/metrics.go\<close> and the state the program
    changes): counters, Delete requests sent, Events emitted.
  \<^item> \<open>Resolver\<close> (\<open>internal/resolver\<close>), \<open>Strategies\<close> and \<open>Classifier\<close> (\<open>internal/classifier\<close>),
    \<open>PolicyEngine\<close> (\<open>internal/policy/engine.go\<close>), \<open>Executor\<close> (\<open>internal/action/executor.go\<close>),
    \<open>Reporter\<close> (\<open>internal/report/reporter.go\<close>), \<open>Config\<close> (\<open>internal/config\<close>), \<open>Controller\<close>
    (\<open>internal/controller\<close>), \<open>Flags\<close> and \<open>Manager\<close> (\<open>cmd/manager/main.go\<close>), \<open>Observability\<close>
    (\<open>pkg/tracing\<close>, \<open>pkg/logging\<close>), \<open>Registration\<close> (\<open>groupversion_info.go\<close> and the \<open>init\<close>
    functions). A function or method of the code is the definition of the
    same name, prefixed by its type where several types have it.
  \<^item> \<open>GoHeap\<close>, \<open>DeepCopy\<close>, \<open>DeepCopyLaws\<close> (\<open>api/v1alpha1/zz_generated.deepcopy.go\<close>): a store of
    cells with pointers, slices and maps as addresses, the deep copies on it, and their laws.
  \<^item> \<open>Contracts\<close>: the interfaces between the components as locales. \<open>Samples\<close> and \<open>SampleRuns\<close>:
    the objects and environments of the witnesses. \<open>ErrorText\<close>: the errors as \<open>fmt.Errorf\<close>
    prints them.
  \<^item> \<open>Pipeline\<close>, \<open>Runs\<close>: the specification of one reconcile, and sequences of reconciles from
    startup. \<open>Cluster\<close> puts the controller in a cluster: traces of reconciles and outside
    changes, over a server that may do anything to what a Delete request names and what a
    deleted Namespace contains, and nothing to the rest. This theory has the properties that
    span components.

  How it is modelled. Fallible code returns \<open>error + 'a\<close>; an error is a value of the datatype
  \<open>error\<close>, one constructor per way of failing, rendered by \<open>error_text\<close>; findings, decisions
  and Events carry their messages as the code prints them. State is passed explicitly: what a
  reconcile does is its result and the new \<open>effects\<close>. The world outside, an \<open>environment\<close> per
  reconcile, answers each call to the API anew and arbitrarily: an object may differ at every
  read, no answer is assumed consistent with another, and a typed \<open>Get\<close> may even depend on the
  object passed to it. Each reading of the clock is its own field. A step of the controller,
  \<open>janitor_step\<close>, is one whole reconcile: what other reconciles and other clients do meanwhile
  shows in the answers of the API, which are arbitrary. The flags that libraries bind are a
  parameter too and act on the options of the libraries only; \<open>flag.Parse\<close> itself is Go's.
  Durations and thresholds keep their width: durations are 64-bit words (a TTL above 2562047
  hours does not parse, an age saturates), floats are binary64 values with their comparisons,
  a valid scan interval is at least 30 seconds. Every recursion is structural but for the
  parsers and printers, which have a measure (the rest of the input, the number); nothing runs
  on fuel. A map read at a missing key gives the zero value, as in Go.

  What is proved. Refinement: one reconcile deletes exactly the object of \<open>deletion_spec\<close>, fails
  exactly when \<open>failure_spec\<close> says so, and the wired chain of strategies computes
  \<open>classify_spec\<close>. Safety over all reachable states: no deletion in dry-run mode, without the
  flag, of a protected or system object, of an object that has owners or foreign finalizers.
  Function: the complete decision table of the engine, the exact conditions of the executor,
  the references the resolvers find, what protects an object, which configurations are valid,
  startup. Liveness: in real mode an expired, unguarded object without owners and foreign
  finalizers, whose deletion its annotation or the first policy for its kind asks for, is deleted
  by the next reconcile; reconciled whenever it asks to be, an object with a TTL is deleted
  within one scan interval (and the delay of the queue) after the TTL has run out. In the
  cluster: the system namespaces and their objects stay whatever else happens and however stale
  the caches are. Events and counters tell the
  truth. Round trips and bounds: TTL and expiry annotations are read back as printed. Deep copies
  stand for the same value and share nothing, but for one threshold. The strategies share the
  contract \<open>strategy_contract\<close>, the resolvers, the executor, the reporter and the wired
  components theirs in \<open>Resolver\<close> and \<open>Contracts\<close>, the copiers \<open>deep_copier\<close>; each locale is
  interpreted where its provider is defined.

  Deviations of the code from its documentation that the theorems show: the deep copy of a
  policy shares its action threshold (\<open>deep_copy_shares_the_threshold\<close>); a policy deletes Active
  objects but only reports Abandoned ones (\<open>default_threshold_spares_only_abandoned\<close>); the
  deletion of an orphan always fails (\<open>owned_objects_are_refused\<close>); selectors and most sections
  of a policy are not read (\<open>unread_policy_fields_are_ignored\<close>), the reporting section included
  (\<open>one_event_per_finding\<close>); the first policy listed wins, not the most specific one
  (\<open>Evaluate_deletes_exactly\<close>); the threshold of a DryRun policy is used
  (\<open>Evaluate_decision_table\<close>); the annotation \<open>janitor.io/action=delete\<close> needs no confidence
  (\<open>Evaluate_deletes_exactly\<close>); protected namespaces have confidence 0.9, not 1.0
  (\<open>findings_are_determined_and_explained\<close>); finished Pods and unmounted volumes count as uses
  of a ConfigMap (\<open>ConfigMap_references_are_mentioning_pods\<close>), projected volumes and ephemeral
  containers do not (\<open>missed_references_abandon\<close>); \<open>--development\<close> does not reach the logger
  (\<open>main_starts_exactly\<close>, \<open>development_flag_has_no_effect\<close>); the protection annotation is
  compared exactly (\<open>Protection_decides\<close>); a threshold that is no number is valid
  (\<open>Validate_accepts_exactly\<close>); a protection set after the cached copy was taken is not seen
  (\<open>late_changes_are_ignored\<close>), and one on an object in an expired Namespace does not help, as
  the executor looks at the Namespace only.

  Not modelled. Log lines (which change no state; the program starts no trace span); the texts of
  API errors and of \<open>time.Parse\<close>, which are parameters; Prometheus names, help
  texts and histogram buckets (a histogram counts its observations); JSON tags; the inside of
  the libraries, which are parameters: the scheme, caches and watches of controller-runtime, event predicates,
  leader election, health endpoints, the zap and OpenTelemetry SDKs, the deep copies of the
  metav1 types. \<open>%q\<close> is exact for ASCII names. The charts and manifests of the repository
  are configuration.
\<close>

section \<open>The whole controller\<close>

text \<open>
  C1. What one reconcile deletes is exactly what the specification \<open>deletion_spec\<close> names,
  computed from the configuration, the object, the policies and the answers of the API:
  the reconcile sends at most one Delete request, for the object the executor has read
  again, and none unless the object is classified, the deletion authorised and every
  pre-flight check passed.
\<close>

theorem reconcile_refines_deletion_spec:
  "fx_deletes (snd (reconcile cfg env req s)) =
     fx_deletes s @ (case deletion_spec cfg env req of None \<Rightarrow> [] | Some x \<Rightarrow> [x])"
  by (rule reconcile_deletes_exactly)

text \<open>
  C2. The wired classifier computes the specified decision: protection first, then foreign
  finalizers, TTL, expiry, owners and references, each consulted only when the ones before
  it leave the question open, and failing exactly when the one that is consulted fails.
\<close>

theorem classifier_refines_spec:
  "map_sum (\<lambda>_. ()) f_class (Classify (build_classifier cfg env) now obj) =
     (case classify_spec cfg env obj of None \<Rightarrow> Inl () | Some c \<Rightarrow> Inr c)"
  unfolding classify_by_spec [of cfg env now obj, symmetric]
  by (cases "Classify (build_classifier cfg env) now obj") (simp_all add: result_class_def)

text \<open>
  C3. In dry-run mode no reachable state of the controller has sent a Delete request,
  whatever objects, policies, annotations and API answers it has met.
\<close>

theorem dry_run_never_deletes:
  assumes "reachable cfg s" "DryRun cfg"
  shows "fx_deletes s = []"
proof -
  from run_of_reachable [OF assms(1)] obtain w s0 where
    s0: "starts cfg s0" and s: "s = snd (run cfg w s0)" by blast
  then show ?thesis
    using assms(2) starts_facts(2) [OF s0]
    by (simp add: run_deletes new_effects_def deletion_spec_dry map_filter_Nil_iff)
qed

text \<open>
  C10. Every object for which a reachable state of the controller has sent a Delete request
  had no owner and no finalizer but the janitor's when it was last read, and the controller
  was in real mode.
\<close>

theorem deleted_objects_are_unowned:
  assumes "reachable cfg s" "x \<in> set (fx_deletes s)"
  shows "o_owners x = [] \<and> set (o_finalizers x) \<subseteq> {''janitor.io/cleanup''} \<and> \<not> DryRun cfg"
proof -
  from run_of_reachable [OF assms(1)] obtain w s0 where
    s0: "starts cfg s0" and s: "s = snd (run cfg w s0)" by blast
  with assms(2) starts_facts(2) [OF s0] obtain env req where "deletion_spec cfg env req = Some x"
    by (auto simp: run_deletes new_effects_def set_map_filter)
  from deletion_spec_Some [OF this] show ?thesis by (auto simp: object_cleared_def)
qed

text \<open>
  C9. A reconcile that reads an object as protected, by the configuration or by its annotation,
  sends no Delete request, whatever the policies, the other annotations and the further answers
  of the API. It is the copy this reconcile reads that counts: a protection set later is not
  seen, and a Namespace is deleted without regard to what is protected in it.
\<close>

theorem protected_objects_survive:
  assumes "request_object env req = Some obj"
    and "o_namespace obj \<in> set (ProtectedNamespaces cfg) \<or>
      (o_namespace obj = '''' \<and> o_name obj \<in> set (ProtectedNamespaces cfg)) \<or>
      o_annotations obj ''janitor.io/protected'' = Some ''true''"
  shows "fx_deletes (snd (reconcile cfg env req s)) = fx_deletes s"
proof -
  have "guarded cfg obj" using assms(2) by (simp add: guarded_def)
  with assms(1) show ?thesis by (simp add: reconcile_deletes_exactly deletion_spec_guarded)
qed

text \<open>
  Whether an expired object is to be deleted, by its own annotation or by the first policy for
  its kind.
\<close>

definition deletion_wanted :: "string \<Rightarrow> kobject \<Rightarrow> janitor_policy list \<Rightarrow> bool" where
  "deletion_wanted kind obj policies \<longleftrightarrow>
     o_annotations obj ''janitor.io/action'' = Some ''delete'' \<or>
     (o_annotations obj ''janitor.io/action'' \<notin> {Some ''skip'', Some ''report''} \<and>
      (\<exists>p. find (targets_kind kind) policies = Some p \<and> policy_mode p = ActionModeDelete \<and>
         f64_le (confidenceThreshold p ActionModeDelete) ConfidenceHigh))"

lemma reconcile_deletes_expired:
  assumes "request_object env req = Some obj" "gvk_kind (o_gvk obj) = request_kind req" "\<not> DryRun cfg"
    and "\<not> guarded cfg obj" "set (o_finalizers obj) \<subseteq> {''janitor.io/cleanup''}"
    and "ttl_spec env obj = Some True \<or> ttl_spec env obj = Some False \<and> expiry_spec env obj = Some True"
    and "cl_list_policies (env_client env) = Inr policies" "deletion_wanted (request_kind req) obj policies"
    and "rd_get (env_execute_reader env) obj (o_namespace obj) (o_name obj) = Inr x"
    and "o_uid x = o_uid obj" "set (o_finalizers x) \<subseteq> {''janitor.io/cleanup''}" "o_owners x = []"
  shows "fx_deletes (snd (reconcile cfg env req s)) = fx_deletes s @ [x]"
proof -
  have "classify_spec cfg env obj = Some ClassExpired"
    using assms(4-6) unfolding classify_spec_expired by auto
  moreover have "deletion_authorised cfg (request_kind req) obj ClassExpired policies"
    using assms(2,3,8) by (auto simp: deletion_authorised_def deletion_wanted_def shielded_def class_confidence_def)
  moreover have "object_cleared (objectRefFrom obj) x"
    using assms(10-12) by (auto simp: object_cleared_def)
  ultimately show ?thesis
    using assms(1,7,9)
    by (simp add: reconcile_deletes_exactly deletion_spec_def object_deletion_spec_def cleared_object_def)
qed

text \<open>
  C6. The controller does delete: in real mode, an object expired by its TTL or by its
  expiry annotation, unguarded, free of foreign finalizers and of owners, and still the same
  object when read again, is deleted by the next reconcile, if its action annotation says
  \<open>delete\<close>, or says neither \<open>skip\<close> nor \<open>report\<close> and the first policy for its kind is a Delete
  policy whose threshold the confidence 0.9 meets.
\<close>

theorem expired_object_is_deleted:
  assumes "request_object env req = Some obj" "gvk_kind (o_gvk obj) = request_kind req" "\<not> DryRun cfg"
    and "\<not> guarded cfg obj" "set (o_finalizers obj) \<subseteq> {''janitor.io/cleanup''}"
    and "ttl_spec env obj = Some True \<or> ttl_spec env obj = Some False \<and> expiry_spec env obj = Some True"
    and "cl_list_policies (env_client env) = Inr policies" "deletion_wanted (request_kind req) obj policies"
    and "rd_get (env_execute_reader env) obj (o_namespace obj) (o_name obj) = Inr x"
    and "o_uid x = o_uid obj" "set (o_finalizers x) \<subseteq> {''janitor.io/cleanup''}" "o_owners x = []"
  shows "fx_deletes (snd (reconcile cfg env req s)) = fx_deletes s @ [x]"
  using assms by (rule reconcile_deletes_expired)

text \<open>Reconciling one request again and again.\<close>

primrec rounds :: "config \<Rightarrow> request \<Rightarrow> (nat \<Rightarrow> environment) \<Rightarrow> effects \<Rightarrow> nat \<Rightarrow> effects" where
  "rounds cfg req env s 0 = s"
| "rounds cfg req env s (Suc i) = snd (reconcile cfg (env i) req (rounds cfg req env s i))"

definition delete_sent :: "kobject \<Rightarrow> effects \<Rightarrow> bool" where
  "delete_sent obj s \<longleftrightarrow> (\<exists>y \<in> set (fx_deletes s). o_uid y = o_uid obj)"

lemma delete_sent_kept: "delete_sent obj s \<Longrightarrow> delete_sent obj (snd (reconcile cfg env req s))"
  by (auto simp: delete_sent_def reconcile_deletes_exactly)

lemma successful_reconcile_requeues:
  assumes "request_object env req = Some obj" "\<not> isl (fst (reconcile cfg env req s))"
  shows "fst (reconcile cfg env req s) = Inr (ScanInterval cfg)"
proof -
  have "fst (reconcile_object (build_deps cfg env) ctl k what rid lp obj s) = Inr (ScanInterval cfg)"
    if "\<not> isl (fst (reconcile_object (build_deps cfg env) ctl k what rid lp obj s))" for ctl k what rid lp obj
    using that by (cases rule: wired.object_stages [of cfg env ctl k what rid lp obj s]) simp_all
  then show ?thesis
    by (cases rule: reconcile_cases [of env req cfg]) (use assms in \<open>simp_all del: IsNotFound.simps\<close>)
qed

text \<open>
  C7. A TTL is enforced in time. Let an object with a TTL, unguarded, free of foreign
  finalizers and without owners, whose deletion is wanted, be reconciled in real mode under a
  valid configuration, and again when each reconcile asks for it, late by at most a given
  slack. As long as no Delete request for its UID has been sent, let it be served unchanged
  and the reconciles succeed. Then the request has been sent by the end of a reconcile that
  comes no later than one scan interval and the slack after the TTL has run out, provided the
  first reconcile is not later.
\<close>

theorem ttl_is_enforced_in_time:
  fixes env :: "nat \<Rightarrow> environment" and cfg req s obj slack
  assumes "Validate cfg = None" "\<not> DryRun cfg" "\<not> guarded cfg obj"
    and "set (o_finalizers obj) \<subseteq> {''janitor.io/cleanup''}" "gvk_kind (o_gvk obj) = request_kind req"
    and "o_annotations obj ''janitor.io/ttl'' = Some v" "ParseDuration v = Inr ttl"
    and "ttl \<noteq> 0" "ttl \<noteq> maxDuration"
    and served: "\<And>i. \<not> delete_sent obj (rounds cfg req env s i) \<Longrightarrow>
      request_object (env i) req = Some obj \<and>
      cl_list_policies (env_client (env i)) = Inr (policies i) \<and> deletion_wanted (request_kind req) obj (policies i) \<and>
      rd_get (env_execute_reader (env i)) obj (o_namespace obj) (o_name obj) = Inr (x i) \<and>
      o_uid (x i) = o_uid obj \<and> set (o_finalizers (x i)) \<subseteq> {''janitor.io/cleanup''} \<and> o_owners (x i) = [] \<and>
      \<not> isl (fst (reconcile cfg (env i) req (rounds cfg req env s i)))"
    and requeued: "\<And>i delay. fst (reconcile cfg (env i) req (rounds cfg req env s i)) = Inr delay \<Longrightarrow>
      0 < sint delay \<Longrightarrow> now i + sint delay \<le> now (Suc i) \<and> now (Suc i) \<le> now i + sint delay + slack"
    and clock: "\<And>i. unix_ns (ck_ttl (env_clock (env i))) = now i"
    and first: "now 0 \<le> unix_ns (o_created obj) + sint ttl + sint (ScanInterval cfg) + slack"
    and "0 \<le> slack"
  shows "\<exists>i. delete_sent obj (rounds cfg req env s (Suc i)) \<and>
    now i \<le> unix_ns (o_created obj) + sint ttl + sint (ScanInterval cfg) + slack"
proof -
  let ?sent = "\<lambda>i. delete_sent obj (rounds cfg req env s i)"
    and ?ends = "unix_ns (o_created obj) + sint ttl" and ?scan = "sint (ScanInterval cfg)"
  have scan: "0 < ?scan" by (rule scan_interval_positive [OF assms(1)])
  have next_round: "now i + ?scan \<le> now (Suc i) \<and> now (Suc i) \<le> now i + ?scan + slack" if "\<not> ?sent i" for i
    using requeued [of i "ScanInterval cfg"] successful_reconcile_requeues served [OF that] scan by blast
  have deletes: "?sent (Suc i)" if "?ends < now i" for i
  proof (cases "?sent i")
    case False
    have "ttl_spec (env i) obj = Some True"
      using assms(6-9) that by (simp add: ttl_spec_def ttl_elapsed_iff clock)
    then have "fx_deletes (snd (reconcile cfg (env i) req (rounds cfg req env s i))) =
        fx_deletes (rounds cfg req env s i) @ [x i]"
      using served [OF False] assms(2-5) by (intro reconcile_deletes_expired [where obj = obj and policies = "policies i"]) simp_all
    then show ?thesis using served [OF False] by (simp add: delete_sent_def)
  qed (simp add: delete_sent_kept)
  have "\<exists>i. ?sent i \<or> ?ends < now i"
  proof (rule ccontr)
    assume never: "\<not> ?thesis"
    have grows: "now 0 + int n \<le> now n" for n
    proof (induction n)
      case (Suc n)
      then show ?case using next_round [of n] never scan by fastforce
    qed simp
    show False using grows [of "nat (?ends - now 0 + 1)"] never by (auto simp: not_less) (smt (verit) int_nat_eq)
  qed
  then obtain i where i: "?sent i \<or> ?ends < now i" "\<And>j. j < i \<Longrightarrow> \<not> ?sent j \<and> now j \<le> ?ends"
    using exists_least_iff [of "\<lambda>i. ?sent i \<or> ?ends < now i"] by (auto simp: not_less)
  show ?thesis
  proof (cases i)
    case 0
    with i(1) deletes [of 0] first show ?thesis by (intro exI [of _ 0]) (auto simp: delete_sent_kept)
  next
    case (Suc j)
    with i(2) have j: "\<not> ?sent j" "now j \<le> ?ends" by simp_all
    show ?thesis
    proof (cases "?sent i")
      case True
      with Suc j scan assms(14) show ?thesis by (intro exI [of _ j]) simp
    next
      case False
      with i(1) deletes have "?sent (Suc i)" by blast
      with next_round [OF j(1)] j(2) Suc show ?thesis by (intro exI [of _ i]) auto
    qed
  qed
qed

text \<open>
  C8. A reconcile returns an error exactly in the specified cases: its object cannot be
  read (other than being gone), it cannot be classified, the policies cannot be listed, or
  an authorised deletion cannot be carried out.
\<close>

theorem reconcile_refines_failure_spec:
  "isl (fst (reconcile cfg env req s)) \<longleftrightarrow> failure_spec cfg env req"
  by (rule reconcile_fails_exactly)

text \<open>
  C33. An object that has owners, live or dead, cannot be deleted: when the object read again
  still has an owner reference, an authorised deletion (of an orphan, say) ends in an error
  and sends no Delete request.
\<close>

theorem owned_objects_are_refused:
  assumes "request_object env req = Some obj"
    and "classify_spec cfg env obj = Some c" "cl_list_policies (env_client env) = Inr policies"
    and "deletion_authorised cfg (request_kind req) obj c policies"
    and "rd_get (env_execute_reader env) obj (o_namespace obj) (o_name obj) = Inr x" "o_owners x \<noteq> []"
  shows "isl (fst (reconcile cfg env req s)) \<and> fx_deletes (snd (reconcile cfg env req s)) = fx_deletes s"
proof -
  have "\<not> object_cleared (objectRefFrom obj) x" using assms(6) by (simp add: object_cleared_def)
  moreover from assms(1) obtain obj' where "request_get env req = Inr obj'"
    by (auto simp: request_object_def split: sum.splits)
  ultimately show ?thesis
    using assms(1-5)
    by (simp add: reconcile_fails_exactly failure_spec_def object_failure_spec_def execution_fails_def
          reconcile_deletes_exactly deletion_spec_def object_deletion_spec_def cleared_object_def)
qed

text \<open>
  C14. Expired objects fall though they are in use: once the TTL or the expiry annotation of an
  object has run out, no reader of the classifier changes anything in what the reconcile does,
  whichever Pods, Deployments or owners it would have found. An object that Pods still mount
  is treated like one that nobody needs.
\<close>

theorem expired_objects_fall_in_use:
  assumes "request_object env req = Some obj" "classify_spec cfg env obj = Some ClassExpired"
  shows "reconcile cfg (env\<lparr>env_classify_reader := rd\<rparr>) req s = reconcile cfg env req s"
proof -
  let ?env = "env\<lparr>env_classify_reader := rd\<rparr>"
  obtain f where f: "Classify (build_classifier cfg env) (ck_classify (env_clock env)) obj = Inr f"
    "f_class f = ClassExpired"
    by (rule Classify_spec_cases [of cfg env "ck_classify (env_clock env)" obj]) (use assms(2) in auto)
  have deps: "sd_classifier (build_deps cfg ?env) obj = sd_classifier (build_deps cfg env) obj"
    "sd_engine (build_deps cfg ?env) = sd_engine (build_deps cfg env)"
    "sd_executor (build_deps cfg ?env) = sd_executor (build_deps cfg env)"
    "sd_reporter (build_deps cfg ?env) = sd_reporter (build_deps cfg env)"
    "sd_config (build_deps cfg ?env) = sd_config (build_deps cfg env)"
    using f expired_without_the_reader [OF f] by (simp_all add: build_executor_def)
  have object: "reconcile_object (build_deps cfg ?env) ctl kind what rid lp obj s =
      reconcile_object (build_deps cfg env) ctl kind what rid lp obj s" for ctl kind what rid lp s
    unfolding reconcile_object_def deps ..
  from assms(1) have "request_get env req = Inr obj"
    by (auto simp: request_object_def split: sum.splits if_splits)
  with object show ?thesis
    by (cases req) (simp_all add: NamespaceReconciler_Reconcile_def ConfigMapReconciler_Reconcile_def
        listMatchingPolicies_eq Let_def)
qed

section \<open>Events, results and counters\<close>

text \<open>
  C17. A \<open>Deleted\<close> Event is truthful: when a reconcile emits one, it is on the object
  reconciled, which was classified Expired, in real mode, and either that very reconcile sent
  the Delete request or the object was found gone when it was read again.
\<close>

theorem Deleted_event_is_truthful:
  assumes "fx_events (snd (reconcile cfg env req s)) = fx_events s @ [ev]" "evt_reason ev = ''Deleted''"
  shows "\<exists>obj. request_object env req = Some obj \<and> evt_object ev = obj \<and>
     classify_spec cfg env obj = Some ClassExpired \<and> \<not> DryRun cfg \<and>
     ((\<exists>x. fx_deletes (snd (reconcile cfg env req s)) = fx_deletes s @ [x]) \<or>
      (\<exists>err. rd_get (env_execute_reader env) obj (o_namespace obj) (o_name obj) = Inl err \<and>
         IsNotFound (ApiErr err)))"
proof (cases rule: reconcile_cases [of env req cfg])
  case (object obj what rid)
  with assms(1) have "fx_events (snd (reconcile_object (build_deps cfg env) (request_controller req)
      (request_kind req) what rid (listMatchingPoliciesForKind (env_client env)) obj s)) = fx_events s @ [ev]"
    by simp
  from object_deleted_event [OF this assms(2)] object show ?thesis
    by (intro exI [of _ obj]) (simp del: IsNotFound.simps)
qed (use assms(1) in simp_all)

text \<open>
  C37. A reconcile emits at most one Event, and emits one exactly when it works on an object,
  does not fail and has not classified the object as Active. The policies have no say in it:
  the field \<open>events\<close> of their reporting section, documented to control whether Events are
  emitted, is not read.
\<close>

theorem one_event_per_finding:
  "length (fx_events (snd (reconcile cfg env req s))) = length (fx_events s) +
     (case request_object env req of
        None \<Rightarrow> 0
      | Some obj \<Rightarrow>
          if failure_spec cfg env req then 0
          else if classify_spec cfg env obj = Some ClassActive then 0 else 1)"
  by (cases rule: reconcile_cases [of env req cfg])
     (simp_all add: object_events_exactly failure_spec_def)

text \<open>
  A reconcile whose object is gone, or is a Namespace that is terminating already,
  succeeds and touches nothing but the duration histogram.
\<close>

theorem absent_objects_are_left_alone:
  assumes "request_object env req = None" "\<not> failure_spec cfg env req"
  shows "reconcile cfg env req s =
     (Inr (case request_get env req of Inl _ \<Rightarrow> 0 | Inr _ \<Rightarrow> ScanInterval cfg),
      s\<lparr>fx_metrics := ObserveReconcileDuration (request_controller req) (fx_metrics s)\<rparr>)"
  using assms
  by (cases rule: reconcile_cases [of env req cfg])
     (simp_all add: failure_spec_def metered_def del: IsNotFound.simps)

text \<open>
  Under a valid configuration a successful reconcile comes back: at once never, only
  after at least 30 seconds, unless its object is gone, when it is not scheduled again.
\<close>

theorem requeue_is_throttled:
  assumes "Validate cfg = None" "fst (reconcile cfg env req s) = Inr delay"
  shows "case request_get env req of Inl _ \<Rightarrow> delay = 0 | Inr _ \<Rightarrow> 30000000000 \<le> sint delay"
proof -
  have "30000000000 \<le> sint (ScanInterval cfg)" by (rule scan_interval_bound [OF assms(1)])
  moreover have "delay = ScanInterval cfg" if "fst (reconcile_object (build_deps cfg env) ctl k what rid lp obj s) = Inr delay"
    for ctl k what rid lp obj
    using that by (cases rule: wired.object_stages [of cfg env ctl k what rid lp obj s]) simp_all
  ultimately show ?thesis
    using assms(2) by (cases rule: reconcile_cases [of env req cfg]) (auto simp del: IsNotFound.simps)
qed

text \<open>
  C36. The counters add up: after any run from startup, the error counter of a controller is
  the number of its failed reconciles and its histogram has one observation for each of its
  reconciles, whatever the two controllers have done in between.
\<close>

theorem run_counters_add_up:
  assumes "starts cfg s"
  shows "m_errors (fx_metrics (snd (run cfg w s))) (request_controller req, request_kind req) =
      length (filter (\<lambda>(result, env, r). request_kind r = request_kind req \<and> isl result)
        (zip (fst (run cfg w s)) w)) \<and>
    m_durations (fx_metrics (snd (run cfg w s))) (request_controller req) =
      length (filter (\<lambda>(env, r). request_kind r = request_kind req) w)"
proof
  have same: "request_controller r = request_controller req \<longleftrightarrow> request_kind r = request_kind req" for r
    by (cases r; cases req) simp_all
  have label: "(request_controller req, request_kind req) = (request_controller r, request_kind r) \<longleftrightarrow>
      request_kind r = request_kind req" for r
    by (cases r; cases req) simp_all
  have zero: "m_errors (fx_metrics s) c = 0" "m_durations (fx_metrics s) d = 0" for c d
    using starts_facts(2) [OF assms] by (simp_all add: new_effects_def new_recorder_def)
  have known: "request_controller req \<noteq> ''unknown''" by (cases req) simp_all
  have failures: "length (filter (\<lambda>(result, env, r). request_kind r = request_kind req \<and> isl result)
      (zip (fst (run cfg w s)) w)) =
    length (filter (\<lambda>(env, r). failure_spec cfg env r \<and>
      (request_controller req, request_kind req) = (request_controller r, request_kind r)) w)"
    unfolding run_failures label ..
  from run_errors [OF known, of cfg w s] zero
  show "m_errors (fx_metrics (snd (run cfg w s))) (request_controller req, request_kind req) =
      length (filter (\<lambda>(result, env, r). request_kind r = request_kind req \<and> isl result)
        (zip (fst (run cfg w s)) w))" by (simp only: failures add_0)
  show "m_durations (fx_metrics (snd (run cfg w s))) (request_controller req) =
      length (filter (\<lambda>(env, r). request_kind r = request_kind req) w)"
    using run_durations [of cfg w s "request_controller req"] zero by (simp add: same)
qed

text \<open>
  The reachable states of the step relation are exactly the ends of the runs from
  startup, so what is computed for runs is what the controller can reach.
\<close>

lemma reachable_iff_end_of_run:
  "reachable cfg s \<longleftrightarrow>
     (\<exists>foreign bt args r w. main_program foreign bt args = Inr r \<and> run_config r = cfg \<and>
        s = snd (run cfg w (run_effects r)))"
proof
  assume "reachable cfg s"
  from run_of_reachable [OF this] show "\<exists>foreign bt args r w. main_program foreign bt args = Inr r \<and>
      run_config r = cfg \<and> s = snd (run cfg w (run_effects r))"
    unfolding starts_def by blast
next
  assume "\<exists>foreign bt args r w. main_program foreign bt args = Inr r \<and> run_config r = cfg \<and>
      s = snd (run cfg w (run_effects r))"
  then obtain s0 w where "starts cfg s0" "s = snd (run cfg w s0)"
    unfolding starts_def by blast
  then show "reachable cfg s" by (auto intro: reachable_run reachable.started)
qed

section \<open>The command line\<close>

text \<open>
  C11. Deleting takes an explicit flag: started with a command line in which no argument is
  \<open>--dry-run=\<close> (one dash or two) with a false value, the controller never deletes anything,
  whatever its other flags are and whatever it reconciles.
\<close>

theorem deletion_needs_dry_run_flag:
  assumes "main_program foreign bt args = Inr r" "\<not> list_ex sets_dry_run_off args"
  shows "fx_deletes (snd (run (run_config r) w (run_effects r))) = []"
proof -
  have "DryRun Default" by (simp add: Default_def)
  moreover have "parse_flags foreign args (Default, zapOpts Default) = Inr (run_config r, run_library r)"
    using assms(1) by (auto simp: main_program_Inr)
  ultimately have "DryRun (run_config r)"
    using parse_flags_dry_run [of foreign args] assms(2) unfolding list_ex_iff by (metis fst_conv)
  then show ?thesis
    using assms(1)
    by (auto simp: main_program_Inr run_deletes new_effects_def deletion_spec_dry map_filter_Nil_iff)
qed

text \<open>
  No flag unprotects the system: however the program is started, it never deletes the
  namespaces kube-system, kube-public, default and kube-node-lease, nor anything in them.
\<close>

theorem system_namespaces_survive:
  assumes "main_program foreign bt args = Inr r"
    and "request_object env req = Some obj"
    and "o_namespace obj \<in> {''kube-system'', ''kube-public'', ''default'', ''kube-node-lease''} \<or>
      (o_namespace obj = '''' \<and> o_name obj \<in> {''kube-system'', ''kube-public'', ''default'', ''kube-node-lease''})"
  shows "fx_deletes (snd (reconcile (run_config r) env req s)) = fx_deletes s"
proof -
  have "starts (run_config r) (run_effects r)" using assms(1) by (auto simp: starts_def)
  then have "ProtectedNamespaces (run_config r) = ProtectedNamespaces Default"
    using starts_facts(3) by (simp add: fixed_part_def)
  then have "guarded (run_config r) obj" using assms(3) by (auto simp: guarded_def Default_def)
  with assms(2) show ?thesis by (simp add: reconcile_deletes_exactly deletion_spec_guarded)
qed


text \<open>
  The logger leaves development mode off, whatever \<open>--development\<close> says, unless a flag of the
  libraries turns it on.
\<close>

lemma development_flag_has_no_effect:
  assumes "main_program foreign bt args = Inr r"
    and "\<And>name f v lib lib'. foreign name = Some f \<Longrightarrow> ff_set f v lib = Some lib' \<Longrightarrow>
      \<not> lo_development lib \<Longrightarrow> \<not> lo_development lib'"
  shows "\<not> lo_development (run_library r)"
proof -
  from assms(1) have "parse_flags foreign args (Default, zapOpts Default) = Inr (run_config r, run_library r)"
    by (auto simp: main_program_Inr)
  from parse_flags_library [where P = "\<lambda>lib. \<not> lo_development lib", OF _ this] assms(2)
  show ?thesis by (simp add: zapOpts_def Default_def)
qed

section \<open>Classification\<close>

text \<open>
  C24. The wired classifier always determines a class, one of Protected, Blocked, Expired,
  Active, Orphaned and Abandoned, with confidence 0.6 for Abandoned and 0.9 for the others,
  for the object asked about, and with at least one reason, each with a code, a message and
  evidence. The 0.9 includes the objects of protected namespaces, for which the specification
  of the classifier in the repository asks for 1.0.
\<close>

theorem findings_are_determined_and_explained:
  assumes "Classify (build_classifier cfg env) now obj = Inr f"
  shows "f_class f \<in> {ClassProtected, ClassBlocked, ClassExpired, ClassActive, ClassOrphaned, ClassAbandoned} \<and>
     f_confidence f = (if f_class f = ClassAbandoned then ConfidenceMedium else ConfidenceHigh) \<and>
     f_ref f = objectRefFrom obj \<and> explains (f_reasons f)"
  by (cases rule: Classify_spec_cases [of cfg env now obj])
     (use assms in \<open>auto simp: default_classes_def class_confidence_def\<close>)

text \<open>
  C30. A ConfigMap that is used in another way than the code looks for is classified Abandoned,
  which the code describes as no longer needed. The hypotheses speak of the volumes of kind
  configMap and the \<open>envFrom\<close> and \<open>env\<close> entries of init and regular containers only, so Pods
  may run that read the ConfigMap through a projected volume or from an ephemeral container.
\<close>

theorem missed_references_abandon:
  assumes "gvk_kind (o_gvk obj) = ''ConfigMap''" "\<not> guarded cfg obj"
    and "set (o_finalizers obj) \<subseteq> {''janitor.io/cleanup''}" "o_owners obj = []"
    and "ttl_spec env obj = Some False" "expiry_spec env obj = Some False"
    and "rd_list_pods (env_classify_reader env) (o_namespace obj) = Inr pods"
    and "\<And>p vol. p \<in> set pods \<Longrightarrow> vol \<in> set (pod_volumes p) \<Longrightarrow> vol_config_map vol \<noteq> Some (o_name obj)"
    and "\<And>p c e. p \<in> set pods \<Longrightarrow> c \<in> set (pod_init_containers p @ pod_containers p) \<Longrightarrow> e \<in> set (c_env_from c) \<Longrightarrow>
      ef_config_map_ref e \<noteq> Some (o_name obj)"
    and "\<And>p c e src. p \<in> set pods \<Longrightarrow> c \<in> set (pod_init_containers p @ pod_containers p) \<Longrightarrow> e \<in> set (c_env c) \<Longrightarrow>
      env_value_from e = Some src \<Longrightarrow> evs_config_map_key_ref src \<noteq> Some (o_name obj)"
  shows "\<exists>f. Classify (build_classifier cfg env) now obj = Inr f \<and> f_class f = ClassAbandoned"
proof -
  have "\<not> pod_mentions (o_name obj) p" if "p \<in> set pods" for p
    using assms(8-10) [OF that] by (fastforce simp: pod_mentions_def container_mentions_def)
  then have "references_spec env obj = Some ClassAbandoned"
    using assms(1,7) by (auto simp: references_spec_def)
  with assms(2-6) have "classify_spec cfg env obj = Some ClassAbandoned"
    by (auto simp: classify_spec_def)
  then show ?thesis by (cases rule: Classify_spec_cases [of cfg env now obj]) auto
qed

text \<open>
  C27. Expiry is permanent: an object classified Expired is classified Expired at every later
  reading of the clock, whatever else the API answers then.
\<close>

theorem expiry_is_permanent:
  assumes "classify_spec cfg env obj = Some ClassExpired"
    and "unix_ns (ck_ttl (env_clock env)) \<le> unix_ns (ck_ttl (env_clock env'))"
    and "unix_ns (ck_expires_at (env_clock env)) \<le> unix_ns (ck_expires_at (env_clock env'))"
  shows "\<exists>f. Classify (build_classifier cfg env') now obj = Inr f \<and> f_class f = ClassExpired"
proof -
  have "ttl_spec env' obj = Some True" if "ttl_spec env obj = Some True"
    using that assms(2) by (auto simp: ttl_spec_def ttl_elapsed_mono split: option.splits sum.splits)
  moreover have "ttl_spec env' obj = Some True \<or> ttl_spec env' obj = Some False" if "ttl_spec env obj = Some False"
    using that by (auto simp: ttl_spec_def split: option.splits sum.splits)
  moreover have "expiry_spec env' obj = Some True" if "expiry_spec env obj = Some True"
    using that assms(3) by (auto simp: expiry_spec_def split: option.splits if_splits)
  ultimately have "classify_spec cfg env' obj = Some ClassExpired"
    using assms(1) unfolding classify_spec_expired by blast
  then show ?thesis
    by (cases rule: Classify_spec_cases [of cfg env' now obj]) simp_all
qed

text \<open>
  C28. The OwnerRefResolver contributes nothing to the default chain: replacing the registry
  of the last strategy by one without it never changes the class, nor which error ends the
  classification, since an object with owners is settled by the OwnerRefStrategy before.
\<close>

theorem ownerref_resolver_is_redundant:
  "map_sum id f_class (Classify (build_classifier cfg env) now obj) =
   map_sum id f_class (Classify
     (New (env_classify_reader env)
       (butlast (default_chain cfg env) @
        [NewResolverStrategy \<lparr>reg_resolvers = tl (reg_resolvers (build_registry (env_parse_gv env)))\<rparr>])) now obj)"
proof -
  let ?rd = "env_classify_reader env"
  let ?last = "\<lambda>r. settled_class ?rd obj (NewResolverStrategy r)"
  have unowned: "?last (build_registry (env_parse_gv env)) =
      ?last \<lparr>reg_resolvers = tl (reg_resolvers (build_registry (env_parse_gv env)))\<rparr>" if "o_owners obj = []"
  proof -
    have "outcome (ResolverStrategy_Classify (build_registry (env_parse_gv env)) obj ?rd) =
        outcome (ResolverStrategy_Classify
          \<lparr>reg_resolvers = tl (reg_resolvers (build_registry (env_parse_gv env)))\<rparr> obj ?rd)"
      by (rule resolver_outcome_unowned [OF that]) (simp add: handlers_unowned [OF that])
    then show ?thesis
      by (simp only: settled_class_def NewResolverStrategy_def strategy.simps)
  qed
  have owned: "settled_class ?rd obj (NewOwnerRefStrategy (env_parse_gv env)) \<noteq> None" if "o_owners obj \<noteq> []"
    using that by (auto simp: settled_class_def NewOwnerRefStrategy_def OwnerRef_outcome split: option.split)
  have "first_hit (settled_class ?rd obj) (butlast (default_chain cfg env) @
        [NewResolverStrategy (build_registry (env_parse_gv env))]) =
    first_hit (settled_class ?rd obj) (butlast (default_chain cfg env) @
        [NewResolverStrategy \<lparr>reg_resolvers = tl (reg_resolvers (build_registry (env_parse_gv env)))\<rparr>])"
    using unowned owned
    by (cases "o_owners obj = []")
       (auto simp: first_hit_append first_hit_single default_chain_def split: option.split)
  moreover have "default_chain cfg env = butlast (default_chain cfg env) @
      [NewResolverStrategy (build_registry (env_parse_gv env))]"
    by (simp add: default_chain_def)
  ultimately show ?thesis
    unfolding Classify_class by (simp add: build_classifier_def New_def)
qed

text \<open>
  Every reference the default registry reports points to the object asked about and
  carries evidence with a source and details.
\<close>

theorem registry_references_point_to_the_object:
  assumes "ResolveAll (build_registry parse) obj rd = (refs, err)" "r \<in> set refs"
  shows "ref_name (r_to r) = o_name obj \<and> ref_uid (r_to r) = o_uid obj \<and>
     ev_source (r_evidence r) \<noteq> [] \<and> ev_details (r_evidence r) \<noteq> []"
proof -
  have "r \<in> set (resolved_refs (reg_resolvers (build_registry parse)) obj rd)"
    using assms by (simp add: ResolveAll_eq)
  from registry_kept.refs_target [OF this] registry_kept.refs_explained [OF this] show ?thesis by simp
qed

section \<open>Witnesses\<close>

theorem deletion_needs_dry_run_flag_witness:
  "fx_deletes (snd (run Default [(sample_env sample_configmap [sample_policy], sample_request)]
     (new_effects new_recorder))) = []"
  using deletion_needs_dry_run_flag [OF sample_starts [of "[]" Default "zapOpts Default"],
      of "[(sample_env sample_configmap [sample_policy], sample_request)]"] by simp

theorem system_namespaces_survive_witness:
  "fx_deletes (snd (reconcile real_mode
     (sample_env (sample_configmap\<lparr>o_namespace := ''kube-system''\<rparr>) [sample_policy])
     (ConfigMapRequest ''kube-system'' ''cache'') (new_effects new_recorder))) = []"
proof -
  let ?obj = "sample_configmap\<lparr>o_namespace := ''kube-system''\<rparr>"
  have "request_object (sample_env ?obj [sample_policy]) (ConfigMapRequest ''kube-system'' ''cache'') = Some ?obj"
    by (simp add: request_object_def sample_env_def sample_client_def sample_configmap_def)
  from system_namespaces_survive [OF sample_starts [OF real_mode_flag] this] show ?thesis
    by (simp add: new_effects_def)
qed

definition sample_steady :: "nat \<Rightarrow> environment" where
  "sample_steady i = (sample_env sample_configmap [sample_policy])\<lparr>env_clock :=
     (env_clock (sample_env sample_configmap [sample_policy]))\<lparr>ck_ttl := \<lparr>unix_ns = int i * 300000000000, zone_off = 0\<rparr>\<rparr>\<rparr>"

lemma sample_steady_simps [simp]:
  "env_client (sample_steady i) = sample_client sample_configmap [sample_policy]"
  "env_execute_reader (sample_steady i) = sample_reader sample_configmap []"
  "env_classify_reader (sample_steady i) = sample_reader sample_configmap []"
  "unix_ns (ck_ttl (env_clock (sample_steady i))) = int i * 300000000000"
  by (simp_all add: sample_steady_def sample_env_def)

lemma sample_wanted: "deletion_wanted (request_kind sample_request) sample_configmap [sample_policy]"
  by (simp add: deletion_wanted_def sample_request_def sample_configmap_def sample_policy_def targets_kind_def
        confidenceThreshold_def defaultDeleteConfidenceThreshold_def confidence_defs)

lemma sample_steady_served:
  "request_object (sample_steady i) sample_request = Some sample_configmap"
  "rd_get (env_execute_reader (sample_steady i)) sample_configmap (o_namespace sample_configmap)
     (o_name sample_configmap) = Inr sample_configmap"
  by (simp_all add: request_object_def sample_request_def sample_client_def sample_reader_def)
     (simp_all add: sample_configmap_def)

lemma sample_steady_succeeds: "\<not> isl (fst (reconcile real_mode (sample_steady i) sample_request s))"
proof -
  have "ttl_spec (sample_steady i) sample_configmap \<noteq> None"
    by (simp add: ttl_spec_def sample_configmap_def ParseDuration_1h)
  then obtain b where "ttl_spec (sample_steady i) sample_configmap = Some b" by blast
  then have "classify_spec real_mode (sample_steady i) sample_configmap \<noteq> None"
    by (cases b) (simp_all add: classify_spec_def guarded_def config_defs expiry_spec_def references_spec_def
        sample_configmap_def sample_reader_def)
  moreover have "\<not> execution_fails (sample_steady i) sample_configmap"
    using sample_steady_served(2) [of i]
    by (simp add: execution_fails_def sample_client_def object_cleared_def del: sample_steady_simps)
       (simp add: sample_client_def sample_configmap_def)
  moreover have "request_get (sample_steady i) sample_request = Inr sample_configmap"
    by (simp add: sample_request_def sample_client_def) (simp add: sample_configmap_def)
  ultimately show ?thesis
    using sample_steady_served(1) [of i]
    by (auto simp: reconcile_fails_exactly failure_spec_def object_failure_spec_def sample_client_def)
qed

theorem ttl_is_enforced_in_time_witness:
  "\<exists>i. delete_sent sample_configmap (rounds real_mode sample_request sample_steady (new_effects new_recorder) (Suc i)) \<and>
     int i * 300000000000 \<le> 3900000000000"
proof -
  have "Validate real_mode = None"
    by (simp add: Validate_def config_defs Minute_def Second_def f64_consts)
  have delay: "delay = ScanInterval real_mode"
    if "fst (reconcile real_mode (sample_steady i) sample_request s) = Inr delay" for i s delay
    using successful_reconcile_requeues [OF sample_steady_served(1) sample_steady_succeeds, of i s] that by simp
  have scan: "sint (ScanInterval real_mode) = 300000000000" by (simp add: config_defs Minute_def)
  have "\<exists>i. delete_sent sample_configmap (rounds real_mode sample_request sample_steady (new_effects new_recorder) (Suc i)) \<and>
      int i * 300000000000 \<le>
        unix_ns (o_created sample_configmap) + sint Hour + sint (ScanInterval real_mode) + 0"
  proof (rule ttl_is_enforced_in_time [where v = "''1h''" and policies = "\<lambda>_. [sample_policy]" and x = "\<lambda>_. sample_configmap"])
    show "int i * 300000000000 + sint delay \<le> int (Suc i) * 300000000000 \<and>
        int (Suc i) * 300000000000 \<le> int i * 300000000000 + sint delay + 0"
      if "fst (reconcile real_mode (sample_steady i) sample_request
        (rounds real_mode sample_request sample_steady (new_effects new_recorder) i)) = Inr delay" for i delay
      using delay [OF that] scan by simp
  qed (use \<open>Validate real_mode = None\<close> scan sample_steady_served sample_wanted sample_steady_succeeds in
      \<open>simp_all add: guarded_def config_defs ParseDuration_1h Hour_facts\<close>,
      simp_all add: sample_client_def sample_configmap_def sample_request_def)
  then show ?thesis by (simp add: scan Hour_facts) (simp add: sample_configmap_def)
qed

theorem expired_object_is_deleted_witness:
  "fx_deletes (snd (reconcile real_mode (sample_env sample_configmap [sample_policy]) sample_request
     (new_effects new_recorder))) = [sample_configmap]"
proof -
  have "ttl_spec (sample_env sample_configmap [sample_policy]) sample_configmap = Some True"
    by (simp add: ttl_spec_def sample_configmap_def ParseDuration_1h ttl_elapsed_iff Hour_facts sample_env_simps later_def)
  then have "fx_deletes (snd (reconcile real_mode (sample_env sample_configmap [sample_policy]) sample_request
      (new_effects new_recorder))) = fx_deletes (new_effects new_recorder) @ [sample_configmap]"
    by (intro expired_object_is_deleted [of _ _ sample_configmap _ "[sample_policy]"] sample_wanted)
       (simp_all add: sample_request_object guarded_def config_defs sample_env_def sample_request_def sample_defs
          request_object_def)
  then show ?thesis by (simp add: new_effects_def)
qed

theorem dry_run_never_deletes_witness:
  "fx_deletes (snd (run Default [(sample_env sample_configmap [sample_policy], sample_request)]
     (new_effects new_recorder))) = []"
  by (rule dry_run_never_deletes [OF reachable_run [OF reachable.started [OF default_starts]]])
     (simp add: Default_def)

theorem deleted_objects_are_unowned_witness:
  "\<exists>s. reachable real_mode s \<and> fx_deletes s = [sample_configmap] \<and> o_owners sample_configmap = []"
proof -
  let ?s = "snd (run real_mode [(sample_env sample_configmap [sample_policy], sample_request)]
    (new_effects new_recorder))"
  have "reachable real_mode ?s"
    by (rule reachable_run [OF reachable.started [OF real_mode_starts]])
  moreover have "fx_deletes ?s = [sample_configmap]"
    by (simp only: run_deletes) (simp add: map_filter_simps sample_deletion new_effects_def)
  ultimately show ?thesis
    using deleted_objects_are_unowned [of real_mode ?s sample_configmap] by fastforce
qed

theorem protected_objects_survive_witness:
  "fx_deletes (snd (reconcile real_mode
     (sample_env (sample_configmap\<lparr>o_annotations := [''janitor.io/protected'' \<mapsto> ''true'']\<rparr>) [sample_policy])
     sample_request (new_effects new_recorder))) = []"
proof -
  let ?obj = "sample_configmap\<lparr>o_annotations := [''janitor.io/protected'' \<mapsto> ''true'']\<rparr>"
  have "request_object (sample_env ?obj [sample_policy]) sample_request = Some ?obj"
    by (rule sample_request_object) (simp_all add: sample_configmap_def)
  from protected_objects_survive [OF this, of real_mode "new_effects new_recorder"] show ?thesis
    by (simp add: new_effects_def)
qed

theorem absent_objects_are_left_alone_witness:
  "fst (reconcile real_mode (sample_env sample_configmap []) (ConfigMapRequest ''shop'' ''gone'')
     (new_effects new_recorder)) = Inr 0"
  using absent_objects_are_left_alone [of "sample_env sample_configmap []" "ConfigMapRequest ''shop'' ''gone''"
      real_mode "new_effects new_recorder"]
  by (simp add: request_object_def failure_spec_def sample_env_def sample_client_def sample_configmap_def
        del: reconcile.simps)

theorem findings_are_determined_and_explained_witness:
  "\<exists>f. Classify (build_classifier real_mode (sample_env sample_configmap [])) (later 2) sample_configmap = Inr f \<and>
     f_class f = ClassExpired \<and> f_confidence f = ConfidenceHigh \<and> f_reasons f \<noteq> []"
proof (cases rule: Classify_spec_cases [of real_mode "sample_env sample_configmap []" "later 2" sample_configmap])
  case (error err)
  then show ?thesis using sample_expired [of real_mode "[]"] by (simp add: real_mode_def)
next
  case (found f)
  then have "f_class f = ClassExpired" using sample_expired [of real_mode "[]"] by (simp add: real_mode_def)
  with found(1) findings_are_determined_and_explained [OF found(1)] show ?thesis
    by (auto simp: explains_def)
qed

theorem expiry_is_permanent_witness:
  "\<exists>f. Classify (build_classifier real_mode
       ((sample_env sample_configmap [])\<lparr>env_clock := \<lparr>ck_ttl = later 9, ck_expires_at = later 9,
          ck_classify = later 9, ck_evaluate = later 9\<rparr>\<rparr>)) (later 9) sample_configmap = Inr f \<and>
     f_class f = ClassExpired"
  by (rule expiry_is_permanent [OF sample_expired [of real_mode "[]"]])
     (simp_all add: real_mode_def sample_env_def later_def)

theorem registry_references_point_to_the_object_witness:
  "\<exists>r refs err. ResolveAll (build_registry sample_parser) sample_configmap
       (sample_reader sample_configmap [sample_pod]) = (refs, err) \<and> r \<in> set refs \<and>
     ref_name (r_to r) = ''cache''"
proof -
  obtain refs err where eq: "ResolveAll (build_registry sample_parser) sample_configmap
      (sample_reader sample_configmap [sample_pod]) = (refs, err)" by fastforce
  then have "refs \<noteq> []"
    by (auto simp: ResolveAll_eq resolved_refs_def handlers_default NewConfigMapResolver_def
        ConfigMapResolver_Resolve_def sample_defs map_filter_simps podReferencesConfigMap_def
        volume_reference_def)
  then have "hd refs \<in> set refs" by simp
  from registry_references_point_to_the_object [OF eq this] this eq show ?thesis
    by (auto simp: sample_configmap_def)
qed

text \<open>An orphan: its only owner is gone, but it still names the owner.\<close>

definition sample_orphan :: kobject where
  "sample_orphan = sample_configmap\<lparr>o_annotations := Map.empty, o_owners := [sample_owner]\<rparr>"

lemma sample_orphaned:
  "classify_spec real_mode (sample_env sample_orphan [sample_policy]) sample_orphan = Some ClassOrphaned"
  by (simp add: classify_spec_def guarded_def config_defs sample_orphan_def ttl_spec_def expiry_spec_def
        owners_spec_def owner_status_def get_owner_def sample_env_def sample_defs)

text \<open>What the operator sees of a refused deletion, in full.\<close>

lemma refused_orphan_text:
  "map_sum (error_text id) id (fst (reconcile real_mode (sample_env sample_orphan [sample_policy]) sample_request
     (new_effects new_recorder))) =
   Inl (''executing action for configmap shop/cache: SAFETY: object ConfigMap/shop/cache has ownerReferences '' @
     em_dash @ '' not deleting (owner should handle GC)'')"
  by code_simp

theorem owned_objects_are_refused_witness:
  "fx_deletes (snd (reconcile real_mode (sample_env sample_orphan [sample_policy]) sample_request
     (new_effects new_recorder))) = []"
proof -
  have "deletion_authorised real_mode (request_kind sample_request) sample_orphan ClassOrphaned [sample_policy]"
    by (simp add: deletion_authorised_def config_defs shielded_def sample_orphan_def sample_configmap_def
          sample_policy_def targets_kind_def confidenceThreshold_def defaultDeleteConfidenceThreshold_def
          confidence_defs class_confidence_def sample_request_def)
  moreover have "request_object (sample_env sample_orphan [sample_policy]) sample_request = Some sample_orphan"
    by (rule sample_request_object) (simp_all add: sample_orphan_def sample_configmap_def)
  moreover have "cl_list_policies (env_client (sample_env sample_orphan [sample_policy])) = Inr [sample_policy]"
    by (simp add: sample_env_def sample_client_def)
  moreover have "rd_get (env_execute_reader (sample_env sample_orphan [sample_policy])) sample_orphan
      (o_namespace sample_orphan) (o_name sample_orphan) = Inr sample_orphan" "o_owners sample_orphan \<noteq> []"
    by (simp_all add: sample_env_def sample_reader_def sample_orphan_def)
  ultimately have "fx_deletes (snd (reconcile real_mode (sample_env sample_orphan [sample_policy])
      sample_request (new_effects new_recorder))) = fx_deletes (new_effects new_recorder)"
    using owned_objects_are_refused [OF _ sample_orphaned] by blast
  then show ?thesis by (simp add: new_effects_def)
qed

theorem expired_objects_fall_in_use_witness:
  "pod_mentions ''cache'' sample_pod \<and>
   fx_deletes (snd (reconcile real_mode ((sample_env sample_configmap [sample_policy])
     \<lparr>env_classify_reader := sample_reader sample_configmap [sample_pod]\<rparr>) sample_request
     (new_effects new_recorder))) = [sample_configmap]"
proof -
  have "request_object (sample_env sample_configmap [sample_policy]) sample_request = Some sample_configmap"
    by (rule sample_request_object) (simp_all add: sample_configmap_def)
  moreover have "classify_spec real_mode (sample_env sample_configmap [sample_policy]) sample_configmap = Some ClassExpired"
    by (rule sample_expired) (simp add: real_mode_def)
  ultimately show ?thesis
    by (simp add: expired_objects_fall_in_use pod_mentions_def sample_pod_def reconcile_deletes_exactly
          sample_deletion new_effects_def del: reconcile.simps)
qed

text \<open>A Pod that reads \<open>cache\<close> through a projected volume and from an ephemeral container only.\<close>

definition sample_projecting_pod :: pod where
  "sample_projecting_pod = sample_pod\<lparr>
     pod_volumes := [\<lparr>vol_name = ''all'', vol_config_map = None, vol_projected_config_maps = [''cache'']\<rparr>],
     pod_ephemeral_containers := [\<lparr>c_name = ''debug'', c_env_from = [\<lparr>ef_config_map_ref = Some ''cache''\<rparr>],
       c_env = []\<rparr>]\<rparr>"

theorem missed_references_abandon_witness:
  "\<exists>f. Classify (build_classifier real_mode ((sample_env sample_configmap [])
       \<lparr>env_classify_reader := sample_reader sample_configmap [sample_projecting_pod]\<rparr>)) (later 2)
       (sample_configmap\<lparr>o_annotations := Map.empty\<rparr>) = Inr f \<and> f_class f = ClassAbandoned"
  by (rule missed_references_abandon [where pods = "[sample_projecting_pod]"])
     (simp_all add: guarded_def config_defs ttl_spec_def expiry_spec_def sample_projecting_pod_def sample_defs)

lemma sample_succeeds:
  "\<not> failure_spec real_mode (sample_env sample_configmap [sample_policy]) sample_request"
proof -
  have "\<not> execution_fails (sample_env sample_configmap [sample_policy]) sample_configmap"
    by (simp add: execution_fails_def sample_env_def sample_reader_def sample_client_def object_cleared_def
          sample_configmap_def)
  moreover have "cl_list_policies (env_client (sample_env sample_configmap [sample_policy])) = Inr [sample_policy]"
    "request_get (sample_env sample_configmap [sample_policy]) sample_request = Inr sample_configmap"
    by (simp_all add: sample_env_def sample_client_def sample_request_def sample_configmap_def)
  moreover have "request_object (sample_env sample_configmap [sample_policy]) sample_request = Some sample_configmap"
    by (rule sample_request_object) (simp_all add: sample_configmap_def)
  ultimately show ?thesis
    using sample_expired [of real_mode "[sample_policy]"]
    by (simp add: failure_spec_def object_failure_spec_def real_mode_def)
qed

theorem requeue_is_throttled_witness:
  "\<exists>delay. fst (reconcile real_mode (sample_env sample_configmap [sample_policy]) sample_request
     (new_effects new_recorder)) = Inr delay \<and> 30000000000 \<le> sint delay"
proof -
  have "\<not> isl (fst (reconcile real_mode (sample_env sample_configmap [sample_policy]) sample_request
     (new_effects new_recorder)))"
    using sample_succeeds by (simp add: reconcile_fails_exactly)
  then obtain delay where delay: "fst (reconcile real_mode (sample_env sample_configmap [sample_policy])
      sample_request (new_effects new_recorder)) = Inr delay"
    unfolding ok_iff by blast
  have "Validate real_mode = None" by (rule starts_facts(1) [OF real_mode_starts])
  from requeue_is_throttled [OF this delay] delay show ?thesis
    by (simp add: sample_env_def sample_client_def sample_request_def sample_configmap_def del: reconcile.simps)
qed

theorem run_counters_add_up_witness:
  "m_durations (fx_metrics (snd (run real_mode
       [(sample_env sample_configmap [sample_policy], sample_request),
        (sample_env sample_configmap [], NamespaceRequest ''shop'')] (new_effects new_recorder)))) ''configmap'' = 1"
  using run_counters_add_up [OF real_mode_starts, of "[(sample_env sample_configmap [sample_policy], sample_request),
        (sample_env sample_configmap [], NamespaceRequest ''shop'')]" sample_request]
  by (simp add: sample_request_def del: run.simps reconcile.simps)

theorem Deleted_event_is_truthful_witness:
  "\<exists>ev. fx_events (snd (reconcile real_mode (sample_env sample_configmap [sample_policy]) sample_request
       (new_effects new_recorder))) = [ev] \<and> evt_reason ev = ''Deleted'' \<and> evt_object ev = sample_configmap"
proof -
  let ?e = "fx_events (snd (reconcile real_mode (sample_env sample_configmap [sample_policy]) sample_request
       (new_effects new_recorder)))"
  have "map evt_reason ?e = [''Deleted'']"
    by code_simp
  then obtain ev where ev: "?e = [ev]" "evt_reason ev = ''Deleted''" by auto
  then have "?e = fx_events (new_effects new_recorder) @ [ev]" by (simp add: new_effects_def)
  from Deleted_event_is_truthful [OF this ev(2)] ev show ?thesis
    using sample_request_object [of sample_configmap "[sample_policy]"]
    by (auto simp: sample_configmap_def)
qed

end
